(* ===== verification/Tables.thy ===== *)
theory Tables
  imports Prelude
begin

text \<open>
  The fragment of PostgreSQL the repositories use.  A table is the list of its rows in
  insertion order; a unique constraint is a key function on rows.  The first part gives
  \<open>INSERT ... ON CONFLICT DO NOTHING\<close>, \<open>INSERT ... ON CONFLICT DO UPDATE\<close> and
  \<open>UPDATE ... WHERE\<close>; the second gives transactions: a statement may fail at any point
  (the schedule of failures is part of the state, so that a theorem for every schedule is
  a theorem for every pattern of failures), a failed statement aborts its transaction, and
  a transaction that does not commit leaves the database as it was.

  Surrogate identifiers and columns filled by \<open>NOW()\<close> are not modelled.
\<close>

section \<open>Tables with a unique key\<close>

definition has_key :: "('r \<Rightarrow> 'k) \<Rightarrow> 'k \<Rightarrow> 'r list \<Rightarrow> bool" where
  "has_key key k rows = list_ex (\<lambda>x. key x = k) rows"

definition get_row :: "('r \<Rightarrow> 'k) \<Rightarrow> 'k \<Rightarrow> 'r list \<Rightarrow> 'r option" where
  "get_row key k rows = find (\<lambda>x. key x = k) rows"

definition insert_new :: "('r \<Rightarrow> 'k) \<Rightarrow> 'r \<Rightarrow> 'r list \<Rightarrow> 'r list" where
  "insert_new key r rows = (if has_key key (key r) rows then rows else rows @ [r])"

fun upsert :: "('r \<Rightarrow> 'k) \<Rightarrow> ('r \<Rightarrow> 'r \<Rightarrow> 'r) \<Rightarrow> 'r \<Rightarrow> 'r list \<Rightarrow> 'r list" where
  "upsert key upd r [] = [r]"
| "upsert key upd r (x # xs) =
     (if key x = key r then upd x r # xs else x # upsert key upd r xs)"

definition update_where :: "('r \<Rightarrow> bool) \<Rightarrow> ('r \<Rightarrow> 'r) \<Rightarrow> 'r list \<Rightarrow> 'r list" where
  "update_where p f rows = map (\<lambda>x. if p x then f x else x) rows"

definition unique_key :: "('r \<Rightarrow> 'k) \<Rightarrow> 'r list \<Rightarrow> bool" where
  "unique_key key rows = distinct (map key rows)"

lemma has_key_simps [simp, table_simps]:
  "\<not> has_key key k []" "has_key key k (x # xs) = (key x = k \<or> has_key key k xs)"
  "has_key key k (xs @ ys) = (has_key key k xs \<or> has_key key k ys)"
  by (simp_all add: has_key_def)

lemma has_key_iff: "has_key key k rows \<longleftrightarrow> k \<in> key ` set rows"
  by (induction rows) auto

lemma has_key_insert_new [simp, table_simps]:
  "has_key key k (insert_new key r rows) = (k = key r \<or> has_key key k rows)"
  by (auto simp: insert_new_def)

lemma has_key_upsert:
  assumes "\<And>x. key x = key r \<Longrightarrow> key (upd x r) = key r"
  shows "has_key key k (upsert key upd r rows) = (k = key r \<or> has_key key k rows)"
  using assms by (induction rows) auto

lemma has_key_update_where:
  assumes "\<And>x. key (f x) = key x"
  shows "has_key key k (update_where p f rows) = has_key key k rows"
  using assms by (induction rows) (auto simp: update_where_def)

lemma get_row_None: "get_row key k rows = None \<longleftrightarrow> \<not> has_key key k rows"
  by (induction rows) (auto simp: get_row_def)

lemma get_row_simps [simp, table_simps]:
  "get_row key k [] = None"
  "get_row key k (x # xs) = (if key x = k then Some x else get_row key k xs)"
  by (simp_all add: get_row_def)

lemma get_row_key: "get_row key k rows = Some x \<Longrightarrow> key x = k"
  by (induction rows) (auto split: if_splits)

lemma get_row_in: "get_row key k rows = Some x \<Longrightarrow> x \<in> set rows"
  by (induction rows) (auto split: if_splits)

lemma get_row_append:
  "get_row key k (xs @ ys) = (case get_row key k xs of None \<Rightarrow> get_row key k ys | Some x \<Rightarrow> Some x)"
  by (induction xs) auto

lemma get_row_upsert:
  assumes "\<And>x. key x = key r \<Longrightarrow> key (upd x r) = key r"
  shows "get_row key k (upsert key upd r rows) =
    (if k = key r then (case get_row key k rows of None \<Rightarrow> Some r | Some x \<Rightarrow> Some (upd x r))
     else get_row key k rows)"
  using assms by (induction rows) auto

lemma get_row_update_where:
  assumes "\<And>x. key (f x) = key x"
  shows "get_row key k (update_where p f rows) =
    map_option (\<lambda>x. if p x then f x else x) (get_row key k rows)"
  using assms by (induction rows) (auto simp: update_where_def)

lemma insert_new_known [simp, table_simps]:
  "has_key key (key r) rows \<Longrightarrow> insert_new key r rows = rows"
  by (simp add: insert_new_def)

lemma insert_new_fresh [table_simps]:
  "\<not> has_key key (key r) rows \<Longrightarrow> insert_new key r rows = rows @ [r]"
  by (simp add: insert_new_def)

lemma unique_key_insert_new [intro]:
  "unique_key key rows \<Longrightarrow> unique_key key (insert_new key r rows)"
  by (auto simp: unique_key_def insert_new_def has_key_iff)

lemma map_key_upsert:
  assumes "\<And>x. key x = key r \<Longrightarrow> key (upd x r) = key r"
  shows "map key (upsert key upd r rows) =
    (if has_key key (key r) rows then map key rows else map key rows @ [key r])"
  using assms by (induction rows) auto

lemma unique_key_upsert:
  assumes "\<And>x. key x = key r \<Longrightarrow> key (upd x r) = key r" and "unique_key key rows"
  shows "unique_key key (upsert key upd r rows)"
proof -
  from assms(1) have "map key (upsert key upd r rows) =
    (if has_key key (key r) rows then map key rows else map key rows @ [key r])"
    by (rule map_key_upsert)
  with assms(2) show ?thesis
    by (auto simp: unique_key_def has_key_iff split: if_splits)
qed

lemma unique_key_update_where:
  assumes "\<And>x. key (f x) = key x" and "unique_key key rows"
  shows "unique_key key (update_where p f rows)"
proof -
  from assms(1) have "map key (update_where p f rows) = map key rows"
    by (induction rows) (auto simp: update_where_def)
  with assms(2) show ?thesis by (simp add: unique_key_def)
qed

lemma set_upsert:
  "set (upsert key upd r rows) \<subseteq> {r} \<union> set rows \<union> {upd x r |x. x \<in> set rows \<and> key x = key r}"
  by (induction rows) auto

section \<open>Transactions\<close>

record 's tx =
  tx_db :: 's
  tx_aborted :: bool
  tx_faults :: "bool list"

type_synonym ('s, 'a) stmt = "'s tx \<Rightarrow> 'a res \<times> 's tx"

text \<open>\<open>exec\<close>: one statement that changes the database and returns a value.\<close>

definition exec :: "('s \<Rightarrow> 's \<times> 'a) \<Rightarrow> ('s, 'a) stmt" where
  "exec f t =
     (if tx_aborted t then (Inl TxAborted, t)
      else case tx_faults t of
        True # fs \<Rightarrow> (Inl DbFault, t\<lparr>tx_aborted := True, tx_faults := fs\<rparr>)
      | _ \<Rightarrow> (Inr (snd (f (tx_db t))),
              t\<lparr>tx_db := fst (f (tx_db t)), tx_faults := tl (tx_faults t)\<rparr>))"

definition exec_upd :: "('s \<Rightarrow> 's) \<Rightarrow> ('s, unit) stmt" where
  "exec_upd f = exec (\<lambda>s. (f s, ()))"

text \<open>\<open>query_row\<close>: \<open>QueryRow(...).Scan(...)\<close>; no row is ErrNoRows and aborts nothing.\<close>

definition query_row :: "('s \<Rightarrow> 'a option) \<Rightarrow> ('s, 'a) stmt" where
  "query_row q t =
     (case exec (\<lambda>s. (s, q s)) t of
        (Inl e, t') \<Rightarrow> (Inl e, t')
      | (Inr None, t') \<Rightarrow> (Inl ErrNoRows, t')
      | (Inr (Some a), t') \<Rightarrow> (Inr a, t'))"

definition sret :: "'a \<Rightarrow> ('s, 'a) stmt" where
  "sret a t = (Inr a, t)"

definition sbind :: "('s, 'a) stmt \<Rightarrow> ('a \<Rightarrow> ('s, 'b) stmt) \<Rightarrow> ('s, 'b) stmt" where
  "sbind m k t = (case m t of (Inl e, t') \<Rightarrow> (Inl e, t') | (Inr a, t') \<Rightarrow> k a t')"

definition swrap :: "string \<Rightarrow> ('s, 'a) stmt \<Rightarrow> ('s, 'a) stmt" where
  "swrap msg m t = (case m t of (r, t') \<Rightarrow> (wrap_err msg r, t'))"

fun sforeach :: "('x \<Rightarrow> ('s, unit) stmt) \<Rightarrow> 'x list \<Rightarrow> ('s, unit) stmt" where
  "sforeach f [] = sret ()"
| "sforeach f (x # xs) = sbind (f x) (\<lambda>_. sforeach f xs)"

text \<open>
  \<open>run_tx\<close>: Begin, the body, Commit, with the deferred Rollback.  The error of Begin goes
  through \<open>on_begin\<close> (the callers wrap it or not); the one of Commit is returned as it is.
\<close>

definition run_tx :: "(err \<Rightarrow> err) \<Rightarrow> ('s, 'a) stmt \<Rightarrow> 's \<times> bool list \<Rightarrow> 'a res \<times> ('s \<times> bool list)" where
  "run_tx on_begin body = (\<lambda>(s, fs).
     case fs of
       True # fs' \<Rightarrow> (Inl (on_begin DbFault), (s, fs'))
     | _ \<Rightarrow>
       (case body \<lparr>tx_db = s, tx_aborted = False, tx_faults = tl fs\<rparr> of
          (Inl e, t) \<Rightarrow> (Inl e, (s, tx_faults t))
        | (Inr a, t) \<Rightarrow>
            (if tx_aborted t then (Inl TxRolledBack, (s, tl (tx_faults t)))
             else case tx_faults t of
               True # fs' \<Rightarrow> (Inl DbFault, (s, fs'))
             | _ \<Rightarrow> (Inr a, (tx_db t, tl (tx_faults t))))))"

lemma run_tx_error_unchanged:
  "fst (run_tx w m (s, fs)) = Inl e \<Longrightarrow> fst (snd (run_tx w m (s, fs))) = s"
  by (auto simp: run_tx_def split: list.splits bool.splits prod.splits sum.splits if_splits)

section \<open>What a statement realises\<close>

text \<open>
  \<open>realises m f v\<close>: run in a live transaction, \<open>m\<close> either fails, and then some statement
  was scheduled to fail and the error is that failure, wrapped, or it leaves the transaction live with the database changed by the
  pure function \<open>f\<close> and returns \<open>v\<close> of the database it started from.  Repositories are
  written as statements and related to pure functions on databases through it.
\<close>

definition outcome_ok :: "('s \<Rightarrow> 's) \<Rightarrow> ('s \<Rightarrow> 'a) \<Rightarrow> 's tx \<Rightarrow> 'a res \<times> 's tx \<Rightarrow> bool" where
  "outcome_ok f v t r =
     (case r of
        (Inl e, t') \<Rightarrow> True \<in> set (tx_faults t) \<and> errors_is e DbFault
      | (Inr a, t') \<Rightarrow> \<not> tx_aborted t' \<and> tx_db t' = f (tx_db t) \<and> a = v (tx_db t)
                      \<and> set (tx_faults t') \<subseteq> set (tx_faults t))"

definition realises :: "('s, 'a) stmt \<Rightarrow> ('s \<Rightarrow> 's) \<Rightarrow> ('s \<Rightarrow> 'a) \<Rightarrow> bool" where
  "realises m f v \<longleftrightarrow> (\<forall>t. \<not> tx_aborted t \<longrightarrow> outcome_ok f v t (m t))"

lemma outcome_ok_simps [simp]:
  "outcome_ok f v t (Inl e, t') = (True \<in> set (tx_faults t) \<and> errors_is e DbFault)"
  "outcome_ok f v t (Inr a, t') = (\<not> tx_aborted t' \<and> tx_db t' = f (tx_db t) \<and> a = v (tx_db t)
     \<and> set (tx_faults t') \<subseteq> set (tx_faults t))"
  by (simp_all add: outcome_ok_def)

lemma realisesD: "realises m f v \<Longrightarrow> \<not> tx_aborted t \<Longrightarrow> outcome_ok f v t (m t)"
  by (simp add: realises_def)

lemma realises_exec: "realises (exec g) (\<lambda>s. fst (g s)) (\<lambda>s. snd (g s))"
  by (auto simp: realises_def exec_def dest: in_set_tlD
      split: list.splits bool.splits)

lemma realises_exec_upd [intro]: "realises (exec_upd f) f (\<lambda>_. ())"
  using realises_exec [of "\<lambda>s. (f s, ())"] by (simp add: exec_upd_def)

lemma realises_sret [intro]: "realises (sret a) (\<lambda>s. s) (\<lambda>_. a)"
  by (simp add: realises_def sret_def)

lemma realises_swrap:
  assumes "realises m f v"
  shows "realises (swrap msg m) f v"
  unfolding realises_def
proof (intro allI impI)
  fix t :: "'a tx"
  assume live: "\<not> tx_aborted t"
  obtain r t' where mt: "m t = (r, t')" by (cases "m t")
  from realisesD [OF assms live] mt show "outcome_ok f v t (swrap msg m t)"
    by (cases r) (simp_all add: swrap_def)
qed

lemma realises_sbind:
  assumes m: "realises m f v" and k: "\<And>a. realises (k a) (g a) (w a)"
  shows "realises (sbind m k) (\<lambda>s. g (v s) (f s)) (\<lambda>s. w (v s) (f s))"
  unfolding realises_def
proof (intro allI impI)
  fix t :: "'a tx"
  assume live: "\<not> tx_aborted t"
  obtain r t' where mt: "m t = (r, t')" by (cases "m t")
  show "outcome_ok (\<lambda>s. g (v s) (f s)) (\<lambda>s. w (v s) (f s)) t (sbind m k t)"
  proof (cases r)
    case (Inl e)
    with realisesD [OF m live] mt show ?thesis by (simp add: sbind_def)
  next
    case (Inr a)
    with realisesD [OF m live] mt have t': "\<not> tx_aborted t'" "tx_db t' = f (tx_db t)"
      "a = v (tx_db t)" "set (tx_faults t') \<subseteq> set (tx_faults t)" by simp_all
    obtain r2 t2 where kt: "k a t' = (r2, t2)" by (cases "k a t'")
    from realisesD [OF k t'(1), of a] kt t' Inr mt show ?thesis
      by (cases r2) (auto simp: sbind_def)
  qed
qed

lemma realises_seq:
  assumes "realises m f v" and "realises k g w"
  shows "realises (sbind m (\<lambda>_. k)) (\<lambda>s. g (f s)) (\<lambda>s. w (f s))"
  using realises_sbind [OF assms(1), of "\<lambda>_. k" "\<lambda>_. g" "\<lambda>_. w"] assms(2) by simp

lemma realises_cong: "realises m f v \<Longrightarrow> f = g \<Longrightarrow> v = w \<Longrightarrow> realises m g w"
  by simp

lemma outcome_choice:
  assumes "case r of (Inl e, (s', fs')) \<Rightarrow> s' = s \<and> True \<in> set fs \<and> errors_is e DbFault
      | (Inr a, (s', fs')) \<Rightarrow> s' = f s \<and> a = v s"
  shows "fst (snd r) \<in> {s, f s}"
  using assms by (auto split: prod.splits sum.splits)

lemma realises_foreach:
  assumes "\<And>x. realises (m x) (f x) (\<lambda>_. ())"
  shows "realises (sforeach m xs) (fold f xs) (\<lambda>_. ())"
proof (induction xs)
  case Nil
  then show ?case using realises_sret [of "()"] by (simp add: id_def)
next
  case (Cons x xs)
  from realises_seq [OF assms [of x] Cons.IH] show ?case by (simp add: comp_def)
qed

text \<open>A transaction whose body realises \<open>f\<close> is atomic: it does \<open>f\<close> or nothing.\<close>

lemma run_tx_realises:
  assumes "realises m f v" and w: "errors_is (w DbFault) DbFault"
  shows "case run_tx w m (s, fs) of
      (Inl e, (s', fs')) \<Rightarrow> s' = s \<and> True \<in> set fs \<and> errors_is e DbFault
    | (Inr a, (s', fs')) \<Rightarrow> s' = f s \<and> a = v s"
proof -
  let ?t = "\<lparr>tx_db = s, tx_aborted = False, tx_faults = tl fs\<rparr>"
  obtain r t' where mt: "m ?t = (r, t')" by (cases "m ?t")
  have ok: "outcome_ok f v ?t (m ?t)" by (rule realisesD [OF assms(1)]) simp
  have tl: "True \<in> set (tl fs) \<Longrightarrow> True \<in> set fs" by (rule in_set_tlD)
  show ?thesis
  proof (cases r)
    case (Inl e)
    with ok mt tl w show ?thesis
      by (auto simp: run_tx_def split: list.splits bool.splits)
  next
    case (Inr a)
    with ok mt tl w show ?thesis
      by (auto simp: run_tx_def split: list.splits bool.splits)
  qed
qed

end
