(* ===== verification/GoTime.thy ===== *)
theory GoTime
  imports Prelude
begin

text \<open>
  The part of Go's package time the code uses, on whole seconds.  An instant is its Unix
  time, an \<open>int\<close>; block timestamps have no sub-second part.  A wall-clock reading is taken
  in a zone of fixed offset \<open>off\<close> (seconds east of UTC); \<open>off = 0\<close> is UTC.  Zones that
  change their offset (daylight saving) are not modelled.  Days are numbered from Monday,
  1 January of year 1 of the proleptic Gregorian calendar.
\<close>

section \<open>The civil calendar\<close>

definition is_leap :: "int \<Rightarrow> bool" where
  "is_leap y = (y mod 4 = 0 \<and> (y mod 100 \<noteq> 0 \<or> y mod 400 = 0))"

definition days_before :: "int list" where
  "days_before = [0, 31, 59, 90, 120, 151, 181, 212, 243, 273, 304, 334, 365]"

definition days_before_year :: "int \<Rightarrow> int" where
  "days_before_year y = (y - 1) * 365 + (y - 1) div 4 - (y - 1) div 100 + (y - 1) div 400"

text \<open>The day of a date; as in \<open>time.Date\<close>, the day of the month may be out of range.\<close>

definition date_day :: "int \<Rightarrow> int \<Rightarrow> int \<Rightarrow> int" where
  "date_day y m d = days_before_year y + days_before ! nat (m - 1)
     + (if is_leap y \<and> 3 \<le> m then 1 else 0) + (d - 1)"

text \<open>Year and day of the year (from 0), by the 400, 100, 4 and 1 year cycles.\<close>

definition year_yday :: "int \<Rightarrow> int \<times> int" where
  "year_yday n =
     (let a = n div 146097; r = n mod 146097;
          b = r div 36524 - (r div 36524) div 4; r = r - 36524 * b;
          c = r div 1461; r = r - 1461 * c;
          e = r div 365 - (r div 365) div 4; r = r - 365 * e
      in (400 * a + 100 * b + 4 * c + e + 1, r))"

definition month_day :: "bool \<Rightarrow> int \<Rightarrow> int \<times> int" where
  "month_day leap yday =
     (if leap \<and> yday = 59 then (2, 29)
      else let d = (if leap \<and> yday > 59 then yday - 1 else yday);
               m = d div 31; end' = days_before ! nat (m + 1)
           in if d \<ge> end' then (m + 2, d - end' + 1)
              else (m + 1, d - days_before ! nat m + 1))"

definition civil :: "int \<Rightarrow> int \<times> int \<times> int" where
  "civil n = (let (y, yd) = year_yday n; (m, d) = month_day (is_leap y) yd in (y, m, d))"

definition month_day_ok :: "bool \<Rightarrow> int \<Rightarrow> bool" where
  "month_day_ok l yd = (case month_day l yd of (m, d) \<Rightarrow>
     days_before ! nat (m - 1) + (if l \<and> 3 \<le> m then 1 else 0) + (d - 1) = yd)"

lemma month_day_table: "list_all (\<lambda>yd. month_day_ok True yd \<and> month_day_ok False yd) [0..364]"
  by code_simp

lemma month_day_inverse:
  assumes "0 \<le> yd" and "yd < (if l then 366 else 365)" and "month_day l yd = (m, d)"
  shows "days_before ! nat (m - 1) + (if l \<and> 3 \<le> m then 1 else 0) + (d - 1) = yd"
proof (cases "yd = 365")
  case True
  with assms show ?thesis by (auto simp: month_day_def days_before_def split: if_splits)
next
  case False
  with assms have "yd \<in> set [0..364]" by (auto split: if_splits)
  with month_day_table have "month_day_ok True yd \<and> month_day_ok False yd"
    unfolding list_all_iff by blast
  then have "month_day_ok l yd" by (cases l) simp_all
  with assms(3) show ?thesis by (simp add: month_day_ok_def)
qed

lemma cycle_cap: "0 \<le> q \<Longrightarrow> q \<le> 4 \<Longrightarrow> q - q div 4 = (if q = 4 then 3 else q)" for q :: int
  by (cases "q = 4") auto

lemma cycle_days:
  fixes a b c e :: int
  assumes "0 \<le> b" "b \<le> 3" "0 \<le> c" "c \<le> 24" "0 \<le> e" "e \<le> 3"
  shows "days_before_year (400 * a + 100 * b + 4 * c + e + 1)
    = 146097 * a + 36524 * b + 1461 * c + 365 * e"
proof -
  have "(400 * a + 100 * b + 4 * c + e) div 4 = 100 * a + 25 * b + c" using assms by linarith
  moreover have "(400 * a + 100 * b + 4 * c + e) div 100 = 4 * a + b" using assms by linarith
  moreover have "(400 * a + 100 * b + 4 * c + e) div 400 = a" using assms by linarith
  ultimately show ?thesis by (simp add: days_before_year_def)
qed

lemma leap_last_year:
  fixes a b c y :: int
  assumes "0 \<le> c" "c \<le> 24" "c = 24 \<longrightarrow> b = 3" and y: "y = 4 * (100 * a + 25 * b + c + 1)"
  shows "is_leap y"
proof (cases "c = 24")
  case True
  with assms have "y = 400 * (a + 1)" by simp
  then show ?thesis by (simp add: is_leap_def)
next
  case False
  have "y mod 4 = 0" by (simp add: y)
  moreover have "y = 4 * (c + 1) + 100 * (4 * a + b)" by (simp add: y)
  then have "y mod 100 = (4 * (c + 1)) mod 100" by (metis mod_mult_self2)
  then have "y mod 100 = 4 * (c + 1)" using assms False by simp
  then have "y mod 100 \<noteq> 0" using assms(1) by auto
  ultimately show ?thesis by (simp add: is_leap_def)
qed

lemma year_yday_inverse:
  assumes "year_yday n = (y, yd)"
  shows "days_before_year y + yd = n" and "0 \<le> yd" and "yd < (if is_leap y then 366 else 365)"
proof -
  define a where "a = n div 146097"
  define r0 where "r0 = n mod 146097"
  define b where "b = r0 div 36524 - (r0 div 36524) div 4"
  define r1 where "r1 = r0 - 36524 * b"
  define c where "c = r1 div 1461"
  define r2 where "r2 = r1 - 1461 * c"
  define e where "e = r2 div 365 - (r2 div 365) div 4"
  have y: "y = 400 * a + 100 * b + 4 * c + e + 1" and yd: "yd = r2 - 365 * e"
    using assms unfolding year_yday_def Let_def a_def [symmetric] r0_def [symmetric]
      b_def [symmetric] r1_def [symmetric] c_def [symmetric] r2_def [symmetric] e_def [symmetric]
    by simp_all
  have r0: "0 \<le> r0" "r0 < 146097" by (simp_all add: r0_def)
  define q where "q = r0 div 36524"
  have q: "0 \<le> q" "q \<le> 4" "36524 * q \<le> r0" "r0 < 36524 * q + 36524"
    using r0 unfolding q_def by linarith+
  have bq: "b = (if q = 4 then 3 else q)" using cycle_cap [OF q(1,2)] by (simp add: b_def q_def)
  have b: "0 \<le> b" "b \<le> 3" "0 \<le> r1" "r1 < 36525" "b < 3 \<longrightarrow> r1 < 36524"
    using r0 q unfolding bq r1_def by (auto split: if_splits)
  have c: "0 \<le> c" "c \<le> 24" "0 \<le> r2" "r2 < 1461" "c = 24 \<and> b < 3 \<longrightarrow> r2 < 1460"
    using b unfolding c_def r2_def by linarith+
  define q' where "q' = r2 div 365"
  have q': "0 \<le> q'" "q' \<le> 4" "365 * q' \<le> r2" "r2 < 365 * q' + 365"
    using c unfolding q'_def by linarith+
  have eq: "e = (if q' = 4 then 3 else q')"
    using cycle_cap [OF q'(1,2)] by (simp add: e_def q'_def)
  have e: "0 \<le> e" "e \<le> 3" "0 \<le> yd" "yd < 366" "e < 3 \<longrightarrow> yd < 365"
    "e = 3 \<and> r2 < 1460 \<longrightarrow> yd < 365"
    using c q' unfolding eq yd by (auto split: if_splits)
  from cycle_days [of b c e a] b c e y have d: "days_before_year y
      = 146097 * a + 36524 * b + 1461 * c + 365 * e" by simp
  have "n = 146097 * a + r0" by (simp add: a_def r0_def)
  with d yd r1_def r2_def show "days_before_year y + yd = n" by linarith
  show "0 \<le> yd" by (rule e(3))
  show "yd < (if is_leap y then 366 else 365)"
  proof (cases "is_leap y")
    case True
    with e show ?thesis by simp
  next
    case False
    have "yd < 365"
    proof (rule ccontr)
      assume "\<not> yd < 365"
      with e have e3: "e = 3" and r2: "r2 \<ge> 1460" by linarith+
      with c b have cb: "c = 24 \<longrightarrow> b = 3" by linarith
      have y': "y = 4 * (100 * a + 25 * b + c + 1)" using y e3 by simp
      from leap_last_year [OF c(1,2) cb y'] False show False by simp
    qed
    with False show ?thesis by simp
  qed
qed

text \<open>Reading a day as a date and composing the date again gives the day.\<close>

lemma date_day_civil: "civil n = (y, m, d) \<Longrightarrow> date_day y m d = n"
proof -
  assume civ: "civil n = (y, m, d)"
  obtain y' yd where yy: "year_yday n = (y', yd)" by (cases "year_yday n")
  obtain m' d' where md: "month_day (is_leap y') yd = (m', d')"
    by (cases "month_day (is_leap y') yd")
  from civ yy md have eqs: "y' = y" "m' = m" "d' = d" by (simp_all add: civil_def)
  from month_day_inverse [OF year_yday_inverse(2,3) [OF yy] md] year_yday_inverse(1) [OF yy]
  show ?thesis unfolding eqs date_day_def by linarith
qed

lemma date_day_shift: "date_day y m (d - k) = date_day y m d - k"
  by (simp add: date_day_def)

section \<open>Instants\<close>

definition epoch_day :: int where
  "epoch_day = 719162"

text \<open>The zero time of package time is 1 January of year 1: this many seconds before 1970.\<close>

definition zero_time_offset :: int where
  "zero_time_offset = 62135596800"

definition local_day :: "int \<Rightarrow> int \<Rightarrow> int" where
  "local_day off t = (t + off) div 86400 + epoch_day"

definition hour_of :: "int \<Rightarrow> int \<Rightarrow> int" where
  "hour_of off t = (t + off) mod 86400 div 3600"

definition minute_of :: "int \<Rightarrow> int \<Rightarrow> int" where
  "minute_of off t = (t + off) mod 3600 div 60"

text \<open>\<open>Weekday\<close>: Sunday is 0; day 0 is a Monday.\<close>

definition weekday_of :: "int \<Rightarrow> int \<Rightarrow> int" where
  "weekday_of off t = (local_day off t + 1) mod 7"

text \<open>\<open>time.Date\<close> with the seconds and nanoseconds 0.\<close>

definition go_date :: "int \<Rightarrow> int \<Rightarrow> int \<Rightarrow> int \<Rightarrow> int \<Rightarrow> int \<Rightarrow> int" where
  "go_date off y m d h mi = (date_day y m d - epoch_day) * 86400 + h * 3600 + mi * 60 - off"

text \<open>\<open>Truncate\<close> rounds down to a multiple of the duration since the zero time.\<close>

definition go_truncate :: "int \<Rightarrow> int \<Rightarrow> int" where
  "go_truncate t d = t - (t + zero_time_offset) mod d"

lemma go_date_civil:
  assumes "civil (local_day off t) = (y, m, d)"
  shows "go_date off y m d h mi = (t + off) div 86400 * 86400 + h * 3600 + mi * 60 - off"
  using date_day_civil [OF assms] by (simp add: go_date_def local_day_def)

lemma go_date_civil_shift:
  assumes "civil (local_day off t) = (y, m, d)"
  shows "go_date off y m (d - k) h mi
    = ((t + off) div 86400 - k) * 86400 + h * 3600 + mi * 60 - off"
  using date_day_civil [OF assms] by (simp add: go_date_def local_day_def date_day_shift)

lemma go_truncate_eq:
  assumes "zero_time_offset mod d = 0"
  shows "go_truncate t d = t - t mod d"
proof -
  have "(t + zero_time_offset) mod d = t mod d"
    using assms by (metis add.right_neutral mod_add_right_eq)
  then show ?thesis by (simp add: go_truncate_def)
qed

end
