(* ===== verification/Candles.thy ===== *)
theory Candles
  imports GoTime
begin

text \<open>
  The two ways the back end buckets a trade and prices it: \<open>alignTime\<close>, \<open>intString\<close> and
  \<open>priceString\<close> of app-rebuild/internal/repository/chain_event.go, and
  \<open>alignTimeToInterval\<close> of apps/indexer/internal/database/events.go.  The lemmas give the
  start of a bucket in closed form, that the instant lies in its bucket, that buckets do
  not overlap, and how the two versions relate; for prices, the distance between the
  printed decimal and the exact quotient.
\<close>

section \<open>Interval alignment\<close>

definition kline_intervals :: "string list" where
  "kline_intervals = [''1m'', ''5m'', ''15m'', ''30m'', ''1h'', ''4h'', ''1d'', ''1w'']"

definition alignTime :: "int \<Rightarrow> string \<Rightarrow> int" where
  "alignTime value interval =
     (if interval = ''1m'' then go_truncate value 60
      else if interval = ''5m'' then go_truncate value (5 * 60)
      else if interval = ''15m'' then go_truncate value (15 * 60)
      else if interval = ''30m'' then go_truncate value (30 * 60)
      else if interval = ''1h'' then go_truncate value 3600
      else if interval = ''4h'' then go_truncate value (4 * 3600)
      else if interval = ''1d'' then
        (let (y, m, d) = civil (local_day 0 value) in go_date 0 y m d 0 0)
      else if interval = ''1w'' then
        (let (y, m, d) = civil (local_day 0 value);
             dayStart = go_date 0 y m d 0 0;
             wd = weekday_of 0 dayStart;
             weekday = (if wd = 0 then 7 else wd);
             (y', m', d') = civil (local_day 0 dayStart)
         in go_date 0 y' m' (d' - (weekday - 1)) 0 0)
      else value)"

text \<open>\<open>off\<close> is the offset of \<open>t.Location()\<close>: the local zone of the indexer process.\<close>

definition alignTimeToInterval :: "int \<Rightarrow> int \<Rightarrow> string \<Rightarrow> int" where
  "alignTimeToInterval off t interval =
     (let (y, m, d) = civil (local_day off t) in
      if interval = ''1m'' then go_date off y m d (hour_of off t) (minute_of off t)
      else if interval = ''5m'' then go_date off y m d (hour_of off t) (minute_of off t div 5 * 5)
      else if interval = ''15m'' then go_date off y m d (hour_of off t) (minute_of off t div 15 * 15)
      else if interval = ''30m'' then go_date off y m d (hour_of off t) (minute_of off t div 30 * 30)
      else if interval = ''1h'' then go_date off y m d (hour_of off t) 0
      else if interval = ''4h'' then go_date off y m d (hour_of off t div 4 * 4) 0
      else if interval = ''1d'' then go_date off y m d 0 0
      else if interval = ''1w'' then
        (let weekday = (if weekday_of off t = 0 then 7 else weekday_of off t)
         in go_date off y m (d - (weekday - 1)) 0 0)
      else t)"

text \<open>The specification: buckets of fixed length counted from an anchor (a Monday for weeks).\<close>

fun interval_spec :: "string \<Rightarrow> (int \<times> int) option" where
  "interval_spec i =
     (if i = ''1m'' then Some (60, 0) else if i = ''5m'' then Some (300, 0)
      else if i = ''15m'' then Some (900, 0) else if i = ''30m'' then Some (1800, 0)
      else if i = ''1h'' then Some (3600, 0) else if i = ''4h'' then Some (14400, 0)
      else if i = ''1d'' then Some (86400, 0) else if i = ''1w'' then Some (604800, - 259200)
      else None)"

definition bucket_start :: "int \<times> int \<Rightarrow> int \<Rightarrow> int" where
  "bucket_start spec t = t - (t - snd spec) mod fst spec"

lemma interval_spec_Some: "i \<in> set kline_intervals \<Longrightarrow> \<exists>l a. interval_spec i = Some (l, a) \<and> 0 < l"
  by (auto simp: kline_intervals_def)

lemma interval_spec_cases:
  assumes "interval_spec i = Some s"
  obtains "i = ''1m''" "s = (60, 0)" | "i = ''5m''" "s = (300, 0)" | "i = ''15m''" "s = (900, 0)"
    | "i = ''30m''" "s = (1800, 0)" | "i = ''1h''" "s = (3600, 0)" | "i = ''4h''" "s = (14400, 0)"
    | "i = ''1d''" "s = (86400, 0)" | "i = ''1w''" "s = (604800, - 259200)"
  using assms unfolding interval_spec.simps by (force split: if_splits)

lemma zero_time_offset_mod:
  "zero_time_offset mod 60 = 0" "zero_time_offset mod 300 = 0" "zero_time_offset mod 900 = 0"
  "zero_time_offset mod 1800 = 0" "zero_time_offset mod 3600 = 0" "zero_time_offset mod 14400 = 0"
  by (simp_all add: zero_time_offset_def)

lemma align_1d: "alignTime t ''1d'' = t div 86400 * 86400"
  by (cases "civil (local_day 0 t)")
    (simp add: alignTime_def go_date_civil [where off = 0, simplified])

lemma weekday_back:
  fixes q :: int
  shows "(if (q + epoch_day + 1) mod 7 = 0 then 7 else (q + epoch_day + 1) mod 7) - 1 = (q + 3) mod 7"
proof -
  have "q + epoch_day + 1 = (q + 4) + 7 * 102737" by (simp add: epoch_day_def)
  then have "(q + epoch_day + 1) mod 7 = (q + 4) mod 7" by (metis mod_mult_self2)
  then have w: "(q + epoch_day + 1) mod 7 = ((q + 3) mod 7 + 1) mod 7"
    by (simp add: mod_simps add.commute)
  have "0 \<le> (q + 3) mod 7" "(q + 3) mod 7 < 7" by simp_all
  then show ?thesis unfolding w by (cases "(q + 3) mod 7 = 6") simp_all
qed

lemma align_1w: "alignTime t ''1w'' = (t div 86400 - (t div 86400 + 3) mod 7) * 86400"
proof -
  obtain y m d where c: "civil (local_day 0 t) = (y, m, d)" by (cases "civil (local_day 0 t)")
  let ?ds = "t div 86400 * 86400"
  obtain y' m' d' where c': "civil (local_day 0 ?ds) = (y', m', d')"
    by (cases "civil (local_day 0 ?ds)")
  have ds: "go_date 0 y m d 0 0 = ?ds" using go_date_civil [OF c, of 0 0] by simp
  have wd: "weekday_of 0 ?ds = (t div 86400 + epoch_day + 1) mod 7"
    by (simp add: weekday_of_def local_day_def)
  define w where "w = (t div 86400 + epoch_day + 1) mod 7"
  define k where "k = (if w = 0 then 7 else w) - 1"
  have k: "k = (t div 86400 + 3) mod 7"
    using weekday_back [of "t div 86400"] by (simp only: k_def w_def)
  have "alignTime t ''1w'' = go_date 0 y' m' (d' - k) 0 0"
    by (simp add: alignTime_def c ds c' wd Let_def k_def w_def)
  also have "\<dots> = (t div 86400 - k) * 86400"
    using go_date_civil_shift [OF c', of k 0 0] by simp
  finally show ?thesis by (simp only: k)
qed

lemma week_arith: "q * 86400 = t - r \<Longrightarrow> m = x * 86400 + r \<Longrightarrow> (q - x) * 86400 = t - m"
  for q :: int by (simp add: left_diff_distrib)

lemma alignTime_spec:
  assumes "interval_spec i = Some s"
  shows "alignTime t i = bucket_start s t"
proof -
  have d: "t div 86400 * 86400 = t - t mod 86400" by (simp add: minus_mod_eq_div_mult)
  have "(t + 259200) mod (86400 * 7) = 86400 * ((t + 259200) div 86400 mod 7) + (t + 259200) mod 86400"
    by (rule zmod_zmult2_eq) simp
  moreover have "(t + 259200) div 86400 = t div 86400 + 3"
    using div_mult_self1 [of 86400 t 3] by simp
  moreover have "(t + 259200) mod 86400 = t mod 86400"
    using mod_mult_self1 [of t 3 86400] by simp
  ultimately have m: "(t + 259200) mod 604800 = ((t div 86400 + 3) mod 7) * 86400 + t mod 86400"
    by (simp only: numeral_times_numeral semiring_norm mult.commute)
  have w: "(t div 86400 - (t div 86400 + 3) mod 7) * 86400 = t - (t + 259200) mod 604800"
    by (rule week_arith [OF d m])
  note trunc = alignTime_def go_truncate_eq zero_time_offset_mod bucket_start_def
  show ?thesis
  proof (cases rule: interval_spec_cases [OF assms])
    case 7
    then show ?thesis by (simp add: align_1d d bucket_start_def)
  next
    case 8
    have "bucket_start (604800, - 259200) t = t - (t + 259200) mod 604800"
      by (simp add: bucket_start_def)
    with 8 show ?thesis by (simp only: align_1w w)
  qed (simp_all add: trunc)
qed

lemma floor_mult: "(x::int) div k * k = x - x mod k"
  by (simp add: minus_mod_eq_div_mult)

lemma floor_nested:
  fixes x k n :: int
  assumes "k dvd n"
  shows "x mod n div k * k = x mod n - x mod k"
  using assms by (simp add: floor_mult mod_mod_cancel)

lemma minute_floor:
  fixes x k :: int
  assumes "0 \<le> k" and "60 * k dvd 3600"
  shows "x mod 3600 div 60 div k * k * 60 = x mod 3600 - x mod (60 * k)"
proof -
  have "x mod 3600 div 60 div k = x mod 3600 div (60 * k)"
    using assms(1) by (simp add: zdiv_zmult2_eq)
  then have "x mod 3600 div 60 div k * k * 60 = x mod 3600 div (60 * k) * (60 * k)" by simp
  also have "\<dots> = x mod 3600 - x mod 3600 mod (60 * k)" by (rule floor_mult)
  finally show ?thesis using assms(2) by (simp add: mod_mod_cancel)
qed

lemma hour_floor: "(x::int) mod 86400 div 3600 * 3600 = x mod 86400 - x mod 3600"
  by (rule floor_nested) simp

lemma hour4_floor: "(x::int) mod 86400 div 3600 div 4 * 4 * 3600 = x mod 86400 - x mod 14400"
proof -
  have z: "y div 3600 div 4 = y div (14400::int)" for y
    using zdiv_zmult2_eq [of 4 y 3600] by simp
  have "x mod 86400 div 3600 div 4 * 4 * 3600 = x mod 86400 div 14400 * 14400"
    unfolding z mult.assoc numeral_times_numeral semiring_norm by (rule refl)
  also have "\<dots> = x mod 86400 - x mod 14400" by (rule floor_nested) simp
  finally show ?thesis .
qed

lemma legacy_1w: "alignTimeToInterval off t ''1w''
    = ((t + off) div 86400 - ((t + off) div 86400 + 3) mod 7) * 86400 - off"
proof -
  obtain y m d where c: "civil (local_day off t) = (y, m, d)" by (cases "civil (local_day off t)")
  define w where "w = ((t + off) div 86400 + epoch_day + 1) mod 7"
  define k where "k = (if w = 0 then 7 else w) - 1"
  have k: "k = ((t + off) div 86400 + 3) mod 7"
    using weekday_back [of "(t + off) div 86400"] by (simp only: k_def w_def)
  have wd: "weekday_of off t = w" by (simp add: weekday_of_def local_day_def w_def)
  have "alignTimeToInterval off t ''1w'' = go_date off y m (d - k) 0 0"
    by (simp add: alignTimeToInterval_def c wd Let_def k_def)
  also have "\<dots> = ((t + off) div 86400 - k) * 86400 - off"
    using go_date_civil_shift [OF c, of k 0 0] by simp
  finally show ?thesis by (simp only: k)
qed

lemma chain_floor: "d = x - a \<Longrightarrow> h = a - b \<Longrightarrow> m = b - c \<Longrightarrow> d + h + m - off = x - c - off"
  for off :: int by simp

lemma legacy_minutes:
  assumes c: "civil (local_day off t) = (y, m, d)" and k: "0 \<le> k" "60 * k dvd 3600"
  shows "go_date off y m d (hour_of off t) (minute_of off t div k * k)
    = (t + off) - (t + off) mod (60 * k) - off"
  unfolding go_date_civil [OF c] hour_of_def minute_of_def
  by (rule chain_floor [OF floor_mult hour_floor minute_floor [OF k]])

lemma legacy_hours:
  assumes c: "civil (local_day off t) = (y, m, d)"
  shows "go_date off y m d (hour_of off t) 0 = (t + off) - (t + off) mod 3600 - off"
    and "go_date off y m d (hour_of off t div 4 * 4) 0 = (t + off) - (t + off) mod 14400 - off"
    and "go_date off y m d 0 0 = (t + off) - (t + off) mod 86400 - off"
proof -
  have z: "0 * 60 = b - b" "0 * 3600 = b - b" for b :: int by simp_all
  show "go_date off y m d (hour_of off t) 0 = (t + off) - (t + off) mod 3600 - off"
    unfolding go_date_civil [OF c] hour_of_def
    by (rule chain_floor [OF floor_mult hour_floor z(1)])
  show "go_date off y m d (hour_of off t div 4 * 4) 0 = (t + off) - (t + off) mod 14400 - off"
    unfolding go_date_civil [OF c] hour_of_def
    by (rule chain_floor [OF floor_mult hour4_floor z(1)])
  show "go_date off y m d 0 0 = (t + off) - (t + off) mod 86400 - off"
    unfolding go_date_civil [OF c] by (rule chain_floor [OF floor_mult z(2) z(1)])
qed

lemma alignTimeToInterval_spec:
  assumes "interval_spec i = Some s"
  shows "alignTimeToInterval off t i = bucket_start s (t + off) - off"
proof -
  obtain y m d where c: "civil (local_day off t) = (y, m, d)" by (cases "civil (local_day off t)")
  note h = legacy_hours [OF c]
  have w: "((t + off) div 86400 - ((t + off) div 86400 + 3) mod 7) * 86400
      = bucket_start (604800, - 259200) (t + off)"
    using alignTime_spec [of "''1w''" "(604800, - 259200)" "t + off"] by (simp add: align_1w)
  have m1: "go_date off y m d (hour_of off t) (minute_of off t) = (t + off) - (t + off) mod 60 - off"
    using legacy_minutes [OF c, of 1] by simp
  note mk = legacy_minutes [OF c, of 5] legacy_minutes [OF c, of 15] legacy_minutes [OF c, of 30]
  show ?thesis
  proof (cases rule: interval_spec_cases [OF assms])
    case 8
    then show ?thesis by (simp only: legacy_1w w)
  qed (simp_all add: bucket_start_def alignTimeToInterval_def c h m1 mk)
qed

section \<open>Amounts and prices as text\<close>

definition intString :: "int option \<Rightarrow> string" where
  "intString value = (case value of None \<Rightarrow> ''0'' | Some i \<Rightarrow> show_int i)"

definition pad_zeros :: "nat \<Rightarrow> string \<Rightarrow> string" where
  "pad_zeros n s = replicate (n - length s) (CHR ''0'') @ s"

text \<open>
  \<open>big.Rat.FloatString(18)\<close> of \<open>a / b\<close>: sign, integer part, point, 18 decimals, the last
  one rounded half away from zero.
\<close>

definition float_string18 :: "int \<Rightarrow> int \<Rightarrow> string" where
  "float_string18 a b =
     (let m = nat \<bar>a\<bar>; n = nat \<bar>b\<bar>; p = 10 ^ 18;
          q = m div n; r = (m mod n * p) div n; r2 = (m mod n * p) mod n;
          r' = (if n \<le> 2 * r2 then r + 1 else r);
          q' = (if p \<le> r' then q + 1 else q);
          r'' = (if p \<le> r' then r' - p else r')
      in (if a \<noteq> 0 \<and> (a < 0) \<noteq> (b < 0) then ''-'' else [])
           @ show_nat q' @ ''.'' @ pad_zeros 18 (show_nat r''))"

definition priceString :: "int option \<Rightarrow> int option \<Rightarrow> string" where
  "priceString bnbAmount tokenAmount =
     (case (bnbAmount, tokenAmount) of
        (Some a, Some b) \<Rightarrow> if b = 0 then ''0'' else float_string18 a b
      | _ \<Rightarrow> ''0'')"

text \<open>
  The casts of the database: \<open>numeric0\<close> reads an integer text, \<open>numeric18\<close> a decimal text as
  a number of units of 10^-18, the scale of the price columns.
\<close>

definition numeric0 :: "string \<Rightarrow> int" where
  "numeric0 s = (if has_prefix s ''-'' then - int (read_nat (drop 1 s)) else int (read_nat s))"

definition unsigned18 :: "string \<Rightarrow> nat" where
  "unsigned18 s =
     (let ip = takeWhile (\<lambda>c. c \<noteq> CHR ''.'') s;
          fp = take 18 (drop 1 (dropWhile (\<lambda>c. c \<noteq> CHR ''.'') s))
      in read_nat ip * 10 ^ 18 + read_nat (fp @ replicate (18 - length fp) (CHR ''0'')))"

definition numeric18 :: "string \<Rightarrow> int" where
  "numeric18 s = (if has_prefix s ''-'' then - int (unsigned18 (drop 1 s)) else int (unsigned18 s))"

lemma length_show_nat: "0 < k \<Longrightarrow> n < 10 ^ k \<Longrightarrow> length (show_nat n) \<le> k"
proof (induction n arbitrary: k rule: show_nat.induct)
  case (1 n)
  show ?case
  proof (cases "n < 10")
    case True
    with "1.prems" show ?thesis by (simp add: show_nat.simps [of n])
  next
    case False
    with "1.prems" obtain j where k: "k = Suc j" "0 < j"
      by (cases k; cases "k - 1") auto
    with "1.prems" have "n div 10 < 10 ^ j" by (simp add: less_mult_imp_div_less mult.commute)
    with "1.IH" [OF False k(2)] k show ?thesis using False by (simp add: show_nat.simps [of n])
  qed
qed

lemma read_nat_zeros: "read_nat (replicate k (CHR ''0'') @ s) = read_nat s"
proof (induction k)
  case (Suc k)
  have "digit_val (CHR ''0'') = 0" by (simp add: digit_val_def)
  with Suc show ?case by (simp add: read_nat_def)
qed simp

lemma digits_no_point: "\<forall>c \<in> set s. is_digit c \<Longrightarrow> c \<in> set s \<Longrightarrow> c \<noteq> CHR ''.''"
  by (auto simp: is_digit_def)

lemma unsigned18_decimal:
  assumes "r < 10 ^ 18"
  shows "unsigned18 (show_nat q @ ''.'' @ pad_zeros 18 (show_nat r)) = q * 10 ^ 18 + r"
proof -
  have ip: "\<forall>c \<in> set (show_nat q). c \<noteq> CHR ''.''"
    using digits_no_point show_nat_digits by blast
  have len: "length (pad_zeros 18 (show_nat r)) = 18"
    using length_show_nat [of 18 r] assms by (simp add: pad_zeros_def)
  have "takeWhile (\<lambda>c. c \<noteq> CHR ''.'') (show_nat q @ ''.'' @ pad_zeros 18 (show_nat r)) = show_nat q"
    using ip by (simp add: takeWhile_append2)
  moreover have "dropWhile (\<lambda>c. c \<noteq> CHR ''.'') (show_nat q @ ''.'' @ pad_zeros 18 (show_nat r))
      = ''.'' @ pad_zeros 18 (show_nat r)"
    using ip by (simp add: dropWhile_append2)
  ultimately show ?thesis
    using len by (simp add: unsigned18_def read_nat_zeros [of "18 - _", folded pad_zeros_def])
      (simp add: pad_zeros_def read_nat_zeros)
qed

lemma div_pull:
  fixes q r d :: nat
  assumes "0 < d" and "y = d * q + r"
  shows "y div d = q + r div d"
  using assms(1) unfolding assms(2) by simp

lemma div_half:
  fixes y n :: nat
  assumes "y < n"
  shows "(2 * y + n) div (2 * n) = (if n \<le> 2 * y then 1 else 0)"
proof (cases "n \<le> 2 * y")
  case True
  then have "(2 * y + n) div (2 * n) = 1" using assms by (intro div_nat_eqI) simp_all
  with True show ?thesis by simp
next
  case False
  then show ?thesis by simp
qed

lemma round_half_up:
  fixes x n :: nat
  assumes "0 < n"
  shows "(2 * x + n) div (2 * n) = (if n \<le> 2 * (x mod n) then x div n + 1 else x div n)"
proof -
  have "2 * x + n = 2 * n * (x div n) + (2 * (x mod n) + n)"
    by (metis add.assoc distrib_left mult.assoc mult_div_mod_eq)
  with assms have "(2 * x + n) div (2 * n) = x div n + (2 * (x mod n) + n) div (2 * n)"
    by (intro div_pull) simp_all
  moreover have "(2 * (x mod n) + n) div (2 * n) = (if n \<le> 2 * (x mod n) then 1 else 0)"
    using assms by (intro div_half) simp
  ultimately show ?thesis by simp
qed

text \<open>The number of 10^-18 units nearest to \<open>a / b\<close>, halves away from zero.\<close>

definition rounded18 :: "int \<Rightarrow> int \<Rightarrow> int" where
  "rounded18 a b =
     (let v = int ((2 * (nat \<bar>a\<bar> * 10 ^ 18) + nat \<bar>b\<bar>) div (2 * nat \<bar>b\<bar>))
      in if (a < 0) \<noteq> (b < 0) then - v else v)"

lemma show_nat_no_minus: "\<not> has_prefix (show_nat n @ s) ''-''"
proof
  assume "has_prefix (show_nat n @ s) ''-''"
  then obtain u where "show_nat n @ s = CHR ''-'' # u" by (auto simp: has_prefix_iff)
  then have "CHR ''-'' \<in> set (show_nat n)" by (cases "show_nat n") auto
  with show_nat_digits [of n] show False by (auto simp: is_digit_def)
qed

lemma decimal_parts:
  fixes m n p :: nat
  assumes "0 < n" and "0 < p"
  defines "r \<equiv> m mod n * p div n" and "r2 \<equiv> m mod n * p mod n"
  defines "r' \<equiv> (if n \<le> 2 * r2 then r + 1 else r)"
  shows "r' \<le> p" and "m div n * p + r' = (2 * (m * p) + n) div (2 * n)"
proof -
  have "m mod n * p < n * p" using assms(1,2) by simp
  then have "r < p" unfolding r_def by (simp add: less_mult_imp_div_less mult.commute)
  then show "r' \<le> p" by (simp add: r'_def)
  have "m * p = m div n * n * p + m mod n * p" by (metis add_mult_distrib div_mult_mod_eq)
  then have e: "2 * (m * p) + n = 2 * n * (m div n * p) + (2 * (m mod n * p) + n)"
    by (simp add: algebra_simps)
  have "(2 * (m * p) + n) div (2 * n) = m div n * p + (2 * (m mod n * p) + n) div (2 * n)"
    using assms(1) by (intro div_pull [OF _ e]) simp
  then show "m div n * p + r' = (2 * (m * p) + n) div (2 * n)"
    using round_half_up [OF assms(1), of "m mod n * p"] by (simp add: r'_def r_def r2_def)
qed

lemma numeric18_float_string18:
  assumes "b \<noteq> 0"
  shows "numeric18 (float_string18 a b) = rounded18 a b"
proof -
  define m n where "m = nat \<bar>a\<bar>" and "n = nat \<bar>b\<bar>"
  define r' where "r' = (if n \<le> 2 * (m mod n * 10 ^ 18 mod n) then m mod n * 10 ^ 18 div n + 1
    else m mod n * 10 ^ 18 div n)"
  define q' where "q' = (if 10 ^ 18 \<le> r' then m div n + 1 else m div n)"
  define r'' where "r'' = (if 10 ^ 18 \<le> r' then r' - 10 ^ 18 else r')"
  have n: "0 < n" using assms by (simp add: n_def)
  note parts = decimal_parts [OF n, of "10 ^ 18" m, folded r'_def]
  have r: "r'' < 10 ^ 18" using parts(1) by (auto simp: r''_def)
  have v: "q' * 10 ^ 18 + r'' = (2 * (m * 10 ^ 18) + n) div (2 * n)"
    using parts by (auto simp: q'_def r''_def split: if_splits)
  have s: "float_string18 a b = (if a \<noteq> 0 \<and> (a < 0) \<noteq> (b < 0) then ''-'' else [])
      @ show_nat q' @ ''.'' @ pad_zeros 18 (show_nat r'')"
    unfolding float_string18_def Let_def m_def [symmetric] n_def [symmetric] r'_def [symmetric]
      q'_def [symmetric] r''_def [symmetric] by (rule refl)
  have u: "unsigned18 (show_nat q' @ ''.'' @ pad_zeros 18 (show_nat r'')) = (2 * (m * 10 ^ 18) + n) div (2 * n)"
    using unsigned18_decimal [OF r] v by (simp only:)
  show ?thesis
  proof (cases "a \<noteq> 0 \<and> (a < 0) \<noteq> (b < 0)")
    case True
    have hp: "has_prefix (float_string18 a b) ''-''" unfolding s using True by (simp add: has_prefix_def)
    have dr: "drop 1 (float_string18 a b) = show_nat q' @ ''.'' @ pad_zeros 18 (show_nat r'')"
      unfolding s using True by simp
    show ?thesis unfolding numeric18_def rounded18_def Let_def dr u m_def [symmetric] n_def [symmetric]
      using hp True by simp
  next
    case False
    then have s': "float_string18 a b = show_nat q' @ ''.'' @ pad_zeros 18 (show_nat r'')"
      unfolding s by auto
    have z: "(a < 0) \<noteq> (b < 0) \<Longrightarrow> m = 0" using False by (simp add: m_def)
    have "(a < 0) \<noteq> (b < 0) \<Longrightarrow> (2 * (m * 10 ^ 18) + n) div (2 * n) = 0" using z n by simp
    then show ?thesis unfolding numeric18_def rounded18_def Let_def s' u m_def [symmetric] n_def [symmetric]
      using show_nat_no_minus by auto
  qed
qed

section \<open>What alignment and pricing guarantee\<close>

lemma interval_spec_None: "interval_spec i = None \<Longrightarrow> alignTime t i = t \<and> alignTimeToInterval off t i = t"
  by (cases "civil (local_day off t)")
    (auto simp: alignTime_def alignTimeToInterval_def split: if_splits)

lemma bucket_start_bounds:
  assumes "0 < l"
  shows "bucket_start (l, a) t \<le> t" and "t < bucket_start (l, a) t + l"
    and "(bucket_start (l, a) t - a) mod l = 0"
proof -
  have "0 \<le> (t - a) mod l" "(t - a) mod l < l" using assms by simp_all
  then show "bucket_start (l, a) t \<le> t" and "t < bucket_start (l, a) t + l"
    by (simp_all add: bucket_start_def)
  have "bucket_start (l, a) t - a = (t - a) - (t - a) mod l" by (simp add: bucket_start_def)
  then show "(bucket_start (l, a) t - a) mod l = 0" by (simp add: minus_mod_eq_mult_div)
qed

lemma bucket_start_unique:
  assumes l: "0 < l" and b: "(b - a) mod l = 0" "b \<le> t" "t < b + l"
  shows "bucket_start (l, a) t = b"
proof -
  have "t - a = (b - a) + (t - b)" by simp
  then have "(t - a) mod l = ((b - a) mod l + (t - b) mod l) mod l" by (simp only: mod_add_eq)
  also have "\<dots> = t - b" using l b by (simp add: mod_pos_pos_trivial)
  finally show ?thesis by (simp add: bucket_start_def)
qed

lemma interval_length_pos: "interval_spec i = Some (l, a) \<Longrightarrow> 0 < l"
  by (erule interval_spec_cases) simp_all

text \<open>Interval alignment is a partition of time.  For each of the eight intervals the
  aligned start lies at or before the trade, the trade lies before the next start, starts
  are the anchor plus multiples of the length, and two instants share a start exactly when
  the second lies in the bucket of the first; an unknown interval leaves the time as it is.\<close>

theorem alignTime_partitions:
  "case interval_spec i of
     None \<Rightarrow> alignTime t i = t
   | Some (l, a) \<Rightarrow> alignTime t i \<le> t \<and> t < alignTime t i + l \<and> (alignTime t i - a) mod l = 0
       \<and> (\<forall>t'. (alignTime t' i = alignTime t i) = (alignTime t i \<le> t' \<and> t' < alignTime t i + l))"
proof (cases "interval_spec i")
  case None
  then show ?thesis by (simp del: interval_spec.simps add: interval_spec_None)
next
  case (Some s)
  obtain l a where s: "s = (l, a)" by (cases s)
  have l: "0 < l" using interval_length_pos Some s by blast
  have e: "alignTime u i = bucket_start (l, a) u" for u using alignTime_spec Some s by simp
  have "(bucket_start (l, a) t' = bucket_start (l, a) t)
      = (bucket_start (l, a) t \<le> t' \<and> t' < bucket_start (l, a) t + l)" for t'
    using bucket_start_bounds [OF l] bucket_start_unique [OF l] by metis
  then show ?thesis
    unfolding Some s using bucket_start_bounds [OF l] by (simp add: e del: interval_spec.simps)
qed

text \<open>The two versions of alignment differ by the time zone only: the legacy indexer's
  start is the rebuild's start of the wall-clock time, moved back to UTC.  They agree
  everywhere when the process runs in UTC.\<close>

theorem legacy_alignment_is_shifted:
  "alignTimeToInterval off t i = alignTime (t + off) i - off \<and> alignTimeToInterval 0 t i = alignTime t i"
proof -
  have "alignTimeToInterval z t i = alignTime (t + z) i - z" for z
  proof (cases "interval_spec i")
    case None
    then show ?thesis by (simp del: interval_spec.simps add: interval_spec_None)
  next
    case (Some s)
    then show ?thesis by (simp only: alignTimeToInterval_spec alignTime_spec)
  qed
  from this [of off] this [of 0] show ?thesis by simp
qed

lemma half_distance: "2 * x + r = 2 * y + n \<Longrightarrow> 0 \<le> r \<Longrightarrow> r < 2 * n \<Longrightarrow> 2 * \<bar>x - y\<bar> \<le> (n::int)"
  by (cases "x \<le> y") simp_all

lemma half_unit:
  fixes m n p :: nat
  assumes "0 < n"
  shows "2 * \<bar>int ((2 * (m * p) + n) div (2 * n)) * int n - int m * int p\<bar> \<le> int n"
proof -
  define v where "v = (2 * (m * p) + n) div (2 * n)"
  define r where "r = (2 * (m * p) + n) mod (2 * n)"
  have "2 * n * v + r = 2 * (m * p) + n" unfolding v_def r_def by simp
  then have e: "2 * (int v * int n) + int r = 2 * (int m * int p) + int n"
    by (metis (no_types) mult.assoc mult.commute of_nat_add of_nat_mult of_nat_numeral)
  have "r < 2 * n" unfolding r_def using assms by simp
  then show ?thesis unfolding v_def [symmetric] by (intro half_distance [OF e]) simp_all
qed

lemma rounded18_near:
  assumes "b \<noteq> 0"
  shows "2 * \<bar>rounded18 a b * b - a * 10 ^ 18\<bar> \<le> \<bar>b\<bar>"
proof -
  define v where "v = int ((2 * (nat \<bar>a\<bar> * 10 ^ 18) + nat \<bar>b\<bar>) div (2 * nat \<bar>b\<bar>))"
  have "2 * \<bar>v * int (nat \<bar>b\<bar>) - int (nat \<bar>a\<bar>) * int (10 ^ 18)\<bar> \<le> int (nat \<bar>b\<bar>)"
    unfolding v_def using assms by (intro half_unit) simp
  then have h: "2 * \<bar>v * \<bar>b\<bar> - \<bar>a\<bar> * 10 ^ 18\<bar> \<le> \<bar>b\<bar>" by simp
  have "\<bar>rounded18 a b * b - a * 10 ^ 18\<bar> = \<bar>v * \<bar>b\<bar> - \<bar>a\<bar> * 10 ^ 18\<bar>"
    unfolding rounded18_def v_def [symmetric] Let_def
    by (cases "a < 0"; cases "b < 0") simp_all
  with h show ?thesis by simp
qed

text \<open>C40: The price text of a trade, read back by the price column of 18 decimals, is the
  exact quotient of the amounts rounded to the nearest 10^-18: it is off by at most half a
  unit.  A zero token amount, or a missing amount, gives the price 0, not a panic.\<close>

theorem priceString_nearest:
  "let p = numeric18 (priceString x y) in
   case (x, y) of
     (Some a, Some b) \<Rightarrow> (if b = 0 then p = 0 else 2 * \<bar>p * b - a * 10 ^ 18\<bar> \<le> \<bar>b\<bar>)
   | _ \<Rightarrow> p = 0"
proof -
  have z: "numeric18 ''0'' = 0"
    using read_nat_zeros [of 18 "[]"] read_nat_zeros [of 1 "[]"]
    by (simp add: numeric18_def has_prefix_def unsigned18_def) (simp add: read_nat_def)
  have p: "let p = numeric18 (priceString (Some a) (Some b)) in
      if b = 0 then p = 0 else 2 * \<bar>p * b - a * 10 ^ 18\<bar> \<le> \<bar>b\<bar>" for a b
  proof (cases "b = 0")
    case True
    then have "priceString (Some a) (Some b) = ''0''" by (simp add: priceString_def)
    with True z show ?thesis by (simp only: Let_def if_True simp_thms)
  next
    case False
    then have "numeric18 (priceString (Some a) (Some b)) = rounded18 a b"
      by (simp add: priceString_def numeric18_float_string18)
    with rounded18_near [OF False, of a] False show ?thesis by (simp only: Let_def if_False)
  qed
  have n: "priceString None y = ''0''" "priceString x None = ''0''"
    by (cases x; simp add: priceString_def)+
  show ?thesis using p n z by (cases x; cases y) (simp_all only: Let_def option.case prod.case)
qed

lemma numeric0_intString: "numeric0 (intString v) = (case v of None \<Rightarrow> 0 | Some i \<Rightarrow> i)"
proof (cases v)
  case None
  then show ?thesis
    by (simp add: intString_def numeric0_def has_prefix_def read_nat_def digit_val_def)
next
  case (Some i)
  have m: "has_prefix (CHR ''-'' # s) ''-''" for s by (simp add: has_prefix_def)
  have "\<not> has_prefix (show_nat (nat i)) ''-''" using show_nat_no_minus [of "nat i" "[]"] by simp
  with Some m show ?thesis by (simp add: intString_def numeric0_def show_int_def)
qed

end
