(* ===== verification/ChainStore.thy ===== *)
theory ChainStore
  imports Tables Candles
begin

text \<open>
  The durable side of the rebuilt indexer, app-rebuild/internal/repository/chain_event.go:
  the raw event ledger, the event tables, the token, trade and candle projections, and the
  checkpoint, all written by \<open>SaveBlockRange\<close> in one transaction.  Each SQL statement is a
  function on \<open>chain_db\<close>; the operations sequence them as the code does, over a schedule of
  failures (theory Tables).  The lemmas relate each operation to a pure function on the
  database and draw the consequences: atomicity, idempotence of replays, unique keys,
  and that the candles are the aggregation of the recorded trades.

  Columns of type VARCHAR and NUMERIC are unbounded here: a value too wide for its column is
  one of the failures of the schedule.  \<open>Hash.Hex\<close> of go-ethereum is the parameter \<open>hex\<close>.
\<close>

section \<open>Projections and logs\<close>

definition TradeTypeBuy :: int where "TradeTypeBuy = 10"
definition TradeTypeSell :: int where "TradeTypeSell = 20"
definition TokenStatusTrading :: int where "TokenStatusTrading = 1"
definition TokenStatusGraduated :: int where "TokenStatusGraduated = 3"

record token_created_projection =
  tc_TokenAddress :: string
  tc_CreatorAddress :: string
  tc_Name :: string
  tc_Symbol :: string
  tc_TotalSupply :: "int option"
  tc_RequestID :: string
  tc_TransactionHash :: string
  tc_BlockNumber :: u64
  tc_BlockTimestamp :: int
  tc_LogIndex :: u64
  tc_InitialBNBTarget :: "int option"
  tc_InitialBNBCurrent :: "int option"
  tc_InitialAvailable :: "int option"
  tc_InitialLaunchMode :: int
  tc_InitialTokenStatus :: int

record token_trade_projection =
  tt_TokenAddress :: string
  tt_UserAddress :: string
  tt_TradeType :: int
  tt_BNBAmount :: "int option"
  tt_TokenAmount :: "int option"
  tt_TradingFee :: "int option"
  tt_VirtualBNBReserve :: "int option"
  tt_VirtualTokenReserve :: "int option"
  tt_AvailableTokens :: "int option"
  tt_CollectedBNB :: "int option"
  tt_TransactionHash :: string
  tt_BlockNumber :: u64
  tt_BlockTimestamp :: int
  tt_LogIndex :: u64

record token_graduated_projection =
  tg_TokenAddress :: string
  tg_LiquidityBNB :: "int option"
  tg_LiquidityTokens :: "int option"
  tg_LiquidityResult :: "int option"
  tg_TransactionHash :: string
  tg_BlockNumber :: u64
  tg_BlockTimestamp :: int
  tg_LogIndex :: u64

record chain_projection =
  TokenCreated :: "token_created_projection option"
  TokenBought :: "token_trade_projection option"
  TokenSold :: "token_trade_projection option"
  TokenGraduated :: "token_graduated_projection option"

text \<open>The fields of go-ethereum's \<open>types.Log\<close> that the code reads.\<close>

record chain_log =
  log_Topics :: "bytes list"
  log_Data :: bytes
  log_BlockNumber :: u64
  log_TxHash :: bytes
  log_BlockHash :: bytes
  log_Index :: u64
  log_Removed :: bool

section \<open>The database\<close>

record chain_event_row =
  ce_chain_id :: int
  ce_contract_address :: string
  ce_block_number :: u64
  ce_block_hash :: string
  ce_transaction_hash :: string
  ce_log_index :: u64
  ce_topic0 :: string
  ce_topics :: "string list"
  ce_data :: string
  ce_removed :: bool

record created_event_row =
  cr_token_address :: string
  cr_creator_address :: string
  cr_name :: string
  cr_symbol :: string
  cr_total_supply :: int
  cr_request_id :: string
  cr_transaction_hash :: string
  cr_block_number :: u64
  cr_block_timestamp :: int
  cr_log_index :: u64

record trade_event_row =
  te_token_address :: string
  te_user_address :: string
  te_bnb_amount :: int
  te_token_amount :: int
  te_trading_fee :: int
  te_virtual_bnb_reserve :: int
  te_virtual_token_reserve :: int
  te_available_tokens :: int
  te_collected_bnb :: int
  te_transaction_hash :: string
  te_block_number :: u64
  te_block_timestamp :: int
  te_log_index :: u64

record graduated_event_row =
  ge_token_address :: string
  ge_liquidity_bnb :: int
  ge_liquidity_tokens :: int
  ge_liquidity_result :: int
  ge_transaction_hash :: string
  ge_block_number :: u64
  ge_block_timestamp :: int
  ge_log_index :: u64

record trade_row =
  tr_token_address :: string
  tr_user_address :: string
  tr_trade_type :: int
  tr_bnb_amount :: int
  tr_token_amount :: int
  tr_price :: int
  tr_transaction_hash :: string
  tr_log_index :: u64
  tr_block_number :: u64
  tr_block_timestamp :: int

record token_row =
  tk_name :: string
  tk_symbol :: string
  tk_token_contract_address :: string
  tk_creator_address :: string
  tk_launch_mode :: int
  tk_bnb_current :: int
  tk_bnb_target :: int
  tk_total_supply :: int
  tk_available_tokens :: int
  tk_status :: int
  tk_created_at :: int
  tk_updated_at :: int

record kline_row =
  kl_token_address :: string
  kl_interval :: string
  kl_open_time :: int
  kl_open_price :: int
  kl_high_price :: int
  kl_low_price :: int
  kl_close_price :: int
  kl_volume :: int

record checkpoint_row =
  cp_chain_id :: int
  cp_contract_address :: string
  cp_last_synced_block :: u64

record chain_db =
  chain_events :: "chain_event_row list"
  token_created_events :: "created_event_row list"
  token_bought_events :: "trade_event_row list"
  token_sold_events :: "trade_event_row list"
  token_graduated_events :: "graduated_event_row list"
  trades :: "trade_row list"
  tokens :: "token_row list"
  klines :: "kline_row list"
  checkpoints :: "checkpoint_row list"

definition empty_chain_db :: chain_db where
  "empty_chain_db = \<lparr>chain_events = [], token_created_events = [], token_bought_events = [],
     token_sold_events = [], token_graduated_events = [], trades = [], tokens = [],
     klines = [], checkpoints = []\<rparr>"

text \<open>The unique constraints of migrations 002, 004 and 005.\<close>

definition chain_event_key :: "chain_event_row \<Rightarrow> int \<times> string \<times> u64" where
  "chain_event_key r = (ce_chain_id r, ce_transaction_hash r, ce_log_index r)"

definition created_event_key :: "created_event_row \<Rightarrow> string \<times> u64" where
  "created_event_key r = (cr_transaction_hash r, cr_log_index r)"

definition trade_event_key :: "trade_event_row \<Rightarrow> string \<times> u64" where
  "trade_event_key r = (te_transaction_hash r, te_log_index r)"

definition graduated_event_key :: "graduated_event_row \<Rightarrow> string \<times> u64" where
  "graduated_event_key r = (ge_transaction_hash r, ge_log_index r)"

definition trade_key :: "trade_row \<Rightarrow> string \<times> u64 \<times> int" where
  "trade_key r = (tr_transaction_hash r, tr_log_index r, tr_trade_type r)"

definition kline_key :: "kline_row \<Rightarrow> string \<times> string \<times> int" where
  "kline_key r = (kl_token_address r, kl_interval r, kl_open_time r)"

definition checkpoint_key :: "checkpoint_row \<Rightarrow> int \<times> string" where
  "checkpoint_key r = (cp_chain_id r, cp_contract_address r)"

section \<open>The statements\<close>

definition chain_event_of :: "(bytes \<Rightarrow> string) \<Rightarrow> int \<Rightarrow> string \<Rightarrow> chain_log \<Rightarrow> chain_event_row" where
  "chain_event_of hex chainID contract log =
     (let topics = map hex (log_Topics log);
          topic0 = (if topics \<noteq> [] then hd topics else [])
      in \<lparr>ce_chain_id = chainID, ce_contract_address = to_lower contract,
          ce_block_number = log_BlockNumber log, ce_block_hash = hex (log_BlockHash log),
          ce_transaction_hash = hex (log_TxHash log), ce_log_index = log_Index log,
          ce_topic0 = topic0, ce_topics = topics, ce_data = ''0x'' @ hex_encode (log_Data log),
          ce_removed = log_Removed log\<rparr>)"

definition insert_chain_event :: "(bytes \<Rightarrow> string) \<Rightarrow> int \<Rightarrow> string \<Rightarrow> chain_log \<Rightarrow> chain_db \<Rightarrow> chain_db" where
  "insert_chain_event hex chainID contract log db =
     db\<lparr>chain_events := insert_new chain_event_key (chain_event_of hex chainID contract log) (chain_events db)\<rparr>"

definition put_checkpoint :: "int \<Rightarrow> string \<Rightarrow> u64 \<Rightarrow> chain_db \<Rightarrow> chain_db" where
  "put_checkpoint chainID contract lastBlock db =
     db\<lparr>checkpoints := upsert checkpoint_key
          (\<lambda>old new. old\<lparr>cp_last_synced_block := cp_last_synced_block new\<rparr>)
          \<lparr>cp_chain_id = chainID, cp_contract_address = to_lower contract, cp_last_synced_block = lastBlock\<rparr>
          (checkpoints db)\<rparr>"

definition created_event_of :: "token_created_projection \<Rightarrow> created_event_row" where
  "created_event_of event =
     \<lparr>cr_token_address = to_lower (tc_TokenAddress event),
      cr_creator_address = to_lower (tc_CreatorAddress event),
      cr_name = tc_Name event, cr_symbol = tc_Symbol event,
      cr_total_supply = numeric0 (intString (tc_TotalSupply event)),
      cr_request_id = tc_RequestID event, cr_transaction_hash = tc_TransactionHash event,
      cr_block_number = tc_BlockNumber event, cr_block_timestamp = tc_BlockTimestamp event,
      cr_log_index = tc_LogIndex event\<rparr>"

definition insert_created_event :: "token_created_projection \<Rightarrow> chain_db \<Rightarrow> chain_db" where
  "insert_created_event event db =
     db\<lparr>token_created_events := insert_new created_event_key (created_event_of event) (token_created_events db)\<rparr>"

definition new_token_row :: "token_created_projection \<Rightarrow> token_row" where
  "new_token_row event =
     (let bnbTarget = intString (tc_InitialBNBTarget event);
          bnbTarget = (if bnbTarget = ''0'' then ''24000000000000000000'' else bnbTarget);
          launchMode = tc_InitialLaunchMode event;
          launchMode = (if launchMode = 0 then 1 else launchMode);
          status = tc_InitialTokenStatus event;
          status = (if status = 0 then TokenStatusTrading else status)
      in \<lparr>tk_name = tc_Name event, tk_symbol = tc_Symbol event,
          tk_token_contract_address = to_lower (tc_TokenAddress event),
          tk_creator_address = to_lower (tc_CreatorAddress event), tk_launch_mode = launchMode,
          tk_bnb_current = numeric0 (intString (tc_InitialBNBCurrent event)),
          tk_bnb_target = numeric0 bnbTarget,
          tk_total_supply = numeric0 (intString (tc_TotalSupply event)),
          tk_available_tokens = numeric0 (intString (tc_InitialAvailable event)),
          tk_status = status, tk_created_at = tc_BlockTimestamp event,
          tk_updated_at = tc_BlockTimestamp event\<rparr>)"

definition token_conflict :: "token_row \<Rightarrow> token_row \<Rightarrow> token_row" where
  "token_conflict old new =
     old\<lparr>tk_name := tk_name new, tk_symbol := tk_symbol new,
         tk_creator_address := tk_creator_address new, tk_total_supply := tk_total_supply new,
         tk_updated_at := tk_updated_at new\<rparr>"

definition upsert_token :: "token_created_projection \<Rightarrow> chain_db \<Rightarrow> chain_db" where
  "upsert_token event db =
     db\<lparr>tokens := upsert tk_token_contract_address token_conflict (new_token_row event) (tokens db)\<rparr>"

definition trade_event_of :: "token_trade_projection \<Rightarrow> trade_event_row" where
  "trade_event_of event =
     \<lparr>te_token_address = to_lower (tt_TokenAddress event),
      te_user_address = to_lower (tt_UserAddress event),
      te_bnb_amount = numeric0 (intString (tt_BNBAmount event)),
      te_token_amount = numeric0 (intString (tt_TokenAmount event)),
      te_trading_fee = numeric0 (intString (tt_TradingFee event)),
      te_virtual_bnb_reserve = numeric0 (intString (tt_VirtualBNBReserve event)),
      te_virtual_token_reserve = numeric0 (intString (tt_VirtualTokenReserve event)),
      te_available_tokens = numeric0 (intString (tt_AvailableTokens event)),
      te_collected_bnb = numeric0 (intString (tt_CollectedBNB event)),
      te_transaction_hash = tt_TransactionHash event, te_block_number = tt_BlockNumber event,
      te_block_timestamp = tt_BlockTimestamp event, te_log_index = tt_LogIndex event\<rparr>"

text \<open>The table is chosen by the trade type: everything but a sale is a purchase.\<close>

definition insert_trade_event :: "token_trade_projection \<Rightarrow> chain_db \<Rightarrow> chain_db" where
  "insert_trade_event event db =
     (if tt_TradeType event = TradeTypeSell
      then db\<lparr>token_sold_events := insert_new trade_event_key (trade_event_of event) (token_sold_events db)\<rparr>
      else db\<lparr>token_bought_events := insert_new trade_event_key (trade_event_of event) (token_bought_events db)\<rparr>)"

definition trade_of :: "token_trade_projection \<Rightarrow> trade_row" where
  "trade_of event =
     \<lparr>tr_token_address = to_lower (tt_TokenAddress event),
      tr_user_address = to_lower (tt_UserAddress event), tr_trade_type = tt_TradeType event,
      tr_bnb_amount = numeric0 (intString (tt_BNBAmount event)),
      tr_token_amount = numeric0 (intString (tt_TokenAmount event)),
      tr_price = numeric18 (priceString (tt_BNBAmount event) (tt_TokenAmount event)),
      tr_transaction_hash = tt_TransactionHash event, tr_log_index = tt_LogIndex event,
      tr_block_number = tt_BlockNumber event, tr_block_timestamp = tt_BlockTimestamp event\<rparr>"

text \<open>The insertion returns \<open>RowsAffected\<close>.\<close>

definition insert_trade :: "token_trade_projection \<Rightarrow> chain_db \<Rightarrow> chain_db \<times> nat" where
  "insert_trade event db =
     (db\<lparr>trades := insert_new trade_key (trade_of event) (trades db)\<rparr>,
      if has_key trade_key (trade_key (trade_of event)) (trades db) then 0 else 1)"

definition update_token_totals :: "token_trade_projection \<Rightarrow> chain_db \<Rightarrow> chain_db" where
  "update_token_totals event db =
     db\<lparr>tokens := update_where
          (\<lambda>r. to_lower (tk_token_contract_address r) = to_lower (tt_TokenAddress event))
          (\<lambda>r. r\<lparr>tk_bnb_current := numeric0 (intString (tt_CollectedBNB event)),
                 tk_available_tokens := numeric0 (intString (tt_AvailableTokens event)),
                 tk_updated_at := tt_BlockTimestamp event\<rparr>)
          (tokens db)\<rparr>"

definition graduated_event_of :: "token_graduated_projection \<Rightarrow> graduated_event_row" where
  "graduated_event_of event =
     \<lparr>ge_token_address = to_lower (tg_TokenAddress event),
      ge_liquidity_bnb = numeric0 (intString (tg_LiquidityBNB event)),
      ge_liquidity_tokens = numeric0 (intString (tg_LiquidityTokens event)),
      ge_liquidity_result = numeric0 (intString (tg_LiquidityResult event)),
      ge_transaction_hash = tg_TransactionHash event, ge_block_number = tg_BlockNumber event,
      ge_block_timestamp = tg_BlockTimestamp event, ge_log_index = tg_LogIndex event\<rparr>"

definition insert_graduated_event :: "token_graduated_projection \<Rightarrow> chain_db \<Rightarrow> chain_db" where
  "insert_graduated_event event db =
     db\<lparr>token_graduated_events :=
          insert_new graduated_event_key (graduated_event_of event) (token_graduated_events db)\<rparr>"

definition mark_graduated :: "token_graduated_projection \<Rightarrow> chain_db \<Rightarrow> chain_db" where
  "mark_graduated event db =
     db\<lparr>tokens := update_where
          (\<lambda>r. to_lower (tk_token_contract_address r) = to_lower (tg_TokenAddress event))
          (\<lambda>r. r\<lparr>tk_status := TokenStatusGraduated, tk_updated_at := tg_BlockTimestamp event\<rparr>)
          (tokens db)\<rparr>"

text \<open>\<open>GREATEST\<close>, \<open>LEAST\<close> and the sum of the conflict clause; the opening price stays.\<close>

definition kline_conflict :: "kline_row \<Rightarrow> kline_row \<Rightarrow> kline_row" where
  "kline_conflict old new =
     old\<lparr>kl_high_price := max (kl_high_price old) (kl_high_price new),
         kl_low_price := min (kl_low_price old) (kl_low_price new),
         kl_close_price := kl_close_price new,
         kl_volume := kl_volume old + kl_volume new\<rparr>"

definition new_kline :: "string \<Rightarrow> string \<Rightarrow> int \<Rightarrow> string \<Rightarrow> string \<Rightarrow> kline_row" where
  "new_kline tokenAddress interval openTime price volume =
     \<lparr>kl_token_address = to_lower tokenAddress, kl_interval = interval, kl_open_time = openTime,
      kl_open_price = numeric18 price, kl_high_price = numeric18 price,
      kl_low_price = numeric18 price, kl_close_price = numeric18 price,
      kl_volume = numeric0 volume\<rparr>"

definition upsert_kline :: "string \<Rightarrow> string \<Rightarrow> int \<Rightarrow> string \<Rightarrow> string \<Rightarrow> chain_db \<Rightarrow> chain_db" where
  "upsert_kline tokenAddress interval openTime price volume db =
     db\<lparr>klines := upsert kline_key kline_conflict
          (new_kline tokenAddress interval openTime price volume) (klines db)\<rparr>"

definition find_checkpoint :: "int \<Rightarrow> string \<Rightarrow> chain_db \<Rightarrow> u64 option" where
  "find_checkpoint chainID contract db =
     map_option cp_last_synced_block
       (find (\<lambda>r. cp_chain_id r = chainID \<and> to_lower (cp_contract_address r) = to_lower contract)
          (checkpoints db))"

section \<open>The operations\<close>

definition applyTokenCreated :: "token_created_projection \<Rightarrow> (chain_db, unit) stmt" where
  "applyTokenCreated event =
     sbind (swrap ''insert token created event'' (exec_upd (insert_created_event event)))
       (\<lambda>_. swrap ''upsert token projection'' (exec_upd (upsert_token event)))"

definition upsertKlines :: "token_trade_projection \<Rightarrow> (chain_db, unit) stmt" where
  "upsertKlines event =
     (let price = priceString (tt_BNBAmount event) (tt_TokenAmount event);
          volume = intString (tt_TokenAmount event)
      in sforeach (\<lambda>interval.
           exec_upd (upsert_kline (tt_TokenAddress event) interval
             (alignTime (tt_BlockTimestamp event) interval) price volume)) kline_intervals)"

definition applyTokenTrade :: "token_trade_projection \<Rightarrow> (chain_db, unit) stmt" where
  "applyTokenTrade event =
     sbind (swrap ''insert token trade event'' (exec_upd (insert_trade_event event)))
       (\<lambda>_. sbind (swrap ''insert trade projection'' (exec (insert_trade event)))
         (\<lambda>rowsAffected. sbind (swrap ''update token trade totals'' (exec_upd (update_token_totals event)))
           (\<lambda>_. if rowsAffected = 0 then sret ()
                else swrap ''upsert klines'' (upsertKlines event))))"

definition applyTokenGraduated :: "token_graduated_projection \<Rightarrow> (chain_db, unit) stmt" where
  "applyTokenGraduated event =
     sbind (swrap ''insert token graduated event'' (exec_upd (insert_graduated_event event)))
       (\<lambda>_. swrap ''mark token graduated'' (exec_upd (mark_graduated event)))"

definition applyProjection :: "chain_projection \<Rightarrow> (chain_db, unit) stmt" where
  "applyProjection p =
     (case (TokenCreated p, TokenBought p, TokenSold p, TokenGraduated p) of
        (Some e, _, _, _) \<Rightarrow> applyTokenCreated e
      | (None, Some e, _, _) \<Rightarrow> applyTokenTrade e
      | (None, None, Some e, _) \<Rightarrow> applyTokenTrade e
      | (None, None, None, Some e) \<Rightarrow> applyTokenGraduated e
      | _ \<Rightarrow> sret ())"

definition SaveBlockRange ::
  "(bytes \<Rightarrow> string) \<Rightarrow> int \<Rightarrow> string \<Rightarrow> u64 \<Rightarrow> chain_log list \<Rightarrow> chain_projection list
     \<Rightarrow> chain_db \<times> bool list \<Rightarrow> unit res \<times> (chain_db \<times> bool list)" where
  "SaveBlockRange hex chainID contract lastBlock logs projections =
     run_tx (Wrap ''begin event save'')
       (sbind (sforeach (\<lambda>log. swrap ''insert chain event''
                  (exec_upd (insert_chain_event hex chainID contract log))) logs)
         (\<lambda>_. sbind (sforeach applyProjection projections)
           (\<lambda>_. swrap ''update checkpoint'' (exec_upd (put_checkpoint chainID contract lastBlock)))))"

text \<open>The read-only transaction is always rolled back; the result pairs the block with \<open>found\<close>.\<close>

definition LastSyncedBlock ::
  "int \<Rightarrow> string \<Rightarrow> chain_db \<times> bool list \<Rightarrow> (u64 \<times> bool) res \<times> (chain_db \<times> bool list)" where
  "LastSyncedBlock chainID contract = (\<lambda>(db, fs).
     case fs of
       True # fs' \<Rightarrow> (Inl (Wrap ''begin checkpoint query'' DbFault), (db, fs'))
     | _ \<Rightarrow>
       (case query_row (find_checkpoint chainID contract)
               \<lparr>tx_db = db, tx_aborted = False, tx_faults = tl fs\<rparr> of
          (Inr block, t) \<Rightarrow> (Inr (block, True), (db, tx_faults t))
        | (Inl err, t) \<Rightarrow>
            (if err = ErrNoRows then Inr (0, False) else Inl (Wrap ''read checkpoint'' err),
             (db, tx_faults t))))"

section \<open>The operations as functions on the database\<close>

definition created_step :: "token_created_projection \<Rightarrow> chain_db \<Rightarrow> chain_db" where
  "created_step e db = upsert_token e (insert_created_event e db)"

definition klines_step :: "token_trade_projection \<Rightarrow> chain_db \<Rightarrow> chain_db" where
  "klines_step e = fold (\<lambda>i. upsert_kline (tt_TokenAddress e) i (alignTime (tt_BlockTimestamp e) i)
     (priceString (tt_BNBAmount e) (tt_TokenAmount e)) (intString (tt_TokenAmount e))) kline_intervals"

definition trade_step :: "token_trade_projection \<Rightarrow> chain_db \<Rightarrow> chain_db" where
  "trade_step e db =
     (let db1 = insert_trade_event e db; (db2, n) = insert_trade e db1;
          db3 = update_token_totals e db2
      in if n = 0 then db3 else klines_step e db3)"

definition graduated_step :: "token_graduated_projection \<Rightarrow> chain_db \<Rightarrow> chain_db" where
  "graduated_step e db = mark_graduated e (insert_graduated_event e db)"

datatype projection_kind =
    PCreated token_created_projection
  | PTrade token_trade_projection
  | PGraduated token_graduated_projection
  | PNone

definition kind_of :: "chain_projection \<Rightarrow> projection_kind" where
  "kind_of p =
     (case (TokenCreated p, TokenBought p, TokenSold p, TokenGraduated p) of
        (Some e, _, _, _) \<Rightarrow> PCreated e
      | (None, Some e, _, _) \<Rightarrow> PTrade e
      | (None, None, Some e, _) \<Rightarrow> PTrade e
      | (None, None, None, Some e) \<Rightarrow> PGraduated e
      | _ \<Rightarrow> PNone)"

fun kind_step :: "projection_kind \<Rightarrow> chain_db \<Rightarrow> chain_db" where
  "kind_step (PCreated e) = created_step e"
| "kind_step (PTrade e) = trade_step e"
| "kind_step (PGraduated e) = graduated_step e"
| "kind_step PNone = id"

definition projection_step :: "chain_projection \<Rightarrow> chain_db \<Rightarrow> chain_db" where
  "projection_step p = kind_step (kind_of p)"

definition save_range :: "(bytes \<Rightarrow> string) \<Rightarrow> int \<Rightarrow> string \<Rightarrow> u64 \<Rightarrow> chain_log list
    \<Rightarrow> chain_projection list \<Rightarrow> chain_db \<Rightarrow> chain_db" where
  "save_range hex chainID contract lastBlock logs ps db =
     put_checkpoint chainID contract lastBlock
       (fold projection_step ps (fold (insert_chain_event hex chainID contract) logs db))"

lemma realises_stmt: "realises (swrap m (exec_upd f)) f (\<lambda>_. ())"
  by (intro realises_swrap realises_exec_upd)

lemma realises_applyTokenCreated: "realises (applyTokenCreated e) (created_step e) (\<lambda>_. ())"
  unfolding applyTokenCreated_def
  by (rule realises_cong [OF realises_seq [OF realises_stmt realises_stmt]])
    (simp_all add: fun_eq_iff created_step_def)

lemma realises_applyTokenGraduated: "realises (applyTokenGraduated e) (graduated_step e) (\<lambda>_. ())"
  unfolding applyTokenGraduated_def
  by (rule realises_cong [OF realises_seq [OF realises_stmt realises_stmt]])
    (simp_all add: fun_eq_iff graduated_step_def)

lemma realises_upsertKlines: "realises (upsertKlines e) (klines_step e) (\<lambda>_. ())"
  unfolding upsertKlines_def klines_step_def Let_def
  by (rule realises_foreach) (rule realises_exec_upd)

lemma realises_applyTokenTrade: "realises (applyTokenTrade e) (trade_step e) (\<lambda>_. ())"
proof -
  have rest: "realises (if n = 0 then sret () else swrap ''upsert klines'' (upsertKlines e))
      (if n = 0 then (\<lambda>s. s) else klines_step e) (\<lambda>_. ())" for n :: nat
    by (cases "n = 0") (simp_all add: realises_sret realises_swrap realises_upsertKlines)
  note r = realises_seq [OF realises_stmt [of "''insert token trade event''" "insert_trade_event e"]
    realises_sbind [OF realises_swrap [OF realises_exec] realises_seq [OF realises_stmt rest]]]
  show ?thesis
    unfolding applyTokenTrade_def
    by (rule realises_cong [OF r]) (auto simp: fun_eq_iff trade_step_def split: prod.splits)
qed

lemma realises_applyProjection: "realises (applyProjection p) (projection_step p) (\<lambda>_. ())"
  unfolding applyProjection_def projection_step_def kind_of_def
  by (auto simp: realises_applyTokenCreated realises_applyTokenTrade realises_applyTokenGraduated
      realises_sret id_def split: option.split)

lemma SaveBlockRange_outcome:
  "case SaveBlockRange hex chainID contract lastBlock logs ps (db, fs) of
     (Inl e, (db', fs')) \<Rightarrow> db' = db \<and> True \<in> set fs \<and> errors_is e DbFault
   | (Inr a, (db', fs')) \<Rightarrow> db' = save_range hex chainID contract lastBlock logs ps db \<and> a = ()"
proof -
  let ?m = "sbind (sforeach (\<lambda>log. swrap ''insert chain event''
                  (exec_upd (insert_chain_event hex chainID contract log))) logs)
         (\<lambda>_. sbind (sforeach applyProjection ps)
           (\<lambda>_. swrap ''update checkpoint'' (exec_upd (put_checkpoint chainID contract lastBlock))))"
  have "realises ?m (save_range hex chainID contract lastBlock logs ps) (\<lambda>_. ())"
    by (rule realises_cong [OF realises_seq [OF realises_foreach [OF realises_stmt]
        realises_seq [OF realises_foreach [OF realises_applyProjection] realises_stmt]]])
      (simp_all add: fun_eq_iff save_range_def)
  then show ?thesis
    unfolding SaveBlockRange_def by (rule run_tx_realises) simp
qed

lemma SaveBlockRange_choice:
  "fst (snd (SaveBlockRange hex chainID contract lastBlock logs ps (db, fs)))
     \<in> {db, save_range hex chainID contract lastBlock logs ps db}"
  using SaveBlockRange_outcome [where hex = hex and chainID = chainID and contract = contract
      and lastBlock = lastBlock and logs = logs and ps = ps and db = db and fs = fs]
  by (auto split: prod.splits sum.splits)

section \<open>Which tables an operation touches\<close>

lemmas step_defs = created_step_def graduated_step_def insert_created_event_def upsert_token_def
  insert_trade_event_def insert_trade_def update_token_totals_def insert_graduated_event_def
  mark_graduated_def insert_chain_event_def put_checkpoint_def upsert_kline_def

lemma klines_fold_frame [simp]:
  "chain_events (fold (\<lambda>i. upsert_kline a i (g i) p v) ivs db) = chain_events db"
  "token_created_events (fold (\<lambda>i. upsert_kline a i (g i) p v) ivs db) = token_created_events db"
  "token_bought_events (fold (\<lambda>i. upsert_kline a i (g i) p v) ivs db) = token_bought_events db"
  "token_sold_events (fold (\<lambda>i. upsert_kline a i (g i) p v) ivs db) = token_sold_events db"
  "token_graduated_events (fold (\<lambda>i. upsert_kline a i (g i) p v) ivs db) = token_graduated_events db"
  "trades (fold (\<lambda>i. upsert_kline a i (g i) p v) ivs db) = trades db"
  "tokens (fold (\<lambda>i. upsert_kline a i (g i) p v) ivs db) = tokens db"
  "checkpoints (fold (\<lambda>i. upsert_kline a i (g i) p v) ivs db) = checkpoints db"
  by (induction "ivs" arbitrary: db) (simp_all add: upsert_kline_def)

lemma trade_step_tables [simp]:
  "chain_events (trade_step e db) = chain_events db"
  "token_created_events (trade_step e db) = token_created_events db"
  "token_bought_events (trade_step e db) = token_bought_events (insert_trade_event e db)"
  "token_sold_events (trade_step e db) = token_sold_events (insert_trade_event e db)"
  "token_graduated_events (trade_step e db) = token_graduated_events db"
  "trades (trade_step e db) = insert_new trade_key (trade_of e) (trades db)"
  "tokens (trade_step e db) = tokens (update_token_totals e db)"
  "checkpoints (trade_step e db) = checkpoints db"
  by (simp_all add: trade_step_def klines_step_def Let_def insert_trade_def insert_trade_event_def
      update_token_totals_def split: prod.splits)

lemma created_step_tables [simp]:
  "chain_events (created_step e db) = chain_events db"
  "token_created_events (created_step e db) = token_created_events (insert_created_event e db)"
  "token_bought_events (created_step e db) = token_bought_events db"
  "token_sold_events (created_step e db) = token_sold_events db"
  "token_graduated_events (created_step e db) = token_graduated_events db"
  "trades (created_step e db) = trades db"
  "klines (created_step e db) = klines db"
  "tokens (created_step e db) = tokens (upsert_token e db)"
  "checkpoints (created_step e db) = checkpoints db"
  by (simp_all add: step_defs)

lemma graduated_step_tables [simp]:
  "chain_events (graduated_step e db) = chain_events db"
  "token_created_events (graduated_step e db) = token_created_events db"
  "token_bought_events (graduated_step e db) = token_bought_events db"
  "token_sold_events (graduated_step e db) = token_sold_events db"
  "token_graduated_events (graduated_step e db) = token_graduated_events (insert_graduated_event e db)"
  "trades (graduated_step e db) = trades db"
  "klines (graduated_step e db) = klines db"
  "tokens (graduated_step e db) = tokens (mark_graduated e db)"
  "checkpoints (graduated_step e db) = checkpoints db"
  by (simp_all add: step_defs)

lemma insert_chain_event_tables [simp]:
  "token_created_events (insert_chain_event hex c k l db) = token_created_events db"
  "token_bought_events (insert_chain_event hex c k l db) = token_bought_events db"
  "token_sold_events (insert_chain_event hex c k l db) = token_sold_events db"
  "token_graduated_events (insert_chain_event hex c k l db) = token_graduated_events db"
  "trades (insert_chain_event hex c k l db) = trades db"
  "tokens (insert_chain_event hex c k l db) = tokens db"
  "klines (insert_chain_event hex c k l db) = klines db"
  "checkpoints (insert_chain_event hex c k l db) = checkpoints db"
  by (simp_all add: insert_chain_event_def)

lemma put_checkpoint_tables [simp]:
  "chain_events (put_checkpoint c k n db) = chain_events db"
  "token_created_events (put_checkpoint c k n db) = token_created_events db"
  "token_bought_events (put_checkpoint c k n db) = token_bought_events db"
  "token_sold_events (put_checkpoint c k n db) = token_sold_events db"
  "token_graduated_events (put_checkpoint c k n db) = token_graduated_events db"
  "trades (put_checkpoint c k n db) = trades db"
  "tokens (put_checkpoint c k n db) = tokens db"
  "klines (put_checkpoint c k n db) = klines db"
  by (simp_all add: put_checkpoint_def)

text \<open>An invariant of the database kept by each step is kept by a whole save, whatever fails.\<close>

lemma fold_invariant: "(\<And>x s. P s \<Longrightarrow> P (f x s)) \<Longrightarrow> P s \<Longrightarrow> P (fold f xs s)"
  by (induction xs arbitrary: s) simp_all

lemma projection_step_invariant:
  assumes "\<And>e db. P db \<Longrightarrow> P (created_step e db)" and "\<And>e db. P db \<Longrightarrow> P (trade_step e db)"
    and "\<And>e db. P db \<Longrightarrow> P (graduated_step e db)" and "P db"
  shows "P (projection_step p db)"
  using assms by (cases "kind_of p") (simp_all add: projection_step_def)

lemma save_range_invariant:
  assumes "\<And>e db. P db \<Longrightarrow> P (created_step e db)" and "\<And>e db. P db \<Longrightarrow> P (trade_step e db)"
    and "\<And>e db. P db \<Longrightarrow> P (graduated_step e db)"
    and "\<And>l db. P db \<Longrightarrow> P (insert_chain_event hex c k l db)"
    and "\<And>db. P db \<Longrightarrow> P (put_checkpoint c k n db)" and "P db"
  shows "P (save_range hex c k n logs ps db)"
  unfolding save_range_def
  by (intro assms(5) fold_invariant [of P projection_step]
      fold_invariant [of P "insert_chain_event hex c k"] projection_step_invariant [of P] assms(1-4,6))

lemma SaveBlockRange_invariant:
  assumes "\<And>e db. P db \<Longrightarrow> P (created_step e db)" and "\<And>e db. P db \<Longrightarrow> P (trade_step e db)"
    and "\<And>e db. P db \<Longrightarrow> P (graduated_step e db)"
    and "\<And>l db. P db \<Longrightarrow> P (insert_chain_event hex c k l db)"
    and "\<And>db. P db \<Longrightarrow> P (put_checkpoint c k n db)" and "P db"
  shows "P (fst (snd (SaveBlockRange hex c k n logs ps (db, fs))))"
proof -
  have "P (save_range hex c k n logs ps db)" by (rule save_range_invariant [of P]) (fact assms)+
  with SaveBlockRange_choice [of hex c k n logs ps db fs] assms(6) show ?thesis by auto
qed

section \<open>Candles are the aggregation of the trades\<close>

definition in_bucket :: "string \<Rightarrow> string \<Rightarrow> int \<Rightarrow> trade_row \<Rightarrow> bool" where
  "in_bucket a i t r = (tr_token_address r = a \<and> alignTime (tr_block_timestamp r) i = t)"

text \<open>The candle of a list of trades, in the order they were recorded.\<close>

fun candle_of :: "string \<Rightarrow> string \<Rightarrow> int \<Rightarrow> trade_row list \<Rightarrow> kline_row option" where
  "candle_of a i t [] = None"
| "candle_of a i t (r # rs) = Some
     \<lparr>kl_token_address = a, kl_interval = i, kl_open_time = t,
      kl_open_price = tr_price r,
      kl_high_price = Max (tr_price ` set (r # rs)),
      kl_low_price = Min (tr_price ` set (r # rs)),
      kl_close_price = tr_price (last (r # rs)),
      kl_volume = sum_list (map tr_token_amount (r # rs))\<rparr>"

definition expected_kline :: "string \<Rightarrow> string \<Rightarrow> int \<Rightarrow> chain_db \<Rightarrow> kline_row option" where
  "expected_kline a i t db =
     (if i \<in> set kline_intervals then candle_of a i t (filter (in_bucket a i t) (trades db)) else None)"

definition klines_consistent :: "chain_db \<Rightarrow> bool" where
  "klines_consistent db = (\<forall>a i t. get_row kline_key (a, i, t) (klines db) = expected_kline a i t db)"

definition trade_kline :: "string \<Rightarrow> int \<Rightarrow> trade_row \<Rightarrow> kline_row" where
  "trade_kline i t r = \<lparr>kl_token_address = tr_token_address r, kl_interval = i, kl_open_time = t,
     kl_open_price = tr_price r, kl_high_price = tr_price r, kl_low_price = tr_price r,
     kl_close_price = tr_price r, kl_volume = tr_token_amount r\<rparr>"

lemma candle_of_snoc:
  assumes "tr_token_address r = a"
  shows "candle_of a i t (rs @ [r]) =
    Some (case candle_of a i t rs of None \<Rightarrow> trade_kline i t r | Some k \<Rightarrow> kline_conflict k (trade_kline i t r))"
proof (cases rs)
  case Nil
  with assms show ?thesis by (simp add: trade_kline_def)
next
  case (Cons x xs)
  have "Max (insert (tr_price r) (tr_price ` set (x # xs))) = max (Max (tr_price ` set (x # xs))) (tr_price r)"
    and "Min (insert (tr_price r) (tr_price ` set (x # xs))) = min (Min (tr_price ` set (x # xs))) (tr_price r)"
    by (simp_all add: max.commute min.commute)
  with Cons show ?thesis
    by (simp add: kline_conflict_def trade_kline_def insert_commute)
qed

lemma kline_key_conflict [simp]: "kline_key (kline_conflict x r) = kline_key x"
  by (simp add: kline_key_def kline_conflict_def)

lemma get_kline_upsert:
  "get_row kline_key k (upsert kline_key kline_conflict r rows) =
    (if k = kline_key r then (case get_row kline_key k rows of None \<Rightarrow> Some r | Some x \<Rightarrow> Some (kline_conflict x r))
     else get_row kline_key k rows)"
  by (rule get_row_upsert) simp

lemma get_kline_fold:
  assumes "distinct ivs"
  shows "get_row kline_key (a, j, t) (klines (fold (\<lambda>i. upsert_kline a' i (g i) p v) ivs db)) =
    (if j \<in> set ivs \<and> a = to_lower a' \<and> t = g j
     then Some (case get_row kline_key (a, j, t) (klines db) of
            None \<Rightarrow> new_kline a' j (g j) p v | Some x \<Rightarrow> kline_conflict x (new_kline a' j (g j) p v))
     else get_row kline_key (a, j, t) (klines db))"
  using assms
proof (induction "ivs" arbitrary: db)
  case Nil
  then show ?case by simp
next
  case (Cons i ivs)
  then have IH: "get_row kline_key (a, j, t) (klines (fold (\<lambda>i. upsert_kline a' i (g i) p v) ivs s)) =
      (if j \<in> set ivs \<and> a = to_lower a' \<and> t = g j
       then Some (case get_row kline_key (a, j, t) (klines s) of
              None \<Rightarrow> new_kline a' j (g j) p v | Some x \<Rightarrow> kline_conflict x (new_kline a' j (g j) p v))
       else get_row kline_key (a, j, t) (klines s))" for s by simp
  have "get_row kline_key (a, j, t) (klines (upsert_kline a' i (g i) p v db)) =
      (if j = i \<and> a = to_lower a' \<and> t = g i
       then Some (case get_row kline_key (a, j, t) (klines db) of
              None \<Rightarrow> new_kline a' i (g i) p v | Some x \<Rightarrow> kline_conflict x (new_kline a' i (g i) p v))
       else get_row kline_key (a, j, t) (klines db))"
    by (auto simp: upsert_kline_def get_kline_upsert new_kline_def kline_key_def split: option.split)
  with Cons.prems show ?case by (auto simp: IH)
qed

lemma distinct_kline_intervals: "distinct kline_intervals"
  by (simp add: kline_intervals_def)

lemma klines_trade_step:
  "klines (trade_step e db) =
    (if has_key trade_key (trade_key (trade_of e)) (trades db) then klines db
     else klines (klines_step e db))"
proof -
  have "klines (fold (\<lambda>i. upsert_kline a i (g i) p v) ivs s) = klines (fold (\<lambda>i. upsert_kline a i (g i) p v) ivs s')"
    if "klines s = klines s'" for a g p v ivs s s'
    using that by (induction ivs arbitrary: s s') (simp_all add: upsert_kline_def)
  then
  have "klines (klines_step e s) = klines (klines_step e db)" if "klines s = klines db" for s
    unfolding klines_step_def using that by blast
  from this [of "update_token_totals e (fst (insert_trade e (insert_trade_event e db)))"]
  show ?thesis
    by (simp add: trade_step_def Let_def insert_trade_def insert_trade_event_def
        update_token_totals_def)
qed

lemma klines_consistent_trade:
  assumes "klines_consistent db"
  shows "klines_consistent (trade_step e db)"
proof (cases "has_key trade_key (trade_key (trade_of e)) (trades db)")
  case True
  with assms show ?thesis
    by (simp add: klines_consistent_def expected_kline_def klines_trade_step)
next
  case False
  then have new: "trades (trade_step e db) = trades db @ [trade_of e]"
    and kl: "klines (trade_step e db) = klines (klines_step e db)"
    by (simp_all add: insert_new_fresh klines_trade_step)
  have old: "get_row kline_key (a, i, t) (klines db) = expected_kline a i t db" for a i t
    using assms by (simp add: klines_consistent_def)
  have same: "new_kline (tt_TokenAddress e) i t (priceString (tt_BNBAmount e) (tt_TokenAmount e))
      (intString (tt_TokenAmount e)) = trade_kline i t (trade_of e)" for i t
    by (simp add: new_kline_def trade_kline_def trade_of_def)
  have "get_row kline_key (a, i, t) (klines (trade_step e db)) = expected_kline a i t (trade_step e db)"
    for a i t
  proof (cases "i \<in> set kline_intervals \<and> in_bucket a i t (trade_of e)")
    case True
    then have b: "a = to_lower (tt_TokenAddress e)" "t = alignTime (tt_BlockTimestamp e) i"
      "tr_token_address (trade_of e) = a"
      by (auto simp: in_bucket_def trade_of_def)
    have "get_row kline_key (a, i, t) (klines (trade_step e db)) =
        Some (case get_row kline_key (a, i, t) (klines db) of None \<Rightarrow> trade_kline i t (trade_of e)
          | Some x \<Rightarrow> kline_conflict x (trade_kline i t (trade_of e)))"
      unfolding kl klines_step_def get_kline_fold [OF distinct_kline_intervals] same
      using True b by (simp split: option.split)
    then show ?thesis
      using True b(3) by (simp add: expected_kline_def new old candle_of_snoc del: trade_step_tables)
  next
    case False
    then have "get_row kline_key (a, i, t) (klines (trade_step e db)) = get_row kline_key (a, i, t) (klines db)"
      unfolding kl klines_step_def get_kline_fold [OF distinct_kline_intervals]
      by (auto simp: in_bucket_def trade_of_def)
    with False show ?thesis by (auto simp: expected_kline_def new old simp del: trade_step_tables)
  qed
  then show ?thesis by (simp add: klines_consistent_def)
qed

lemma klines_consistent_frame:
  "trades db' = trades db \<Longrightarrow> klines db' = klines db \<Longrightarrow> klines_consistent db \<Longrightarrow> klines_consistent db'"
  by (simp add: klines_consistent_def expected_kline_def)

lemma klines_consistent_save:
  "klines_consistent db \<Longrightarrow> klines_consistent (fst (snd (SaveBlockRange hex c k n logs ps (db, fs))))"
  by (rule SaveBlockRange_invariant [of klines_consistent])
    (auto intro: klines_consistent_trade klines_consistent_frame)

text \<open>A history of saves: each with its own arguments and its own schedule of failures.\<close>

record save_call =
  sv_chainID :: int
  sv_contract :: string
  sv_lastBlock :: u64
  sv_logs :: "chain_log list"
  sv_projections :: "chain_projection list"
  sv_faults :: "bool list"

definition run_save :: "(bytes \<Rightarrow> string) \<Rightarrow> save_call \<Rightarrow> chain_db \<Rightarrow> chain_db" where
  "run_save hex c db = fst (snd (SaveBlockRange hex (sv_chainID c) (sv_contract c) (sv_lastBlock c)
     (sv_logs c) (sv_projections c) (db, sv_faults c)))"

definition run_saves :: "(bytes \<Rightarrow> string) \<Rightarrow> save_call list \<Rightarrow> chain_db" where
  "run_saves hex calls = fold (run_save hex) calls empty_chain_db"

lemma run_saves_invariant:
  assumes "P empty_chain_db" and "\<And>c db. P db \<Longrightarrow> P (run_save hex c db)"
  shows "P (run_saves hex calls)"
  unfolding run_saves_def using assms by (intro fold_invariant [of P]) simp_all

text \<open>C3: Candles are exactly the aggregation of the recorded trades.  After any history of
  saves, whatever statements failed in it and however often ranges were replayed, the row of
  a token, interval and opening time has the first price as open, the extremes as high and
  low, the last price as close and the total of the token amounts as volume of the trades of
  that bucket, in the order they were recorded; there is no row where there is no trade, and
  none for another interval.\<close>

theorem klines_aggregate_trades:
  "get_row kline_key (a, i, t) (klines (run_saves hex calls)) = expected_kline a i t (run_saves hex calls)"
proof -
  have "klines_consistent empty_chain_db"
    by (simp add: klines_consistent_def expected_kline_def empty_chain_db_def)
  then have "klines_consistent (run_saves hex calls)"
    by (rule run_saves_invariant) (simp add: run_save_def klines_consistent_save)
  then show ?thesis by (simp add: klines_consistent_def)
qed

section \<open>Atomicity\<close>

text \<open>C2: Saving a block range is atomic under every schedule of failures.  If the save
  returns an error then the database is the one before the save, some statement (or Begin,
  or Commit) did fail, and the error returned is that failure with its context; otherwise
  the whole range, its projections and the checkpoint are there.\<close>

theorem SaveBlockRange_atomic:
  "case SaveBlockRange hex chainID contract lastBlock logs ps (db, fs) of
     (Inl e, (db', fs')) \<Rightarrow> db' = db \<and> True \<in> set fs \<and> errors_is e DbFault
   | (Inr a, (db', fs')) \<Rightarrow> db' = save_range hex chainID contract lastBlock logs ps db"
  using SaveBlockRange_outcome [where hex = hex and chainID = chainID and contract = contract
      and lastBlock = lastBlock and logs = logs and ps = ps and db = db and fs = fs]
  by (auto split: prod.splits sum.splits)

section \<open>Replaying a range\<close>

datatype save_action = ALog chain_log | AProj chain_projection | AMark

fun action_step :: "(bytes \<Rightarrow> string) \<Rightarrow> int \<Rightarrow> string \<Rightarrow> u64 \<Rightarrow> save_action \<Rightarrow> chain_db \<Rightarrow> chain_db" where
  "action_step hex c k n (ALog l) = insert_chain_event hex c k l"
| "action_step hex c k n (AProj p) = projection_step p"
| "action_step hex c k n AMark = put_checkpoint c k n"

definition save_actions :: "chain_log list \<Rightarrow> chain_projection list \<Rightarrow> save_action list" where
  "save_actions logs ps = map ALog logs @ map AProj ps @ [AMark]"

lemma save_range_actions: "save_range hex c k n logs ps = fold (action_step hex c k n) (save_actions logs ps)"
  by (rule ext) (simp add: save_range_def save_actions_def fold_map comp_def)

text \<open>A step is recorded when its row, under its key, is in its table.\<close>

fun recorded_kind :: "projection_kind \<Rightarrow> chain_db \<Rightarrow> bool" where
  "recorded_kind (PCreated e) db =
     has_key created_event_key (created_event_key (created_event_of e)) (token_created_events db)"
| "recorded_kind (PTrade e) db =
     (has_key trade_key (trade_key (trade_of e)) (trades db) \<and>
      has_key trade_event_key (trade_event_key (trade_event_of e))
        (if tt_TradeType e = TradeTypeSell then token_sold_events db else token_bought_events db))"
| "recorded_kind (PGraduated e) db =
     has_key graduated_event_key (graduated_event_key (graduated_event_of e)) (token_graduated_events db)"
| "recorded_kind PNone db = True"

fun recorded :: "(bytes \<Rightarrow> string) \<Rightarrow> int \<Rightarrow> string \<Rightarrow> u64 \<Rightarrow> save_action \<Rightarrow> chain_db \<Rightarrow> bool" where
  "recorded hex c k n (ALog l) db = has_key chain_event_key (chain_event_key (chain_event_of hex c k l)) (chain_events db)"
| "recorded hex c k n (AProj p) db = recorded_kind (kind_of p) db"
| "recorded hex c k n AMark db =
     (map_option cp_last_synced_block (get_row checkpoint_key (c, to_lower k) (checkpoints db)) = Some n)"

text \<open>Everything but the mutable \<open>tokens\<close> table.\<close>

definition ledger :: "chain_db \<Rightarrow> chain_db" where
  "ledger db = db\<lparr>tokens := []\<rparr>"

lemma ledger_eq_iff:
  "ledger db = ledger db' \<longleftrightarrow> chain_events db = chain_events db' \<and> token_created_events db = token_created_events db'
     \<and> token_bought_events db = token_bought_events db' \<and> token_sold_events db = token_sold_events db'
     \<and> token_graduated_events db = token_graduated_events db' \<and> trades db = trades db'
     \<and> klines db = klines db' \<and> checkpoints db = checkpoints db'"
  by (cases db; cases db') (auto simp: ledger_def)

lemma recorded_kind_step: "recorded_kind x (kind_step x db)"
  by (cases x) (simp_all add: insert_created_event_def insert_trade_event_def insert_graduated_event_def)

lemma recorded_kind_mono: "recorded_kind x db \<Longrightarrow> recorded_kind x (kind_step y db)"
  by (cases x; cases y)
    (auto simp: insert_created_event_def insert_trade_event_def insert_graduated_event_def split: if_splits)

lemma ledger_kind_step:
  assumes "recorded_kind x db"
  shows "ledger (kind_step x db) = ledger db"
  using assms
  by (cases x) (auto simp: ledger_eq_iff insert_created_event_def insert_trade_event_def
      insert_graduated_event_def klines_trade_step split: if_splits)

lemma checkpoint_key_upsert:
  "get_row checkpoint_key k (checkpoints (put_checkpoint c a n db)) =
    (if k = (c, to_lower a)
     then Some (case get_row checkpoint_key k (checkpoints db) of
            None \<Rightarrow> \<lparr>cp_chain_id = c, cp_contract_address = to_lower a, cp_last_synced_block = n\<rparr>
          | Some r \<Rightarrow> r\<lparr>cp_last_synced_block := n\<rparr>)
     else get_row checkpoint_key k (checkpoints db))"
proof -
  let ?upd = "\<lambda>old new. old\<lparr>cp_last_synced_block := cp_last_synced_block new\<rparr>"
  let ?r = "\<lparr>cp_chain_id = c, cp_contract_address = to_lower a, cp_last_synced_block = n\<rparr>"
  have "get_row checkpoint_key k (upsert checkpoint_key ?upd ?r (checkpoints db)) =
      (if k = checkpoint_key ?r then (case get_row checkpoint_key k (checkpoints db) of
          None \<Rightarrow> Some ?r | Some x \<Rightarrow> Some (?upd x ?r)) else get_row checkpoint_key k (checkpoints db))"
    by (rule get_row_upsert) (simp add: checkpoint_key_def)
  then show ?thesis
    by (simp add: put_checkpoint_def) (simp add: checkpoint_key_def split: option.split)
qed

lemma upsert_same:
  assumes "get_row key (key r) rows = Some x" and "upd x r = x"
  shows "upsert key upd r rows = rows"
  using assms by (induction rows) (auto split: if_splits)

lemma checkpoint_upsert_same:
  assumes "map_option cp_last_synced_block (get_row checkpoint_key (c, to_lower a) (checkpoints db)) = Some n"
  shows "put_checkpoint c a n db = db"
proof -
  from assms obtain r where r: "get_row checkpoint_key (c, to_lower a) (checkpoints db) = Some r"
    "cp_last_synced_block r = n" by auto
  let ?new = "\<lparr>cp_chain_id = c, cp_contract_address = to_lower a, cp_last_synced_block = n\<rparr>"
  have "upsert checkpoint_key (\<lambda>old new. old\<lparr>cp_last_synced_block := cp_last_synced_block new\<rparr>) ?new (checkpoints db)
      = checkpoints db"
    using r by (intro upsert_same [where x = r]) (auto simp: checkpoint_key_def)
  then show ?thesis by (simp add: put_checkpoint_def)
qed

lemma checkpoints_kind_step [simp]: "checkpoints (kind_step x db) = checkpoints db"
  by (cases x) simp_all

lemma chain_events_kind_step [simp]: "chain_events (kind_step x db) = chain_events db"
  by (cases x) simp_all

lemma recorded_kind_insert [simp]: "recorded_kind x (insert_chain_event hex c k l db) = recorded_kind x db"
  by (cases x) simp_all

lemma recorded_kind_checkpoint [simp]: "recorded_kind x (put_checkpoint c k n db) = recorded_kind x db"
  by (cases x) simp_all

lemma chain_events_insert [simp]:
  "chain_events (insert_chain_event hex c k l db) =
     insert_new chain_event_key (chain_event_of hex c k l) (chain_events db)"
  by (simp add: insert_chain_event_def)

lemma recorded_step: "recorded hex c k n x (action_step hex c k n x db)"
  by (cases x) (simp_all add: projection_step_def recorded_kind_step checkpoint_key_upsert split: option.split)

lemma recorded_mono: "recorded hex c k n x db \<Longrightarrow> recorded hex c k n x (action_step hex c k n y db)"
  by (cases x; cases y)
    (simp_all add: projection_step_def recorded_kind_mono checkpoint_key_upsert split: option.split)

lemma ledger_step: "recorded hex c k n x db \<Longrightarrow> ledger (action_step hex c k n x db) = ledger db"
  by (cases x) (simp_all add: projection_step_def ledger_kind_step ledger_eq_iff checkpoint_upsert_same)

lemma recorded_fold_mono: "recorded hex c k n x db \<Longrightarrow> recorded hex c k n x (fold (action_step hex c k n) xs db)"
  by (rule fold_invariant [of "recorded hex c k n x"]) (rule recorded_mono)

lemma recorded_fold: "x \<in> set xs \<Longrightarrow> recorded hex c k n x (fold (action_step hex c k n) xs db)"
  by (induction xs arbitrary: db) (auto simp: recorded_step recorded_fold_mono)

lemma ledger_fold:
  assumes "\<And>x. x \<in> set xs \<Longrightarrow> recorded hex c k n x db"
  shows "ledger (fold (action_step hex c k n) xs db) = ledger db"
  using assms by (induction xs arbitrary: db) (simp_all add: ledger_step recorded_mono)

lemma ledger_replay:
  "ledger (save_range hex c k n logs ps (save_range hex c k n logs ps db)) = ledger (save_range hex c k n logs ps db)"
  unfolding save_range_actions by (rule ledger_fold) (rule recorded_fold)

text \<open>C11: Replaying a saved range adds nothing.  Once a range has been saved, saving it again
  (whatever fails in the second attempt) leaves the raw ledger, the four event tables, the
  trades, the candles (no volume is counted twice) and the checkpoints as they are.\<close>

theorem replay_idempotent:
  "ledger (fst (snd (SaveBlockRange hex c k n logs ps (save_range hex c k n logs ps db, fs))))
     = ledger (save_range hex c k n logs ps db)"
  using SaveBlockRange_choice [of hex c k n logs ps "save_range hex c k n logs ps db" fs]
    ledger_replay [of hex c k n logs ps db] by auto

section \<open>Keys\<close>

text \<open>All unique constraints hold, and the addresses used as keys are in lower case.\<close>

definition keys_ok :: "chain_db \<Rightarrow> bool" where
  "keys_ok db =
     (unique_key chain_event_key (chain_events db) \<and>
      unique_key created_event_key (token_created_events db) \<and>
      unique_key trade_event_key (token_bought_events db) \<and>
      unique_key trade_event_key (token_sold_events db) \<and>
      unique_key graduated_event_key (token_graduated_events db) \<and>
      unique_key trade_key (trades db) \<and> unique_key kline_key (klines db) \<and>
      unique_key tk_token_contract_address (tokens db) \<and>
      unique_key checkpoint_key (checkpoints db) \<and>
      list_all (\<lambda>r. to_lower (tk_token_contract_address r) = tk_token_contract_address r) (tokens db) \<and>
      list_all (\<lambda>r. to_lower (cp_contract_address r) = cp_contract_address r) (checkpoints db))"

lemma token_conflict_key [simp]: "tk_token_contract_address (token_conflict x r) = tk_token_contract_address x"
  by (simp add: token_conflict_def)

lemma new_token_key [simp]: "tk_token_contract_address (new_token_row e) = to_lower (tc_TokenAddress e)"
  by (simp add: new_token_row_def Let_def)

lemma lower_upsert_token:
  assumes "list_all (\<lambda>r. to_lower (tk_token_contract_address r) = tk_token_contract_address r) rows"
  shows "list_all (\<lambda>r. to_lower (tk_token_contract_address r) = tk_token_contract_address r)
    (upsert tk_token_contract_address token_conflict (new_token_row e) rows)"
  using assms by (induction rows) simp_all

lemma lower_update_where:
  assumes "\<And>x. key (f x) = key x" and "list_all (\<lambda>r. to_lower (key r) = key r) rows"
  shows "list_all (\<lambda>r. to_lower (key r) = key r) (update_where p f rows)"
  using assms by (auto simp: update_where_def list_all_iff)

lemma keys_ok_created: "keys_ok db \<Longrightarrow> keys_ok (created_step e db)"
  unfolding keys_ok_def
  by (simp add: insert_created_event_def upsert_token_def unique_key_insert_new unique_key_upsert lower_upsert_token)

lemma keys_ok_graduated: "keys_ok db \<Longrightarrow> keys_ok (graduated_step e db)"
  unfolding keys_ok_def
  by (simp add: insert_graduated_event_def mark_graduated_def unique_key_insert_new unique_key_update_where
      lower_update_where)

lemma unique_klines_fold:
  "unique_key kline_key (klines db) \<Longrightarrow>
   unique_key kline_key (klines (fold (\<lambda>i. upsert_kline a i (g i) p v) ivs db))"
  by (induction ivs arbitrary: db) (simp_all add: upsert_kline_def unique_key_upsert)

lemma keys_ok_trade:
  assumes "keys_ok db"
  shows "keys_ok (trade_step e db)"
proof -
  have "unique_key kline_key (klines (trade_step e db))"
    using assms by (auto simp: klines_trade_step klines_step_def keys_ok_def unique_klines_fold)
  with assms show ?thesis
    unfolding keys_ok_def
    by (simp add: insert_trade_event_def update_token_totals_def unique_key_insert_new unique_key_update_where
        lower_update_where)
qed

lemma keys_ok_insert: "keys_ok db \<Longrightarrow> keys_ok (insert_chain_event hex c k l db)"
  unfolding keys_ok_def by (simp add: unique_key_insert_new)

lemma keys_ok_checkpoint:
  assumes "keys_ok db"
  shows "keys_ok (put_checkpoint c k n db)"
proof -
  let ?upd = "\<lambda>old new. old\<lparr>cp_last_synced_block := cp_last_synced_block new\<rparr>"
  let ?r = "\<lparr>cp_chain_id = c, cp_contract_address = to_lower k, cp_last_synced_block = n\<rparr>"
  have "unique_key checkpoint_key (upsert checkpoint_key ?upd ?r (checkpoints db))"
    by (rule unique_key_upsert) (use assms in \<open>simp_all add: checkpoint_key_def keys_ok_def\<close>)
  moreover have "list_all (\<lambda>r. to_lower (cp_contract_address r) = cp_contract_address r) rows \<Longrightarrow>
      list_all (\<lambda>r. to_lower (cp_contract_address r) = cp_contract_address r) (upsert checkpoint_key ?upd ?r rows)" for rows
    by (induction rows) simp_all
  ultimately show ?thesis using assms unfolding keys_ok_def by (simp add: put_checkpoint_def)
qed

lemma keys_ok_save_range: "keys_ok db \<Longrightarrow> keys_ok (save_range hex c k n logs ps db)"
  by (rule save_range_invariant [of keys_ok])
    (simp_all add: keys_ok_created keys_ok_trade keys_ok_graduated keys_ok_insert keys_ok_checkpoint)

lemma keys_ok_save: "keys_ok db \<Longrightarrow> keys_ok (fst (snd (SaveBlockRange hex c k n logs ps (db, fs))))"
  by (rule SaveBlockRange_invariant [of keys_ok])
    (simp_all add: keys_ok_created keys_ok_trade keys_ok_graduated keys_ok_insert keys_ok_checkpoint)

lemma keys_ok_empty: "keys_ok empty_chain_db"
  by (simp add: keys_ok_def empty_chain_db_def unique_key_def)

lemma keys_ok_run: "keys_ok (run_saves hex calls)"
  by (rule run_saves_invariant) (simp_all add: keys_ok_empty run_save_def keys_ok_save)

section \<open>The tokens table\<close>

fun token_effect :: "projection_kind \<Rightarrow> string \<Rightarrow> token_row \<Rightarrow> token_row" where
  "token_effect (PCreated e) a = (\<lambda>r. if a = to_lower (tc_TokenAddress e) then token_conflict r (new_token_row e) else r)"
| "token_effect (PTrade e) a = (\<lambda>r. if a = to_lower (tt_TokenAddress e)
     then r\<lparr>tk_bnb_current := numeric0 (intString (tt_CollectedBNB e)),
            tk_available_tokens := numeric0 (intString (tt_AvailableTokens e)),
            tk_updated_at := tt_BlockTimestamp e\<rparr> else r)"
| "token_effect (PGraduated e) a = (\<lambda>r. if a = to_lower (tg_TokenAddress e)
     then r\<lparr>tk_status := TokenStatusGraduated, tk_updated_at := tg_BlockTimestamp e\<rparr> else r)"
| "token_effect PNone a = id"

fun created_known :: "projection_kind \<Rightarrow> chain_db \<Rightarrow> bool" where
  "created_known (PCreated e) db = has_key tk_token_contract_address (to_lower (tc_TokenAddress e)) (tokens db)"
| "created_known _ db = True"

lemma token_effect_key [simp]: "tk_token_contract_address (token_effect x a r) = tk_token_contract_address r"
  by (cases x) simp_all

lemma upsert_unique_map:
  assumes "unique_key key rows" and "has_key key (key r) rows"
  shows "upsert key upd r rows = map (\<lambda>x. if key x = key r then upd x r else x) rows"
  using assms
proof (induction rows)
  case (Cons x xs)
  then show ?case
  proof (cases "key x = key r")
    case True
    have "key x \<notin> key ` set xs" using Cons.prems by (simp add: unique_key_def)
    with True have "\<forall>y \<in> set xs. key y \<noteq> key r" by (metis image_eqI)
    with True show ?thesis by (simp cong: map_cong)
  next
    case False
    with Cons show ?thesis by (simp add: unique_key_def)
  qed
qed simp

lemma tokens_kind_step:
  assumes "keys_ok db" and "created_known x db"
  shows "tokens (kind_step x db) = map (\<lambda>r. token_effect x (tk_token_contract_address r) r) (tokens db)"
proof -
  have low: "r \<in> set (tokens db) \<Longrightarrow> to_lower (tk_token_contract_address r) = tk_token_contract_address r" for r
    using assms(1) by (auto simp: keys_ok_def list_all_iff)
  show ?thesis
  proof (cases x)
    case (PCreated e)
    with assms have "upsert tk_token_contract_address token_conflict (new_token_row e) (tokens db) =
      map (\<lambda>r. if tk_token_contract_address r = tk_token_contract_address (new_token_row e)
        then token_conflict r (new_token_row e) else r) (tokens db)"
      by (intro upsert_unique_map) (simp_all add: keys_ok_def)
    with PCreated show ?thesis by (simp add: upsert_token_def insert_created_event_def)
  next
    case (PTrade e)
    with low show ?thesis by (simp add: update_token_totals_def update_where_def)
  next
    case (PGraduated e)
    with low show ?thesis by (simp add: mark_graduated_def insert_graduated_event_def update_where_def)
  qed simp
qed

text \<open>Every projection assigns constants to fields: the effect of a list of them is idempotent.\<close>

definition const_or_id :: "('r \<Rightarrow> 'f) \<Rightarrow> ('r \<Rightarrow> 'r) \<Rightarrow> bool" where
  "const_or_id fld F = ((\<exists>v. \<forall>r. fld (F r) = v) \<or> (\<forall>r. fld (F r) = fld r))"

lemma const_or_id_comp: "const_or_id fld F \<Longrightarrow> const_or_id fld G \<Longrightarrow> const_or_id fld (\<lambda>r. G (F r))"
  unfolding const_or_id_def by metis

lemma const_or_id_fold:
  assumes "\<And>x. const_or_id fld (g x)"
  shows "const_or_id fld (fold g xs)"
proof (induction xs)
  case Nil
  then show ?case by (simp add: const_or_id_def)
next
  case (Cons x xs)
  from const_or_id_comp [OF assms [of x] Cons] show ?case by (simp add: comp_def)
qed

lemma const_or_id_idem: "const_or_id fld F \<Longrightarrow> fld (F (F r)) = fld (F r)"
  unfolding const_or_id_def by metis

lemma token_effect_fields:
  "const_or_id tk_name (token_effect x a)" "const_or_id tk_symbol (token_effect x a)"
  "const_or_id tk_token_contract_address (token_effect x a)" "const_or_id tk_creator_address (token_effect x a)"
  "const_or_id tk_launch_mode (token_effect x a)" "const_or_id tk_bnb_current (token_effect x a)"
  "const_or_id tk_bnb_target (token_effect x a)" "const_or_id tk_total_supply (token_effect x a)"
  "const_or_id tk_available_tokens (token_effect x a)" "const_or_id tk_status (token_effect x a)"
  "const_or_id tk_created_at (token_effect x a)" "const_or_id tk_updated_at (token_effect x a)"
  by (cases x; simp add: const_or_id_def token_conflict_def)+

definition token_effects :: "projection_kind list \<Rightarrow> string \<Rightarrow> token_row \<Rightarrow> token_row" where
  "token_effects xs a = fold (\<lambda>x. token_effect x a) xs"

lemma token_effects_idem: "token_effects xs a (token_effects xs a r) = token_effects xs a r"
proof -
  have idem: "fld (token_effects xs a (token_effects xs a r)) = fld (token_effects xs a r)"
    if "\<And>x. const_or_id fld (token_effect x a)" for fld :: "token_row \<Rightarrow> 'f"
    unfolding token_effects_def by (rule const_or_id_idem [OF const_or_id_fold [of fld, OF that]])
  show ?thesis
    by (rule token_row.equality) (simp_all add: idem token_effect_fields)
qed

lemma token_effects_key [simp]: "tk_token_contract_address (token_effects xs a r) = tk_token_contract_address r"
  unfolding token_effects_def
  by (rule fold_invariant [of "\<lambda>q. tk_token_contract_address q = tk_token_contract_address r"]) simp_all

lemma keys_ok_kind_step: "keys_ok db \<Longrightarrow> keys_ok (kind_step x db)"
  by (cases x) (simp_all add: keys_ok_created keys_ok_trade keys_ok_graduated)

lemma has_token_mono:
  "has_key tk_token_contract_address a (tokens db) \<Longrightarrow> has_key tk_token_contract_address a (tokens (kind_step y db))"
  by (cases y) (simp_all add: upsert_token_def insert_created_event_def update_token_totals_def
      mark_graduated_def insert_graduated_event_def has_key_upsert has_key_update_where)

lemma created_known_mono: "created_known x db \<Longrightarrow> created_known x (kind_step y db)"
  by (cases x) (simp_all add: has_token_mono)

lemma created_known_step: "created_known x (kind_step x db)"
  by (cases x) (simp_all add: upsert_token_def insert_created_event_def has_key_upsert)

lemma created_known_fold: "x \<in> set xs \<Longrightarrow> created_known x (fold kind_step xs db)"
proof (induction xs arbitrary: db)
  case (Cons y ys)
  have "created_known y (fold kind_step ys (kind_step y db))"
    by (rule fold_invariant [of "created_known y"]) (simp_all add: created_known_mono created_known_step)
  with Cons show ?case by auto
qed simp

lemma tokens_fold:
  assumes "keys_ok db" and "\<And>x. x \<in> set xs \<Longrightarrow> created_known x db"
  shows "tokens (fold kind_step xs db) = map (\<lambda>r. token_effects xs (tk_token_contract_address r) r) (tokens db)"
  using assms
proof (induction xs arbitrary: db)
  case Nil
  then show ?case by (simp add: token_effects_def)
next
  case (Cons x xs)
  have "tokens (fold kind_step xs (kind_step x db)) =
      map (\<lambda>r. token_effects xs (tk_token_contract_address r) r) (tokens (kind_step x db))"
    using Cons.prems by (intro Cons.IH) (simp_all add: keys_ok_kind_step created_known_mono)
  with Cons.prems show ?case by (simp add: tokens_kind_step token_effects_def)
qed

lemma tokens_cong_step: "tokens s = tokens s' \<Longrightarrow> tokens (kind_step x s) = tokens (kind_step x s')"
  by (cases x) (simp_all add: upsert_token_def insert_created_event_def update_token_totals_def
      mark_graduated_def insert_graduated_event_def)

lemma tokens_cong_fold: "tokens s = tokens s' \<Longrightarrow> tokens (fold kind_step xs s) = tokens (fold kind_step xs s')"
proof (induction xs arbitrary: s s')
  case (Cons x xs)
  from Cons.IH [OF tokens_cong_step [OF Cons.prems]] show ?case by simp
qed simp

lemma tokens_fold_insert [simp]: "tokens (fold (insert_chain_event hex c k) logs db) = tokens db"
  by (induction logs arbitrary: db) simp_all

lemma fold_projection_step: "fold projection_step ps = fold kind_step (map kind_of ps)"
proof -
  have "projection_step = (\<lambda>p. kind_step (kind_of p))" by (rule ext) (simp add: projection_step_def)
  then show ?thesis by (simp add: fold_map comp_def)
qed

lemma tokens_save_range: "tokens (save_range hex c k n logs ps db) = tokens (fold kind_step (map kind_of ps) db)"
  unfolding save_range_def fold_projection_step by simp (rule tokens_cong_fold, simp)

lemma tokens_replay:
  fixes hex c k n logs ps db
  defines "s \<equiv> save_range hex c k n logs ps"
  assumes "keys_ok db"
  shows "tokens (s (s (s db))) = tokens (s (s db))"
proof -
  let ?xs = "map kind_of ps"
  have keys: "keys_ok (s db)" "keys_ok (s (s db))"
    using assms(2) by (simp_all add: s_def keys_ok_save_range)
  have known: "created_known x (s d)" if "x \<in> set ?xs" for x d
  proof -
    have "created_known x d = created_known x d'" if "tokens d = tokens d'" for d d'
      using that by (cases x) simp_all
    with created_known_fold [OF that] tokens_save_range show ?thesis unfolding s_def by blast
  qed
  have eff: "tokens (s d) = map (\<lambda>r. token_effects ?xs (tk_token_contract_address r) r) (tokens d)"
    if "keys_ok d" and "\<And>x. x \<in> set ?xs \<Longrightarrow> created_known x d" for d
    unfolding s_def tokens_save_range using that by (rule tokens_fold)
  have e1: "tokens (s (s (s db))) = map (\<lambda>r. token_effects ?xs (tk_token_contract_address r) r) (tokens (s (s db)))"
    by (rule eff [OF keys(2) known])
  have e2: "tokens (s (s db)) = map (\<lambda>r. token_effects ?xs (tk_token_contract_address r) r) (tokens (s db))"
    by (rule eff [OF keys(1) known])
  show ?thesis unfolding e1 e2 map_map by (rule map_cong [OF refl]) (simp add: token_effects_idem)
qed

lemma db_eqI: "ledger db = ledger db' \<Longrightarrow> tokens db = tokens db' \<Longrightarrow> db = db'"
  by (cases db; cases db') (auto simp: ledger_def)

text \<open>C10: Replays converge.  In every database the indexer can produce, the token projection
  included, the second saving of a range is a fixed point: any further saving of it changes
  nothing at all.\<close>

theorem replay_fixpoint:
  "let s = save_range hex c k n logs ps; db = run_saves hex' calls in s (s (s db)) = s (s db)"
  unfolding Let_def
  by (rule db_eqI) (intro ledger_replay tokens_replay keys_ok_run)+

section \<open>Graduation is final\<close>

definition graduated_tokens :: "chain_db \<Rightarrow> string set" where
  "graduated_tokens db = {a. \<exists>r \<in> set (tokens db). tk_token_contract_address r = a \<and> tk_status r = TokenStatusGraduated}"

lemma graduated_upsert:
  "r \<in> set rows \<Longrightarrow> tk_status r = TokenStatusGraduated \<Longrightarrow>
   \<exists>r' \<in> set (upsert tk_token_contract_address token_conflict n rows).
     tk_token_contract_address r' = tk_token_contract_address r \<and> tk_status r' = TokenStatusGraduated"
  by (induction rows) (auto simp: token_conflict_def)

lemma graduated_map:
  assumes "\<And>x. tk_token_contract_address (f x) = tk_token_contract_address x"
    and "\<And>x. tk_status x = TokenStatusGraduated \<Longrightarrow> tk_status (f x) = TokenStatusGraduated"
    and "r \<in> set rows" and "tk_status r = TokenStatusGraduated"
  shows "\<exists>r' \<in> set (update_where p f rows). tk_token_contract_address r' = tk_token_contract_address r
     \<and> tk_status r' = TokenStatusGraduated"
proof -
  let ?r = "if p r then f r else r"
  have "?r \<in> set (update_where p f rows)" using assms(3) by (auto simp: update_where_def)
  moreover have "tk_token_contract_address ?r = tk_token_contract_address r \<and> tk_status ?r = TokenStatusGraduated"
    using assms by simp
  ultimately show ?thesis by blast
qed

lemma graduated_kind_step: "graduated_tokens db \<subseteq> graduated_tokens (kind_step x db)"
proof
  fix a
  assume "a \<in> graduated_tokens db"
  then obtain r where r: "r \<in> set (tokens db)" "tk_status r = TokenStatusGraduated"
    and a: "a = tk_token_contract_address r" by (auto simp: graduated_tokens_def)
  have "\<exists>r' \<in> set (tokens (kind_step x db)).
    tk_token_contract_address r' = tk_token_contract_address r \<and> tk_status r' = TokenStatusGraduated"
  proof (cases x)
    case (PCreated e)
    with graduated_upsert [OF r] show ?thesis by (simp add: upsert_token_def insert_created_event_def)
  next
    case (PTrade e)
    then show ?thesis by (simp add: update_token_totals_def) (rule graduated_map [OF _ _ r]; simp)
  next
    case (PGraduated e)
    then show ?thesis
      by (simp add: mark_graduated_def insert_graduated_event_def) (rule graduated_map [OF _ _ r]; simp)
  next
    case PNone
    with r show ?thesis by auto
  qed
  then show "a \<in> graduated_tokens (kind_step x db)" unfolding a graduated_tokens_def by blast
qed

lemma graduated_fold: "graduated_tokens db \<subseteq> graduated_tokens (fold kind_step xs db)"
  by (induction xs arbitrary: db) (auto dest: subsetD [OF graduated_kind_step])

text \<open>C12: Graduation is final.  No save, whatever it holds and whatever fails in it, takes a
  graduated token out of that status; a replayed or repeated creation event does not put it
  back into trading.\<close>

theorem graduation_is_final:
  "graduated_tokens db \<subseteq> graduated_tokens (fst (snd (SaveBlockRange hex c k n logs ps (db, fs))))"
proof -
  have "graduated_tokens db \<subseteq> graduated_tokens (save_range hex c k n logs ps db)"
    using graduated_fold [of db "map kind_of ps"] by (simp add: graduated_tokens_def tokens_save_range)
  then show ?thesis using SaveBlockRange_choice [of hex c k n logs ps db fs] by auto
qed

section \<open>The checkpoint\<close>

lemma find_checkpoint_get:
  assumes "list_all (\<lambda>r. to_lower (cp_contract_address r) = cp_contract_address r) (checkpoints db)"
  shows "find_checkpoint c k db = map_option cp_last_synced_block (get_row checkpoint_key (c, to_lower k) (checkpoints db))"
proof -
  have "find (\<lambda>r. cp_chain_id r = c \<and> to_lower (cp_contract_address r) = to_lower k) rows
      = get_row checkpoint_key (c, to_lower k) rows"
    if "list_all (\<lambda>r. to_lower (cp_contract_address r) = cp_contract_address r) rows" for rows
    using that by (induction rows) (auto simp: checkpoint_key_def)
  with assms show ?thesis by (simp add: find_checkpoint_def)
qed

lemma checkpoints_save_range: "checkpoints (save_range hex c k n logs ps db) = checkpoints (put_checkpoint c k n db)"
proof -
  have "checkpoints (fold projection_step ps (fold (insert_chain_event hex c k) logs db)) = checkpoints db"
    by (rule fold_invariant [of "\<lambda>s. checkpoints s = checkpoints db"], simp add: projection_step_def,
        rule fold_invariant [of "\<lambda>s. checkpoints s = checkpoints db"]) simp_all
  then show ?thesis by (simp add: save_range_def put_checkpoint_def)
qed

lemma find_checkpoint_save_range:
  assumes "keys_ok db"
  shows "find_checkpoint c k (save_range hex c' k' n logs ps db) =
    (if c = c' \<and> to_lower k = to_lower k' then Some n else find_checkpoint c k db)"
proof -
  have l: "list_all (\<lambda>r. to_lower (cp_contract_address r) = cp_contract_address r) (checkpoints db)"
    "list_all (\<lambda>r. to_lower (cp_contract_address r) = cp_contract_address r)
       (checkpoints (save_range hex c' k' n logs ps db))"
    using assms keys_ok_save_range [OF assms] by (simp_all only: keys_ok_def)
  show ?thesis
    unfolding find_checkpoint_get [OF l(1)] find_checkpoint_get [OF l(2)] checkpoints_save_range
    by (auto simp: checkpoint_key_upsert split: option.split)
qed

lemma LastSyncedBlock_live:
  "LastSyncedBlock c k (db, []) =
    (Inr (case find_checkpoint c k db of None \<Rightarrow> (0, False) | Some b \<Rightarrow> (b, True)), (db, []))"
  by (simp add: LastSyncedBlock_def query_row_def exec_def split: option.split)

lemma LastSyncedBlock_keeps: "fst (snd (LastSyncedBlock c k (db, fs))) = db"
  by (auto simp: LastSyncedBlock_def split: list.splits bool.splits prod.splits sum.splits)

text \<open>C22: The checkpoint reads back.  After a range is saved, LastSyncedBlock returns its last
  block for that chain and contract, in whatever case the address is written, and what it
  returned before for every other chain or contract.\<close>

theorem checkpoint_reads_back:
  "let db = run_saves hex' calls in
   fst (LastSyncedBlock c k (save_range hex c' k' n logs ps db, [])) =
     (if c = c' \<and> to_lower k = to_lower k' then Inr (n, True) else fst (LastSyncedBlock c k (db, [])))"
  by (simp add: Let_def LastSyncedBlock_live find_checkpoint_save_range keys_ok_run)

section \<open>The totals of a token\<close>

lemma get_token_kind_step:
  assumes "keys_ok db" and "get_row tk_token_contract_address a (tokens db) = Some r"
  shows "get_row tk_token_contract_address a (tokens (kind_step x db)) = Some (token_effect x a r)"
proof -
  have a: "tk_token_contract_address r = a" by (rule get_row_key [OF assms(2)])
  have "to_lower (tk_token_contract_address r) = tk_token_contract_address r"
    using assms get_row_in by (fastforce simp: keys_ok_def list_all_iff)
  with a have low: "to_lower a = a" by simp
  show ?thesis
  proof (cases x)
    case (PCreated e)
    with assms(2) show ?thesis
      by (auto simp: upsert_token_def insert_created_event_def get_row_upsert)
  next
    case (PTrade e)
    with assms(2) a low show ?thesis
      by (simp add: update_token_totals_def get_row_update_where)
  next
    case (PGraduated e)
    with assms(2) a low show ?thesis
      by (simp add: mark_graduated_def insert_graduated_event_def get_row_update_where)
  next
    case PNone
    with assms(2) show ?thesis by simp
  qed
qed

lemma get_token_fold:
  assumes "keys_ok db" and "get_row tk_token_contract_address a (tokens db) = Some r"
  shows "get_row tk_token_contract_address a (tokens (fold kind_step xs db)) = Some (token_effects xs a r)"
  using assms
proof (induction xs arbitrary: db r)
  case Nil
  then show ?case by (simp add: token_effects_def)
next
  case (Cons x xs)
  from Cons.IH [OF keys_ok_kind_step [OF Cons.prems(1)] get_token_kind_step [OF Cons.prems]]
  show ?case by (simp add: token_effects_def)
qed

definition last_trade :: "string \<Rightarrow> projection_kind list \<Rightarrow> token_trade_projection option" where
  "last_trade a xs = fold (\<lambda>x acc. case x of
     PTrade e \<Rightarrow> if to_lower (tt_TokenAddress e) = a then Some e else acc | _ \<Rightarrow> acc) xs None"

definition amount :: "int option \<Rightarrow> int" where
  "amount v = (case v of None \<Rightarrow> 0 | Some i \<Rightarrow> i)"

lemma token_effects_totals:
  "tk_bnb_current (token_effects xs a r) =
     (case last_trade a xs of None \<Rightarrow> tk_bnb_current r | Some e \<Rightarrow> amount (tt_CollectedBNB e))"
  "tk_available_tokens (token_effects xs a r) =
     (case last_trade a xs of None \<Rightarrow> tk_available_tokens r | Some e \<Rightarrow> amount (tt_AvailableTokens e))"
proof (induction xs rule: rev_induct)
  case Nil
  {
    case 1 then show ?case by (simp add: token_effects_def last_trade_def)
  next
    case 2 then show ?case by (simp add: token_effects_def last_trade_def)
  }
next
  case (snoc x xs)
  {
    case 1
    from snoc(1) show ?case
      by (cases x) (auto simp: token_effects_def last_trade_def token_conflict_def numeric0_intString amount_def)
  next
    case 2
    from snoc(2) show ?case
      by (cases x) (auto simp: token_effects_def last_trade_def token_conflict_def numeric0_intString amount_def)
  }
qed


end
