(* ===== verification/Abi.thy ===== *)
theory Abi
  imports GoText
begin

text \<open>
  The contract ABI encoding of Solidity, for the types the launchpad packs: the format
  go-ethereum's \<open>abi.Arguments.Pack\<close> documents that it follows.  The library itself is a
  parameter of the model (theory Eth); this theory states the format and proves that reading
  it gives back the packed values.
\<close>

section \<open>Types and values\<close>

datatype pack_ty = TUint | TAddr | TWord | TText | TList pack_ty | TTuple "pack_ty list"

datatype pack_value =
    PUint nat
  | PAddr bytes
  | PWord bytes
  | PText bytes
  | PList "pack_value list"
  | PTuple "pack_value list"

fun dynamic_ty :: "pack_ty \<Rightarrow> bool" where
  "dynamic_ty TText = True"
| "dynamic_ty (TList t) = True"
| "dynamic_ty (TTuple ts) = list_ex dynamic_ty ts"
| "dynamic_ty _ = False"

fun head_size :: "pack_ty \<Rightarrow> nat" where
  "head_size (TTuple ts) = (if list_ex dynamic_ty ts then 32 else sum_list (map head_size ts))"
| "head_size _ = 32"

fun has_ty :: "pack_ty \<Rightarrow> pack_value \<Rightarrow> bool" where
  "has_ty TUint (PUint n) = (n < 256 ^ 32)"
| "has_ty TAddr (PAddr a) = (length a = 20)"
| "has_ty TWord (PWord w) = (length w = 32)"
| "has_ty TText (PText s) = True"
| "has_ty (TList t) (PList vs) = (length vs < 256 ^ 32 \<and> list_all (has_ty t) vs)"
| "has_ty (TTuple ts) (PTuple vs) = list_all2 has_ty ts vs"
| "has_ty _ _ = False"

section \<open>Encoding\<close>

text \<open>
  A sequence is a row of heads and then the tails: a static value is its own head; a dynamic
  one has its offset from the start of the sequence as head and its encoding as tail.
\<close>

fun layout :: "nat \<Rightarrow> (bool \<times> bytes) list \<Rightarrow> bytes \<times> bytes" where
  "layout off [] = ([], [])"
| "layout off ((dyn, e) # xs) =
     (if dyn then (let (h, t) = layout (off + length e) xs in (be_bytes 32 off @ h, e @ t))
      else (let (h, t) = layout off xs in (e @ h, t)))"

definition heads_length :: "(bool \<times> bytes) list \<Rightarrow> nat" where
  "heads_length xs = sum_list (map (\<lambda>(dyn, e). if dyn then 32 else length e) xs)"

definition enc_parts :: "(bool \<times> bytes) list \<Rightarrow> bytes" where
  "enc_parts xs = (let (h, t) = layout (heads_length xs) xs in h @ t)"

definition pad32 :: "bytes \<Rightarrow> bytes" where
  "pad32 s = s @ replicate ((32 - length s mod 32) mod 32) 0"

fun dynamic_value :: "pack_value \<Rightarrow> bool" where
  "dynamic_value (PText s) = True"
| "dynamic_value (PList vs) = True"
| "dynamic_value (PTuple vs) = list_ex dynamic_value vs"
| "dynamic_value _ = False"

fun enc :: "pack_value \<Rightarrow> bytes" where
  "enc (PUint n) = be_bytes 32 n"
| "enc (PAddr a) = replicate 12 0 @ a"
| "enc (PWord w) = w"
| "enc (PText s) = be_bytes 32 (length s) @ pad32 s"
| "enc (PList vs) = be_bytes 32 (length vs) @ enc_parts (map (\<lambda>v. (dynamic_value v, enc v)) vs)"
| "enc (PTuple vs) = enc_parts (map (\<lambda>v. (dynamic_value v, enc v)) vs)"

text \<open>The arguments of a call, and of \<open>Pack\<close>.\<close>

definition enc_args :: "pack_value list \<Rightarrow> bytes" where
  "enc_args vs = enc (PTuple vs)"

section \<open>Decoding\<close>

function (sequential) dec :: "pack_ty \<Rightarrow> bytes \<Rightarrow> pack_value"
  and dec_seq :: "pack_ty list \<Rightarrow> bytes \<Rightarrow> bytes \<Rightarrow> pack_value list"
  and dec_rep :: "pack_ty \<Rightarrow> nat \<Rightarrow> bytes \<Rightarrow> bytes \<Rightarrow> pack_value list" where
  "dec TUint bs = PUint (be_nat (take 32 bs))"
| "dec TAddr bs = PAddr (drop 12 (take 32 bs))"
| "dec TWord bs = PWord (take 32 bs)"
| "dec TText bs = PText (take (be_nat (take 32 bs)) (drop 32 bs))"
| "dec (TList t) bs = PList (dec_rep t (be_nat (take 32 bs)) (drop 32 bs) (drop 32 bs))"
| "dec (TTuple ts) bs = PTuple (dec_seq ts bs bs)"
| "dec_seq [] base pos = []"
| "dec_seq (t # ts) base pos =
     (if dynamic_ty t then dec t (drop (be_nat (take 32 pos)) base) else dec t pos)
       # dec_seq ts base (drop (head_size t) pos)"
| "dec_rep t 0 base pos = []"
| "dec_rep t (Suc n) base pos =
     (if dynamic_ty t then dec t (drop (be_nat (take 32 pos)) base) else dec t pos)
       # dec_rep t n base (drop (head_size t) pos)"
  by pat_completeness auto
termination
  by (relation "measures
      [\<lambda>x. case x of Inl (t, _) \<Rightarrow> 2 * size t | Inr (Inl (ts, _, _)) \<Rightarrow> 2 * size_list size ts + 1
         | Inr (Inr (t, _, _, _)) \<Rightarrow> 2 * size t + 1,
       \<lambda>x. case x of Inr (Inr (_, n, _, _)) \<Rightarrow> n | _ \<Rightarrow> 0]") auto

lemma dec_rep_seq: "dec_rep t n base pos = dec_seq (replicate n t) base pos"
  by (induction n arbitrary: pos) simp_all

section \<open>Reading back\<close>

lemma has_ty_dynamic: "has_ty t v \<Longrightarrow> dynamic_value v = dynamic_ty t"
proof (induction t v rule: has_ty.induct)
  case (6 ts vs)
  then have "list_all2 (\<lambda>t v. dynamic_ty t = dynamic_value v) ts vs"
    by (simp add: list_all2_conv_all_nth in_set_conv_nth) metis
  then show ?case by (induction ts vs rule: list_all2_induct) simp_all
qed simp_all

lemma layout_lengths:
  "length (fst (layout off xs)) = heads_length xs"
  "length (snd (layout off xs)) = sum_list (map (\<lambda>(dyn, e). if dyn then length e else 0) xs)"
  by (induction off xs rule: layout.induct) (auto simp: heads_length_def split: prod.splits)

lemma enc_parts_length: "length (enc_parts xs) = heads_length xs + sum_list (map (\<lambda>(dyn, e). if dyn then length e else 0) xs)"
  using layout_lengths [of "heads_length xs" xs]
  by (cases "layout (heads_length xs) xs") (simp add: enc_parts_def)

lemma part_length: "(d, e) \<in> set xs \<Longrightarrow> length e \<le> length (enc_parts xs)"
proof (induction xs)
  case Nil
  then show ?case by simp
next
  case (Cons x xs)
  then show ?case by (cases x) (auto simp: enc_parts_length heads_length_def)
qed

lemma length_pad32: "length s \<le> length (pad32 s)"
  by (simp add: pad32_def)

lemma static_length: "has_ty t v \<Longrightarrow> \<not> dynamic_ty t \<Longrightarrow> length (enc v) = head_size t"
proof (induction t v rule: has_ty.induct)
  case (6 ts vs)
  have all: "list_all2 (\<lambda>t v. \<not> dynamic_value v \<and> length (enc v) = head_size t) ts vs"
    using 6 has_ty_dynamic by (fastforce simp: list_all2_conv_all_nth list_ex_length)
  have "heads_length (map (\<lambda>v. (dynamic_value v, enc v)) vs) = sum_list (map head_size ts)
      \<and> sum_list (map (\<lambda>(dyn, e). if dyn then length e else 0) (map (\<lambda>v. (dynamic_value v, enc v)) vs)) = 0"
    using all by (induction ts vs rule: list_all2_induct) (simp_all add: heads_length_def)
  then have "length (enc (PTuple vs)) = sum_list (map head_size ts)"
    by (simp add: enc_parts_length)
  with 6 show ?case by simp
qed simp_all

text \<open>
  Reading a sequence: \<open>base\<close> starts the sequence and has the tails at offset \<open>off\<close>; the heads
  still to read are at \<open>pos\<close>.
\<close>

lemma dec_seq_layout:
  assumes "list_all2 (\<lambda>t v. has_ty t v \<and> (\<forall>rest. dec t (enc v @ rest) = v)) ts vs"
    and "layout off (map (\<lambda>v. (dynamic_value v, enc v)) vs) = (h, t)"
    and "drop off base = t @ rest" and "off + length t < 256 ^ 32"
  shows "dec_seq ts base (h @ more) = vs"
  using assms
proof (induction ts vs arbitrary: off h t more rule: list_all2_induct)
  case Nil
  then show ?case by simp
next
  case (Cons ty ts v vs)
  let ?xs = "map (\<lambda>v. (dynamic_value v, enc v)) vs"
  have v: "has_ty ty v" "\<And>rest. dec ty (enc v @ rest) = v" using Cons.hyps(1) by auto
  show ?case
  proof (cases "dynamic_ty ty")
    case True
    obtain h' t' where l: "layout (off + length (enc v)) ?xs = (h', t')" by (cases "layout (off + length (enc v)) ?xs")
    from True Cons.prems(1) l has_ty_dynamic [OF v(1)] have ht: "h = be_bytes 32 off @ h'" "t = enc v @ t'" by auto
    have hs: "head_size ty = 32" using True by (cases ty) simp_all
    have off: "be_nat (be_bytes 32 off) = off" using Cons.prems(3) by (intro be_nat_bytes) simp
    have "drop (off + length (enc v)) base = t' @ rest"
      using Cons.prems(2) ht by (metis add.commute append_assoc append_eq_conv_conj drop_drop)
    then have "dec_seq ts base (h' @ more) = vs"
      by (rule Cons.IH [OF l]) (use Cons.prems(3) ht in simp)
    with True ht hs off v(2) Cons.prems(2) show ?thesis by simp
  next
    case False
    obtain h' t' where l: "layout off ?xs = (h', t')" by (cases "layout off ?xs")
    from False Cons.prems(1) l has_ty_dynamic [OF v(1)] have ht: "h = enc v @ h'" "t = t'" by auto
    have hs: "head_size ty = length (enc v)" using static_length [OF v(1) False] by simp
    have "dec_seq ts base (h' @ more) = vs"
      by (rule Cons.IH [OF l]) (use Cons.prems ht in simp_all)
    with False ht hs v(2) show ?thesis by simp
  qed
qed

lemma dec_parts:
  assumes "list_all2 (\<lambda>t v. has_ty t v \<and> (\<forall>rest. dec t (enc v @ rest) = v)) ts vs"
    and "length (enc_parts (map (\<lambda>v. (dynamic_value v, enc v)) vs)) < 256 ^ 32"
  shows "dec_seq ts (enc_parts (map (\<lambda>v. (dynamic_value v, enc v)) vs) @ rest)
    (enc_parts (map (\<lambda>v. (dynamic_value v, enc v)) vs) @ rest) = vs"
proof -
  let ?xs = "map (\<lambda>v. (dynamic_value v, enc v)) vs"
  obtain h t where l: "layout (heads_length ?xs) ?xs = (h, t)" by (cases "layout (heads_length ?xs) ?xs")
  have len: "length h = heads_length ?xs" using layout_lengths(1) [of "heads_length ?xs" ?xs] l by simp
  have e: "enc_parts ?xs = h @ t" using l by (simp add: enc_parts_def)
  have "dec_seq ts (h @ t @ rest) (h @ (t @ rest)) = vs"
    by (rule dec_seq_layout [OF assms(1) l]) (use len assms(2) e in simp_all)
  then show ?thesis by (simp add: e)
qed

text \<open>What every element of a sequence needs, from the induction on the value.\<close>

lemma parts_decode:
  assumes "list_all2 has_ty ts vs" and "length (enc_parts (map (\<lambda>v. (dynamic_value v, enc v)) vs)) < 256 ^ 32"
    and "\<And>v t rest. v \<in> set vs \<Longrightarrow> has_ty t v \<Longrightarrow> length (enc v) < 256 ^ 32 \<Longrightarrow> dec t (enc v @ rest) = v"
  shows "list_all2 (\<lambda>t v. has_ty t v \<and> (\<forall>rest. dec t (enc v @ rest) = v)) ts vs"
  unfolding list_all2_conv_all_nth
proof (intro conjI allI impI)
  show "length ts = length vs" using assms(1) by (rule list_all2_lengthD)
  fix i
  assume i: "i < length ts"
  then have iv: "i < length vs" using assms(1) list_all2_lengthD by metis
  then have m: "vs ! i \<in> set vs" by simp
  show ti: "has_ty (ts ! i) (vs ! i)" using assms(1) i by (simp add: list_all2_conv_all_nth)
  have "length (enc (vs ! i)) \<le> length (enc_parts (map (\<lambda>v. (dynamic_value v, enc v)) vs))"
    by (rule part_length) (use m in auto)
  then have "length (enc (vs ! i)) < 256 ^ 32" using assms(2) by simp
  then show "dec (ts ! i) (enc (vs ! i) @ rest) = vs ! i" for rest by (rule assms(3) [OF m ti])
qed

theorem dec_enc:
  assumes "has_ty t v" and "length (enc v) < 256 ^ 32"
  shows "dec t (enc v @ rest) = v"
  using assms
proof (induction v arbitrary: t rest)
  case (PUint n)
  then show ?case by (cases t) (simp_all add: be_nat_bytes)
next
  case (PAddr a)
  then show ?case by (cases t) simp_all
next
  case (PWord w)
  then show ?case by (cases t) simp_all
next
  case (PText s)
  have "length s < 256 ^ 32" using PText.prems(2) length_pad32 [of s] by simp
  with PText.prems(1) show ?case by (cases t) (simp_all add: be_nat_bytes pad32_def)
next
  case (PList vs)
  then obtain ty where t: "t = TList ty" by (cases t) simp_all
  let ?xs = "map (\<lambda>v. (dynamic_value v, enc v)) vs"
  have len: "length (enc_parts ?xs) < 256 ^ 32" using PList.prems(2) by simp
  have "list_all2 has_ty (replicate (length vs) ty) vs"
    using PList.prems(1) t by (simp add: list_all2_conv_all_nth list_all_length)
  from dec_parts [OF parts_decode [OF this len PList.IH] len] PList.prems(1) t show ?case
    by (simp add: dec_rep_seq be_nat_bytes)
next
  case (PTuple vs)
  then obtain ts where t: "t = TTuple ts" by (cases t) simp_all
  let ?xs = "map (\<lambda>v. (dynamic_value v, enc v)) vs"
  have len: "length (enc_parts ?xs) < 256 ^ 32" using PTuple.prems(2) by simp
  have "list_all2 has_ty ts vs" using PTuple.prems(1) t by simp
  from dec_parts [OF parts_decode [OF this len PTuple.IH] len] t show ?case by simp
qed

lemma enc_args_inject:
  assumes "list_all2 has_ty ts vs" and "list_all2 has_ty ts ws" and "enc_args vs = enc_args ws"
    and "length (enc_args vs) < 256 ^ 32"
  shows "vs = ws"
proof -
  have "dec (TTuple ts) (enc_args vs @ []) = PTuple vs"
    unfolding enc_args_def by (rule dec_enc) (use assms(1,4) in \<open>simp_all add: enc_args_def del: enc.simps\<close>)
  moreover have "dec (TTuple ts) (enc_args ws @ []) = PTuple ws"
    unfolding enc_args_def by (rule dec_enc) (use assms(2,3,4) in \<open>simp_all add: enc_args_def del: enc.simps\<close>)
  ultimately have "PTuple vs = PTuple ws" using assms(3) by metis
  then show ?thesis by simp
qed

end
