(* ===== verification/Eth.thy ===== *)
theory Eth
  imports Abi
begin

text \<open>
  What the Go code takes from go-ethereum.  The library is not part of the repository: its
  functions are the fields of the record \<open>eth_lib\<close>, an argument of every definition that uses
  them, and what the proofs rely on of their documented behaviour is stated as a hypothesis.
  The first part gives the types of ABI arguments.
\<close>

section \<open>ABI types and values\<close>

datatype abi_ty = TyAddress | TyString | TyUint256 | TyBytes32

datatype abi_value = AString string | AUint int | ABytes32 bytes | AAddress bytes

fun type_of_value :: "abi_value \<Rightarrow> abi_ty" where
  "type_of_value (AString _) = TyString"
| "type_of_value (AUint _) = TyUint256"
| "type_of_value (ABytes32 _) = TyBytes32"
| "type_of_value (AAddress _) = TyAddress"

record abi_event =
  ae_name :: string
  ae_inputs :: "(bool \<times> string \<times> abi_ty) list"

section \<open>The library\<close>

record eth_lib =
  hash_hex :: "bytes \<Rightarrow> string"
  address_hex :: "bytes \<Rightarrow> string"
  bytes_to_address :: "bytes \<Rightarrow> bytes"
  bytes_to_hash :: "bytes \<Rightarrow> bytes"
  hex_to_address :: "string \<Rightarrow> bytes"
  is_hex_address :: "string \<Rightarrow> bool"
  event_id :: "abi_event \<Rightarrow> bytes"
  abi_unpack :: "abi_ty list \<Rightarrow> bytes \<Rightarrow> abi_value list res"
  keccak256 :: "bytes \<Rightarrow> bytes"
  sig_to_address :: "bytes \<Rightarrow> bytes \<Rightarrow> string option"
  hexutil_decode :: "string \<Rightarrow> bytes option"
  eth_sign :: "bytes \<Rightarrow> bytes \<Rightarrow> bytes option"
  key_address :: "bytes \<Rightarrow> bytes"
  hex_to_ecdsa :: "string \<Rightarrow> bytes option"
  abi_pack :: "pack_value list \<Rightarrow> bytes res"

text \<open>
  \<open>sig_to_address h sig\<close> is \<open>PubkeyToAddress(SigToPub(h, sig)).Hex()\<close>, \<open>None\<close> when the key
  cannot be recovered; \<open>eth_sign key h\<close> is \<open>crypto.Sign(h, key)\<close>, \<open>key_address\<close> the address of
  the public key of a private key, \<open>hex_to_ecdsa\<close> reads a private key and \<open>abi_pack\<close> is
  \<open>Arguments.Pack\<close>.
\<close>

text \<open>Unpack returns one value of the asked type per argument.\<close>

definition unpack_typed :: "eth_lib \<Rightarrow> bool" where
  "unpack_typed lib = (\<forall>tys d vs. abi_unpack lib tys d = Inr vs \<longrightarrow> map type_of_value vs = tys)"

text \<open>Pack follows the contract ABI for values of their declared types.\<close>

definition pack_spec :: "eth_lib \<Rightarrow> bool" where
  "pack_spec lib = (\<forall>ts vs. list_all2 has_ty ts vs \<longrightarrow> abi_pack lib vs = Inr (enc_args vs))"

text \<open>
  A signature is 65 bytes with a recovery identifier of 0 or 1, and recovers to the address of
  the signing key.
\<close>

definition sign_spec :: "eth_lib \<Rightarrow> bool" where
  "sign_spec lib = (\<forall>k h sig. eth_sign lib k h = Some sig \<longrightarrow>
     length sig = 65 \<and> sig ! 64 \<le> 1 \<and> sig_to_address lib h sig = Some (address_hex lib (key_address lib k)))"

definition hash_spec :: "eth_lib \<Rightarrow> bool" where
  "hash_spec lib = (\<forall>x. length (keccak256 lib x) = 32)"

section \<open>An instance\<close>

text \<open>A simple instance of the library, for the concrete examples.\<close>

fun zero_value :: "abi_ty \<Rightarrow> abi_value" where
  "zero_value TyAddress = AAddress (replicate 20 0)"
| "zero_value TyString = AString []"
| "zero_value TyUint256 = AUint 0"
| "zero_value TyBytes32 = ABytes32 (replicate 32 0)"

definition sample_lib :: eth_lib where
  "sample_lib = \<lparr>hash_hex = hex_encode, address_hex = hex_encode, bytes_to_address = (\<lambda>b. b),
     bytes_to_hash = (\<lambda>b. b), hex_to_address = str_bytes, is_hex_address = (\<lambda>s. s \<noteq> []),
     event_id = (\<lambda>e. str_bytes (ae_name e)), abi_unpack = (\<lambda>tys d. Inr (map zero_value tys)),
     keccak256 = (\<lambda>b. take 32 (b @ replicate 32 0)), sig_to_address = (\<lambda>h s. Some (hex_encode h)), hexutil_decode = (\<lambda>s. Some (str_bytes s)),
     eth_sign = (\<lambda>k h. Some h), key_address = (\<lambda>k. k), hex_to_ecdsa = hex_decode,
     abi_pack = (\<lambda>vs. Inr (enc_args vs))\<rparr>"

end
