(* ===== verification/ChainIndexer.thy ===== *)
theory ChainIndexer
  imports ChainStore Eth
begin

text \<open>
  The rebuilt indexer, app-rebuild/internal/chainindexer: decoding of MEMECore logs into
  projections (\<open>decodeProjection\<close>, \<open>decodeProjections\<close>) and the loop that reads block ranges
  and saves them (\<open>New\<close>, \<open>VerifyChain\<close>, \<open>nextBlock\<close>, \<open>syncAvailable\<close>, \<open>Run\<close>).

  The functions of go-ethereum are the fields of \<open>eth_lib\<close> (theory Eth); the RPC node is a record of
  functions \<open>rpc_client\<close>, one record per poll, so that the node may answer differently, or
  fail, from one poll to the next.  The event store is an interface in the code and a locale
  here, interpreted on the repository of theory ChainStore.  The loop may run for ever when
  block numbers wrap around, so it is a \<open>partial_function\<close>; a theorem gives the bound under
  which it returns.
\<close>

section \<open>The contract's events\<close>

definition memeCoreABI :: "abi_event list" where
  "memeCoreABI =
     [\<lparr>ae_name = ''TokenCreated'', ae_inputs =
         [(True, ''token'', TyAddress), (True, ''creator'', TyAddress),
          (False, ''name'', TyString), (False, ''symbol'', TyString),
          (False, ''totalSupply'', TyUint256), (False, ''requestId'', TyBytes32)]\<rparr>,
      \<lparr>ae_name = ''TokenBought'', ae_inputs =
         [(True, ''token'', TyAddress), (True, ''buyer'', TyAddress),
          (False, ''bnbAmount'', TyUint256), (False, ''tokenAmount'', TyUint256),
          (False, ''tradingFee'', TyUint256), (False, ''virtualBNBReserve'', TyUint256),
          (False, ''virtualTokenReserve'', TyUint256), (False, ''availableTokens'', TyUint256),
          (False, ''collectedBNB'', TyUint256)]\<rparr>,
      \<lparr>ae_name = ''TokenSold'', ae_inputs =
         [(True, ''token'', TyAddress), (True, ''seller'', TyAddress),
          (False, ''tokenAmount'', TyUint256), (False, ''bnbAmount'', TyUint256),
          (False, ''tradingFee'', TyUint256), (False, ''virtualBNBReserve'', TyUint256),
          (False, ''virtualTokenReserve'', TyUint256), (False, ''availableTokens'', TyUint256),
          (False, ''collectedBNB'', TyUint256)]\<rparr>,
      \<lparr>ae_name = ''TokenGraduated'', ae_inputs =
         [(True, ''token'', TyAddress), (False, ''liquidityBNB'', TyUint256),
          (False, ''liquidityTokens'', TyUint256), (False, ''liquidityResult'', TyUint256)]\<rparr>]"

text \<open>\<open>contractABI.Events[name]\<close>; a missing entry is the zero value.\<close>

definition abi_event_of :: "string \<Rightarrow> abi_event" where
  "abi_event_of name =
     (case find (\<lambda>e. ae_name e = name) memeCoreABI of
        Some e \<Rightarrow> e | None \<Rightarrow> \<lparr>ae_name = [], ae_inputs = []\<rparr>)"

definition non_indexed :: "abi_event \<Rightarrow> (string \<times> abi_ty) list" where
  "non_indexed e = map snd (filter (\<lambda>i. \<not> fst i) (ae_inputs e))"

section \<open>What the node provides\<close>

record rpc_client =
  rpc_ChainID :: "int res"
  rpc_BlockNumber :: "u64 res"
  rpc_HeaderByNumber :: "u64 \<Rightarrow> u64 res"
  rpc_FilterLogs :: "u64 \<Rightarrow> u64 \<Rightarrow> bytes \<Rightarrow> chain_log list res"

section \<open>Decoding\<close>

text \<open>\<open>values[i].(T)\<close>: an index out of range and a failed type assertion panic.\<close>

definition arg_string :: "abi_value list \<Rightarrow> nat \<Rightarrow> string res" where
  "arg_string values i =
     (if i < length values then (case values ! i of AString s \<Rightarrow> Inr s | _ \<Rightarrow> Inl (Panic ''interface conversion''))
      else Inl (Panic ''index out of range''))"

definition arg_int :: "abi_value list \<Rightarrow> nat \<Rightarrow> int res" where
  "arg_int values i =
     (if i < length values then (case values ! i of AUint n \<Rightarrow> Inr n | _ \<Rightarrow> Inl (Panic ''interface conversion''))
      else Inl (Panic ''index out of range''))"

definition arg_bytes32 :: "abi_value list \<Rightarrow> nat \<Rightarrow> bytes res" where
  "arg_bytes32 values i =
     (if i < length values then (case values ! i of ABytes32 b \<Rightarrow> Inr b | _ \<Rightarrow> Inl (Panic ''interface conversion''))
      else Inl (Panic ''index out of range''))"

definition topicAddress :: "eth_lib \<Rightarrow> bytes \<Rightarrow> bytes" where
  "topicAddress lib topic = bytes_to_address lib (drop 12 topic)"

definition unpack_event :: "eth_lib \<Rightarrow> string \<Rightarrow> chain_log \<Rightarrow> abi_value list res" where
  "unpack_event lib name log =
     wrap_err (''unpack '' @ name) (abi_unpack lib (map snd (non_indexed (abi_event_of name))) (log_Data log))"

definition need_topics :: "string \<Rightarrow> nat \<Rightarrow> chain_log \<Rightarrow> unit res" where
  "need_topics name n log =
     (if length (log_Topics log) < n then Inl (ErrMsg (name @ '' missing indexed topics'')) else Inr ())"

definition no_projection :: chain_projection where
  "no_projection = \<lparr>TokenCreated = None, TokenBought = None, TokenSold = None, TokenGraduated = None\<rparr>"

definition topic_hex :: "eth_lib \<Rightarrow> chain_log \<Rightarrow> nat \<Rightarrow> string" where
  "topic_hex lib log i = address_hex lib (topicAddress lib (log_Topics log ! i))"

definition decodeTokenCreated :: "eth_lib \<Rightarrow> chain_log \<Rightarrow> int \<Rightarrow> token_created_projection res" where
  "decodeTokenCreated lib log blockTime =
     rbind (unpack_event lib ''TokenCreated'' log) (\<lambda>values.
     rbind (need_topics ''TokenCreated'' 3 log) (\<lambda>_.
     rbind (arg_bytes32 values 3) (\<lambda>requestID.
     rbind (arg_string values 0) (\<lambda>name.
     rbind (arg_string values 1) (\<lambda>symbol.
     rbind (arg_int values 2) (\<lambda>totalSupply.
     Inr \<lparr>tc_TokenAddress = topic_hex lib log 1, tc_CreatorAddress = topic_hex lib log 2,
          tc_Name = name, tc_Symbol = symbol, tc_TotalSupply = Some totalSupply,
          tc_RequestID = hash_hex lib (bytes_to_hash lib requestID),
          tc_TransactionHash = hash_hex lib (log_TxHash log), tc_BlockNumber = log_BlockNumber log,
          tc_BlockTimestamp = blockTime, tc_LogIndex = log_Index log,
          tc_InitialBNBTarget = None, tc_InitialBNBCurrent = None, tc_InitialAvailable = None,
          tc_InitialLaunchMode = 0, tc_InitialTokenStatus = 0\<rparr>))))))"

text \<open>The two trade events differ by their name, type and the positions of the two amounts.\<close>

definition decodeTrade ::
  "eth_lib \<Rightarrow> string \<Rightarrow> int \<Rightarrow> nat \<Rightarrow> nat \<Rightarrow> chain_log \<Rightarrow> int \<Rightarrow> token_trade_projection res" where
  "decodeTrade lib name tradeType bnbPos tokenPos log blockTime =
     rbind (unpack_event lib name log) (\<lambda>values.
     rbind (need_topics name 3 log) (\<lambda>_.
     rbind (arg_int values bnbPos) (\<lambda>bnbAmount.
     rbind (arg_int values tokenPos) (\<lambda>tokenAmount.
     rbind (arg_int values 2) (\<lambda>fee.
     rbind (arg_int values 3) (\<lambda>vBnb.
     rbind (arg_int values 4) (\<lambda>vToken.
     rbind (arg_int values 5) (\<lambda>available.
     rbind (arg_int values 6) (\<lambda>collected.
     Inr \<lparr>tt_TokenAddress = topic_hex lib log 1, tt_UserAddress = topic_hex lib log 2,
          tt_TradeType = tradeType, tt_BNBAmount = Some bnbAmount, tt_TokenAmount = Some tokenAmount,
          tt_TradingFee = Some fee, tt_VirtualBNBReserve = Some vBnb, tt_VirtualTokenReserve = Some vToken,
          tt_AvailableTokens = Some available, tt_CollectedBNB = Some collected,
          tt_TransactionHash = hash_hex lib (log_TxHash log), tt_BlockNumber = log_BlockNumber log,
          tt_BlockTimestamp = blockTime, tt_LogIndex = log_Index log\<rparr>)))))))))"

definition decodeTokenBought :: "eth_lib \<Rightarrow> chain_log \<Rightarrow> int \<Rightarrow> token_trade_projection res" where
  "decodeTokenBought lib = decodeTrade lib ''TokenBought'' TradeTypeBuy 0 1"

definition decodeTokenSold :: "eth_lib \<Rightarrow> chain_log \<Rightarrow> int \<Rightarrow> token_trade_projection res" where
  "decodeTokenSold lib = decodeTrade lib ''TokenSold'' TradeTypeSell 1 0"

definition decodeTokenGraduated :: "eth_lib \<Rightarrow> chain_log \<Rightarrow> int \<Rightarrow> token_graduated_projection res" where
  "decodeTokenGraduated lib log blockTime =
     rbind (unpack_event lib ''TokenGraduated'' log) (\<lambda>values.
     rbind (need_topics ''TokenGraduated'' 2 log) (\<lambda>_.
     rbind (arg_int values 0) (\<lambda>liquidityBNB.
     rbind (arg_int values 1) (\<lambda>liquidityTokens.
     rbind (arg_int values 2) (\<lambda>liquidityResult.
     Inr \<lparr>tg_TokenAddress = topic_hex lib log 1, tg_LiquidityBNB = Some liquidityBNB,
          tg_LiquidityTokens = Some liquidityTokens, tg_LiquidityResult = Some liquidityResult,
          tg_TransactionHash = hash_hex lib (log_TxHash log), tg_BlockNumber = log_BlockNumber log,
          tg_BlockTimestamp = blockTime, tg_LogIndex = log_Index log\<rparr>)))))"

text \<open>The switch on the first topic, which panics on a log without topics.\<close>

definition decodeProjection :: "eth_lib \<Rightarrow> chain_log \<Rightarrow> int \<Rightarrow> chain_projection option res" where
  "decodeProjection lib log blockTime =
     (case log_Topics log of
        [] \<Rightarrow> Inl (Panic ''index out of range'')
      | topic0 # _ \<Rightarrow>
        if topic0 = event_id lib (abi_event_of ''TokenCreated'') then
          rbind (decodeTokenCreated lib log blockTime) (\<lambda>e. Inr (Some (no_projection\<lparr>TokenCreated := Some e\<rparr>)))
        else if topic0 = event_id lib (abi_event_of ''TokenBought'') then
          rbind (decodeTokenBought lib log blockTime) (\<lambda>e. Inr (Some (no_projection\<lparr>TokenBought := Some e\<rparr>)))
        else if topic0 = event_id lib (abi_event_of ''TokenSold'') then
          rbind (decodeTokenSold lib log blockTime) (\<lambda>e. Inr (Some (no_projection\<lparr>TokenSold := Some e\<rparr>)))
        else if topic0 = event_id lib (abi_event_of ''TokenGraduated'') then
          rbind (decodeTokenGraduated lib log blockTime) (\<lambda>e. Inr (Some (no_projection\<lparr>TokenGraduated := Some e\<rparr>)))
        else Inr None)"

text \<open>\<open>time.Unix(int64(header.Time), 0)\<close>: the unsigned time read as a signed one.\<close>

definition header_time :: "rpc_client \<Rightarrow> u64 \<Rightarrow> int res" where
  "header_time rpc n =
     wrap_err (''read block '' @ show_nat (unat n) @ '' header'')
       (rbind (rpc_HeaderByNumber rpc n) (\<lambda>t. Inr (sint t)))"

text \<open>\<open>decodeProjections\<close> keeps the block times it has read in a map.\<close>

fun decodeProjections_loop ::
  "eth_lib \<Rightarrow> rpc_client \<Rightarrow> (u64 \<Rightarrow> int option) \<Rightarrow> chain_log list \<Rightarrow> chain_projection list res" where
  "decodeProjections_loop lib rpc blockTimes [] = Inr []"
| "decodeProjections_loop lib rpc blockTimes (log # logs) =
     (if log_Topics log = [] \<or> log_Removed log then decodeProjections_loop lib rpc blockTimes logs
      else
        rbind (case blockTimes (log_BlockNumber log) of
                 Some t \<Rightarrow> Inr (t, blockTimes)
               | None \<Rightarrow> rbind (header_time rpc (log_BlockNumber log))
                   (\<lambda>t. Inr (t, blockTimes(log_BlockNumber log \<mapsto> t))))
          (\<lambda>(blockTime, blockTimes').
        rbind (decodeProjection lib log blockTime) (\<lambda>projection.
        rbind (decodeProjections_loop lib rpc blockTimes' logs) (\<lambda>projections.
          Inr (case projection of Some p \<Rightarrow> p # projections | None \<Rightarrow> projections)))))"

definition decodeProjections :: "eth_lib \<Rightarrow> rpc_client \<Rightarrow> chain_log list \<Rightarrow> chain_projection list res" where
  "decodeProjections lib rpc logs = decodeProjections_loop lib rpc Map.empty logs"

section \<open>The loop\<close>

record indexer_config =
  ix_RPCURL :: string
  ix_ChainID :: int
  ix_CoreContract :: string
  ix_StartBlock :: u64
  ix_BlockBatchSize :: u64
  ix_PollInterval :: int

definition validate_indexer :: "eth_lib \<Rightarrow> indexer_config \<Rightarrow> unit res" where
  "validate_indexer lib c =
     (if ix_RPCURL c = [] \<or> ix_ChainID c < 1 \<or> \<not> is_hex_address lib (ix_CoreContract c)
      then Inl (ErrMsg ''INDEXER_RPC_URL, INDEXER_CHAIN_ID, and INDEXER_CORE are required for the indexer'')
      else if ix_BlockBatchSize c < 1 \<or> ix_PollInterval c < 1
      then Inl (ErrMsg ''indexer batch size and poll interval must be positive'')
      else Inr ())"

text \<open>The store, with the chain and contract arguments the indexer always passes.\<close>

record 's event_store_ops =
  es_LastSyncedBlock :: "int \<Rightarrow> string \<Rightarrow> 's \<Rightarrow> (u64 \<times> bool) res \<times> 's"
  es_SaveBlockRange ::
    "int \<Rightarrow> string \<Rightarrow> u64 \<Rightarrow> chain_log list \<Rightarrow> chain_projection list \<Rightarrow> 's \<Rightarrow> unit res \<times> 's"

record 's indexer =
  in_store :: "'s event_store_ops"
  in_cfg :: indexer_config
  in_contract :: bytes

text \<open>
  \<open>New\<close>; a nil client or store is \<open>None\<close>.  The error of parsing the embedded ABI is not
  modelled: the text is a constant that parses.
\<close>

definition New_indexer ::
  "eth_lib \<Rightarrow> rpc_client option \<Rightarrow> 's event_store_ops option \<Rightarrow> indexer_config \<Rightarrow> 's indexer res" where
  "New_indexer lib client store cfg =
     rbind (validate_indexer lib cfg) (\<lambda>_.
       case (client, store) of
         (Some _, Some st) \<Rightarrow>
           Inr \<lparr>in_store = st, in_cfg = cfg, in_contract = hex_to_address lib (ix_CoreContract cfg)\<rparr>
       | _ \<Rightarrow> Inl (ErrMsg ''chain client and event store are required''))"

text \<open>\<open>big.Int.Int64\<close>: the low 64 bits, read as a signed number.\<close>

definition big_Int64 :: "int \<Rightarrow> int" where
  "big_Int64 i = sint (word_of_int i :: u64)"

definition VerifyChain :: "'s indexer \<Rightarrow> rpc_client \<Rightarrow> unit res" where
  "VerifyChain i rpc =
     rbind (wrap_err ''read RPC chain ID'' (rpc_ChainID rpc)) (\<lambda>chainID.
       if big_Int64 chainID \<noteq> ix_ChainID (in_cfg i)
       then Inl (ErrMsg (''RPC chain ID is '' @ show_int (big_Int64 chainID) @ '', want '' @ show_int (ix_ChainID (in_cfg i))))
       else Inr ())"

definition nextBlock :: "eth_lib \<Rightarrow> 's indexer \<Rightarrow> 's \<Rightarrow> u64 res \<times> 's" where
  "nextBlock lib i s =
     (case es_LastSyncedBlock (in_store i) (ix_ChainID (in_cfg i)) (address_hex lib (in_contract i)) s of
        (Inl e, s') \<Rightarrow> (Inl e, s')
      | (Inr (lastSynced, found), s') \<Rightarrow> (Inr (if found then lastSynced + 1 else ix_StartBlock (in_cfg i)), s'))"

definition range_text :: "string \<Rightarrow> u64 \<Rightarrow> u64 \<Rightarrow> string" where
  "range_text what a b = what @ '' '' @ show_nat (unat a) @ ''-'' @ show_nat (unat b)"

text \<open>The body of the loop for the range from \<open>next\<close> to \<open>end\<close>.\<close>

definition sync_range :: "eth_lib \<Rightarrow> 's indexer \<Rightarrow> rpc_client \<Rightarrow> u64 \<Rightarrow> u64 \<Rightarrow> 's \<Rightarrow> unit res \<times> 's" where
  "sync_range lib i rpc next end' s =
     (case wrap_err (range_text ''filter logs'' next end') (rpc_FilterLogs rpc next end' (in_contract i)) of
        Inl e \<Rightarrow> (Inl e, s)
      | Inr logs \<Rightarrow>
        (case wrap_err (range_text ''decode logs'' next end') (decodeProjections lib rpc logs) of
           Inl e \<Rightarrow> (Inl e, s)
         | Inr projections \<Rightarrow>
           (case es_SaveBlockRange (in_store i) (ix_ChainID (in_cfg i)) (address_hex lib (in_contract i))
                   end' logs projections s of
              (r, s') \<Rightarrow> (wrap_err (range_text ''save logs'' next end') r, s'))))"

text \<open>The end of the next range; the sum wraps around at 2^64.\<close>

definition range_end :: "u64 \<Rightarrow> u64 \<Rightarrow> u64 \<Rightarrow> u64" where
  "range_end next batch latest =
     (let end' = next + batch - 1 in if end' > latest then latest else end')"

partial_function (option) sync_loop ::
  "eth_lib \<Rightarrow> 's indexer \<Rightarrow> rpc_client \<Rightarrow> u64 \<Rightarrow> u64 \<times> 's \<Rightarrow> (unit res \<times> u64 \<times> 's) option" where
  "sync_loop lib i rpc latest st =
     (case st of (next, s) \<Rightarrow>
        if next \<le> latest then
          (case sync_range lib i rpc next (range_end next (ix_BlockBatchSize (in_cfg i)) latest) s of
             (Inl e, s') \<Rightarrow> Some (Inl e, next, s')
           | (Inr _, s') \<Rightarrow>
               sync_loop lib i rpc latest
                 (range_end next (ix_BlockBatchSize (in_cfg i)) latest + 1, s'))
        else Some (Inr (), next, s))"

definition syncAvailable ::
  "eth_lib \<Rightarrow> 's indexer \<Rightarrow> rpc_client \<Rightarrow> u64 \<Rightarrow> 's \<Rightarrow> (unit res \<times> u64 \<times> 's) option" where
  "syncAvailable lib i rpc next s =
     (case wrap_err ''read latest block'' (rpc_BlockNumber rpc) of
        Inl e \<Rightarrow> Some (Inl e, next, s)
      | Inr latest \<Rightarrow> sync_loop lib i rpc latest (next, s))"

text \<open>
  The polls of \<open>Run\<close>: the list holds the node as seen by each poll, and the context is
  cancelled when it is exhausted.
\<close>

fun poll_loop ::
  "eth_lib \<Rightarrow> 's indexer \<Rightarrow> rpc_client \<Rightarrow> rpc_client list \<Rightarrow> u64 \<Rightarrow> 's \<Rightarrow> (unit res \<times> 's) option" where
  "poll_loop lib i rpc rpcs next s =
     (case syncAvailable lib i rpc next s of
        None \<Rightarrow> None
      | Some (Inl e, next', s') \<Rightarrow> Some (Inl e, s')
      | Some (Inr _, next', s') \<Rightarrow>
          (case rpcs of [] \<Rightarrow> Some (Inr (), s') | r # rs \<Rightarrow> poll_loop lib i r rs next' s'))"

definition Run ::
  "eth_lib \<Rightarrow> 's indexer \<Rightarrow> rpc_client \<Rightarrow> rpc_client list \<Rightarrow> 's \<Rightarrow> (unit res \<times> 's) option" where
  "Run lib i rpc rpcs s =
     (case VerifyChain i rpc of
        Inl e \<Rightarrow> Some (Inl e, s)
      | Inr _ \<Rightarrow>
        (case nextBlock lib i s of
           (Inl e, s') \<Rightarrow> Some (Inl e, s')
         | (Inr next, s') \<Rightarrow> poll_loop lib i rpc rpcs next s'))"

section \<open>Decoding, without the cache and by argument names\<close>

text \<open>The reference for \<open>decodeProjections\<close>: each log on its own, results in order.\<close>

definition decode_one :: "eth_lib \<Rightarrow> rpc_client \<Rightarrow> chain_log \<Rightarrow> chain_projection list res" where
  "decode_one lib rpc log =
     (if log_Topics log = [] \<or> log_Removed log then Inr []
      else rbind (header_time rpc (log_BlockNumber log)) (\<lambda>t.
           rbind (decodeProjection lib log t) (\<lambda>p. Inr (case p of Some q \<Rightarrow> [q] | None \<Rightarrow> []))))"

fun collect_res :: "'a list res list \<Rightarrow> 'a list res" where
  "collect_res [] = Inr []"
| "collect_res (r # rs) = rbind r (\<lambda>a. rbind (collect_res rs) (\<lambda>b. Inr (a @ b)))"

lemma rbind_Inr [simp]: "rbind r Inr = r"
  by (cases r) simp_all

lemma decode_one_skip: "log_Topics log = [] \<or> log_Removed log \<Longrightarrow> decode_one lib rpc log = Inr []"
  by (auto simp: decode_one_def)

lemma decode_one_read:
  "\<not> (log_Topics log = [] \<or> log_Removed log) \<Longrightarrow> decode_one lib rpc log =
     rbind (header_time rpc (log_BlockNumber log)) (\<lambda>t.
     rbind (decodeProjection lib log t) (\<lambda>p. Inr (case p of Some q \<Rightarrow> [q] | None \<Rightarrow> [])))"
  by (simp add: decode_one_def)

lemma decode_loop_reference:
  assumes "\<And>n t. cache n = Some t \<Longrightarrow> header_time rpc n = Inr t"
  shows "decodeProjections_loop lib rpc cache logs = collect_res (map (decode_one lib rpc) logs)"
  using assms
proof (induction logs arbitrary: cache)
  case (Cons log logs)
  note IH = Cons.IH
  show ?case
  proof (cases "log_Topics log = [] \<or> log_Removed log")
    case True
    with IH [OF Cons.prems] show ?thesis by (simp add: decode_one_skip)
  next
    case False
    have join: "rbind (decodeProjection lib log t) (\<lambda>projection.
          rbind r (\<lambda>projections. Inr (case projection of Some p \<Rightarrow> p # projections | None \<Rightarrow> projections)))
        = rbind (rbind (decodeProjection lib log t) (\<lambda>p. Inr (case p of Some q \<Rightarrow> [q] | None \<Rightarrow> [])))
            (\<lambda>a. rbind r (\<lambda>b. Inr (a @ b)))" for t r
      by (cases "decodeProjection lib log t"; cases r) (simp_all split: option.split)
    show ?thesis
    proof (cases "cache (log_BlockNumber log)")
      case (Some t)
      from Cons.prems [OF Some] have h: "header_time rpc (log_BlockNumber log) = Inr t" .
      from False Some IH [OF Cons.prems] h join [of t] show ?thesis by (simp add: decode_one_read)
    next
      case None
      show ?thesis
      proof (cases "header_time rpc (log_BlockNumber log)")
        case (Inl e)
        with None False show ?thesis by (simp add: decode_one_read)
      next
        case (Inr t)
        have "decodeProjections_loop lib rpc (cache(log_BlockNumber log \<mapsto> t)) logs =
            collect_res (map (decode_one lib rpc) logs)"
          using Cons.prems Inr by (intro IH) (auto split: if_splits)
        with None False Inr join [of t] show ?thesis by (simp add: decode_one_read)
      qed
    qed
  qed
qed simp

text \<open>C21: Decoding a range is decoding its logs one by one.  The cache of block times is
  invisible: the result is the projections of the recognised logs in order, logs without
  topics or removed by a reorganisation are skipped, and the first error of a header or of a
  log that does not decode is the error of the whole range.\<close>

theorem decodeProjections_reference:
  "decodeProjections lib rpc logs = collect_res (map (decode_one lib rpc) logs)"
  unfolding decodeProjections_def by (rule decode_loop_reference) simp

text \<open>The value of an unsigned argument by its name in the ABI.\<close>

definition arg_named :: "abi_event \<Rightarrow> abi_value list \<Rightarrow> string \<Rightarrow> int option" where
  "arg_named ev vs name =
     (case map_of (zip (map fst (non_indexed ev)) vs) name of Some (AUint n) \<Rightarrow> Some n | _ \<Rightarrow> None)"

definition trade_args_named :: "abi_event \<Rightarrow> abi_value list \<Rightarrow> token_trade_projection \<Rightarrow> bool" where
  "trade_args_named ev vs p =
     (tt_BNBAmount p = arg_named ev vs ''bnbAmount'' \<and> tt_TokenAmount p = arg_named ev vs ''tokenAmount'' \<and>
      tt_TradingFee p = arg_named ev vs ''tradingFee'' \<and>
      tt_VirtualBNBReserve p = arg_named ev vs ''virtualBNBReserve'' \<and>
      tt_VirtualTokenReserve p = arg_named ev vs ''virtualTokenReserve'' \<and>
      tt_AvailableTokens p = arg_named ev vs ''availableTokens'' \<and>
      tt_CollectedBNB p = arg_named ev vs ''collectedBNB'' \<and> None \<notin> {tt_BNBAmount p, tt_TokenAmount p})"

lemma rbind_InrD: "rbind r f = Inr b \<Longrightarrow> \<exists>a. r = Inr a \<and> f a = Inr b"
  by (cases r) simp_all

lemma arg_int_Inr: "arg_int vs i = Inr n \<longleftrightarrow> i < length vs \<and> vs ! i = AUint n"
  by (auto simp: arg_int_def split: abi_value.split)

lemma list7: "6 < length vs \<Longrightarrow> \<exists>a b c d e f g r. vs = a # b # c # d # e # f # g # r"
  by (auto simp: less_eq_Suc_le numeral_eq_Suc Suc_le_length_iff)

lemma non_indexed_events:
  "non_indexed (abi_event_of ''TokenBought'') =
     [(''bnbAmount'', TyUint256), (''tokenAmount'', TyUint256), (''tradingFee'', TyUint256),
      (''virtualBNBReserve'', TyUint256), (''virtualTokenReserve'', TyUint256),
      (''availableTokens'', TyUint256), (''collectedBNB'', TyUint256)]"
  "non_indexed (abi_event_of ''TokenSold'') =
     [(''tokenAmount'', TyUint256), (''bnbAmount'', TyUint256), (''tradingFee'', TyUint256),
      (''virtualBNBReserve'', TyUint256), (''virtualTokenReserve'', TyUint256),
      (''availableTokens'', TyUint256), (''collectedBNB'', TyUint256)]"
  "non_indexed (abi_event_of ''TokenCreated'') =
     [(''name'', TyString), (''symbol'', TyString), (''totalSupply'', TyUint256), (''requestId'', TyBytes32)]"
  "non_indexed (abi_event_of ''TokenGraduated'') =
     [(''liquidityBNB'', TyUint256), (''liquidityTokens'', TyUint256), (''liquidityResult'', TyUint256)]"
  by (simp_all add: non_indexed_def abi_event_of_def memeCoreABI_def)

lemma decodeTrade_Inr:
  assumes "decodeTrade lib name ty i j log t = Inr p"
  obtains vs where "unpack_event lib name log = Inr vs" and "tt_TradeType p = ty"
    and "\<exists>n. arg_int vs i = Inr n \<and> tt_BNBAmount p = Some n" and "\<exists>n. arg_int vs j = Inr n \<and> tt_TokenAmount p = Some n"
    and "\<exists>n. arg_int vs 2 = Inr n \<and> tt_TradingFee p = Some n"
    and "\<exists>n. arg_int vs 3 = Inr n \<and> tt_VirtualBNBReserve p = Some n"
    and "\<exists>n. arg_int vs 4 = Inr n \<and> tt_VirtualTokenReserve p = Some n"
    and "\<exists>n. arg_int vs 5 = Inr n \<and> tt_AvailableTokens p = Some n"
    and "\<exists>n. arg_int vs 6 = Inr n \<and> tt_CollectedBNB p = Some n"
  using assms unfolding decodeTrade_def by (auto dest!: rbind_InrD)

lemma unpack_event_Inr:
  "unpack_event lib name log = Inr vs \<Longrightarrow>
   abi_unpack lib (map snd (non_indexed (abi_event_of name))) (log_Data log) = Inr vs"
  by (simp add: unpack_event_def)

lemma arg_named_simps:
  assumes "6 < length vs"
  shows "arg_named (abi_event_of ''TokenBought'') vs ''bnbAmount'' = (case vs ! 0 of AUint n \<Rightarrow> Some n | _ \<Rightarrow> None)"
    and "arg_named (abi_event_of ''TokenBought'') vs ''tokenAmount'' = (case vs ! 1 of AUint n \<Rightarrow> Some n | _ \<Rightarrow> None)"
    and "arg_named (abi_event_of ''TokenSold'') vs ''tokenAmount'' = (case vs ! 0 of AUint n \<Rightarrow> Some n | _ \<Rightarrow> None)"
    and "arg_named (abi_event_of ''TokenSold'') vs ''bnbAmount'' = (case vs ! 1 of AUint n \<Rightarrow> Some n | _ \<Rightarrow> None)"
    and "name \<in> {''TokenBought'', ''TokenSold''} \<Longrightarrow>
      arg_named (abi_event_of name) vs ''tradingFee'' = (case vs ! 2 of AUint n \<Rightarrow> Some n | _ \<Rightarrow> None) \<and>
      arg_named (abi_event_of name) vs ''virtualBNBReserve'' = (case vs ! 3 of AUint n \<Rightarrow> Some n | _ \<Rightarrow> None) \<and>
      arg_named (abi_event_of name) vs ''virtualTokenReserve'' = (case vs ! 4 of AUint n \<Rightarrow> Some n | _ \<Rightarrow> None) \<and>
      arg_named (abi_event_of name) vs ''availableTokens'' = (case vs ! 5 of AUint n \<Rightarrow> Some n | _ \<Rightarrow> None) \<and>
      arg_named (abi_event_of name) vs ''collectedBNB'' = (case vs ! 6 of AUint n \<Rightarrow> Some n | _ \<Rightarrow> None)"
  using list7 [OF assms] by (auto simp: arg_named_def non_indexed_events)

lemma decodeTokenBought_named:
  assumes "decodeTokenBought lib log t = Inr p"
  shows "tt_TradeType p = TradeTypeBuy \<and>
    (\<exists>vs. unpack_event lib ''TokenBought'' log = Inr vs \<and> trade_args_named (abi_event_of ''TokenBought'') vs p)"
proof -
  obtain vs where u: "unpack_event lib ''TokenBought'' log = Inr vs" "tt_TradeType p = TradeTypeBuy"
    and a: "\<exists>n. arg_int vs 0 = Inr n \<and> tt_BNBAmount p = Some n" "\<exists>n. arg_int vs 1 = Inr n \<and> tt_TokenAmount p = Some n"
      "\<exists>n. arg_int vs 2 = Inr n \<and> tt_TradingFee p = Some n" "\<exists>n. arg_int vs 3 = Inr n \<and> tt_VirtualBNBReserve p = Some n"
      "\<exists>n. arg_int vs 4 = Inr n \<and> tt_VirtualTokenReserve p = Some n" "\<exists>n. arg_int vs 5 = Inr n \<and> tt_AvailableTokens p = Some n"
      "\<exists>n. arg_int vs 6 = Inr n \<and> tt_CollectedBNB p = Some n"
    using assms [unfolded decodeTokenBought_def] by (rule decodeTrade_Inr)
  from a(7) have "6 < length vs" by (auto simp: arg_int_Inr)
  note named = arg_named_simps [OF this]
  have "trade_args_named (abi_event_of ''TokenBought'') vs p"
    using a unfolding trade_args_named_def arg_int_Inr named(1,2) by (auto simp: named(5))
  with u show ?thesis by blast
qed

lemma decodeTokenSold_named:
  assumes "decodeTokenSold lib log t = Inr p"
  shows "tt_TradeType p = TradeTypeSell \<and>
    (\<exists>vs. unpack_event lib ''TokenSold'' log = Inr vs \<and> trade_args_named (abi_event_of ''TokenSold'') vs p)"
proof -
  obtain vs where u: "unpack_event lib ''TokenSold'' log = Inr vs" "tt_TradeType p = TradeTypeSell"
    and a: "\<exists>n. arg_int vs 1 = Inr n \<and> tt_BNBAmount p = Some n" "\<exists>n. arg_int vs 0 = Inr n \<and> tt_TokenAmount p = Some n"
      "\<exists>n. arg_int vs 2 = Inr n \<and> tt_TradingFee p = Some n" "\<exists>n. arg_int vs 3 = Inr n \<and> tt_VirtualBNBReserve p = Some n"
      "\<exists>n. arg_int vs 4 = Inr n \<and> tt_VirtualTokenReserve p = Some n" "\<exists>n. arg_int vs 5 = Inr n \<and> tt_AvailableTokens p = Some n"
      "\<exists>n. arg_int vs 6 = Inr n \<and> tt_CollectedBNB p = Some n"
    using assms [unfolded decodeTokenSold_def] by (rule decodeTrade_Inr)
  from a(7) have "6 < length vs" by (auto simp: arg_int_Inr)
  note named = arg_named_simps [OF this]
  have "trade_args_named (abi_event_of ''TokenSold'') vs p"
    using a unfolding trade_args_named_def arg_int_Inr named(3,4) by (auto simp: named(5))
  with u show ?thesis by blast
qed

text \<open>C23: Trades are decoded by the meaning of the contract's arguments.  Whenever a purchase
  or a sale decodes, each amount of the projection is the argument of that name in the ABI of
  the event, although the two events declare the BNB and the token amount in opposite order.\<close>

theorem trades_decoded_by_name:
  "(case decodeTokenBought lib log t of Inl _ \<Rightarrow> True
     | Inr p \<Rightarrow> tt_TradeType p = TradeTypeBuy \<and>
        (\<exists>vs. unpack_event lib ''TokenBought'' log = Inr vs \<and> trade_args_named (abi_event_of ''TokenBought'') vs p)) \<and>
   (case decodeTokenSold lib log t of Inl _ \<Rightarrow> True
     | Inr p \<Rightarrow> tt_TradeType p = TradeTypeSell \<and>
        (\<exists>vs. unpack_event lib ''TokenSold'' log = Inr vs \<and> trade_args_named (abi_event_of ''TokenSold'') vs p))"
  using decodeTokenBought_named [of lib log t] decodeTokenSold_named [of lib log t]
  by (auto split: sum.split)

section \<open>The ranges of a synchronisation\<close>

text \<open>The ranges from \<open>n\<close> to \<open>l\<close> in batches of \<open>b\<close> blocks, on plain numbers.\<close>

function block_ranges :: "nat \<Rightarrow> nat \<Rightarrow> nat \<Rightarrow> (nat \<times> nat) list" where
  "block_ranges n l b =
     (if b = 0 \<or> l < n then []
      else (n, min (n + b - 1) l) # block_ranges (Suc (min (n + b - 1) l)) l b)"
  by pat_completeness auto
termination by (relation "measure (\<lambda>(n, l, b). Suc l - n)") auto

declare block_ranges.simps [simp del]

lemma block_ranges_cover:
  "0 < b \<Longrightarrow> concat (map (\<lambda>(a, e). [a..<Suc e]) (block_ranges n l b)) = [n..<Suc l]"
proof (induction n l b rule: block_ranges.induct)
  case (1 n l b)
  show ?case
  proof (cases "l < n")
    case True
    then show ?thesis by (simp add: block_ranges.simps [of n])
  next
    case False
    let ?e = "min (n + b - 1) l"
    have "n \<le> Suc ?e" "Suc ?e \<le> Suc l" using False "1.prems" by auto
    then have "[n..<Suc l] = [n..<Suc ?e] @ [Suc ?e..<Suc l]"
      using upt_add_eq_append [of n "Suc ?e" "Suc l - Suc ?e"] by simp
    with False 1 show ?thesis by (simp add: block_ranges.simps [of n] del: upt_Suc)
  qed
qed

lemma min_range: "0 < b \<Longrightarrow> n \<le> l \<Longrightarrow> n \<le> min (n + b - 1) l \<and> min (n + b - 1) l < n + (b::nat)"
  by arith

lemma block_ranges_sizes:
  "0 < b \<Longrightarrow> list_all (\<lambda>(a, e). n \<le> a \<and> a \<le> e \<and> e \<le> l \<and> e < a + b) (block_ranges n l b)"
proof (induction n l b rule: block_ranges.induct)
  case (1 n l b)
  show ?case
  proof (cases "l < n")
    case True
    then show ?thesis by (simp add: block_ranges.simps [of n])
  next
    case False
    with 1 have "list_all (\<lambda>(a, e). Suc (min (n + b - 1) l) \<le> a \<and> a \<le> e \<and> e \<le> l \<and> e < a + b)
        (block_ranges (Suc (min (n + b - 1) l)) l b)" by simp
    then have "list_all (\<lambda>(a, e). n \<le> a \<and> a \<le> e \<and> e \<le> l \<and> e < a + b)
        (block_ranges (Suc (min (n + b - 1) l)) l b)"
      using False "1.prems" by (auto elim!: list.pred_mono_strong)
    moreover have "n \<le> min (n + b - 1) l \<and> min (n + b - 1) l < n + b"
      using False "1.prems" by (intro min_range) simp_all
    ultimately show ?thesis using False "1.prems" by (simp add: block_ranges.simps [of n])
  qed
qed

text \<open>Saving a list of ranges one after the other, up to the first error.\<close>

fun sync_ranges ::
  "eth_lib \<Rightarrow> 's indexer \<Rightarrow> rpc_client \<Rightarrow> (nat \<times> nat) list \<Rightarrow> u64 \<Rightarrow> 's \<Rightarrow> unit res \<times> u64 \<times> 's" where
  "sync_ranges lib i rpc [] next s = (Inr (), next, s)"
| "sync_ranges lib i rpc ((a, e) # rs) next s =
     (case sync_range lib i rpc (word_of_nat a) (word_of_nat e) s of
        (Inl err, s') \<Rightarrow> (Inl err, next, s')
      | (Inr _, s') \<Rightarrow> sync_ranges lib i rpc rs (word_of_nat e + 1) s')"

lemma range_end_nat:
  assumes "next \<le> latest" and "b \<noteq> 0" and "unat latest + unat b < 2 ^ 64"
  shows "unat (range_end next b latest) = min (unat next + unat b - 1) (unat latest)"
proof -
  have n: "unat next \<le> unat latest" using assms(1) by (simp add: word_le_nat_alt)
  have b: "0 < unat b" using assms(2) by (simp add: unat_gt_0)
  have "unat (next + b) = unat next + unat b"
    using n assms(3) by (intro unat_add_lem [THEN iffD1]) simp
  moreover have "1 \<le> next + b"
    using calculation b by (simp add: word_le_nat_alt)
  ultimately have "unat (next + b - 1) = unat next + unat b - 1"
    by (simp add: unat_minus_one unat_sub)
  then show ?thesis by (simp add: range_end_def Let_def word_less_nat_alt min_def)
qed

lemma sync_loop_ranges:
  assumes b: "ix_BlockBatchSize (in_cfg i) \<noteq> 0"
    and fits: "unat latest + unat (ix_BlockBatchSize (in_cfg i)) < 2 ^ 64"
  shows "sync_loop lib i rpc latest (next, s) =
    Some (sync_ranges lib i rpc
      (block_ranges (unat next) (unat latest) (unat (ix_BlockBatchSize (in_cfg i)))) next s)"
proof (induction "Suc (unat latest) - unat next" arbitrary: "next" s rule: less_induct)
  case less
  let ?b = "ix_BlockBatchSize (in_cfg i)"
  have b': "unat ?b \<noteq> 0" using b by (simp add: unat_eq_0)
  show ?case
  proof (cases "next \<le> latest")
    case False
    then have "unat latest < unat next" by (simp add: word_le_nat_alt)
    with False show ?thesis by (simp add: sync_loop.simps block_ranges.simps [of "unat next"])
  next
    case True
    then have n: "unat next \<le> unat latest" by (simp add: word_le_nat_alt)
    define e where "e = range_end next ?b latest"
    have e: "unat e = min (unat next + unat ?b - 1) (unat latest)"
      unfolding e_def by (rule range_end_nat [OF True b fits])
    then have "unat e + 1 < 2 ^ 64" using fits b' by (simp add: min_def)
    then have e1: "unat (e + 1) = Suc (unat e)" by (simp add: unat_word_ariths)
    have w: "(word_of_nat (unat next) :: u64) = next" "(word_of_nat (unat e) :: u64) = e" by simp_all
    have r: "block_ranges (unat next) (unat latest) (unat ?b)
        = (unat next, unat e) # block_ranges (unat (e + 1)) (unat latest) (unat ?b)"
      using n b' by (simp add: block_ranges.simps [of "unat next"] e e1)
    have "Suc (unat latest) - unat (e + 1) < Suc (unat latest) - unat next"
      using min_range [of "unat ?b" "unat next" "unat latest"] n b' e1 unfolding e [symmetric] by linarith
    note IH = less.hyps [OF this]
    show ?thesis
      using True IH
      by (simp add: sync_loop.simps [of lib i rpc latest "(next, s)"] r e_def [symmetric] split: prod.split sum.split)
  qed
qed

text \<open>C13: A synchronisation returns, and reads exactly the blocks from the next one to the
  latest: when the latest block and the batch size do not overflow 64 bits, the loop ends and
  is the sequence of saves of the ranges \<open>block_ranges\<close>, each starting where the previous one
  ended, until the first error; on an error the position to resume from is the start of the
  range that failed.\<close>

theorem syncAvailable_ranges:
  assumes "rpc_BlockNumber rpc = Inr latest" and "ix_BlockBatchSize (in_cfg i) \<noteq> 0"
    and "unat latest + unat (ix_BlockBatchSize (in_cfg i)) < 2 ^ 64"
  shows "let rs = block_ranges (unat next) (unat latest) (unat (ix_BlockBatchSize (in_cfg i))) in
    syncAvailable lib i rpc next s = Some (sync_ranges lib i rpc rs next s) \<and>
    concat (map (\<lambda>(a, e). [a..<Suc e]) rs) = [unat next..<Suc (unat latest)] \<and>
    list_all (\<lambda>(a, e). a \<le> e \<and> e < a + unat (ix_BlockBatchSize (in_cfg i))) rs"
proof -
  let ?b = "ix_BlockBatchSize (in_cfg i)"
  have b: "0 < unat ?b" using assms(2) by (simp add: unat_gt_0)
  have "syncAvailable lib i rpc next s =
      Some (sync_ranges lib i rpc (block_ranges (unat next) (unat latest) (unat ?b)) next s)"
    using sync_loop_ranges [OF assms(2,3)] by (simp add: syncAvailable_def assms(1))
  moreover have "list_all (\<lambda>(a, e). a \<le> e \<and> e < a + unat ?b) (block_ranges (unat next) (unat latest) (unat ?b))"
    by (rule list.pred_mono_strong [OF block_ranges_sizes [OF b]]) auto
  ultimately show ?thesis using block_ranges_cover [OF b] by (simp add: Let_def)
qed

section \<open>The event store as an interface\<close>

text \<open>
  What the indexer relies on: reading the checkpoint changes nothing, a successful save
  stores the logs and moves the checkpoint to the last block, a failed one leaves the
  checkpoint, and nothing stored is lost.
\<close>

locale event_store =
  fixes store :: "'s event_store_ops"
    and chainID :: int
    and contract :: string
    and ok :: "'s \<Rightarrow> bool"
    and checkpoint :: "'s \<Rightarrow> u64 option"
    and stored :: "'s \<Rightarrow> chain_log \<Rightarrow> bool"
  assumes last_keeps: "ok s \<Longrightarrow> ok (snd (es_LastSyncedBlock store chainID contract s))
        \<and> checkpoint (snd (es_LastSyncedBlock store chainID contract s)) = checkpoint s
        \<and> stored (snd (es_LastSyncedBlock store chainID contract s)) = stored s"
    and last_reads: "ok s \<Longrightarrow> fst (es_LastSyncedBlock store chainID contract s) = Inr (b, f)
        \<Longrightarrow> checkpoint s = (if f then Some b else None)"
    and save_keeps: "ok s \<Longrightarrow> ok (snd (es_SaveBlockRange store chainID contract n logs ps s))
        \<and> (stored s l \<longrightarrow> stored (snd (es_SaveBlockRange store chainID contract n logs ps s)) l)"
    and save_done: "ok s \<Longrightarrow> fst (es_SaveBlockRange store chainID contract n logs ps s) = Inr ()
        \<Longrightarrow> checkpoint (snd (es_SaveBlockRange store chainID contract n logs ps s)) = Some n
          \<and> (l \<in> set logs \<longrightarrow> stored (snd (es_SaveBlockRange store chainID contract n logs ps s)) l)"
    and save_failed: "ok s \<Longrightarrow> fst (es_SaveBlockRange store chainID contract n logs ps s) = Inl e
        \<Longrightarrow> checkpoint (snd (es_SaveBlockRange store chainID contract n logs ps s)) = checkpoint s"

text \<open>An honest node: when it answers a query, no log of a block of the range is missing.\<close>

definition honest :: "(u64 \<Rightarrow> chain_log list) \<Rightarrow> rpc_client \<Rightarrow> bool" where
  "honest chain rpc = (\<forall>a b k logs. rpc_FilterLogs rpc a b k = Inr logs \<longrightarrow>
     (\<forall>n. a \<le> n \<and> n \<le> b \<longrightarrow> set (chain n) \<subseteq> set logs))"

definition all_stored :: "(u64 \<Rightarrow> chain_log list) \<Rightarrow> ('s \<Rightarrow> chain_log \<Rightarrow> bool) \<Rightarrow> 's \<Rightarrow> u64 set \<Rightarrow> bool" where
  "all_stored chain stored s ns = (\<forall>n \<in> ns. \<forall>l \<in> set (chain n). stored s l)"

text \<open>The guarantee: every log from the start block to the checkpoint is stored.\<close>

definition complete :: "(u64 \<Rightarrow> chain_log list) \<Rightarrow> ('s \<Rightarrow> chain_log \<Rightarrow> bool) \<Rightarrow> ('s \<Rightarrow> u64 option) \<Rightarrow> u64 \<Rightarrow> 's \<Rightarrow> bool" where
  "complete chain stored checkpoint start s =
     (case checkpoint s of None \<Rightarrow> True | Some cp \<Rightarrow> all_stored chain stored s {start..cp})"

lemma all_stored_frame: "stored t = stored s \<Longrightarrow> all_stored chain stored t ns = all_stored chain stored s ns"
  by (simp add: all_stored_def)

lemmas sync_loop_induct = sync_loop.raw_induct [rotated, consumes 1, case_names step]

lemma below_Suc_word: "(n::u64) < e + 1 \<Longrightarrow> n \<le> e"
  by unat_arith

context event_store begin

definition serves :: "eth_lib \<Rightarrow> 's indexer \<Rightarrow> bool" where
  "serves lib i = (in_store i = store \<and> ix_ChainID (in_cfg i) = chainID
     \<and> address_hex lib (in_contract i) = contract)"

definition inv :: "(u64 \<Rightarrow> chain_log list) \<Rightarrow> u64 \<Rightarrow> u64 \<Rightarrow> 's \<Rightarrow> bool" where
  "inv chain start next s = (ok s \<and> complete chain stored checkpoint start s
     \<and> all_stored chain stored s {start..<next})"

lemma save_inv:
  assumes "inv chain start next s" and "\<And>n. next \<le> n \<Longrightarrow> n \<le> e \<Longrightarrow> set (chain n) \<subseteq> set logs"
    and "es_SaveBlockRange store chainID contract e logs ps s = (r, s')"
  shows "case r of Inl _ \<Rightarrow> inv chain start next s' | Inr _ \<Rightarrow> inv chain start (e + 1) s'"
proof -
  from assms(1) have ok: "ok s" by (simp add: inv_def)
  note keeps = save_keeps [OF ok, of e logs ps, unfolded assms(3) snd_conv]
  have mono: "all_stored chain stored s ns \<Longrightarrow> all_stored chain stored s' ns" for ns
    using keeps by (auto simp: all_stored_def)
  show ?thesis
  proof (cases r)
    case (Inl err)
    with save_failed [OF ok, of e logs ps err] assms(3) have "checkpoint s' = checkpoint s" by simp
    with assms(1) keeps mono Inl show ?thesis by (auto simp: inv_def complete_def split: option.split)
  next
    case (Inr u)
    with save_done [OF ok, of e logs ps] assms(3) have d: "checkpoint s' = Some e" "\<And>l. l \<in> set logs \<Longrightarrow> stored s' l"
      by (simp_all)
    have "stored s' l" if "start \<le> n" "n \<le> e" "l \<in> set (chain n)" for n l
    proof (cases "n < next")
      case True
      with assms(1) that have "stored s l" by (simp add: inv_def all_stored_def)
      with keeps show ?thesis by blast
    next
      case False
      then have "l \<in> set logs" using assms(2) [of n] that by (auto simp: not_less)
      then show ?thesis by (rule d(2))
    qed
    then have "all_stored chain stored s' {start..e}" by (auto simp: all_stored_def)
    moreover from this have "all_stored chain stored s' {start..<e + 1}"
      using below_Suc_word by (auto simp: all_stored_def)
    ultimately show ?thesis using Inr d(1) keeps by (simp add: inv_def complete_def)
  qed
qed

lemma sync_range_inv:
  assumes "serves lib i" and "honest chain rpc" and "inv chain start next s"
    and "sync_range lib i rpc next e s = (r, s')"
  shows "case r of Inl _ \<Rightarrow> inv chain start next s' | Inr _ \<Rightarrow> inv chain start (e + 1) s'"
proof (cases "rpc_FilterLogs rpc next e (in_contract i)")
  case (Inl err)
  with assms(3,4) show ?thesis by (auto simp: sync_range_def)
next
  case (Inr logs)
  show ?thesis
  proof (cases "decodeProjections lib rpc logs")
    case (Inl err)
    with Inr assms(3,4) show ?thesis by (auto simp: sync_range_def)
  next
    case dec: (Inr ps)
    obtain r' where save: "es_SaveBlockRange store chainID contract e logs ps s = (r', s')"
      and r: "r = wrap_err (range_text ''save logs'' next e) r'"
      using assms(1,4) Inr dec by (auto simp: sync_range_def serves_def split: prod.splits)
    have "case r' of Inl _ \<Rightarrow> inv chain start next s' | Inr _ \<Rightarrow> inv chain start (e + 1) s'"
      using assms(2) Inr by (intro save_inv [OF assms(3) _ save]) (auto simp: honest_def)
    with r show ?thesis by (cases r') simp_all
  qed
qed

lemma sync_loop_inv:
  assumes "sync_loop lib i rpc latest st = Some y" and "serves lib i" and "honest chain rpc"
    and "inv chain start (fst st) (snd st)"
  shows "inv chain start (fst (snd y)) (snd (snd y))"
  using assms
proof (induction rule: sync_loop_induct)
  case (step loop lib i rpc latest st y)
  obtain "next" s where st: "st = (next, s)" by (cases st)
  define e where "e = range_end next (ix_BlockBatchSize (in_cfg i)) latest"
  obtain r s' where sr: "sync_range lib i rpc next e s = (r, s')" by (cases "sync_range lib i rpc next e s")
  have one: "case r of Inl _ \<Rightarrow> inv chain start next s' | Inr _ \<Rightarrow> inv chain start (e + 1) s'"
    using step.prems st by (intro sync_range_inv [OF _ _ _ sr]) simp_all
  show ?case
  proof (cases "next \<le> latest")
    case False
    with step.hyps step.prems st show ?thesis by auto
  next
    case True
    show ?thesis
    proof (cases r)
      case (Inl err)
      with True step.hyps st sr one show ?thesis by (auto simp: e_def [symmetric])
    next
      case (Inr u)
      with True step.hyps st sr have "loop lib i rpc latest (e + 1, s') = Some y"
        by (simp add: e_def [symmetric])
      then show ?thesis using one Inr step.prems by (intro step.IH [of lib i rpc latest "(e + 1, s')"]) simp_all
    qed
  qed
qed

lemma syncAvailable_inv:
  assumes "serves lib i" and "honest chain rpc" and "inv chain start next s"
    and "syncAvailable lib i rpc next s = Some (r, next', s')"
  shows "inv chain start next' s'"
proof (cases "rpc_BlockNumber rpc")
  case (Inl e)
  with assms(3,4) show ?thesis by (simp add: syncAvailable_def)
next
  case (Inr latest)
  with assms(4) have "sync_loop lib i rpc latest (next, s) = Some (r, next', s')"
    by (simp add: syncAvailable_def)
  from sync_loop_inv [OF this assms(1,2)] assms(3) show ?thesis by simp
qed

lemma poll_loop_inv:
  assumes "serves lib i" and "list_all (honest chain) (rpc # rpcs)" and "inv chain start next s"
    and "poll_loop lib i rpc rpcs next s = Some (r, s')"
  shows "\<exists>next'. inv chain start next' s'"
  using assms
proof (induction rpcs arbitrary: rpc "next" s)
  case Nil
  then show ?case
    by (auto split: option.splits sum.splits prod.splits dest: syncAvailable_inv)
next
  case (Cons r2 rpcs)
  obtain q next2 s2 where sa: "syncAvailable lib i rpc next s = Some (q, next2, s2)"
    using Cons.prems(4) by (auto split: option.splits)
  have i2: "inv chain start next2 s2"
    using Cons.prems by (intro syncAvailable_inv [OF _ _ _ sa]) simp_all
  show ?case
  proof (cases q)
    case (Inl e)
    with Cons.prems(4) sa i2 show ?thesis by auto
  next
    case (Inr u)
    with Cons.prems(4) sa have "poll_loop lib i r2 rpcs next2 s2 = Some (r, s')" by simp
    then show ?thesis using Cons.prems by (intro Cons.IH [OF _ _ i2]) simp_all
  qed
qed

lemma nextBlock_inv:
  assumes "serves lib i" and "ok s" and "complete chain stored checkpoint (ix_StartBlock (in_cfg i)) s"
    and "nextBlock lib i s = (r, s')"
  shows "case r of Inl _ \<Rightarrow> ok s' \<and> complete chain stored checkpoint (ix_StartBlock (in_cfg i)) s'
    | Inr n \<Rightarrow> inv chain (ix_StartBlock (in_cfg i)) n s'"
proof -
  note keeps = last_keeps [OF assms(2)]
  obtain q t where l: "es_LastSyncedBlock store chainID contract s = (q, t)"
    by (cases "es_LastSyncedBlock store chainID contract s")
  have t: "ok t" "checkpoint t = checkpoint s" "stored t = stored s" using keeps l by simp_all
  then have c: "complete chain stored checkpoint (ix_StartBlock (in_cfg i)) t"
    using assms(3) by (simp add: complete_def all_stored_frame [OF t(3)] split: option.splits)
  show ?thesis
  proof (cases q)
    case (Inl e)
    with assms(1,4) l t c show ?thesis by (auto simp: nextBlock_def serves_def)
  next
    case (Inr bf)
    obtain b f where bf: "bf = (b, f)" by (cases bf)
    have cp: "checkpoint s = (if f then Some b else None)"
      using last_reads [OF assms(2)] l Inr bf by simp
    have r: "r = Inr (if f then b + 1 else ix_StartBlock (in_cfg i))" "s' = t"
      using assms(1,4) l Inr bf by (auto simp: nextBlock_def serves_def)
    have "all_stored chain stored t {ix_StartBlock (in_cfg i)..<(if f then b + 1 else ix_StartBlock (in_cfg i))}"
    proof (cases f)
      case True
      with cp c t have "all_stored chain stored t {ix_StartBlock (in_cfg i)..b}" by (simp add: complete_def)
      with True show ?thesis using below_Suc_word by (auto simp: all_stored_def)
    qed (simp add: all_stored_def)
    with r t c show ?thesis by (simp add: inv_def)
  qed
qed

lemma Run_complete:
  assumes "serves lib i" and "list_all (honest chain) (rpc # rpcs)"
    and "ok s" and "complete chain stored checkpoint (ix_StartBlock (in_cfg i)) s"
    and "Run lib i rpc rpcs s = Some (r, s')"
  shows "ok s' \<and> complete chain stored checkpoint (ix_StartBlock (in_cfg i)) s'"
proof (cases "VerifyChain i rpc")
  case (Inl e)
  with assms show ?thesis by (simp add: Run_def)
next
  case v: (Inr u)
  obtain q t where nb: "nextBlock lib i s = (q, t)" by (cases "nextBlock lib i s")
  note n = nextBlock_inv [OF assms(1,3,4) nb]
  show ?thesis
  proof (cases q)
    case (Inl e)
    with v nb n assms(5) show ?thesis by (simp add: Run_def)
  next
    case (Inr m)
    with v nb assms(5) have "poll_loop lib i rpc rpcs m t = Some (r, s')" by (simp add: Run_def)
    from poll_loop_inv [OF assms(1,2) _ this] n Inr show ?thesis by (auto simp: inv_def)
  qed
qed

end

section \<open>The repository is an event store\<close>

definition repo_store :: "(bytes \<Rightarrow> string) \<Rightarrow> (chain_db \<times> bool list) event_store_ops" where
  "repo_store hex = \<lparr>es_LastSyncedBlock = LastSyncedBlock, es_SaveBlockRange = SaveBlockRange hex\<rparr>"

definition repo_checkpoint :: "int \<Rightarrow> string \<Rightarrow> chain_db \<times> bool list \<Rightarrow> u64 option" where
  "repo_checkpoint chainID contract s = find_checkpoint chainID contract (fst s)"

definition in_ledger :: "(bytes \<Rightarrow> string) \<Rightarrow> int \<Rightarrow> string \<Rightarrow> chain_db \<times> bool list \<Rightarrow> chain_log \<Rightarrow> bool" where
  "in_ledger hex chainID contract s l =
     has_key chain_event_key (chain_event_key (chain_event_of hex chainID contract l)) (chain_events (fst s))"

lemma LastSyncedBlock_reads:
  "fst (LastSyncedBlock c k (db, fs)) = Inr (b, f) \<Longrightarrow> find_checkpoint c k db = (if f then Some b else None)"
  by (auto simp: LastSyncedBlock_def query_row_def exec_def split: list.splits bool.splits option.splits)

lemma chain_events_fold_insert:
  "has_key chain_event_key q (chain_events (fold (insert_chain_event hex c k) logs db)) =
    (q \<in> (\<lambda>l. chain_event_key (chain_event_of hex c k l)) ` set logs \<or> has_key chain_event_key q (chain_events db))"
  by (induction logs arbitrary: db) auto

lemma chain_events_save_range: "chain_events (save_range hex c k n logs ps db) = chain_events (fold (insert_chain_event hex c k) logs db)"
proof -
  have "chain_events (fold projection_step ps s) = chain_events s" for s
    by (rule fold_invariant [of "\<lambda>t. chain_events t = chain_events s"]) (simp_all add: projection_step_def)
  then show ?thesis by (simp add: save_range_def)
qed

interpretation repo: event_store "repo_store hex" chainID contract "\<lambda>s. keys_ok (fst s)"
    "repo_checkpoint chainID contract" "in_ledger hex chainID contract"
  for hex chainID contract
proof (unfold_locales, goal_cases)
  case (1 s)
  obtain db fs where s: "s = (db, fs)" by (cases s)
  show ?case
    using 1 by (simp add: s repo_store_def LastSyncedBlock_keeps repo_checkpoint_def in_ledger_def fun_eq_iff)
next
  case (2 s b f)
  obtain db fs where s: "s = (db, fs)" by (cases s)
  show ?case
    using 2 LastSyncedBlock_reads [of chainID contract db fs b f] by (simp add: s repo_store_def repo_checkpoint_def)
next
  case (3 s n logs ps l)
  obtain db fs where s: "s = (db, fs)" by (cases s)
  show ?case
    using 3 SaveBlockRange_choice [of hex chainID contract n logs ps db fs] keys_ok_save [of db]
    by (auto simp: s repo_store_def in_ledger_def chain_events_save_range chain_events_fold_insert)
next
  case (4 s n logs ps l)
  obtain db fs where s: "s = (db, fs)" by (cases s)
  obtain r db' fs' where sv: "SaveBlockRange hex chainID contract n logs ps (db, fs) = (r, db', fs')"
    by (cases "SaveBlockRange hex chainID contract n logs ps (db, fs)")
  with 4 have "r = Inr ()" by (simp add: s repo_store_def)
  with SaveBlockRange_outcome [where hex = hex and chainID = chainID and contract = contract and lastBlock = n
      and logs = logs and ps = ps and db = db and fs = fs] sv
  have "db' = save_range hex chainID contract n logs ps db" by simp
  with 4(1) sv show ?case
    by (auto simp: s repo_store_def repo_checkpoint_def in_ledger_def find_checkpoint_save_range
        chain_events_save_range chain_events_fold_insert)
next
  case (5 s n logs ps e)
  obtain db fs where s: "s = (db, fs)" by (cases s)
  obtain r db' fs' where sv: "SaveBlockRange hex chainID contract n logs ps (db, fs) = (r, db', fs')"
    by (cases "SaveBlockRange hex chainID contract n logs ps (db, fs)")
  with 5 have "r = Inl e" by (simp add: s repo_store_def)
  with SaveBlockRange_outcome [where hex = hex and chainID = chainID and contract = contract and lastBlock = n
      and logs = logs and ps = ps and db = db and fs = fs] sv
  have "db' = db" by simp
  with sv show ?case by (simp add: s repo_store_def repo_checkpoint_def)
qed

section \<open>Restarts\<close>

text \<open>One process: the node at its first and later polls, and its schedule of database failures.\<close>

record process =
  pr_rpc :: rpc_client
  pr_polls :: "rpc_client list"
  pr_faults :: "bool list"

fun restarts ::
  "eth_lib \<Rightarrow> (chain_db \<times> bool list) indexer \<Rightarrow> process list \<Rightarrow> chain_db \<Rightarrow> chain_db option" where
  "restarts lib i [] db = Some db"
| "restarts lib i (p # ps) db =
     (case Run lib i (pr_rpc p) (pr_polls p) (db, pr_faults p) of
        None \<Rightarrow> None
      | Some (_, (db', _)) \<Rightarrow> restarts lib i ps db')"

lemma restarts_complete:
  assumes "in_store i = repo_store hex"
    and "\<forall>p \<in> set procs. list_all (honest chain) (pr_rpc p # pr_polls p)"
    and "keys_ok db"
    and "complete chain (in_ledger hex (ix_ChainID (in_cfg i)) (address_hex lib (in_contract i)))
      (repo_checkpoint (ix_ChainID (in_cfg i)) (address_hex lib (in_contract i))) (ix_StartBlock (in_cfg i)) (db, fs)"
    and "restarts lib i procs db = Some db'"
  shows "complete chain (in_ledger hex (ix_ChainID (in_cfg i)) (address_hex lib (in_contract i)))
      (repo_checkpoint (ix_ChainID (in_cfg i)) (address_hex lib (in_contract i))) (ix_StartBlock (in_cfg i)) (db', [])"
  using assms(2-)
proof (induction procs arbitrary: db fs)
  case Nil
  then show ?case by (simp add: complete_def all_stored_def repo_checkpoint_def in_ledger_def split: option.splits)
next
  case (Cons p procs)
  let ?c = "ix_ChainID (in_cfg i)"
  let ?k = "address_hex lib (in_contract i)"
  obtain r db2 fs2 where run: "Run lib i (pr_rpc p) (pr_polls p) (db, pr_faults p) = Some (r, (db2, fs2))"
    using Cons.prems(4) by (auto split: option.splits)
  have sv: "repo.serves hex ?c ?k lib i" using assms(1) by (simp add: repo.serves_def)
  have c0: "complete chain (in_ledger hex ?c ?k) (repo_checkpoint ?c ?k) (ix_StartBlock (in_cfg i)) (db, pr_faults p)"
    using Cons.prems(3) by (simp add: complete_def all_stored_def repo_checkpoint_def in_ledger_def split: option.splits)
  from repo.Run_complete [OF sv _ _ c0 run] Cons.prems(1,2)
  have "keys_ok db2" and c2: "complete chain (in_ledger hex ?c ?k) (repo_checkpoint ?c ?k) (ix_StartBlock (in_cfg i)) (db2, fs2)"
    by simp_all
  with Cons.prems(1,4) run show ?case by (intro Cons.IH [of db2 fs2]) simp_all
qed


subsection \<open>A concrete run\<close>

definition sample_log :: chain_log where
  "sample_log = \<lparr>log_Topics = [[]], log_Data = [], log_BlockNumber = 0, log_TxHash = [], log_BlockHash = [],
     log_Index = 0, log_Removed = False\<rparr>"

definition sample_rpc :: rpc_client where
  "sample_rpc = \<lparr>rpc_ChainID = Inr 97, rpc_BlockNumber = Inr 0, rpc_HeaderByNumber = (\<lambda>_. Inr 0),
     rpc_FilterLogs = (\<lambda>a b k. Inr (if a = 0 then [sample_log] else []))\<rparr>"

definition sample_chain :: "u64 \<Rightarrow> chain_log list" where
  "sample_chain n = (if n = 0 then [sample_log] else [])"

definition sample_indexer :: "(chain_db \<times> bool list) indexer" where
  "sample_indexer = \<lparr>in_store = repo_store (hash_hex sample_lib),
     in_cfg = \<lparr>ix_RPCURL = ''r'', ix_ChainID = 97, ix_CoreContract = ''c'', ix_StartBlock = 0,
               ix_BlockBatchSize = 10, ix_PollInterval = 1\<rparr>, in_contract = []\<rparr>"

definition sample_db :: chain_db where
  "sample_db = save_range hex_encode 97 [] 0 [sample_log] [] empty_chain_db"

lemma sample_sync: "sync_range sample_lib sample_indexer sample_rpc 0 0 (empty_chain_db, []) = (Inr (), sample_db, [])"
proof -
  have dec: "decodeProjections sample_lib sample_rpc [sample_log] = Inr []"
  proof -
    have "log_Topics sample_log = [[]]" "\<not> log_Removed sample_log" by (simp_all add: sample_log_def)
    moreover have "[] \<noteq> event_id sample_lib (abi_event_of ''TokenCreated'')" "[] \<noteq> event_id sample_lib (abi_event_of ''TokenBought'')"
      "[] \<noteq> event_id sample_lib (abi_event_of ''TokenSold'')" "[] \<noteq> event_id sample_lib (abi_event_of ''TokenGraduated'')"
      by (simp_all add: sample_lib_def abi_event_of_def memeCoreABI_def str_bytes_def)
    ultimately show ?thesis
      by (simp add: decodeProjections_def decodeProjection_def header_time_def sample_rpc_def)
  qed
  have "SaveBlockRange hex_encode 97 [] 0 [sample_log] [] (empty_chain_db, []) = (Inr (), sample_db, [])"
    by (simp add: SaveBlockRange_def run_tx_def sbind_def swrap_def sret_def exec_upd_def exec_def sample_db_def
        save_range_def)
  then show ?thesis
    using dec by (simp add: sync_range_def sample_rpc_def)
      (simp add: sample_indexer_def repo_store_def sample_lib_def hex_encode_def)
qed

lemma sample_run:
  "restarts sample_lib sample_indexer [\<lparr>pr_rpc = sample_rpc, pr_polls = [], pr_faults = []\<rparr>] empty_chain_db = Some sample_db"
proof -
  have v: "VerifyChain sample_indexer sample_rpc = Inr ()"
    by (simp add: VerifyChain_def sample_rpc_def sample_indexer_def big_Int64_def)
  have n: "nextBlock sample_lib sample_indexer (empty_chain_db, []) = (Inr 0, (empty_chain_db, []))"
    by (simp add: nextBlock_def sample_indexer_def repo_store_def LastSyncedBlock_live find_checkpoint_def empty_chain_db_def)
  have e: "range_end 0 10 0 = (0 :: u64)" by (simp add: range_end_def)
  have c: "ix_BlockBatchSize (in_cfg sample_indexer) = 10" by (simp add: sample_indexer_def)
  have "sync_loop sample_lib sample_indexer sample_rpc 0 (0, (empty_chain_db, [])) = Some (Inr (), 1, (sample_db, []))"
    by (simp add: sync_loop.simps [of _ _ _ _ "(0, _)"] c e sample_sync) (simp add: sync_loop.simps)
  then have "syncAvailable sample_lib sample_indexer sample_rpc 0 (empty_chain_db, []) = Some (Inr (), 1, (sample_db, []))"
    by (simp add: syncAvailable_def sample_rpc_def)
  with v n show ?thesis by (simp add: Run_def)
qed

theorem syncAvailable_ranges_witness:
  "syncAvailable sample_lib sample_indexer sample_rpc 0 (empty_chain_db, []) =
     Some (sync_ranges sample_lib sample_indexer sample_rpc (block_ranges 0 0 10) 0 (empty_chain_db, []))"
  using syncAvailable_ranges [of sample_rpc 0 sample_indexer 0 sample_lib "(empty_chain_db, [])"]
  by (simp add: sample_rpc_def sample_indexer_def Let_def)


end
