(* ===== verification/Auth.thy ===== *)
theory Auth
  imports Tables GoTime Eth
begin

text \<open>
  Wallet login of the rebuild, app-rebuild/internal/auth: the challenge (service.go), its two
  stores (memory_store.go, redis_store.go), the users they log in (repository/user.go) and
  the session token (jwt_verifier.go).  The challenge store is an interface: a locale states
  what both stores promise, and the guarantees about logins are proved from it.

  Times are nanoseconds since the Unix epoch.  Every call of \<open>time.Now\<close> is a reading of the
  clock given as an argument (\<open>clock k\<close> is the k-th reading of the operation), so the proofs
  hold for every clock.  The random nonce is an argument; \<open>None\<close> is a failure of the generator.
  A Redis server is a map from keys to values with an optional expiry, and its commands may
  fail according to a schedule; JSON encoding of a challenge is taken to be exact.  Signature
  recovery and JWT signing are parameters.
\<close>

section \<open>Errors\<close>

definition ErrInvalidAddress :: err where "ErrInvalidAddress = ErrMsg ''invalid wallet address''"
definition ErrInvalidSignature :: err where "ErrInvalidSignature = ErrMsg ''invalid wallet signature''"
definition ErrInvalidNonce :: err where "ErrInvalidNonce = ErrMsg ''nonce is missing, expired, or already used''"
definition ErrInvalidSIWE :: err where "ErrInvalidSIWE = ErrMsg ''invalid SIWE challenge''"

definition go_second :: int where "go_second = 1000000000"
definition go_minute :: int where "go_minute = 60 * go_second"
definition go_hour :: int where "go_hour = 60 * go_minute"

definition unix :: "int \<Rightarrow> int" where "unix t = t div go_second"

definition pad2 :: "int \<Rightarrow> string" where
  "pad2 n = (if 0 \<le> n \<and> n < 10 then ''0'' @ show_int n else show_int n)"

definition pad4 :: "int \<Rightarrow> string" where
  "pad4 n = replicate (4 - length (show_int n)) (CHR ''0'') @ show_int n"

text \<open>\<open>t.UTC().Format(time.RFC3339)\<close>.\<close>

definition format_rfc3339 :: "int \<Rightarrow> string" where
  "format_rfc3339 t =
     (let s = unix t; (y, m, d) = civil (local_day 0 s)
      in pad4 y @ ''-'' @ pad2 m @ ''-'' @ pad2 d @ ''T'' @ pad2 (hour_of 0 s) @ '':''
           @ pad2 (minute_of 0 s) @ '':'' @ pad2 (s mod 60) @ ''Z'')"

section \<open>Challenges\<close>

record siwe_config =
  sw_Domain :: string
  sw_URI :: string
  sw_ChainID :: int

record siwe_challenge =
  ch_Domain :: string
  ch_Address :: string
  ch_Statement :: string
  ch_URI :: string
  ch_Version :: string
  ch_ChainID :: int
  ch_Nonce :: string
  ch_IssuedAt :: int
  ch_ExpirationTime :: int

definition newline :: string where "newline = [CHR 0x0A]"

definition siwe_message :: "siwe_challenge \<Rightarrow> string" where
  "siwe_message c =
     ch_Domain c @ '' wants you to sign in with your Ethereum account:'' @ newline @
     ch_Address c @ newline @ newline @ ch_Statement c @ newline @ newline @
     ''URI: '' @ ch_URI c @ newline @ ''Version: '' @ ch_Version c @ newline @
     ''Chain ID: '' @ show_int (ch_ChainID c) @ newline @ ''Nonce: '' @ ch_Nonce c @ newline @
     ''Issued At: '' @ format_rfc3339 (ch_IssuedAt c) @ newline @
     ''Expiration Time: '' @ format_rfc3339 (ch_ExpirationTime c)"

record sign_message =
  sm_Message :: string
  sm_Nonce :: string
  sm_Expires :: int

definition normalizeAddress :: "eth_lib \<Rightarrow> string \<Rightarrow> string res" where
  "normalizeAddress lib address =
     (if is_hex_address lib address then Inr (address_hex lib (hex_to_address lib address))
      else Inl ErrInvalidAddress)"

definition is_nonce_char :: "char \<Rightarrow> bool" where
  "is_nonce_char c = (let n = (of_char c :: nat)
     in (97 \<le> n \<and> n \<le> 122) \<or> (65 \<le> n \<and> n \<le> 90) \<or> (48 \<le> n \<and> n \<le> 57))"

definition validNonce :: "string \<Rightarrow> bool" where
  "validNonce nonce = (if length nonce < 8 then False else list_all is_nonce_char nonce)"

definition shortenAddress :: "string \<Rightarrow> string" where
  "shortenAddress address = take 6 address @ ''...'' @ drop (length address - 4) address"

text \<open>
  The checks on the URI need only its parse: \<open>parse_uri\<close> (of net/url) says whether
  ParseRequestURI succeeds, and then whether the URI is absolute and what its host is.
\<close>

definition validateChallenge ::
  "(string \<Rightarrow> (bool \<times> string) option) \<Rightarrow> siwe_config \<Rightarrow> siwe_challenge \<Rightarrow> string \<Rightarrow> int \<Rightarrow> unit res" where
  "validateChallenge parse_uri siwe challenge address now =
     (if ch_Domain challenge \<noteq> sw_Domain siwe \<or> ch_URI challenge \<noteq> sw_URI siwe \<or> ch_ChainID challenge \<noteq> sw_ChainID siwe
         \<or> ch_Version challenge \<noteq> ''1'' \<or> ch_Address challenge \<noteq> address
      then Inl ErrInvalidSIWE
      else if ch_Statement challenge = [] \<or> contains_sub (ch_Statement challenge) newline \<or> \<not> validNonce (ch_Nonce challenge)
      then Inl ErrInvalidSIWE
      else if (case parse_uri (ch_URI challenge) of None \<Rightarrow> True | Some (isAbs, host) \<Rightarrow> \<not> isAbs \<or> host = [])
           \<or> list_ex (\<lambda>c. c \<in> {CHR '' '', CHR 0x09, CHR 0x0A}) (ch_Domain challenge)
      then Inl ErrInvalidSIWE
      else if ch_IssuedAt challenge > now + go_minute \<or> \<not> ch_ExpirationTime challenge > ch_IssuedAt challenge
           \<or> \<not> now < ch_ExpirationTime challenge
      then Inl ErrInvalidSIWE
      else Inr ())"

text \<open>
  The signature is 65 bytes; its last byte, 27 or 28 from most wallets, is brought down to 0
  or 1.  \<open>EqualFold\<close> compares addresses without case.
\<close>

definition eth_message_hash :: "eth_lib \<Rightarrow> string \<Rightarrow> bytes" where
  "eth_message_hash lib message =
     (let prefix = [CHR 0x19] @ ''Ethereum Signed Message:'' @ newline @ show_nat (length message)
      in keccak256 lib (str_bytes (prefix @ message)))"

definition normalize_v :: "bytes \<Rightarrow> bytes" where
  "normalize_v sig = (if sig ! 64 \<ge> 27 then sig[64 := sig ! 64 - 27] else sig)"

definition verifySignature :: "eth_lib \<Rightarrow> string \<Rightarrow> string \<Rightarrow> string \<Rightarrow> bool" where
  "verifySignature lib address message signature =
     (case hexutil_decode lib signature of
        None \<Rightarrow> False
      | Some sig \<Rightarrow>
          if length sig \<noteq> 65 then False
          else let sig = normalize_v sig in
               if sig ! 64 > 1 then False
               else (case sig_to_address lib (eth_message_hash lib message) sig of
                       None \<Rightarrow> False
                     | Some a \<Rightarrow> to_lower a = to_lower address))"

section \<open>The challenge stores\<close>

record 's challenge_store_ops =
  cs_Save :: "int \<Rightarrow> string \<Rightarrow> siwe_challenge \<Rightarrow> int \<Rightarrow> 's \<Rightarrow> unit res \<times> 's"
  cs_Get :: "int \<Rightarrow> string \<Rightarrow> 's \<Rightarrow> siwe_challenge res \<times> 's"
  cs_Delete :: "int \<Rightarrow> string \<Rightarrow> 's \<Rightarrow> unit res \<times> 's"

type_synonym memory_store = "string \<Rightarrow> siwe_challenge option"

definition Memory_Save :: "int \<Rightarrow> string \<Rightarrow> siwe_challenge \<Rightarrow> int \<Rightarrow> memory_store \<Rightarrow> unit res \<times> memory_store" where
  "Memory_Save now address challenge ttl s = (Inr (), s(address \<mapsto> challenge))"

definition Memory_Get :: "int \<Rightarrow> string \<Rightarrow> memory_store \<Rightarrow> siwe_challenge res \<times> memory_store" where
  "Memory_Get now address s =
     (case s address of
        None \<Rightarrow> (Inl ErrInvalidNonce, s)
      | Some challenge \<Rightarrow> if now > ch_ExpirationTime challenge then (Inl ErrInvalidNonce, s) else (Inr challenge, s))"

definition Memory_Delete :: "int \<Rightarrow> string \<Rightarrow> memory_store \<Rightarrow> unit res \<times> memory_store" where
  "Memory_Delete now address s =
     (case s address of
        None \<Rightarrow> (Inl ErrInvalidNonce, s)
      | Some challenge \<Rightarrow>
          if now > ch_ExpirationTime challenge then (Inl ErrInvalidNonce, s) else (Inr (), s(address := None)))"

definition memory_ops :: "memory_store challenge_store_ops" where
  "memory_ops = \<lparr>cs_Save = Memory_Save, cs_Get = Memory_Get, cs_Delete = Memory_Delete\<rparr>"

text \<open>A Redis server: values with an optional expiry, and the schedule of failures.\<close>

record 'v redis =
  rd_data :: "string \<Rightarrow> ('v \<times> int option) option"
  rd_faults :: "bool list"

definition redis_fault :: "'v redis \<Rightarrow> bool \<times> 'v redis" where
  "redis_fault r = (case rd_faults r of [] \<Rightarrow> (False, r) | b # bs \<Rightarrow> (b, r\<lparr>rd_faults := bs\<rparr>))"

definition redis_live :: "int \<Rightarrow> string \<Rightarrow> 'v redis \<Rightarrow> 'v option" where
  "redis_live now key r =
     (case rd_data r key of
        Some (v, None) \<Rightarrow> Some v
      | Some (v, Some t) \<Rightarrow> if now < t then Some v else None
      | None \<Rightarrow> None)"

definition redis_set :: "int \<Rightarrow> string \<Rightarrow> 'v \<Rightarrow> int \<Rightarrow> 'v redis \<Rightarrow> unit res \<times> 'v redis" where
  "redis_set now key v ttl r =
     (case redis_fault r of
        (True, r') \<Rightarrow> (Inl DbFault, r')
      | (False, r') \<Rightarrow>
          (Inr (), r'\<lparr>rd_data := (rd_data r')(key \<mapsto> (v, if 0 < ttl then Some (now + ttl) else None))\<rparr>))"

definition redis_get :: "int \<Rightarrow> string \<Rightarrow> 'v redis \<Rightarrow> 'v option res \<times> 'v redis" where
  "redis_get now key r =
     (case redis_fault r of (True, r') \<Rightarrow> (Inl DbFault, r') | (False, r') \<Rightarrow> (Inr (redis_live now key r'), r'))"

definition redis_del :: "int \<Rightarrow> string \<Rightarrow> 'v redis \<Rightarrow> nat res \<times> 'v redis" where
  "redis_del now key r =
     (case redis_fault r of
        (True, r') \<Rightarrow> (Inl DbFault, r')
      | (False, r') \<Rightarrow> (Inr (case redis_live now key r' of None \<Rightarrow> 0 | Some _ \<Rightarrow> 1),
                       r'\<lparr>rd_data := (rd_data r')(key := None)\<rparr>))"

definition NewRedisChallengeStore_prefix :: "string \<Rightarrow> string" where
  "NewRedisChallengeStore_prefix prefix = (if prefix = [] then ''meme:siwe:'' else prefix)"

definition redis_key :: "string \<Rightarrow> string \<Rightarrow> string" where
  "redis_key prefix address = prefix @ address"

definition Redis_Save ::
  "string \<Rightarrow> int \<Rightarrow> string \<Rightarrow> siwe_challenge \<Rightarrow> int \<Rightarrow> siwe_challenge redis \<Rightarrow> unit res \<times> siwe_challenge redis" where
  "Redis_Save prefix now address challenge ttl r =
     (let ttl = (if ttl \<le> 0 then ch_ExpirationTime challenge - now else ttl)
      in redis_set now (redis_key prefix address) challenge ttl r)"

definition Redis_Get ::
  "string \<Rightarrow> int \<Rightarrow> string \<Rightarrow> siwe_challenge redis \<Rightarrow> siwe_challenge res \<times> siwe_challenge redis" where
  "Redis_Get prefix now address r =
     (case redis_get now (redis_key prefix address) r of
        (Inl e, r') \<Rightarrow> (Inl e, r')
      | (Inr None, r') \<Rightarrow> (Inl ErrInvalidNonce, r')
      | (Inr (Some challenge), r') \<Rightarrow> (Inr challenge, r'))"

definition Redis_Delete ::
  "string \<Rightarrow> int \<Rightarrow> string \<Rightarrow> siwe_challenge redis \<Rightarrow> unit res \<times> siwe_challenge redis" where
  "Redis_Delete prefix now address r =
     (case redis_del now (redis_key prefix address) r of
        (Inl e, r') \<Rightarrow> (Inl e, r')
      | (Inr deleted, r') \<Rightarrow> (if deleted = 0 then Inl ErrInvalidNonce else Inr (), r'))"

definition redis_ops :: "string \<Rightarrow> siwe_challenge redis challenge_store_ops" where
  "redis_ops prefix = \<lparr>cs_Save = Redis_Save prefix, cs_Get = Redis_Get prefix, cs_Delete = Redis_Delete prefix\<rparr>"

section \<open>Users\<close>

record user =
  us_ID :: int
  us_Address :: string
  us_Username :: string
  us_CreatedAt :: int
  us_UpdatedAt :: int

record 'u user_store_ops =
  uo_FindByAddress :: "string \<Rightarrow> 'u \<Rightarrow> user res \<times> 'u"
  uo_Create :: "int \<Rightarrow> string \<Rightarrow> string \<Rightarrow> 'u \<Rightarrow> user res \<times> 'u"

text \<open>The users table with the next value of its serial column, and a schedule of failures.\<close>

record user_db =
  ud_users :: "user list"
  ud_next :: int
  ud_faults :: "bool list"

definition find_user :: "string \<Rightarrow> user list \<Rightarrow> user option" where
  "find_user address us = find (\<lambda>u. to_lower (us_Address u) = to_lower address) us"

definition user_fault :: "user_db \<Rightarrow> bool \<times> user_db" where
  "user_fault d = (case ud_faults d of [] \<Rightarrow> (False, d) | b # bs \<Rightarrow> (b, d\<lparr>ud_faults := bs\<rparr>))"

definition FindByAddress :: "string \<Rightarrow> user_db \<Rightarrow> user res \<times> user_db" where
  "FindByAddress address d =
     (case user_fault d of
        (True, d') \<Rightarrow> (Inl DbFault, d')
      | (False, d') \<Rightarrow>
          (case find_user address (ud_users d') of None \<Rightarrow> (Inl ErrNoRows, d') | Some u \<Rightarrow> (Inr u, d')))"

text \<open>
  The insertion draws its identifier first; it violates the unique index on
  \<open>LOWER(address)\<close> when the address is taken.
\<close>

definition Create :: "int \<Rightarrow> string \<Rightarrow> string \<Rightarrow> user_db \<Rightarrow> user res \<times> user_db" where
  "Create now address username d =
     (case user_fault d of
        (True, d') \<Rightarrow> (Inl DbFault, d')
      | (False, d') \<Rightarrow>
        (let u = \<lparr>us_ID = ud_next d', us_Address = address, us_Username = username,
                  us_CreatedAt = now, us_UpdatedAt = now\<rparr>;
             d'' = d'\<lparr>ud_next := ud_next d' + 1\<rparr>
         in case find_user address (ud_users d') of
              Some _ \<Rightarrow> (Inl DbFault, d'')
            | None \<Rightarrow> (Inr u, d''\<lparr>ud_users := ud_users d' @ [u]\<rparr>)))"

definition user_repo :: "user_db user_store_ops" where
  "user_repo = \<lparr>uo_FindByAddress = FindByAddress, uo_Create = Create\<rparr>"

section \<open>The service\<close>

record claims =
  cl_UserID :: int
  cl_Address :: string
  cl_ExpiresAt :: int
  cl_IssuedAt :: int

text \<open>
  What the service uses of the JWT library and net/url: \<open>jwt_sign\<close> signs claims with the
  private key, \<open>jwt_verify alg now raw\<close> is the claims of a token of that algorithm whose
  signature and times are valid under the public key at time \<open>now\<close> (in seconds).
\<close>

record jwt_lib =
  jwt_sign :: "claims \<Rightarrow> string res"
  jwt_verify :: "string \<Rightarrow> int \<Rightarrow> string \<Rightarrow> claims option"
  url_parse :: "string \<Rightarrow> (bool \<times> string) option"

record login_result =
  lr_Token :: string
  lr_User :: user
  lr_Expires :: int

definition RequestMessage ::
  "eth_lib \<Rightarrow> siwe_config \<Rightarrow> 's challenge_store_ops \<Rightarrow> bytes option \<Rightarrow> (nat \<Rightarrow> int) \<Rightarrow> string \<Rightarrow> 's
     \<Rightarrow> sign_message res \<times> 's" where
  "RequestMessage lib siwe ops random clock address s =
     (case normalizeAddress lib address of
        Inl e \<Rightarrow> (Inl e, s)
      | Inr address \<Rightarrow>
        (case random of
           None \<Rightarrow> (Inl (Wrap ''generate nonce'' (ErrMsg ''rand'')), s)
         | Some nonceBytes \<Rightarrow>
           (let nonce = hex_encode nonceBytes; issuedAt = clock 0; expires = issuedAt + 5 * go_minute;
                challenge = \<lparr>ch_Domain = sw_Domain siwe, ch_Address = address,
                  ch_Statement = ''Sign in to MEME Launchpad.'', ch_URI = sw_URI siwe, ch_Version = ''1'',
                  ch_ChainID = sw_ChainID siwe, ch_Nonce = nonce, ch_IssuedAt = issuedAt,
                  ch_ExpirationTime = expires\<rparr>
            in case cs_Save ops (clock 2) address challenge (expires - clock 1) s of
                 (Inl e, s') \<Rightarrow> (Inl (Wrap ''store SIWE challenge'' e), s')
               | (Inr _, s') \<Rightarrow>
                   (Inr \<lparr>sm_Message = siwe_message challenge, sm_Nonce = nonce, sm_Expires = unix expires\<rparr>, s'))))"

definition getChallenge ::
  "'s challenge_store_ops \<Rightarrow> (nat \<Rightarrow> int) \<Rightarrow> string \<Rightarrow> 's \<Rightarrow> siwe_challenge res \<times> 's" where
  "getChallenge ops clock address s =
     (case cs_Get ops (clock 0) address s of
        (Inl e, s') \<Rightarrow> (Inl ErrInvalidNonce, s')
      | (Inr entry, s') \<Rightarrow> if clock 1 > ch_ExpirationTime entry then (Inl ErrInvalidNonce, s') else (Inr entry, s'))"

definition consumeNonce :: "'s challenge_store_ops \<Rightarrow> int \<Rightarrow> string \<Rightarrow> 's \<Rightarrow> unit res \<times> 's" where
  "consumeNonce ops now address s = cs_Delete ops now address s"

text \<open>The first half of \<open>Login\<close>, up to the signature; it returns the normalised address.\<close>

definition check_login ::
  "eth_lib \<Rightarrow> jwt_lib \<Rightarrow> siwe_config \<Rightarrow> 's challenge_store_ops \<Rightarrow> (nat \<Rightarrow> int) \<Rightarrow> string \<Rightarrow> string \<Rightarrow> 's
     \<Rightarrow> (string \<times> siwe_challenge) res \<times> 's" where
  "check_login lib jwt siwe ops clock address signature s =
     (case normalizeAddress lib address of
        Inl e \<Rightarrow> (Inl e, s)
      | Inr address \<Rightarrow>
        (case getChallenge ops clock address s of
           (Inl e, s') \<Rightarrow> (Inl e, s')
         | (Inr entry, s') \<Rightarrow>
           (case validateChallenge (url_parse jwt) siwe entry address (clock 2) of
              Inl e \<Rightarrow> (Inl e, s')
            | Inr _ \<Rightarrow>
                if \<not> verifySignature lib address (siwe_message entry) signature then (Inl ErrInvalidSignature, s')
                else (Inr (address, entry), s'))))"

definition issueToken :: "jwt_lib \<Rightarrow> (nat \<Rightarrow> int) \<Rightarrow> user \<Rightarrow> (string \<times> int) res" where
  "issueToken jwt clock u =
     (let expires = clock 4 + 24 * go_hour;
          claims = \<lparr>cl_UserID = us_ID u, cl_Address = us_Address u, cl_ExpiresAt = unix expires, cl_IssuedAt = unix (clock 5)\<rparr>
      in rbind (jwt_sign jwt claims) (\<lambda>token. Inr (token, unix expires)))"

definition find_or_create :: "'u user_store_ops \<Rightarrow> int \<Rightarrow> string \<Rightarrow> 'u \<Rightarrow> user res \<times> 'u" where
  "find_or_create uo now address u =
     (case (case uo_FindByAddress uo address u of
              (Inl e, u') \<Rightarrow>
                 if errors_is e ErrNoRows then uo_Create uo now address (shortenAddress address) u' else (Inl e, u')
            | (Inr usr, u') \<Rightarrow> (Inr usr, u')) of
        (r, u') \<Rightarrow> (wrap_err ''find or create user'' r, u'))"

definition Login ::
  "eth_lib \<Rightarrow> jwt_lib \<Rightarrow> siwe_config \<Rightarrow> 's challenge_store_ops \<Rightarrow> 'u user_store_ops \<Rightarrow> (nat \<Rightarrow> int)
     \<Rightarrow> string \<Rightarrow> string \<Rightarrow> 's \<times> 'u \<Rightarrow> login_result res \<times> 's \<times> 'u" where
  "Login lib jwt siwe ops uo clock address signature = (\<lambda>(s, u).
     case check_login lib jwt siwe ops clock address signature s of
       (Inl e, s') \<Rightarrow> (Inl e, s', u)
     | (Inr (address, entry), s') \<Rightarrow>
       (case consumeNonce ops (clock 3) address s' of
          (Inl e, s'') \<Rightarrow> (Inl e, s'', u)
        | (Inr _, s'') \<Rightarrow>
          (case find_or_create uo (clock 3) address u of
             (Inl e, u') \<Rightarrow> (Inl e, s'', u')
           | (Inr usr, u') \<Rightarrow>
             (case issueToken jwt clock usr of
                Inl e \<Rightarrow> (Inl e, s'', u')
              | Inr (token, expires) \<Rightarrow>
                  (Inr \<lparr>lr_Token = token, lr_User = usr, lr_Expires = expires\<rparr>, s'', u')))))"

definition ParseToken :: "jwt_lib \<Rightarrow> int \<Rightarrow> string \<Rightarrow> claims res" where
  "ParseToken jwt now raw =
     (case jwt_verify jwt ''EdDSA'' now raw of
        None \<Rightarrow> Inl (ErrMsg ''invalid or expired token'')
      | Some c \<Rightarrow> Inr c)"

section \<open>Concurrent logins\<close>

text \<open>
  Requests are handled concurrently.  A login is atomic up to its signature check (it reads
  the store once) and then in its deletion of the challenge; a thread between the two holds
  the challenge it checked.  The counters record, per address, the challenges saved and the
  logins that went past the deletion.
\<close>

datatype login_thread =
    Arrived string string
  | Verified string siwe_challenge
  | Admitted string siwe_challenge
  | Refused err

record 's login_system =
  ls_store :: 's
  ls_threads :: "login_thread list"
  ls_saves :: "string \<Rightarrow> nat"
  ls_logins :: "string \<Rightarrow> nat"

inductive login_step ::
  "eth_lib \<Rightarrow> jwt_lib \<Rightarrow> siwe_config \<Rightarrow> 's challenge_store_ops \<Rightarrow> 's login_system \<Rightarrow> 's login_system \<Rightarrow> bool"
  for lib jwt siwe ops where
  request: "RequestMessage lib siwe ops random clock raw (ls_store y) = (r, s') \<Longrightarrow>
     login_step lib jwt siwe ops y
       (y\<lparr>ls_store := s',
          ls_saves := (case (r, normalizeAddress lib raw) of
             (Inr _, Inr a) \<Rightarrow> (ls_saves y)(a := ls_saves y a + 1) | _ \<Rightarrow> ls_saves y)\<rparr>)"
| arrive: "login_step lib jwt siwe ops y (y\<lparr>ls_threads := ls_threads y @ [Arrived raw sig]\<rparr>)"
| check: "i < length (ls_threads y) \<Longrightarrow> ls_threads y ! i = Arrived raw sig \<Longrightarrow>
     check_login lib jwt siwe ops clock raw sig (ls_store y) = (r, s') \<Longrightarrow>
     login_step lib jwt siwe ops y
       (y\<lparr>ls_store := s',
          ls_threads := (ls_threads y)[i := (case r of Inl e \<Rightarrow> Refused e | Inr (a, c) \<Rightarrow> Verified a c)]\<rparr>)"
| consume: "i < length (ls_threads y) \<Longrightarrow> ls_threads y ! i = Verified a c \<Longrightarrow>
     consumeNonce ops now a (ls_store y) = (r, s') \<Longrightarrow>
     login_step lib jwt siwe ops y
       (y\<lparr>ls_store := s',
          ls_threads := (ls_threads y)[i := (case r of Inl e \<Rightarrow> Refused e | Inr _ \<Rightarrow> Admitted a c)],
          ls_logins := (case r of Inl _ \<Rightarrow> ls_logins y | Inr _ \<Rightarrow> (ls_logins y)(a := ls_logins y a + 1))\<rparr>)"

inductive login_reach ::
  "eth_lib \<Rightarrow> jwt_lib \<Rightarrow> siwe_config \<Rightarrow> 's challenge_store_ops \<Rightarrow> 's login_system \<Rightarrow> 's login_system \<Rightarrow> bool"
  for lib jwt siwe ops where
  start: "login_reach lib jwt siwe ops y y"
| step: "login_reach lib jwt siwe ops y y' \<Longrightarrow> login_step lib jwt siwe ops y' y'' \<Longrightarrow> login_reach lib jwt siwe ops y y''"

definition login_start :: "'s \<Rightarrow> 's login_system" where
  "login_start s = \<lparr>ls_store = s, ls_threads = [], ls_saves = (\<lambda>_. 0), ls_logins = (\<lambda>_. 0)\<rparr>"

section \<open>What a challenge store promises\<close>

text \<open>
  \<open>present s a\<close>: a challenge of address \<open>a\<close> is in the store, expired or not.  Only saving adds
  one, only for its address; reading adds none; a deletion that succeeds found one and
  removed it.
\<close>

locale challenge_store =
  fixes ops :: "'s challenge_store_ops"
    and present :: "'s \<Rightarrow> string \<Rightarrow> bool"
  assumes save_adds: "present (snd (cs_Save ops now a c ttl s)) b \<Longrightarrow>
        present s b \<or> (b = a \<and> fst (cs_Save ops now a c ttl s) = Inr ())"
    and get_adds_none: "present (snd (cs_Get ops now a s)) b \<Longrightarrow> present s b"
    and get_needs: "fst (cs_Get ops now a s) = Inr c \<Longrightarrow> present s a"
    and delete_adds_none: "present (snd (cs_Delete ops now a s)) b \<Longrightarrow> present s b"
    and delete_removes: "fst (cs_Delete ops now a s) = Inr () \<Longrightarrow> present s a \<and> \<not> present (snd (cs_Delete ops now a s)) a"

context challenge_store begin

lemma check_adds_none:
  "check_login lib jwt siwe ops clock raw sig s = (r, s') \<Longrightarrow> present s' b \<Longrightarrow> present s b"
proof -
  assume c: "check_login lib jwt siwe ops clock raw sig s = (r, s')" and p: "present s' b"
  have g: "present s b" if "getChallenge ops clock a s = (q, t)" "present t b" for a q t
    using that get_adds_none [of "clock 0" a s b] by (auto simp: getChallenge_def split: prod.splits sum.splits if_splits)
  from c p g show "present s b"
    by (auto simp: check_login_def split: sum.splits prod.splits if_splits)
qed

lemma check_needs:
  assumes "check_login lib jwt siwe ops clock raw sig s = (Inr (a, c), s')"
  shows "present s a"
proof -
  from assms obtain t where "getChallenge ops clock a s = (Inr c, t)"
    by (auto simp: check_login_def split: sum.splits prod.splits if_splits)
  then have "fst (cs_Get ops (clock 0) a s) = Inr c"
    by (auto simp: getChallenge_def split: prod.splits sum.splits if_splits)
  then show ?thesis by (rule get_needs)
qed

lemma request_adds:
  assumes "RequestMessage lib siwe ops random clock raw s = (r, s')" and "present s' b"
  shows "present s b \<or> (\<exists>m. r = Inr m) \<and> normalizeAddress lib raw = Inr b"
proof (cases "normalizeAddress lib raw")
  case (Inl e)
  with assms show ?thesis by (simp add: RequestMessage_def)
next
  case n: (Inr a)
  show ?thesis
  proof (cases random)
    case None
    with n assms show ?thesis by (simp add: RequestMessage_def)
  next
    case (Some bs)
    from assms(1) n Some obtain c ttl q where sv: "cs_Save ops (clock 2) a c ttl s = (q, s')"
      and r: "q = Inr () \<longrightarrow> (\<exists>m. r = Inr m)"
      by (auto simp: RequestMessage_def Let_def split: prod.splits sum.splits)
    from save_adds [of "clock 2" a c ttl s b] sv assms(2) n r show ?thesis by auto
  qed
qed

text \<open>The invariant: the logins of an address, plus one when a challenge is waiting, are covered by saves.\<close>

definition covered :: "'s login_system \<Rightarrow> bool" where
  "covered y = (\<forall>a. ls_logins y a + (if present (ls_store y) a then 1 else 0) \<le> ls_saves y a)"

lemma login_step_covered:
  assumes "login_step lib jwt siwe ops y y'" and "covered y"
  shows "covered y'"
  using assms
proof (cases rule: login_step.cases)
  case (request random clock raw r s')
  have "ls_logins y a + (if present s' a then 1 else 0) \<le> ls_saves y' a" for a
  proof -
    have c: "ls_logins y a + (if present (ls_store y) a then 1 else 0) \<le> ls_saves y a"
      using assms(2) by (simp add: covered_def)
    then have "ls_logins y a \<le> ls_saves y a" by linarith
    moreover have "ls_saves y a \<le> ls_saves y' a" using request by (simp split: sum.split)
    moreover have "ls_saves y' a = ls_saves y a + 1" if "\<not> present (ls_store y) a" "present s' a"
      using request_adds [OF request(2) that(2)] that(1) request(1) by auto
    ultimately show ?thesis using c by (cases "present (ls_store y) a"; cases "present s' a") auto
  qed
  then show ?thesis using request(1) by (simp add: covered_def)
next
  case (arrive raw sig)
  with assms(2) show ?thesis by (simp add: covered_def)
next
  case (check i raw sig clock r s')
  have "present s' a \<Longrightarrow> present (ls_store y) a" for a by (rule check_adds_none [OF check(4)])
  then have "ls_logins y a + (if present s' a then 1 else 0) \<le> ls_saves y a" for a
    using assms(2) [unfolded covered_def, rule_format, of a] by (auto split: if_splits)
  then show ?thesis using check(1) by (simp add: covered_def)
next
  case (consume i a c now r s')
  have sub: "present s' b \<Longrightarrow> present (ls_store y) b" for b
    using delete_adds_none [of now a "ls_store y" b] consume(4) by (simp add: consumeNonce_def)
  have cov: "ls_logins y b + (if present (ls_store y) b then 1 else 0) \<le> ls_saves y b" for b
    using assms(2) by (simp add: covered_def)
  show ?thesis
  proof (cases r)
    case (Inl e)
    have "ls_logins y b + (if present s' b then 1 else 0) \<le> ls_saves y b" for b
      using cov [of b] sub [of b] by (auto split: if_splits)
    then show ?thesis using consume(1) Inl by (simp add: covered_def)
  next
    case (Inr u)
    have d: "present (ls_store y) a" "\<not> present s' a"
      using delete_removes [of now a "ls_store y"] consume(4) Inr by (simp_all add: consumeNonce_def)
    have "((ls_logins y)(a := ls_logins y a + 1)) b + (if present s' b then 1 else 0) \<le> ls_saves y b" for b
      using cov [of b] sub [of b] d by (cases "b = a") (auto split: if_splits)
    then show ?thesis using consume(1) Inr by (simp add: covered_def)
  qed
qed

lemma login_reach_covered:
  "login_reach lib jwt siwe ops y y' \<Longrightarrow> covered y \<Longrightarrow> covered y'"
  by (induction rule: login_reach.induct) (auto intro: login_step_covered)

lemma logins_bounded:
  assumes "login_reach lib jwt siwe ops (login_start s) y" and "\<And>a. \<not> present s a"
  shows "ls_logins y a \<le> ls_saves y a"
proof -
  have "covered (login_start s)" using assms(2) by (simp add: covered_def login_start_def)
  with login_reach_covered [OF assms(1)] have "covered y" by blast
  then have "ls_logins y a + (if present (ls_store y) a then 1 else 0) \<le> ls_saves y a" by (simp add: covered_def)
  then show ?thesis by linarith
qed

lemma Login_removes:
  assumes "Login lib jwt siwe ops uo clock raw sig (s, u) = (Inr r, s', u')"
  shows "\<exists>a. normalizeAddress lib raw = Inr a \<and> \<not> present s' a"
proof -
  from assms obtain a c t where c: "check_login lib jwt siwe ops clock raw sig s = (Inr (a, c), t)"
    and d: "cs_Delete ops (clock 3) a t = (Inr (), s')"
    by (auto simp: Login_def consumeNonce_def split: sum.splits prod.splits)
  from c have "normalizeAddress lib raw = Inr a"
    by (auto simp: check_login_def split: sum.splits prod.splits if_splits)
  with delete_removes [of "clock 3" a t] d show ?thesis by simp
qed

lemma Login_needs:
  assumes "Login lib jwt siwe ops uo clock raw sig (s, u) = (Inr r, s', u')"
  shows "\<exists>a. normalizeAddress lib raw = Inr a \<and> present s a"
proof -
  from assms obtain a c t where c: "check_login lib jwt siwe ops clock raw sig s = (Inr (a, c), t)"
    by (auto simp: Login_def split: sum.splits prod.splits)
  from c have "normalizeAddress lib raw = Inr a"
    by (auto simp: check_login_def split: sum.splits prod.splits if_splits)
  with check_needs [OF c] show ?thesis by blast
qed

lemma Login_twice:
  assumes "Login lib jwt siwe ops uo clock raw sig (s, u) = (Inr r, s', u')"
    and "Login lib jwt siwe ops uo' clock' raw sig' (s', u2) = (Inr r', s'', u3)"
  shows False
  using Login_removes [OF assms(1)] Login_needs [OF assms(2)] by auto

end

interpretation mem: challenge_store memory_ops "\<lambda>s a. s a \<noteq> None"
  by unfold_locales
    (auto simp: memory_ops_def Memory_Save_def Memory_Get_def Memory_Delete_def split: option.splits if_splits)

definition redis_present :: "string \<Rightarrow> 'v redis \<Rightarrow> string \<Rightarrow> bool" where
  "redis_present prefix r a = (rd_data r (redis_key prefix a) \<noteq> None)"

lemma redis_key_inject [simp]: "redis_key p a = redis_key p b \<longleftrightarrow> a = b"
  by (simp add: redis_key_def)

lemma redis_fault_data [simp]: "redis_fault r = (b, r') \<Longrightarrow> rd_data r' = rd_data r"
  by (auto simp: redis_fault_def split: list.splits)

interpretation red: challenge_store "redis_ops prefix" "redis_present prefix" for prefix
  by unfold_locales
    (auto simp: redis_ops_def Redis_Save_def Redis_Get_def Redis_Delete_def redis_set_def redis_get_def
      redis_del_def redis_present_def redis_live_def Let_def
      split: option.splits if_splits prod.splits bool.splits sum.splits dest!: redis_fault_data)

section \<open>A concrete run\<close>

definition login_lib :: eth_lib where
  "login_lib = sample_lib\<lparr>address_hex := (\<lambda>_. ''0xabcdef''), sig_to_address := (\<lambda>_ _. Some ''0xabcdef''),
     hexutil_decode := (\<lambda>_. Some (replicate 65 0))\<rparr>"

definition login_jwt :: jwt_lib where
  "login_jwt = \<lparr>jwt_sign = (\<lambda>_. Inr ''t''), jwt_verify = (\<lambda>_ _ _. None), url_parse = (\<lambda>_. Some (True, ''h''))\<rparr>"

definition login_siwe :: siwe_config where
  "login_siwe = \<lparr>sw_Domain = ''d'', sw_URI = ''u'', sw_ChainID = 97\<rparr>"

definition login_challenge :: "u8 \<Rightarrow> siwe_challenge" where
  "login_challenge b = \<lparr>ch_Domain = ''d'', ch_Address = ''0xabcdef'', ch_Statement = ''Sign in to MEME Launchpad.'',
     ch_URI = ''u'', ch_Version = ''1'', ch_ChainID = 97, ch_Nonce = hex_encode [b, 0, 0, 0], ch_IssuedAt = 0,
     ch_ExpirationTime = 5 * go_minute\<rparr>"

lemma login_normalize: "normalizeAddress login_lib ''x'' = Inr ''0xabcdef''"
  by (simp add: normalizeAddress_def login_lib_def sample_lib_def)

lemma login_request:
  "RequestMessage login_lib login_siwe ops (Some [b, 0, 0, 0]) (\<lambda>_. 0) ''x'' s =
    (case cs_Save ops 0 ''0xabcdef'' (login_challenge b) (5 * go_minute) s of
       (Inl e, s') \<Rightarrow> (Inl (Wrap ''store SIWE challenge'' e), s')
     | (Inr _, s') \<Rightarrow> (Inr \<lparr>sm_Message = siwe_message (login_challenge b), sm_Nonce = hex_encode [b, 0, 0, 0],
         sm_Expires = unix (5 * go_minute)\<rparr>, s'))"
  unfolding RequestMessage_def login_normalize
  by (simp add: login_siwe_def login_challenge_def Let_def split: prod.split sum.split)

lemma login_valid: "b < 10 \<Longrightarrow> validateChallenge (url_parse login_jwt) login_siwe (login_challenge b) ''0xabcdef'' 0 = Inr ()"
proof -
  assume "b < 10"
  then have "unat b < 10" by (simp add: word_less_nat_alt)
  then have "unat b \<in> {0,1,2,3,4,5,6,7,8,9}" by auto
  then have "validNonce (hex_encode [b, 0, 0, 0])"
    by (auto simp: validNonce_def is_nonce_char_def hex_encode_def hex_byte_def hex_digit_def)
  then show ?thesis
    by (simp add: validateChallenge_def login_siwe_def login_challenge_def login_jwt_def newline_def
        has_prefix_def go_minute_def go_second_def)
qed

lemma login_signature: "verifySignature login_lib ''0xabcdef'' m sig"
  by (simp add: verifySignature_def login_lib_def normalize_v_def)

lemma login_check:
  assumes "fst (cs_Get ops 0 ''0xabcdef'' s) = Inr (login_challenge b)" and "b < 10"
  shows "check_login login_lib login_jwt login_siwe ops (\<lambda>_. 0) ''x'' sig s =
    (Inr (''0xabcdef'', login_challenge b), snd (cs_Get ops 0 ''0xabcdef'' s))"
  using assms(1) login_valid [OF assms(2)] login_signature
  by (cases "cs_Get ops 0 ''0xabcdef'' s")
    (simp add: check_login_def login_normalize getChallenge_def login_challenge_def go_minute_def go_second_def)

text \<open>Five steps of the system: one request and one complete login, on the memory store.\<close>

abbreviation "mem_reach \<equiv> login_reach login_lib login_jwt login_siwe memory_ops"

lemma mem_request:
  assumes "mem_reach y0 y"
  shows "mem_reach y0 (y\<lparr>ls_store := (ls_store y)(''0xabcdef'' \<mapsto> login_challenge b),
    ls_saves := (ls_saves y)(''0xabcdef'' := ls_saves y ''0xabcdef'' + 1)\<rparr>)"
proof -
  have "RequestMessage login_lib login_siwe memory_ops (Some [b, 0, 0, 0]) (\<lambda>_. 0) ''x'' (ls_store y) =
    (Inr \<lparr>sm_Message = siwe_message (login_challenge b), sm_Nonce = hex_encode [b, 0, 0, 0],
         sm_Expires = unix (5 * go_minute)\<rparr>, (ls_store y)(''0xabcdef'' \<mapsto> login_challenge b))"
    unfolding login_request by (simp add: memory_ops_def Memory_Save_def)
  from login_reach.step [OF assms login_step.request [OF this]] show ?thesis
    by (simp add: login_normalize)
qed

lemma mem_check:
  assumes "mem_reach y0 y" and "i < length (ls_threads y)" and "ls_threads y ! i = Arrived ''x'' sig"
    and "ls_store y ''0xabcdef'' = Some (login_challenge b)" and "b < 10"
  shows "mem_reach y0 (y\<lparr>ls_threads := (ls_threads y)[i := Verified ''0xabcdef'' (login_challenge b)]\<rparr>)"
proof -
  have "cs_Get memory_ops 0 ''0xabcdef'' (ls_store y) = (Inr (login_challenge b), ls_store y)"
    using assms(4) by (simp add: memory_ops_def Memory_Get_def login_challenge_def go_minute_def go_second_def)
  with login_check [of memory_ops "ls_store y" b sig] assms(5)
  have "check_login login_lib login_jwt login_siwe memory_ops (\<lambda>_. 0) ''x'' sig (ls_store y) =
    (Inr (''0xabcdef'', login_challenge b), ls_store y)" by simp
  from login_reach.step [OF assms(1) login_step.check [OF assms(2,3) this]] show ?thesis by simp
qed

lemma mem_consume:
  assumes "mem_reach y0 y" and "i < length (ls_threads y)" and "ls_threads y ! i = Verified ''0xabcdef'' c"
    and "ls_store y ''0xabcdef'' = Some (login_challenge b)"
  shows "mem_reach y0 (y\<lparr>ls_store := (ls_store y)(''0xabcdef'' := None),
    ls_threads := (ls_threads y)[i := Admitted ''0xabcdef'' c],
    ls_logins := (ls_logins y)(''0xabcdef'' := ls_logins y ''0xabcdef'' + 1)\<rparr>)"
proof -
  have "consumeNonce memory_ops 0 ''0xabcdef'' (ls_store y) = (Inr (), (ls_store y)(''0xabcdef'' := None))"
    using assms(4) by (simp add: consumeNonce_def memory_ops_def Memory_Delete_def login_challenge_def
        go_minute_def go_second_def)
  from login_reach.step [OF assms(1) login_step.consume [OF assms(2,3) this]] show ?thesis by simp
qed

lemma mem_arrive:
  "mem_reach y0 y \<Longrightarrow> mem_reach y0 (y\<lparr>ls_threads := ls_threads y @ [Arrived raw sig]\<rparr>)"
  by (rule login_reach.step [OF _ login_step.arrive])

lemma mem_one_login:
  "\<exists>y. mem_reach (login_start Map.empty) y \<and> ls_logins y ''0xabcdef'' = 1"
proof -
  have s0: "mem_reach (login_start Map.empty) (login_start Map.empty)" by (rule login_reach.start)
  note s2 = mem_arrive [OF mem_request [OF s0, of 1], of "''x''" "''s''"]
  have s3: "mem_reach (login_start Map.empty)
    \<lparr>ls_store = [''0xabcdef'' \<mapsto> login_challenge 1], ls_threads = [Verified ''0xabcdef'' (login_challenge 1)],
     ls_saves = (\<lambda>_. 0)(''0xabcdef'' := 1), ls_logins = (\<lambda>_. 0)\<rparr>"
    using mem_check [OF s2, of 0 "''s''" 1] by (simp add: login_start_def)
  from mem_consume [OF s3, of 0 "login_challenge 1" 1] show ?thesis by auto
qed

text \<open>The same on the Redis store.\<close>

lemma redis_one_login:
  "\<exists>y. login_reach login_lib login_jwt login_siwe (redis_ops ''p:'')
       (login_start \<lparr>rd_data = Map.empty, rd_faults = [False, False]\<rparr>) y \<and> ls_logins y ''0xabcdef'' = 1"
proof -
  let ?ops = "redis_ops ''p:''"
  let ?reach = "login_reach login_lib login_jwt login_siwe ?ops (login_start \<lparr>rd_data = Map.empty, rd_faults = [False, False]\<rparr>)"
  let ?c = "login_challenge 1"
  let ?r1 = "\<lparr>rd_data = [''p:0xabcdef'' \<mapsto> (?c, Some (5 * go_minute))], rd_faults = [False]\<rparr>"
  have "RequestMessage login_lib login_siwe ?ops (Some [1, 0, 0, 0]) (\<lambda>_. 0) ''x'' \<lparr>rd_data = Map.empty, rd_faults = [False, False]\<rparr> =
    (Inr \<lparr>sm_Message = siwe_message ?c, sm_Nonce = hex_encode [1, 0, 0, 0], sm_Expires = unix (5 * go_minute)\<rparr>, ?r1)"
    unfolding login_request by (simp add: redis_ops_def Redis_Save_def redis_set_def redis_fault_def redis_key_def
        go_minute_def go_second_def)
  then have rq: "RequestMessage login_lib login_siwe ?ops (Some [1, 0, 0, 0]) (\<lambda>_. 0) ''x''
      (ls_store (login_start \<lparr>rd_data = Map.empty, rd_faults = [False, False]\<rparr>)) =
    (Inr \<lparr>sm_Message = siwe_message ?c, sm_Nonce = hex_encode [1, 0, 0, 0], sm_Expires = unix (5 * go_minute)\<rparr>, ?r1)"
    by (simp add: login_start_def)
  have s2: "?reach \<lparr>ls_store = ?r1, ls_threads = [Arrived ''x'' ''s''],
      ls_saves = (\<lambda>_. 0)(''0xabcdef'' := 1), ls_logins = (\<lambda>_. 0)\<rparr>"
    using login_reach.step [OF login_reach.step [OF login_reach.start login_step.request [OF rq]]
        login_step.arrive [of _ _ _ _ _ "''x''" "''s''"]]
    by (simp add: login_normalize login_start_def)
  have g: "cs_Get ?ops 0 ''0xabcdef'' ?r1 = (Inr ?c, ?r1\<lparr>rd_faults := []\<rparr>)"
    by (simp add: redis_ops_def Redis_Get_def redis_get_def redis_fault_def redis_key_def redis_live_def
        go_minute_def go_second_def)
  have ck: "check_login login_lib login_jwt login_siwe ?ops (\<lambda>_. 0) ''x'' ''s'' ?r1 =
      (Inr (''0xabcdef'', ?c), ?r1\<lparr>rd_faults := []\<rparr>)"
    using login_check [of ?ops ?r1 1 "''s''"] g by simp
  have s3: "?reach \<lparr>ls_store = ?r1\<lparr>rd_faults := []\<rparr>, ls_threads = [Verified ''0xabcdef'' ?c],
      ls_saves = (\<lambda>_. 0)(''0xabcdef'' := 1), ls_logins = (\<lambda>_. 0)\<rparr>"
    using login_reach.step [OF s2 login_step.check [of 0 _ "''x''" "''s''" login_lib login_jwt login_siwe ?ops "\<lambda>_. 0"]] ck by simp
  have cn: "consumeNonce ?ops 0 ''0xabcdef'' (?r1\<lparr>rd_faults := []\<rparr>) = (Inr (), \<lparr>rd_data = Map.empty, rd_faults = []\<rparr>)"
    by (simp add: consumeNonce_def redis_ops_def Redis_Delete_def redis_del_def redis_fault_def redis_key_def
        redis_live_def go_minute_def go_second_def)
  show ?thesis
    using login_reach.step [OF s3 login_step.consume [of 0 _ "''0xabcdef''" ?c ?ops 0]] cn by (auto intro!: exI)
qed

section \<open>What the stores guarantee\<close>

text \<open>C4: Every login consumes a request.  However requests, logins and their steps interleave,
  and whatever the clocks read, the logins admitted for an address never outnumber the
  challenges saved for it, with the memory store.\<close>

theorem memory_logins_covered:
  assumes "login_reach lib jwt siwe memory_ops (login_start Map.empty) y"
  shows "ls_logins y a \<le> ls_saves y a"
  using mem.logins_bounded [OF assms] by simp

theorem memory_logins_covered_witness:
  "\<exists>y. login_reach login_lib login_jwt login_siwe memory_ops (login_start Map.empty) y
     \<and> ls_logins y ''0xabcdef'' = 1 \<and> 1 \<le> ls_saves y ''0xabcdef''"
proof -
  obtain y where y: "mem_reach (login_start Map.empty) y" "ls_logins y ''0xabcdef'' = 1"
    using mem_one_login by blast
  from memory_logins_covered [OF y(1), of "''0xabcdef''"] y show ?thesis by auto
qed

text \<open>C5: The same with the Redis store, whichever commands fail: a Redis deletion admits the
  one login that found the key.\<close>

theorem redis_logins_covered:
  assumes "login_reach lib jwt siwe (redis_ops prefix) (login_start \<lparr>rd_data = Map.empty, rd_faults = fs\<rparr>) y"
  shows "ls_logins y a \<le> ls_saves y a"
  using red.logins_bounded [OF assms] by (simp add: redis_present_def)

theorem redis_logins_covered_witness:
  "\<exists>y. login_reach login_lib login_jwt login_siwe (redis_ops ''p:'')
       (login_start \<lparr>rd_data = Map.empty, rd_faults = [False, False]\<rparr>) y
     \<and> ls_logins y ''0xabcdef'' = 1 \<and> 1 \<le> ls_saves y ''0xabcdef''"
proof -
  obtain y where y: "login_reach login_lib login_jwt login_siwe (redis_ops ''p:'')
      (login_start \<lparr>rd_data = Map.empty, rd_faults = [False, False]\<rparr>) y" "ls_logins y ''0xabcdef'' = 1"
    using redis_one_login by blast
  from redis_logins_covered [OF y(1), of "''0xabcdef''"] y show ?thesis by auto
qed

text \<open>C16: A signature cannot be replayed.  After a successful login, a second login for the
  same address fails unless a new challenge was requested, whatever signature it carries.\<close>

theorem login_not_replayable:
  "case Login lib jwt siwe memory_ops uo clock raw sig (s, u) of
     (Inl _, _) \<Rightarrow> True
   | (Inr _, (s', u')) \<Rightarrow>
       (case Login lib jwt siwe memory_ops uo' clock' raw sig' (s', u'') of
          (Inl _, _) \<Rightarrow> True | (Inr _, _) \<Rightarrow> False)"
proof -
  obtain r s' u' where l1: "Login lib jwt siwe memory_ops uo clock raw sig (s, u) = (r, s', u')"
    by (cases "Login lib jwt siwe memory_ops uo clock raw sig (s, u)")
  obtain r2 s2 u2 where l2: "Login lib jwt siwe memory_ops uo' clock' raw sig' (s', u'') = (r2, s2, u2)"
    by (cases "Login lib jwt siwe memory_ops uo' clock' raw sig' (s', u'')")
  show ?thesis
    using l1 l2 by (cases r; cases r2) (auto dest: mem.Login_twice)
qed

text \<open>C28: A challenge is not bound to its own deletion: when a second challenge is requested
  between the checks and the deletions of two concurrent logins, both logins are admitted
  with the same challenge, the first one.\<close>

theorem challenge_admitted_twice:
  "\<exists>y c. login_reach login_lib login_jwt login_siwe memory_ops (login_start Map.empty) y
     \<and> ls_threads y = [Admitted ''0xabcdef'' c, Admitted ''0xabcdef'' c]
     \<and> ls_saves y ''0xabcdef'' = 2"
proof -
  have s0: "mem_reach (login_start Map.empty) (login_start Map.empty)" by (rule login_reach.start)
  note s3 = mem_arrive [OF mem_arrive [OF mem_request [OF s0, of 1], of "''x''" "''s''"], of "''x''" "''s''"]
  have s4: "mem_reach (login_start Map.empty)
    \<lparr>ls_store = [''0xabcdef'' \<mapsto> login_challenge 1],
     ls_threads = [Verified ''0xabcdef'' (login_challenge 1), Arrived ''x'' ''s''],
     ls_saves = (\<lambda>_. 0)(''0xabcdef'' := 1), ls_logins = (\<lambda>_. 0)\<rparr>"
    using mem_check [OF s3, of 0 "''s''" 1] by (simp add: login_start_def)
  have s5: "mem_reach (login_start Map.empty)
    \<lparr>ls_store = [''0xabcdef'' \<mapsto> login_challenge 1],
     ls_threads = [Verified ''0xabcdef'' (login_challenge 1), Verified ''0xabcdef'' (login_challenge 1)],
     ls_saves = (\<lambda>_. 0)(''0xabcdef'' := 1), ls_logins = (\<lambda>_. 0)\<rparr>"
    using mem_check [OF s4, of 1 "''s''" 1] by simp
  have s6: "mem_reach (login_start Map.empty)
    \<lparr>ls_store = Map.empty,
     ls_threads = [Admitted ''0xabcdef'' (login_challenge 1), Verified ''0xabcdef'' (login_challenge 1)],
     ls_saves = (\<lambda>_. 0)(''0xabcdef'' := 1), ls_logins = (\<lambda>_. 0)(''0xabcdef'' := 1)\<rparr>"
    using mem_consume [OF s5, of 0 "login_challenge 1" 1] by simp
  have s7: "mem_reach (login_start Map.empty)
    \<lparr>ls_store = [''0xabcdef'' \<mapsto> login_challenge 2],
     ls_threads = [Admitted ''0xabcdef'' (login_challenge 1), Verified ''0xabcdef'' (login_challenge 1)],
     ls_saves = (\<lambda>_. 0)(''0xabcdef'' := 2), ls_logins = (\<lambda>_. 0)(''0xabcdef'' := 1)\<rparr>"
    using mem_request [OF s6, of 2] by (simp add: numeral_2_eq_2)
  have s8: "mem_reach (login_start Map.empty)
    \<lparr>ls_store = Map.empty,
     ls_threads = [Admitted ''0xabcdef'' (login_challenge 1), Admitted ''0xabcdef'' (login_challenge 1)],
     ls_saves = (\<lambda>_. 0)(''0xabcdef'' := 2), ls_logins = (\<lambda>_. 0)(''0xabcdef'' := 2)\<rparr>"
    using mem_consume [OF s7, of 1 "login_challenge 1" 2] by (simp add: numeral_2_eq_2)
  show ?thesis by (intro exI conjI) (rule s8, simp_all)
qed

section \<open>What a successful login means\<close>

lemma find_user_lower: "find_user a us = Some u \<Longrightarrow> to_lower (us_Address u) = to_lower a"
  by (simp add: find_user_def find_Some_iff) blast

lemma find_user_append:
  "find_user a (us @ vs) = (case find_user a us of None \<Rightarrow> find_user a vs | Some u \<Rightarrow> Some u)"
  by (induction us) (simp_all add: find_user_def)

lemma user_fault_users [simp]: "user_fault d = (b, d') \<Longrightarrow> ud_users d' = ud_users d"
  by (auto simp: user_fault_def split: list.splits)

lemma find_or_create_found:
  assumes "find_or_create user_repo now a d = (Inr u, d')"
  shows "find_user a (ud_users d') = Some u"
  using assms
  by (auto simp: find_or_create_def user_repo_def FindByAddress_def Create_def find_user_append Let_def
      split: prod.splits sum.splits bool.splits option.splits if_splits)
    (auto simp: find_user_def)

lemma find_or_create_keeps:
  assumes "find_or_create user_repo now a d = (r, d')" and "find_user b (ud_users d) = Some u"
  shows "find_user b (ud_users d') = Some u"
  using assms
  by (auto simp: find_or_create_def user_repo_def FindByAddress_def Create_def find_user_append Let_def
      split: prod.splits sum.splits bool.splits option.splits if_splits)

lemma validateChallenge_ok:
  assumes "validateChallenge pu siwe c a now = Inr ()"
  shows "ch_Domain c = sw_Domain siwe \<and> ch_URI c = sw_URI siwe \<and> ch_ChainID c = sw_ChainID siwe
    \<and> ch_Address c = a \<and> validNonce (ch_Nonce c) \<and> now < ch_ExpirationTime c"
  using assms by (auto simp: validateChallenge_def split: if_splits)

lemma check_login_ok:
  assumes "check_login lib jwt siwe memory_ops clock raw sig s = (Inr (a, c), s')"
  shows "normalizeAddress lib raw = Inr a \<and> s a = Some c \<and> s' = s
    \<and> validateChallenge (url_parse jwt) siwe c a (clock 2) = Inr () \<and> verifySignature lib a (siwe_message c) sig"
  using assms
  by (auto simp: check_login_def getChallenge_def memory_ops_def Memory_Get_def
      split: sum.splits prod.splits option.splits if_splits)


text \<open>The JWT library: a signed token verifies, under its algorithm, until it expires.\<close>

definition jwt_honest :: "jwt_lib \<Rightarrow> bool" where
  "jwt_honest jwt = (\<forall>c t now alg. jwt_sign jwt c = Inr t \<longrightarrow>
     jwt_verify jwt alg now t = (if alg = ''EdDSA'' \<and> now < cl_ExpiresAt c then Some c else None))"

text \<open>C24: A session token names its user for exactly one day: it is accepted, with the
  identifier and address of the user it was issued for, at every time before 24 hours after
  issue, and refused from then on.\<close>

theorem token_lives_one_day:
  assumes "jwt_honest jwt" and "issueToken jwt clock u = Inr (token, expires)"
  shows "expires = unix (clock 4) + 86400 \<and>
    (case ParseToken jwt now token of
       Inr c \<Rightarrow> now < expires \<and> cl_UserID c = us_ID u \<and> cl_Address c = us_Address u
     | Inl e \<Rightarrow> expires \<le> now)"
proof -
  have e: "unix (clock 4 + 24 * go_hour) = unix (clock 4) + 86400"
    by (simp add: unix_def go_hour_def go_minute_def go_second_def)
  let ?c = "\<lparr>cl_UserID = us_ID u, cl_Address = us_Address u, cl_ExpiresAt = unix (clock 4) + 86400,
    cl_IssuedAt = unix (clock 5)\<rparr>"
  have t: "jwt_sign jwt ?c = Inr token" "expires = unix (clock 4) + 86400"
    using assms(2) by (auto simp: issueToken_def Let_def e rbind_eq_Inr)
  have "jwt_verify jwt ''EdDSA'' now token = (if now < expires then Some ?c else None)"
    using assms(1) t by (simp add: jwt_honest_def)
  with t(2) show ?thesis by (simp add: ParseToken_def)
qed

definition sample_claims :: claims where
  "sample_claims = \<lparr>cl_UserID = 7, cl_Address = ''a'', cl_ExpiresAt = 86400, cl_IssuedAt = 0\<rparr>"

definition sample_jwt :: jwt_lib where
  "sample_jwt = \<lparr>jwt_sign = (\<lambda>c. if c = sample_claims then Inr ''t'' else Inl (ErrMsg ''key'')),
     jwt_verify = (\<lambda>alg now t. if alg = ''EdDSA'' \<and> now < 86400 \<and> t = ''t'' then Some sample_claims else None),
     url_parse = (\<lambda>_. None)\<rparr>"

theorem token_lives_one_day_witness:
  "case ParseToken sample_jwt 100 ''t'' of Inr c \<Rightarrow> cl_UserID c = 7 | Inl e \<Rightarrow> False"
proof -
  let ?u = "\<lparr>us_ID = 7, us_Address = ''a'', us_Username = ''n'', us_CreatedAt = 0, us_UpdatedAt = 0\<rparr>"
  have h: "jwt_honest sample_jwt"
    by (simp add: jwt_honest_def sample_jwt_def sample_claims_def)
  have "issueToken sample_jwt (\<lambda>_. 0) ?u = Inr (''t'', 86400)"
    by (simp add: issueToken_def Let_def sample_jwt_def sample_claims_def unix_def go_hour_def go_minute_def go_second_def)
  from token_lives_one_day [OF h this, of 100] show ?thesis by (auto split: sum.splits)
qed

end
