(* ===== verification/LegacyEvents.thy ===== *)
theory LegacyEvents
  imports ChainStore
begin

text \<open>
  The database layer of the legacy indexer, apps/indexer/internal/database: the insertion of
  each kind of event, one by one or in batches (events.go), and the sync position
  (postgres.go).  Unlike the rebuild, candles are updated under a savepoint whose errors are
  only logged, addresses are stored as they come, and a trade is identified by its transaction
  and direction.  The lemmas give the outcomes of each operation and compare it with what the
  rebuild guarantees.

  The columns of the event tables and of the candles are those of theory ChainStore.  The
  amounts of an event are never nil here: the indexer takes them from a decoded log.
\<close>

section \<open>Savepoints\<close>

text \<open>
  \<open>ROLLBACK TO SAVEPOINT\<close> restores the database of the savepoint and revives the transaction,
  unless it fails itself.
\<close>

definition rollback_to :: "'s \<Rightarrow> ('s, unit) stmt" where
  "rollback_to saved t =
     (case tx_faults t of
        True # fs \<Rightarrow> (Inl DbFault, t\<lparr>tx_aborted := True, tx_faults := fs\<rparr>)
      | _ \<Rightarrow> (Inr (), t\<lparr>tx_db := saved, tx_aborted := False, tx_faults := tl (tx_faults t)\<rparr>))"

definition with_savepoint :: "('s, unit) stmt \<Rightarrow> ('s, unit) stmt" where
  "with_savepoint m t =
     (case exec_upd (\<lambda>s. s) t of
        (Inl e, t1) \<Rightarrow> (Inl (Wrap ''failed to create savepoint'' e), t1)
      | (Inr _, t1) \<Rightarrow>
        (case m t1 of
           (Inl e, t2) \<Rightarrow>
             (case rollback_to (tx_db t1) t2 of
                (Inl re, t3) \<Rightarrow> (Inl (Wrap ''failed to rollback savepoint'' re), t3)
              | (Inr _, t3) \<Rightarrow> (Inl e, t3))
         | (Inr _, t2) \<Rightarrow>
             swrap ''failed to release savepoint'' (exec_upd (\<lambda>s. s)) t2))"

text \<open>An error that is only logged, and one replaced by a default.\<close>

definition signore :: "('s, unit) stmt \<Rightarrow> ('s, unit) stmt" where
  "signore m t = (Inr (), snd (m t))"

definition sdefault :: "'a \<Rightarrow> ('s, 'a) stmt \<Rightarrow> ('s, 'a) stmt" where
  "sdefault d m t = (case m t of (Inl e, t') \<Rightarrow> (Inr d, t') | (Inr a, t') \<Rightarrow> (Inr a, t'))"

section \<open>Events and tables\<close>

record created_event =
  lc_TokenAddress :: string
  lc_CreatorAddress :: string
  lc_Name :: string
  lc_Symbol :: string
  lc_TotalSupply :: int
  lc_RequestID :: string
  lc_TransactionHash :: string
  lc_BlockNumber :: u64
  lc_BlockTimestamp :: u64
  lc_LogIndex :: u64

text \<open>\<open>TokenBoughtEvent\<close> and \<open>TokenSoldEvent\<close> have the same fields but for the name of the user.\<close>

record trade_event =
  lt_TokenAddress :: string
  lt_UserAddress :: string
  lt_BnbAmount :: int
  lt_TokenAmount :: int
  lt_TradingFee :: int
  lt_VirtualBNBReserve :: int
  lt_VirtualTokenReserve :: int
  lt_AvailableTokens :: int
  lt_CollectedBNB :: int
  lt_TransactionHash :: string
  lt_BlockNumber :: u64
  lt_BlockTimestamp :: u64
  lt_LogIndex :: u64

record graduated_event =
  lg_TokenAddress :: string
  lg_LiquidityBNB :: int
  lg_LiquidityTokens :: int
  lg_LiquidityResult :: int
  lg_TransactionHash :: string
  lg_BlockNumber :: u64
  lg_BlockTimestamp :: u64
  lg_LogIndex :: u64

record ltrade_row =
  lr_token_address :: string
  lr_user_address :: string
  lr_trade_type :: int
  lr_bnb_amount :: int
  lr_token_amount :: int
  lr_price :: int
  lr_transaction_hash :: string
  lr_block_number :: u64
  lr_block_timestamp :: int

record ltoken_row =
  lk_name :: string
  lk_symbol :: string
  lk_logo :: string
  lk_token_contract_address :: string
  lk_creator_address :: string
  lk_launch_mode :: int
  lk_launch_time :: int
  lk_bnb_current :: int
  lk_bnb_target :: int
  lk_total_supply :: int
  lk_available_tokens :: int
  lk_status :: int
  lk_request_id :: string
  lk_nonce :: int
  lk_created_at :: int
  lk_updated_at :: int

record legacy_db =
  ld_created_events :: "created_event_row list"
  ld_bought_events :: "trade_event_row list"
  ld_sold_events :: "trade_event_row list"
  ld_graduated_events :: "graduated_event_row list"
  ld_trades :: "ltrade_row list"
  ld_tokens :: "ltoken_row list"
  ld_klines :: "kline_row list"
  ld_requests :: "(string \<times> string option) list"
  ld_state :: "(string \<times> u64) list"

definition ltrade_key :: "ltrade_row \<Rightarrow> string \<times> int" where
  "ltrade_key r = (lr_transaction_hash r, lr_trade_type r)"

text \<open>\<open>time.Unix(int64(ts), 0)\<close>.\<close>

definition block_time :: "u64 \<Rightarrow> int" where
  "block_time ts = sint ts"

section \<open>The candle price\<close>

text \<open>
  \<open>big.Float.Quo\<close> of two integers: the quotient in binary with as many bits as the longer
  operand, 64 at least, rounded to nearest, ties to even; then \<open>Text('f', 18)\<close>, again to
  nearest, ties to even.
\<close>

fun bitlen :: "nat \<Rightarrow> nat" where
  "bitlen n = (if n = 0 then 0 else Suc (bitlen (n div 2)))"

declare bitlen.simps [simp del]

definition round_even :: "nat \<Rightarrow> nat \<Rightarrow> nat" where
  "round_even n d =
     (let q = n div d; r = n mod d
      in if 2 * r > d \<or> (2 * r = d \<and> odd q) then q + 1 else q)"

text \<open>The quotient \<open>a / b\<close> of positive integers as a mantissa over \<open>2^s\<close>, or times \<open>2^-s\<close>.\<close>

definition float_quo :: "nat \<Rightarrow> nat \<Rightarrow> nat \<times> int" where
  "float_quo a b =
     (let p = max 64 (max (bitlen a) (bitlen b));
          scaled = (\<lambda>s. (a * 2 ^ nat s, b * 2 ^ nat (- s)));
          s0 = int p + int (bitlen b) - int (bitlen a);
          s = (case scaled s0 of (n, d) \<Rightarrow> if 2 ^ p \<le> n div d then s0 - 1 else s0)
      in (case scaled s of (n, d) \<Rightarrow> (round_even n d, s)))"

definition float_text18 :: "int \<Rightarrow> int \<Rightarrow> string" where
  "float_text18 x y =
     (case float_quo (nat \<bar>x\<bar>) (nat \<bar>y\<bar>) of (m, s) \<Rightarrow>
        let u = round_even (m * 10 ^ 18 * 2 ^ nat (- s)) (2 ^ nat s)
        in (if x \<noteq> 0 \<and> (x < 0) \<noteq> (y < 0) then ''-'' else [])
             @ show_nat (u div 10 ^ 18) @ ''.'' @ pad_zeros 18 (show_nat (u mod 10 ^ 18)))"

section \<open>Candles\<close>

definition valid_intervals :: "string list" where
  "valid_intervals = [''1m'', ''5m'', ''15m'', ''30m'', ''1h'', ''4h'', ''1d'', ''1w'']"

definition upsert_lkline :: "string \<Rightarrow> string \<Rightarrow> int \<Rightarrow> string \<Rightarrow> string \<Rightarrow> legacy_db \<Rightarrow> legacy_db" where
  "upsert_lkline tokenAddress interval openTime priceStr volume db =
     db\<lparr>ld_klines := upsert kline_key kline_conflict
          \<lparr>kl_token_address = tokenAddress, kl_interval = interval, kl_open_time = openTime,
           kl_open_price = numeric18 priceStr, kl_high_price = numeric18 priceStr,
           kl_low_price = numeric18 priceStr, kl_close_price = numeric18 priceStr,
           kl_volume = numeric0 volume\<rparr>
          (ld_klines db)\<rparr>"

text \<open>\<open>off\<close> is the offset of the zone of the process.\<close>

definition updateKlineData ::
  "int \<Rightarrow> string \<Rightarrow> int \<Rightarrow> int option \<Rightarrow> int option \<Rightarrow> string list \<Rightarrow> (legacy_db, unit) stmt" where
  "updateKlineData off tokenAddress blockTime bnbAmount tokenAmount intervals =
     (case (bnbAmount, tokenAmount) of
        (Some bnb, Some amt) \<Rightarrow>
          if amt = 0 then sret ()
          else
            (let priceStr = float_text18 bnb amt;
                 intervals = (if intervals = [] then valid_intervals else intervals)
             in sforeach (\<lambda>interval.
                  if interval \<notin> set valid_intervals then sret ()
                  else exec_upd (upsert_lkline tokenAddress interval
                         (alignTimeToInterval off blockTime interval) priceStr (show_int amt)))
                intervals)
      | _ \<Rightarrow> sret ())"

definition updateKlineDataWithSavepoint ::
  "int \<Rightarrow> string \<Rightarrow> int \<Rightarrow> int option \<Rightarrow> int option \<Rightarrow> string list \<Rightarrow> (legacy_db, unit) stmt" where
  "updateKlineDataWithSavepoint off tokenAddress blockTime bnbAmount tokenAmount intervals =
     with_savepoint (updateKlineData off tokenAddress blockTime bnbAmount tokenAmount intervals)"

section \<open>Statements\<close>

definition insert_lcreated :: "created_event \<Rightarrow> legacy_db \<Rightarrow> legacy_db" where
  "insert_lcreated event db =
     db\<lparr>ld_created_events := insert_new created_event_key
          \<lparr>cr_token_address = lc_TokenAddress event, cr_creator_address = lc_CreatorAddress event,
           cr_name = lc_Name event, cr_symbol = lc_Symbol event, cr_total_supply = lc_TotalSupply event,
           cr_request_id = lc_RequestID event, cr_transaction_hash = lc_TransactionHash event,
           cr_block_number = lc_BlockNumber event, cr_block_timestamp = block_time (lc_BlockTimestamp event),
           cr_log_index = lc_LogIndex event\<rparr>
          (ld_created_events db)\<rparr>"

text \<open>\<open>COALESCE(logo, '')\<close> of the creation request.\<close>

definition find_logo :: "string \<Rightarrow> legacy_db \<Rightarrow> string option" where
  "find_logo requestID db =
     map_option (\<lambda>r. case snd r of None \<Rightarrow> [] | Some l \<Rightarrow> l) (find (\<lambda>r. fst r = requestID) (ld_requests db))"

definition upsert_ltoken :: "created_event \<Rightarrow> string \<Rightarrow> legacy_db \<Rightarrow> legacy_db" where
  "upsert_ltoken event logo db =
     db\<lparr>ld_tokens := upsert lk_token_contract_address
          (\<lambda>old new. old\<lparr>lk_name := lk_name new, lk_symbol := lk_symbol new,
             lk_logo := (if lk_logo new = [] then lk_logo old else lk_logo new),
             lk_updated_at := lk_updated_at new\<rparr>)
          \<lparr>lk_name = lc_Name event, lk_symbol = lc_Symbol event, lk_logo = logo,
           lk_token_contract_address = lc_TokenAddress event, lk_creator_address = lc_CreatorAddress event,
           lk_launch_mode = 1, lk_launch_time = uint (lc_BlockTimestamp event), lk_bnb_current = 0,
           lk_bnb_target = 24000000000000000000, lk_total_supply = lc_TotalSupply event,
           lk_available_tokens = 0, lk_status = 1, lk_request_id = lc_RequestID event, lk_nonce = 0,
           lk_created_at = block_time (lc_BlockTimestamp event),
           lk_updated_at = block_time (lc_BlockTimestamp event)\<rparr>
          (ld_tokens db)\<rparr>"

definition ltrade_event_of :: "trade_event \<Rightarrow> trade_event_row" where
  "ltrade_event_of event =
     \<lparr>te_token_address = lt_TokenAddress event, te_user_address = lt_UserAddress event,
      te_bnb_amount = lt_BnbAmount event, te_token_amount = lt_TokenAmount event,
      te_trading_fee = lt_TradingFee event, te_virtual_bnb_reserve = lt_VirtualBNBReserve event,
      te_virtual_token_reserve = lt_VirtualTokenReserve event,
      te_available_tokens = lt_AvailableTokens event, te_collected_bnb = lt_CollectedBNB event,
      te_transaction_hash = lt_TransactionHash event, te_block_number = lt_BlockNumber event,
      te_block_timestamp = block_time (lt_BlockTimestamp event), te_log_index = lt_LogIndex event\<rparr>"

definition insert_lbought :: "trade_event \<Rightarrow> legacy_db \<Rightarrow> legacy_db" where
  "insert_lbought event db =
     db\<lparr>ld_bought_events := insert_new trade_event_key (ltrade_event_of event) (ld_bought_events db)\<rparr>"

definition insert_lsold :: "trade_event \<Rightarrow> legacy_db \<Rightarrow> legacy_db" where
  "insert_lsold event db =
     db\<lparr>ld_sold_events := insert_new trade_event_key (ltrade_event_of event) (ld_sold_events db)\<rparr>"

definition insert_ltrade :: "int \<Rightarrow> trade_event \<Rightarrow> legacy_db \<Rightarrow> legacy_db" where
  "insert_ltrade tradeType event db =
     db\<lparr>ld_trades := insert_new ltrade_key
          \<lparr>lr_token_address = lt_TokenAddress event, lr_user_address = lt_UserAddress event,
           lr_trade_type = tradeType, lr_bnb_amount = lt_BnbAmount event,
           lr_token_amount = lt_TokenAmount event, lr_price = 0,
           lr_transaction_hash = lt_TransactionHash event, lr_block_number = lt_BlockNumber event,
           lr_block_timestamp = block_time (lt_BlockTimestamp event)\<rparr>
          (ld_trades db)\<rparr>"

definition update_ltotals :: "trade_event \<Rightarrow> legacy_db \<Rightarrow> legacy_db" where
  "update_ltotals event db =
     db\<lparr>ld_tokens := update_where
          (\<lambda>r. to_lower (lk_token_contract_address r) = to_lower (lt_TokenAddress event))
          (\<lambda>r. r\<lparr>lk_bnb_current := lt_CollectedBNB event, lk_available_tokens := lt_AvailableTokens event,
                 lk_updated_at := block_time (lt_BlockTimestamp event)\<rparr>)
          (ld_tokens db)\<rparr>"

definition insert_lgraduated :: "graduated_event \<Rightarrow> legacy_db \<Rightarrow> legacy_db" where
  "insert_lgraduated event db =
     db\<lparr>ld_graduated_events := insert_new graduated_event_key
          \<lparr>ge_token_address = lg_TokenAddress event, ge_liquidity_bnb = lg_LiquidityBNB event,
           ge_liquidity_tokens = lg_LiquidityTokens event, ge_liquidity_result = lg_LiquidityResult event,
           ge_transaction_hash = lg_TransactionHash event, ge_block_number = lg_BlockNumber event,
           ge_block_timestamp = block_time (lg_BlockTimestamp event), ge_log_index = lg_LogIndex event\<rparr>
          (ld_graduated_events db)\<rparr>"

definition mark_lgraduated :: "graduated_event \<Rightarrow> legacy_db \<Rightarrow> legacy_db" where
  "mark_lgraduated event db =
     db\<lparr>ld_tokens := update_where
          (\<lambda>r. to_lower (lk_token_contract_address r) = to_lower (lg_TokenAddress event))
          (\<lambda>r. r\<lparr>lk_status := 3, lk_updated_at := block_time (lg_BlockTimestamp event)\<rparr>)
          (ld_tokens db)\<rparr>"

section \<open>Operations\<close>

definition created_body :: "created_event \<Rightarrow> (legacy_db, unit) stmt" where
  "created_body event =
     sbind (exec_upd (insert_lcreated event))
       (\<lambda>_. sbind (sdefault [] (query_row (find_logo (lc_RequestID event))))
         (\<lambda>logo. exec_upd (upsert_ltoken event logo)))"

text \<open>The body shared by the insertion of purchases and sales.\<close>

definition trade_body ::
  "int \<Rightarrow> (trade_event \<Rightarrow> legacy_db \<Rightarrow> legacy_db) \<Rightarrow> int \<Rightarrow> trade_event \<Rightarrow> (legacy_db, unit) stmt" where
  "trade_body off insert_event tradeType event =
     sbind (exec_upd (insert_event event))
       (\<lambda>_. sbind (exec_upd (insert_ltrade tradeType event))
         (\<lambda>_. sbind (exec_upd (update_ltotals event))
           (\<lambda>_. signore (updateKlineDataWithSavepoint off (lt_TokenAddress event)
                  (block_time (lt_BlockTimestamp event)) (Some (lt_BnbAmount event)) (Some (lt_TokenAmount event)) []))))"

definition bought_body :: "int \<Rightarrow> trade_event \<Rightarrow> (legacy_db, unit) stmt" where
  "bought_body off = trade_body off insert_lbought 10"

definition sold_body :: "int \<Rightarrow> trade_event \<Rightarrow> (legacy_db, unit) stmt" where
  "sold_body off = trade_body off insert_lsold 20"

definition graduated_body :: "graduated_event \<Rightarrow> (legacy_db, unit) stmt" where
  "graduated_body event =
     sbind (exec_upd (insert_lgraduated event)) (\<lambda>_. exec_upd (mark_lgraduated event))"

type_synonym 'a db_op = "legacy_db \<times> bool list \<Rightarrow> 'a res \<times> (legacy_db \<times> bool list)"

definition InsertTokenCreatedEvent :: "created_event \<Rightarrow> unit db_op" where
  "InsertTokenCreatedEvent event = run_tx (\<lambda>e. e) (created_body event)"

definition InsertTokenBoughtEvent :: "int \<Rightarrow> trade_event \<Rightarrow> unit db_op" where
  "InsertTokenBoughtEvent off event = run_tx (\<lambda>e. e) (bought_body off event)"

definition InsertTokenSoldEvent :: "int \<Rightarrow> trade_event \<Rightarrow> unit db_op" where
  "InsertTokenSoldEvent off event = run_tx (\<lambda>e. e) (sold_body off event)"

definition InsertTokenGraduatedEvent :: "graduated_event \<Rightarrow> unit db_op" where
  "InsertTokenGraduatedEvent event = run_tx (\<lambda>e. e) (graduated_body event)"

definition BatchInsertTokenCreatedEvents :: "created_event list \<Rightarrow> unit db_op" where
  "BatchInsertTokenCreatedEvents events =
     (if events = [] then (\<lambda>s. (Inr (), s)) else run_tx (\<lambda>e. e) (sforeach created_body events))"

definition BatchInsertTokenBoughtEvents :: "int \<Rightarrow> trade_event list \<Rightarrow> unit db_op" where
  "BatchInsertTokenBoughtEvents off events =
     (if events = [] then (\<lambda>s. (Inr (), s)) else run_tx (\<lambda>e. e) (sforeach (bought_body off) events))"

definition BatchInsertTokenSoldEvents :: "int \<Rightarrow> trade_event list \<Rightarrow> unit db_op" where
  "BatchInsertTokenSoldEvents off events =
     (if events = [] then (\<lambda>s. (Inr (), s)) else run_tx (\<lambda>e. e) (sforeach (sold_body off) events))"

text \<open>
  A single statement on the pool.  The reading of the sync position answers 0 to every error,
  of the connection as well as of a missing row.
\<close>

definition pool_exec :: "(legacy_db \<Rightarrow> legacy_db) \<Rightarrow> unit db_op" where
  "pool_exec f = (\<lambda>(db, fs). case fs of
     True # fs' \<Rightarrow> (Inl DbFault, (db, fs')) | _ \<Rightarrow> (Inr (), (f db, tl fs)))"

definition find_state :: "string \<Rightarrow> legacy_db \<Rightarrow> u64 option" where
  "find_state contractAddress db =
     map_option snd (find (\<lambda>r. fst r = contractAddress) (ld_state db))"

definition GetLastSyncedBlock :: "string \<Rightarrow> u64 db_op" where
  "GetLastSyncedBlock contractAddress = (\<lambda>(db, fs). case fs of
     True # fs' \<Rightarrow> (Inr 0, (db, fs'))
   | _ \<Rightarrow> (case find_state contractAddress db of
            None \<Rightarrow> (Inr 0, (db, tl fs)) | Some blockNumber \<Rightarrow> (Inr blockNumber, (db, tl fs))))"

definition UpdateLastSyncedBlock :: "string \<Rightarrow> u64 \<Rightarrow> unit db_op" where
  "UpdateLastSyncedBlock contractAddress blockNumber =
     pool_exec (\<lambda>db. db\<lparr>ld_state := upsert fst (\<lambda>_ new. new) (contractAddress, blockNumber) (ld_state db)\<rparr>)"

section \<open>Outcomes\<close>

text \<open>The insertion of a trade as functions on the database, without and with its candles.\<close>

definition trade_base :: "(trade_event \<Rightarrow> legacy_db \<Rightarrow> legacy_db) \<Rightarrow> int \<Rightarrow> trade_event \<Rightarrow> legacy_db \<Rightarrow> legacy_db" where
  "trade_base insert_event tradeType e db = update_ltotals e (insert_ltrade tradeType e (insert_event e db))"

definition trade_klines :: "int \<Rightarrow> trade_event \<Rightarrow> legacy_db \<Rightarrow> legacy_db" where
  "trade_klines off e db =
     (if lt_TokenAmount e = 0 then db
      else fold (\<lambda>i. upsert_lkline (lt_TokenAddress e) i (alignTimeToInterval off (block_time (lt_BlockTimestamp e)) i)
        (float_text18 (lt_BnbAmount e) (lt_TokenAmount e)) (show_int (lt_TokenAmount e))) valid_intervals db)"

definition trade_full :: "int \<Rightarrow> (trade_event \<Rightarrow> legacy_db \<Rightarrow> legacy_db) \<Rightarrow> int \<Rightarrow> trade_event \<Rightarrow> legacy_db \<Rightarrow> legacy_db" where
  "trade_full off ins ty e db = trade_klines off e (trade_base ins ty e db)"

lemma fold_cong_set: "(\<And>x. x \<in> set xs \<Longrightarrow> f x = g x) \<Longrightarrow> fold f xs = fold g xs"
  by (induction xs) simp_all

lemma realises_updateKlineData:
  "realises (updateKlineData off (lt_TokenAddress e) (block_time (lt_BlockTimestamp e)) (Some (lt_BnbAmount e)) (Some (lt_TokenAmount e)) [])
     (trade_klines off e) (\<lambda>_. ())"
proof (cases "lt_TokenAmount e = 0")
  case True
  have k: "trade_klines off e = (\<lambda>db. db)" using True by (simp add: trade_klines_def fun_eq_iff)
  show ?thesis using True unfolding updateKlineData_def k by (simp add: realises_sret)
next
  case False
  let ?f = "\<lambda>i. upsert_lkline (lt_TokenAddress e) i (alignTimeToInterval off (block_time (lt_BlockTimestamp e)) i)
        (float_text18 (lt_BnbAmount e) (lt_TokenAmount e)) (show_int (lt_TokenAmount e))"
  have "realises (sforeach (\<lambda>i. if i \<notin> set valid_intervals then sret () else exec_upd (?f i)) valid_intervals)
      (fold (\<lambda>i. if i \<notin> set valid_intervals then (\<lambda>s. s) else ?f i) valid_intervals) (\<lambda>_. ())"
    by (rule realises_foreach) (simp add: realises_sret realises_exec_upd)
  moreover have "fold (\<lambda>i. if i \<notin> set valid_intervals then (\<lambda>s. s) else ?f i) valid_intervals = fold ?f valid_intervals"
    by (rule fold_cong_set) simp
  moreover have "trade_klines off e = fold ?f valid_intervals"
    using False by (simp add: trade_klines_def fun_eq_iff)
  ultimately show ?thesis using False by (simp add: updateKlineData_def Let_def)
qed

text \<open>
  \<open>loose m f\<close>: a statement whose error is ignored. If the transaction is still live after it,
  the database is the one before or the one \<open>f\<close> gives; without failures it is the latter.
\<close>

definition loose :: "('s, unit) stmt \<Rightarrow> ('s \<Rightarrow> 's) \<Rightarrow> bool" where
  "loose m f \<longleftrightarrow> (\<forall>t. \<not> tx_aborted t \<longrightarrow>
     fst (m t) = Inr () \<and>
     (\<not> tx_aborted (snd (m t)) \<longrightarrow> tx_db (snd (m t)) \<in> {tx_db t, f (tx_db t)}) \<and>
     (True \<notin> set (tx_faults t) \<longrightarrow> \<not> tx_aborted (snd (m t)) \<and> tx_db (snd (m t)) = f (tx_db t)
        \<and> True \<notin> set (tx_faults (snd (m t)))))"

lemma loose_savepoint:
  assumes "realises m f (\<lambda>_. ())"
  shows "loose (signore (with_savepoint m)) f"
  unfolding loose_def
proof (intro allI impI)
  fix t :: "'a tx"
  assume live: "\<not> tx_aborted t"
  obtain r1 t1 where e1: "exec_upd (\<lambda>s. s) t = (r1, t1)" by (cases "exec_upd (\<lambda>s. s) t")
  have o1: "outcome_ok (\<lambda>s. s) (\<lambda>_. ()) t (r1, t1)"
    using realisesD [OF realises_exec_upd live, of "\<lambda>s. s"] e1 by simp
  show "fst (signore (with_savepoint m) t) = Inr () \<and>
     (\<not> tx_aborted (snd (signore (with_savepoint m) t)) \<longrightarrow> tx_db (snd (signore (with_savepoint m) t)) \<in> {tx_db t, f (tx_db t)}) \<and>
     (True \<notin> set (tx_faults t) \<longrightarrow> \<not> tx_aborted (snd (signore (with_savepoint m) t)) \<and> tx_db (snd (signore (with_savepoint m) t)) = f (tx_db t)
        \<and> True \<notin> set (tx_faults (snd (signore (with_savepoint m) t))))"
  proof (cases r1)
    case (Inl e)
    have "tx_aborted t1"
      using e1 Inl live by (auto simp: exec_upd_def exec_def split: list.splits bool.splits)
    with Inl e1 o1 show ?thesis by (simp add: signore_def with_savepoint_def)
  next
    case (Inr u)
    with o1 have t1: "\<not> tx_aborted t1" "tx_db t1 = tx_db t" "set (tx_faults t1) \<subseteq> set (tx_faults t)" by simp_all
    obtain r2 t2 where m2: "m t1 = (r2, t2)" by (cases "m t1")
    have o2: "outcome_ok f (\<lambda>_. ()) t1 (r2, t2)" using realisesD [OF assms t1(1)] m2 by simp
    show ?thesis
    proof (cases r2)
      case (Inl e)
      then have fault: "True \<in> set (tx_faults t)" using o2 t1(3) by auto
      obtain r3 t3 where rb: "rollback_to (tx_db t1) t2 = (r3, t3)" by (cases "rollback_to (tx_db t1) t2")
      have "tx_aborted t3 \<or> tx_db t3 = tx_db t1"
        using rb by (auto simp: rollback_to_def split: list.splits bool.splits)
      with fault Inl Inr e1 m2 rb t1 show ?thesis
        by (auto simp: signore_def with_savepoint_def split: sum.splits)
    next
      case r2: (Inr v)
      with o2 have t2: "\<not> tx_aborted t2" "tx_db t2 = f (tx_db t1)" "set (tx_faults t2) \<subseteq> set (tx_faults t1)" by simp_all
      obtain r3 t3 where e3: "exec_upd (\<lambda>s. s) t2 = (r3, t3)" by (cases "exec_upd (\<lambda>s. s) t2")
      have o3: "outcome_ok (\<lambda>s. s) (\<lambda>_. ()) t2 (r3, t3)"
        using realisesD [OF realises_exec_upd t2(1), of "\<lambda>s. s"] e3 by simp
      have ab: "r3 = Inl err \<Longrightarrow> tx_aborted t3" for err
        using e3 t2(1) by (auto simp: exec_upd_def exec_def split: list.splits bool.splits)
      from o3 ab t1 t2 Inr r2 e1 m2 e3 show ?thesis
        by (cases r3) (auto simp: signore_def with_savepoint_def swrap_def)
    qed
  qed
qed

lemma run_tx_loose:
  assumes b: "realises m f (\<lambda>_. ())" and k: "loose n g"
  shows "case run_tx (\<lambda>e. e) (sbind m (\<lambda>_. n)) (db, fs) of
      (Inl e, (db', fs')) \<Rightarrow> db' = db \<and> True \<in> set fs
    | (Inr _, (db', fs')) \<Rightarrow> db' \<in> {f db, g (f db)} \<and> (True \<in> set fs \<or> db' = g (f db) \<and> True \<notin> set fs')"
proof -
  let ?t = "\<lparr>tx_db = db, tx_aborted = False, tx_faults = tl fs\<rparr>"
  obtain r t1 where mt: "m ?t = (r, t1)" by (cases "m ?t")
  have ok: "outcome_ok f (\<lambda>_. ()) ?t (r, t1)" using realisesD [OF b, of ?t] mt by simp
  have tl: "True \<in> set (tl fs) \<Longrightarrow> True \<in> set fs" by (rule in_set_tlD)
  show ?thesis
  proof (cases r)
    case (Inl e)
    with ok mt tl show ?thesis by (auto simp: run_tx_def sbind_def split: list.splits bool.splits)
  next
    case (Inr u)
    with ok have t1: "\<not> tx_aborted t1" "tx_db t1 = f db" "set (tx_faults t1) \<subseteq> set (tl fs)" by simp_all
    obtain r2 t2 where nt: "n t1 = (r2, t2)" by (cases "n t1")
    from k t1(1) nt have n: "r2 = Inr ()" "\<not> tx_aborted t2 \<Longrightarrow> tx_db t2 \<in> {f db, g (f db)}"
      "True \<notin> set (tx_faults t1) \<Longrightarrow> \<not> tx_aborted t2 \<and> tx_db t2 = g (f db) \<and> True \<notin> set (tx_faults t2)"
      by (auto simp: loose_def t1(2) dest!: spec [of _ t1])
    have clean: "True \<in> set fs \<or> (\<not> tx_aborted t2 \<and> tx_db t2 = g (f db) \<and> True \<notin> set (tx_faults t2))"
      using t1(3) tl n(3) by blast
    have tl2: "True \<in> set (tl (tx_faults t2)) \<Longrightarrow> True \<in> set (tx_faults t2)" by (rule in_set_tlD)
    show ?thesis
      using mt Inr nt n(1,2) clean tl tl2 by (auto simp: run_tx_def sbind_def split: list.splits bool.splits if_splits)
  qed
qed

lemma trade_body_outcome:
  "case run_tx (\<lambda>e. e) (trade_body off ins ty e) (db, fs) of
      (Inl err, (db', fs')) \<Rightarrow> db' = db \<and> True \<in> set fs
    | (Inr _, (db', fs')) \<Rightarrow> db' \<in> {trade_base ins ty e db, trade_full off ins ty e db}
        \<and> (True \<in> set fs \<or> db' = trade_full off ins ty e db \<and> True \<notin> set fs')"
proof -
  let ?k = "signore (updateKlineDataWithSavepoint off (lt_TokenAddress e)
                  (block_time (lt_BlockTimestamp e)) (Some (lt_BnbAmount e)) (Some (lt_TokenAmount e)) [])"
  let ?m = "sbind (exec_upd (ins e)) (\<lambda>_. sbind (exec_upd (insert_ltrade ty e)) (\<lambda>_. exec_upd (update_ltotals e)))"
  have base: "realises ?m (trade_base ins ty e) (\<lambda>_. ())"
    by (rule realises_cong [OF realises_seq [OF realises_exec_upd realises_seq [OF realises_exec_upd realises_exec_upd]]])
      (simp_all add: fun_eq_iff trade_base_def)
  have body: "trade_body off ins ty e = sbind ?m (\<lambda>_. ?k)"
    by (rule ext) (simp add: trade_body_def sbind_def split: prod.split sum.split)
  have "loose ?k (trade_klines off e)"
    unfolding updateKlineDataWithSavepoint_def by (rule loose_savepoint [OF realises_updateKlineData])
  from run_tx_loose [OF base this] show ?thesis unfolding body trade_full_def .
qed

text \<open>C34: A failure of the candles does not cost the trade.  Inserting a purchase either fails
  and changes nothing, or records the event, the trade and the totals; the candles are then
  updated all together or not at all, and without failures they are updated.\<close>

theorem purchase_outcomes:
  "case InsertTokenBoughtEvent off e (db, fs) of
     (Inl err, (db', fs')) \<Rightarrow> db' = db \<and> True \<in> set fs
   | (Inr _, (db', fs')) \<Rightarrow>
       (db' = trade_base insert_lbought 10 e db \<or> db' = trade_full off insert_lbought 10 e db)
        \<and> (True \<in> set fs \<or> db' = trade_full off insert_lbought 10 e db)"
  using trade_body_outcome [where off = off and ins = insert_lbought and ty = 10 and e = e and db = db and fs = fs]
  unfolding InsertTokenBoughtEvent_def bought_body_def by (auto split: sum.splits prod.splits)

section \<open>Replays and double trades\<close>

lemma get_rows_fold:
  assumes "distinct ivs" and "\<And>i. kline_key (row i) = (a', i, g i)"
  shows "get_row kline_key (a, j, t) (fold (\<lambda>i. upsert kline_key kline_conflict (row i)) ivs rows) =
    (if j \<in> set ivs \<and> a = a' \<and> t = g j
     then Some (case get_row kline_key (a, j, t) rows of None \<Rightarrow> row j | Some x \<Rightarrow> kline_conflict x (row j))
     else get_row kline_key (a, j, t) rows)"
  using assms(1)
proof (induction ivs arbitrary: rows)
  case Nil
  then show ?case by simp
next
  case (Cons i ivs)
  then show ?case
    by (auto simp: get_kline_upsert assms(2) split: option.split)
qed

lemma lklines_fold:
  "ld_klines (fold (\<lambda>i. upsert_lkline a i (g i) p v) ivs db) =
    fold (\<lambda>i. upsert kline_key kline_conflict
      \<lparr>kl_token_address = a, kl_interval = i, kl_open_time = g i, kl_open_price = numeric18 p,
       kl_high_price = numeric18 p, kl_low_price = numeric18 p, kl_close_price = numeric18 p,
       kl_volume = numeric0 v\<rparr>) ivs (ld_klines db)"
  by (induction ivs arbitrary: db) (simp_all add: upsert_lkline_def)

lemma lkline_frame [simp]:
  "ld_trades (fold (\<lambda>i. upsert_lkline a i (g i) p v) ivs db) = ld_trades db"
  "ld_bought_events (fold (\<lambda>i. upsert_lkline a i (g i) p v) ivs db) = ld_bought_events db"
  "ld_sold_events (fold (\<lambda>i. upsert_lkline a i (g i) p v) ivs db) = ld_sold_events db"
  "ld_tokens (fold (\<lambda>i. upsert_lkline a i (g i) p v) ivs db) = ld_tokens db"
  by (induction ivs arbitrary: db) (simp_all add: upsert_lkline_def)

lemma trade_klines_frame [simp]:
  "ld_trades (trade_klines off e db) = ld_trades db"
  "ld_bought_events (trade_klines off e db) = ld_bought_events db"
  "ld_sold_events (trade_klines off e db) = ld_sold_events db"
  "ld_tokens (trade_klines off e db) = ld_tokens db"
  by (simp_all add: trade_klines_def)

lemma purchase_live:
  "fst (InsertTokenBoughtEvent off e (db, [])) = Inr () \<and>
   fst (snd (InsertTokenBoughtEvent off e (db, []))) = trade_full off insert_lbought 10 e db"
  using trade_body_outcome [where off = off and ins = insert_lbought and ty = 10 and e = e and db = db and fs = "[]"]
  unfolding InsertTokenBoughtEvent_def bought_body_def
  by (auto split: prod.splits sum.splits)

lemma valid_distinct: "distinct valid_intervals"
  by (simp add: valid_intervals_def)

lemma trade_klines_volume:
  assumes "j \<in> set valid_intervals"
  shows "map_option kl_volume (get_row kline_key (lt_TokenAddress e, j, alignTimeToInterval off (block_time (lt_BlockTimestamp e)) j)
      (ld_klines (trade_klines off e db))) =
    (if lt_TokenAmount e = 0 then map_option kl_volume (get_row kline_key (lt_TokenAddress e, j, alignTimeToInterval off (block_time (lt_BlockTimestamp e)) j) (ld_klines db))
     else Some (lt_TokenAmount e + (case get_row kline_key (lt_TokenAddress e, j, alignTimeToInterval off (block_time (lt_BlockTimestamp e)) j) (ld_klines db)
        of None \<Rightarrow> 0 | Some k \<Rightarrow> kl_volume k)))"
proof -
  have v: "numeric0 (show_int n) = n" for n
    using numeric0_intString [of "Some n"] by (simp add: intString_def)
  show ?thesis
    using assms unfolding trade_klines_def
    by (simp add: lklines_fold get_rows_fold [OF valid_distinct, where a' = "lt_TokenAddress e"
          and g = "alignTimeToInterval off (block_time (lt_BlockTimestamp e))"] kline_key_def v kline_conflict_def
        split: option.split)
qed

definition volume_at :: "string \<Rightarrow> string \<Rightarrow> int \<Rightarrow> legacy_db \<Rightarrow> int" where
  "volume_at a i t db = (case get_row kline_key (a, i, t) (ld_klines db) of None \<Rightarrow> 0 | Some k \<Rightarrow> kl_volume k)"

lemma base_klines [simp]: "ld_klines (trade_base insert_lbought ty e db) = ld_klines db"
  by (simp add: trade_base_def update_ltotals_def insert_ltrade_def insert_lbought_def)

lemma volume_full:
  assumes "j \<in> set valid_intervals"
  shows "volume_at (lt_TokenAddress e) j (alignTimeToInterval off (block_time (lt_BlockTimestamp e)) j)
      (trade_full off insert_lbought 10 e db) =
    lt_TokenAmount e + volume_at (lt_TokenAddress e) j (alignTimeToInterval off (block_time (lt_BlockTimestamp e)) j) db"
proof -
  let ?k = "(lt_TokenAddress e, j, alignTimeToInterval off (block_time (lt_BlockTimestamp e)) j)"
  have opt: "(case x of None \<Rightarrow> 0 | Some k \<Rightarrow> kl_volume k) = (case map_option kl_volume x of None \<Rightarrow> 0 | Some v \<Rightarrow> v)"
    for x :: "kline_row option" by (cases x) simp_all
  show ?thesis
    using trade_klines_volume [OF assms, of e off "trade_base insert_lbought 10 e db"]
    unfolding volume_at_def trade_full_def opt
    by (cases "get_row kline_key ?k (ld_klines db)") (auto split: if_splits)
qed

lemma base_trades_again:
  "ld_trades (trade_full off insert_lbought 10 e (trade_full off insert_lbought 10 e db)) = ld_trades (trade_full off insert_lbought 10 e db)"
  "ld_bought_events (trade_full off insert_lbought 10 e (trade_full off insert_lbought 10 e db)) =
     ld_bought_events (trade_full off insert_lbought 10 e db)"
  by (simp_all add: trade_full_def trade_base_def update_ltotals_def insert_ltrade_def insert_lbought_def)

text \<open>C37: Replaying a purchase counts its volume twice.  Inserting the same purchase again, as
  after a restart from an older position, adds no event and no trade, yet adds its token
  amount to the volume of all eight candles once more: the candles are not guarded by the
  conflict clauses that guard the other tables.\<close>

theorem legacy_replay_counts_twice:
  "let db1 = fst (snd (InsertTokenBoughtEvent off e (db, []))); db2 = fst (snd (InsertTokenBoughtEvent off e (db1, [])))
   in ld_bought_events db2 = ld_bought_events db1 \<and> ld_trades db2 = ld_trades db1
      \<and> list_all (\<lambda>i. let t = alignTimeToInterval off (block_time (lt_BlockTimestamp e)) i in
          volume_at (lt_TokenAddress e) i t db2 = volume_at (lt_TokenAddress e) i t db1 + lt_TokenAmount e) valid_intervals"
  by (simp add: Let_def purchase_live base_trades_again list_all_iff volume_full)

lemma trade_live:
  assumes "True \<notin> set fs"
  shows "\<exists>fs'. run_tx (\<lambda>e. e) (trade_body off ins ty e) (db, fs) = (Inr (), (trade_full off ins ty e db, fs'))
    \<and> True \<notin> set fs'"
  using assms trade_body_outcome [where off = off and ins = ins and ty = ty and e = e and db = db and fs = fs]
  by (auto split: prod.splits sum.splits)

lemma run_tx_one: "run_tx w (sforeach f [x]) = run_tx w (f x)"
proof -
  have "sforeach f [x] = f x"
    by (rule ext) (simp add: sbind_def sret_def split: prod.split sum.split)
  then show ?thesis by simp
qed

text \<open>Two purchases of one transaction are recorded as one trade, although both are events
  and both move the candles: the second one meets the unique key of the trades, which leaves
  out the index of the log.\<close>

theorem legacy_trades_collapse:
  "let db1 = fst (snd (InsertTokenBoughtEvent off e1 (db, [])));
       e2' = e2\<lparr>lt_TransactionHash := lt_TransactionHash e1\<rparr>;
       db2 = fst (snd (InsertTokenBoughtEvent off e2' (db1, [])))
   in ld_trades db2 = ld_trades db1
      \<and> has_key trade_event_key (trade_event_key (ltrade_event_of e2')) (ld_bought_events db2)
      \<and> list_all (\<lambda>i. let t = alignTimeToInterval off (block_time (lt_BlockTimestamp e2)) i in
          volume_at (lt_TokenAddress e2) i t db2 = volume_at (lt_TokenAddress e2) i t db1 + lt_TokenAmount e2) valid_intervals"
proof -
  let ?e = "e2\<lparr>lt_TransactionHash := lt_TransactionHash e1\<rparr>"
  let ?d1 = "trade_full off insert_lbought 10 e1 db"
  have "ld_trades (trade_full off insert_lbought 10 ?e ?d1) = ld_trades ?d1"
    by (simp add: trade_full_def trade_base_def update_ltotals_def insert_ltrade_def insert_lbought_def insert_new_def ltrade_key_def)
  moreover have "has_key trade_event_key (trade_event_key (ltrade_event_of ?e)) (ld_bought_events (trade_full off insert_lbought 10 ?e ?d1))"
    by (simp add: trade_full_def trade_base_def update_ltotals_def insert_ltrade_def insert_lbought_def)
  ultimately show ?thesis
    using volume_full [of _ ?e off ?d1] by (simp add: Let_def purchase_live list_all_iff)
qed

end
