(* ===== verification/LegacyAuth.thy ===== *)
theory LegacyAuth
  imports Auth LegacyEvents
begin

text \<open>
  The login of the legacy API, apps/api: the answers of types.go, the users table
  (model/user.go), the sign message, the wallet login and the refresh of tokens
  (logic/user), and the authentication of requests (middleware).  The Redis commands are those
  of theory Auth.
\<close>

section \<open>Answers\<close>

record 'd response =
  rs_Code :: int
  rs_Message :: string
  rs_Data :: "'d option"

definition Success :: "'d \<Rightarrow> 'd response" where
  "Success data = \<lparr>rs_Code = 200, rs_Message = ''success'', rs_Data = Some data\<rparr>"

definition ErrorResp :: "int \<Rightarrow> string \<Rightarrow> 'd response" where
  "ErrorResp code message = \<lparr>rs_Code = code, rs_Message = message, rs_Data = None\<rparr>"

section \<open>Users\<close>

text \<open>A row of the users table, and the struct it is scanned into (\<open>COALESCE\<close> of each null).\<close>

record luser_row =
  ur_id :: int
  ur_address :: string
  ur_username :: "string option"
  ur_email :: "string option"
  ur_avatar :: "string option"
  ur_nonce :: "string option"
  ur_created_at :: int
  ur_updated_at :: int

record luser =
  lu_ID :: int
  lu_Address :: string
  lu_Username :: string
  lu_Email :: string
  lu_Avatar :: string
  lu_Nonce :: string
  lu_CreatedAt :: int
  lu_UpdatedAt :: int

definition coalesce_empty :: "string option \<Rightarrow> string" where
  "coalesce_empty x = (case x of None \<Rightarrow> [] | Some s \<Rightarrow> s)"

definition scan_luser :: "luser_row \<Rightarrow> luser" where
  "scan_luser r = \<lparr>lu_ID = ur_id r, lu_Address = ur_address r, lu_Username = coalesce_empty (ur_username r),
     lu_Email = coalesce_empty (ur_email r), lu_Avatar = coalesce_empty (ur_avatar r),
     lu_Nonce = coalesce_empty (ur_nonce r), lu_CreatedAt = ur_created_at r, lu_UpdatedAt = ur_updated_at r\<rparr>"

record luser_db =
  lud_users :: "luser_row list"
  lud_next :: int
  lud_tokens :: "string list"
  lud_faults :: "bool list"

text \<open>\<open>lud_tokens\<close> is the column creator_address of the tokens.\<close>

definition luser_fault :: "luser_db \<Rightarrow> bool \<times> luser_db" where
  "luser_fault d = (case lud_faults d of [] \<Rightarrow> (False, d) | b # bs \<Rightarrow> (b, d\<lparr>lud_faults := bs\<rparr>))"

definition UserModel_FindByAddress :: "string \<Rightarrow> luser_db \<Rightarrow> luser res \<times> luser_db" where
  "UserModel_FindByAddress address d =
     (case luser_fault d of
        (True, d') \<Rightarrow> (Inl DbFault, d')
      | (False, d') \<Rightarrow>
        (case find (\<lambda>r. to_lower (ur_address r) = to_lower address) (lud_users d') of
           None \<Rightarrow> (Inl ErrNoRows, d') | Some r \<Rightarrow> (Inr (scan_luser r), d')))"

definition UserModel_FindByID :: "int \<Rightarrow> luser_db \<Rightarrow> luser res \<times> luser_db" where
  "UserModel_FindByID i d =
     (case luser_fault d of
        (True, d') \<Rightarrow> (Inl DbFault, d')
      | (False, d') \<Rightarrow>
        (case find (\<lambda>r. ur_id r = i) (lud_users d') of
           None \<Rightarrow> (Inl ErrNoRows, d') | Some r \<Rightarrow> (Inr (scan_luser r), d')))"

text \<open>
  The insertion fills the identifier and the times of the struct.  The table has a unique
  constraint on the address as it is written.
\<close>

definition UserModel_Create :: "int \<Rightarrow> luser \<Rightarrow> luser_db \<Rightarrow> luser res \<times> luser_db" where
  "UserModel_Create now u d =
     (case luser_fault d of
        (True, d') \<Rightarrow> (Inl DbFault, d')
      | (False, d') \<Rightarrow>
        (let r = \<lparr>ur_id = lud_next d', ur_address = lu_Address u, ur_username = Some (lu_Username u),
                  ur_email = None, ur_avatar = None, ur_nonce = Some (lu_Nonce u), ur_created_at = now, ur_updated_at = now\<rparr>;
             d'' = d'\<lparr>lud_next := lud_next d' + 1\<rparr>
         in if list_ex (\<lambda>r. ur_address r = lu_Address u) (lud_users d') then (Inl DbFault, d'')
            else (Inr (u\<lparr>lu_ID := ur_id r, lu_CreatedAt := now, lu_UpdatedAt := now\<rparr>),
                  d''\<lparr>lud_users := lud_users d' @ [r]\<rparr>)))"

definition UserModel_UpdateNonce :: "int \<Rightarrow> string \<Rightarrow> string \<Rightarrow> luser_db \<Rightarrow> unit res \<times> luser_db" where
  "UserModel_UpdateNonce now address nonce d =
     (case luser_fault d of
        (True, d') \<Rightarrow> (Inl DbFault, d')
      | (False, d') \<Rightarrow>
        (Inr (), d'\<lparr>lud_users := update_where (\<lambda>r. to_lower (ur_address r) = to_lower address)
           (\<lambda>r. r\<lparr>ur_nonce := Some nonce, ur_updated_at := now\<rparr>) (lud_users d')\<rparr>))"

text \<open>\<open>COALESCE(NULLIF($1, ''), column)\<close>: an empty text leaves the column.\<close>

definition keep_if_empty :: "string \<Rightarrow> string option \<Rightarrow> string option" where
  "keep_if_empty new old = (if new = [] then old else Some new)"

definition UserModel_Update :: "int \<Rightarrow> luser \<Rightarrow> luser_db \<Rightarrow> unit res \<times> luser_db" where
  "UserModel_Update now u d =
     (case luser_fault d of
        (True, d') \<Rightarrow> (Inl DbFault, d')
      | (False, d') \<Rightarrow>
        (Inr (), d'\<lparr>lud_users := update_where (\<lambda>r. ur_id r = lu_ID u)
           (\<lambda>r. r\<lparr>ur_username := keep_if_empty (lu_Username u) (ur_username r),
                  ur_email := keep_if_empty (lu_Email u) (ur_email r),
                  ur_avatar := keep_if_empty (lu_Avatar u) (ur_avatar r), ur_updated_at := now\<rparr>) (lud_users d')\<rparr>))"

record overview_stats =
  os_createdTokens :: int
  os_heatedTokens :: int
  os_ownedTokens :: int
  os_pendingUnlockTokens :: int
  os_totalTradeBnb :: string

definition UserModel_GetOverviewStats :: "string \<Rightarrow> luser_db \<Rightarrow> overview_stats res \<times> luser_db" where
  "UserModel_GetOverviewStats address d =
     (case luser_fault d of
        (True, d') \<Rightarrow> (Inl DbFault, d')
      | (False, d') \<Rightarrow>
        (Inr \<lparr>os_createdTokens = int (length (filter (\<lambda>a. to_lower a = to_lower address) (lud_tokens d'))),
              os_heatedTokens = 0, os_ownedTokens = 0, os_pendingUnlockTokens = 0, os_totalTradeBnb = ''0''\<rparr>, d'))"

section \<open>The sign message\<close>

definition wallet_address_ok :: "string \<Rightarrow> bool" where
  "wallet_address_ok address = (length address = 42 \<and> has_prefix address ''0x'')"

definition welcome_message :: "string \<Rightarrow> string \<Rightarrow> string" where
  "welcome_message address nonce =
     ''Welcome to Coinroll!'' @ newline @ newline @
     ''Click to sign in and accept the Terms of Service.'' @ newline @ newline @
     ''This request will not trigger a blockchain transaction or cost any gas fees.'' @ newline @ newline @
     ''Wallet address:'' @ newline @ address @ newline @ newline @ ''Nonce:'' @ newline @ nonce"

definition sign_msg_key :: "string \<Rightarrow> string" where
  "sign_msg_key address = ''sign_msg:'' @ address"

record sign_msg_response =
  gs_Message :: string
  gs_Nonce :: string
  gs_Expiry :: int

text \<open>The result of the Redis command is not looked at.\<close>

definition GetSignMsg ::
  "bytes option \<Rightarrow> (nat \<Rightarrow> int) \<Rightarrow> string \<Rightarrow> string redis \<Rightarrow> sign_msg_response response \<times> string redis" where
  "GetSignMsg random clock req_Address r =
     (let address = to_lower req_Address in
      if \<not> wallet_address_ok address then (ErrorResp 400 ''invalid address format'', r)
      else case random of
        None \<Rightarrow> (ErrorResp 500 ''failed to generate nonce'', r)
      | Some nonceBytes \<Rightarrow>
        (let nonce = hex_encode nonceBytes;
             expiry = unix (clock 0 + 5 * go_minute);
             r' = snd (redis_set (clock 1) (sign_msg_key address) nonce (5 * go_minute) r)
         in (Success \<lparr>gs_Message = welcome_message address nonce, gs_Nonce = nonce, gs_Expiry = expiry\<rparr>, r')))"

section \<open>Tokens\<close>

text \<open>
  JWT claims as \<open>jwt.MapClaims\<close>; the type is present in refresh tokens only.  \<open>lj_sign\<close> signs
  with a secret by HS256, \<open>lj_parse\<close> gives the claims of a token whose signature and times are
  valid under the secret at a time in seconds.
\<close>

record map_claims =
  mc_userId :: "int option"
  mc_address :: "string option"
  mc_type :: "string option"
  mc_exp :: int
  mc_iat :: int

record legacy_jwt =
  lj_sign :: "string \<Rightarrow> map_claims \<Rightarrow> string res"
  lj_parse :: "string \<Rightarrow> int \<Rightarrow> string \<Rightarrow> map_claims option"

record lauth_config =
  la_AccessSecret :: string
  la_AccessExpire :: int
  la_RefreshExpire :: int

text \<open>\<open>time.Duration(n) * time.Second\<close>, which wraps, and \<open>time.Now().Add(d).Unix()\<close>.\<close>

definition seconds_duration :: "int \<Rightarrow> int" where
  "seconds_duration n = sint (word_of_int (n * go_second) :: u64)"

definition expiry_at :: "int \<Rightarrow> int \<Rightarrow> int" where
  "expiry_at now n = unix (now + seconds_duration n)"

definition generateAccessToken :: "legacy_jwt \<Rightarrow> lauth_config \<Rightarrow> (nat \<Rightarrow> int) \<Rightarrow> int \<Rightarrow> string \<Rightarrow> string res" where
  "generateAccessToken jwt cfg clock userID address =
     lj_sign jwt (la_AccessSecret cfg)
       \<lparr>mc_userId = Some userID, mc_address = Some address, mc_type = None,
        mc_exp = expiry_at (clock 0) (la_AccessExpire cfg), mc_iat = unix (clock 1)\<rparr>"

definition generateRefreshToken :: "legacy_jwt \<Rightarrow> lauth_config \<Rightarrow> (nat \<Rightarrow> int) \<Rightarrow> int \<Rightarrow> string \<Rightarrow> string res" where
  "generateRefreshToken jwt cfg clock userID address =
     lj_sign jwt (la_AccessSecret cfg)
       \<lparr>mc_userId = Some userID, mc_address = Some address, mc_type = Some ''refresh'',
        mc_exp = expiry_at (clock 2) (la_RefreshExpire cfg), mc_iat = unix (clock 3)\<rparr>"

section \<open>The wallet login\<close>

definition legacy_verifySignature :: "eth_lib \<Rightarrow> string \<Rightarrow> string \<Rightarrow> string \<Rightarrow> bool" where
  "legacy_verifySignature lib address message signature =
     (case hexutil_decode lib signature of
        None \<Rightarrow> False
      | Some sigBytes \<Rightarrow>
          if length sigBytes \<noteq> 65 then False
          else (case sig_to_address lib (eth_message_hash lib message) (normalize_v sigBytes) of
                  None \<Rightarrow> False
                | Some recovered \<Rightarrow> to_lower recovered = to_lower address))"

definition legacy_shortenAddress :: "string \<Rightarrow> string" where
  "legacy_shortenAddress address =
     (if length address < 10 then address else take 6 address @ ''...'' @ drop (length address - 4) address)"

text \<open>\<open>generateNonce\<close> ignores the error of the random source: its bytes are then zero.\<close>

definition generateNonce :: "bytes option \<Rightarrow> string" where
  "generateNonce random = hex_encode (case random of None \<Rightarrow> replicate 16 0 | Some b \<Rightarrow> b)"

record login_user =
  lv_id :: int
  lv_address :: string
  lv_username :: string
  lv_email :: string
  lv_avatar :: string
  lv_createdAt :: string
  lv_updatedAt :: string

record login_response =
  lp_Token :: string
  lp_RefreshToken :: string
  lp_ExpiresIn :: int
  lp_TokenType :: string
  lp_User :: login_user

text \<open>The login up to the signature: the address on success, an answer otherwise.\<close>

definition wallet_check ::
  "eth_lib \<Rightarrow> int \<Rightarrow> string \<Rightarrow> string \<Rightarrow> string redis \<Rightarrow> ('d response + string) \<times> string redis" where
  "wallet_check lib now req_Address req_Signature r =
     (let address = to_lower req_Address in
      if \<not> wallet_address_ok address then (Inl (ErrorResp 400 ''invalid address format''), r)
      else case redis_get now (sign_msg_key address) r of
        (Inr (Some nonce), r') \<Rightarrow>
          if \<not> legacy_verifySignature lib address (welcome_message address nonce) req_Signature
          then (Inl (ErrorResp 400 ''invalid signature''), r')
          else (Inr address, r')
      | (_, r') \<Rightarrow> (Inl (ErrorResp 400 ''nonce expired or not found, please request sign message again''), r'))"

text \<open>The deletion of the nonce, whose result is not looked at.\<close>

definition wallet_consume :: "int \<Rightarrow> string \<Rightarrow> string redis \<Rightarrow> string redis" where
  "wallet_consume now address r = snd (redis_del now (sign_msg_key address) r)"

definition zero_time :: int where
  "zero_time = - (zero_time_offset * go_second)"

definition wallet_user ::
  "bytes option \<Rightarrow> int \<Rightarrow> string \<Rightarrow> luser_db \<Rightarrow> ('d response + luser) \<times> luser_db" where
  "wallet_user random now address d =
     (case UserModel_FindByAddress address d of
        (Inl e, d1) \<Rightarrow>
          if errors_is e ErrNoRows then
            (case UserModel_Create now \<lparr>lu_ID = 0, lu_Address = address, lu_Username = legacy_shortenAddress address,
                    lu_Email = [], lu_Avatar = [], lu_Nonce = generateNonce random, lu_CreatedAt = zero_time,
                    lu_UpdatedAt = zero_time\<rparr> d1 of
               (Inl _, d2) \<Rightarrow> (Inl (ErrorResp 500 ''failed to create user''), d2)
             | (Inr u, d2) \<Rightarrow> (Inr u, d2))
          else (Inl (ErrorResp 500 ''database error''), d1)
      | (Inr u, d1) \<Rightarrow> (Inr u, snd (UserModel_UpdateNonce now address (generateNonce random) d1)))"

definition wallet_answer ::
  "legacy_jwt \<Rightarrow> lauth_config \<Rightarrow> (nat \<Rightarrow> int) \<Rightarrow> luser \<Rightarrow> login_response response" where
  "wallet_answer jwt cfg clock u =
     (case generateAccessToken jwt cfg clock (lu_ID u) (lu_Address u) of
        Inl _ \<Rightarrow> ErrorResp 500 ''failed to generate token''
      | Inr accessToken \<Rightarrow>
        (case generateRefreshToken jwt cfg clock (lu_ID u) (lu_Address u) of
           Inl _ \<Rightarrow> ErrorResp 500 ''failed to generate refresh token''
         | Inr refreshToken \<Rightarrow>
             Success \<lparr>lp_Token = accessToken, lp_RefreshToken = refreshToken, lp_ExpiresIn = la_AccessExpire cfg,
               lp_TokenType = ''Bearer'',
               lp_User = \<lparr>lv_id = lu_ID u, lv_address = lu_Address u, lv_username = lu_Username u, lv_email = lu_Email u,
                 lv_avatar = lu_Avatar u, lv_createdAt = format_rfc3339 (lu_CreatedAt u),
                 lv_updatedAt = format_rfc3339 (lu_UpdatedAt u)\<rparr>\<rparr>))"

definition WalletLogin ::
  "eth_lib \<Rightarrow> legacy_jwt \<Rightarrow> lauth_config \<Rightarrow> bytes option \<Rightarrow> (nat \<Rightarrow> int) \<Rightarrow> string \<Rightarrow> string \<Rightarrow>
     string redis \<times> luser_db \<Rightarrow> login_response response \<times> string redis \<times> luser_db" where
  "WalletLogin lib jwt cfg random clock req_Address req_Signature = (\<lambda>(r, d).
     case wallet_check lib (clock 4) req_Address req_Signature r of
       (Inl resp, r') \<Rightarrow> (resp, r', d)
     | (Inr address, r') \<Rightarrow>
         (let r'' = wallet_consume (clock 5) address r' in
          case wallet_user random (clock 6) address d of
            (Inl resp, d') \<Rightarrow> (resp, r'', d')
          | (Inr u, d') \<Rightarrow> (wallet_answer jwt cfg clock u, r'', d')))"

section \<open>Refreshing tokens\<close>

text \<open>
  \<open>MapClaims\<close> reads the identifier as a float64: rounded to 53 bits, to nearest, ties to even.
\<close>

definition float53 :: "int \<Rightarrow> int" where
  "float53 n =
     (let m = nat \<bar>n\<bar>; k = bitlen m - 53 in sgn n * int (round_even m (2 ^ k) * 2 ^ k))"

record refresh_response =
  rf_token :: string
  rf_refreshToken :: string
  rf_expiresIn :: int
  rf_tokenType :: string

definition RefreshToken ::
  "legacy_jwt \<Rightarrow> lauth_config \<Rightarrow> (nat \<Rightarrow> int) \<Rightarrow> string \<Rightarrow> refresh_response response" where
  "RefreshToken jwt cfg clock req_RefreshToken =
     (case lj_parse jwt (la_AccessSecret cfg) (unix (clock 4)) req_RefreshToken of
        None \<Rightarrow> ErrorResp 401 ''invalid or expired refresh token''
      | Some claims \<Rightarrow>
        if mc_type claims \<noteq> Some ''refresh'' then ErrorResp 401 ''invalid token type''
        else (case mc_userId claims of
          None \<Rightarrow> ErrorResp 401 ''invalid user id in token''
        | Some userIDFloat \<Rightarrow>
          (let userID = float53 userIDFloat in
           case mc_address claims of
             None \<Rightarrow> ErrorResp 401 ''invalid address in token''
           | Some address \<Rightarrow>
             (case generateAccessToken jwt cfg clock userID address of
                Inl _ \<Rightarrow> ErrorResp 500 ''failed to generate new token''
              | Inr newAccessToken \<Rightarrow>
                (case generateRefreshToken jwt cfg clock userID address of
                   Inl _ \<Rightarrow> ErrorResp 500 ''failed to generate new refresh token''
                 | Inr newRefreshToken \<Rightarrow>
                     Success \<lparr>rf_token = newAccessToken, rf_refreshToken = newRefreshToken,
                       rf_expiresIn = la_AccessExpire cfg, rf_tokenType = ''Bearer''\<rparr>)))))"

section \<open>Authenticated requests\<close>

text \<open>
  The context keys \<open>CtxUserIDKey\<close> and \<open>CtxAddressKey\<close> have a type of their own: a value stored
  under them is not found under the plain string of the same text.
\<close>

datatype ctx_key = CtxKey string | StringKey string

datatype ctx_value = CtxInt int | CtxStr string

type_synonym context_map = "ctx_key \<Rightarrow> ctx_value option"

definition CtxUserIDKey :: ctx_key where "CtxUserIDKey = CtxKey ''userId''"
definition CtxAddressKey :: ctx_key where "CtxAddressKey = CtxKey ''address''"

text \<open>\<open>strings.SplitN(s, " ", 2)\<close>.\<close>

definition split_space :: "string \<Rightarrow> string list" where
  "split_space s =
     (case dropWhile (\<lambda>c. c \<noteq> CHR '' '') s of
        [] \<Rightarrow> [s] | _ # rest \<Rightarrow> [takeWhile (\<lambda>c. c \<noteq> CHR '' '') s, rest])"

text \<open>The context the next handler runs in, or the error.\<close>

definition auth_Handle ::
  "legacy_jwt \<Rightarrow> string \<Rightarrow> int \<Rightarrow> string \<Rightarrow> context_map \<Rightarrow> context_map res" where
  "auth_Handle jwt accessSecret now authHeader ctx =
     (if authHeader = [] then Inl (ErrMsg ''missing authorization header'')
      else case split_space authHeader of
        [scheme, tokenString] \<Rightarrow>
          if to_lower scheme \<noteq> ''bearer'' then Inl (ErrMsg ''invalid authorization format'')
          else (case lj_parse jwt accessSecret (unix now) tokenString of
                  None \<Rightarrow> Inl (ErrMsg ''invalid or expired token'')
                | Some claims \<Rightarrow>
                    Inr (ctx(CtxUserIDKey \<mapsto> CtxInt (case mc_userId claims of None \<Rightarrow> 0 | Some n \<Rightarrow> n),
                             CtxAddressKey \<mapsto> CtxStr (coalesce_empty (mc_address claims)))))
      | _ \<Rightarrow> Inl (ErrMsg ''invalid authorization format''))"

definition GetUserIDFromCtx :: "context_map \<Rightarrow> int" where
  "GetUserIDFromCtx ctx = (case ctx CtxUserIDKey of Some (CtxInt userID) \<Rightarrow> userID | _ \<Rightarrow> 0)"

definition GetAddressFromCtx :: "context_map \<Rightarrow> string" where
  "GetAddressFromCtx ctx = (case ctx CtxAddressKey of Some (CtxStr address) \<Rightarrow> address | _ \<Rightarrow> [])"

definition GetOverviewStats :: "context_map \<Rightarrow> string \<Rightarrow> luser_db \<Rightarrow> overview_stats response \<times> luser_db" where
  "GetOverviewStats ctx req_Address d =
     (let address = (if req_Address = [] then GetAddressFromCtx ctx else req_Address) in
      if address = [] then (ErrorResp 400 ''address is required'', d)
      else case UserModel_GetOverviewStats address d of
        (Inl _, d') \<Rightarrow> (ErrorResp 500 ''failed to get stats'', d')
      | (Inr stats, d') \<Rightarrow> (Success stats, d'))"

section \<open>Concurrent logins\<close>

text \<open>
  Requests run concurrently: the check of a login and its deletion of the nonce are separate
  commands.  \<open>ws_issued\<close> counts the sign messages handed out.
\<close>

datatype wallet_thread = WArrived string string | WChecked string | WAdmitted string | WRefused

record wallet_system =
  ws_redis :: "string redis"
  ws_threads :: "wallet_thread list"
  ws_issued :: nat

inductive wallet_step :: "eth_lib \<Rightarrow> wallet_system \<Rightarrow> wallet_system \<Rightarrow> bool" for lib where
  issue: "GetSignMsg random clock raw (ws_redis y) = (resp, r') \<Longrightarrow>
     wallet_step lib y (y\<lparr>ws_redis := r', ws_issued := ws_issued y + (if rs_Code resp = 200 then 1 else 0)\<rparr>)"
| arrive: "wallet_step lib y (y\<lparr>ws_threads := ws_threads y @ [WArrived raw sig]\<rparr>)"
| check: "i < length (ws_threads y) \<Longrightarrow> ws_threads y ! i = WArrived raw sig \<Longrightarrow>
     wallet_check lib now raw sig (ws_redis y) = (q, r') \<Longrightarrow>
     wallet_step lib y (y\<lparr>ws_redis := r',
       ws_threads := (ws_threads y)[i := (case q of Inl (_ :: unit response) \<Rightarrow> WRefused | Inr a \<Rightarrow> WChecked a)]\<rparr>)"
| consume: "i < length (ws_threads y) \<Longrightarrow> ws_threads y ! i = WChecked a \<Longrightarrow>
     wallet_step lib y (y\<lparr>ws_redis := wallet_consume now a (ws_redis y), ws_threads := (ws_threads y)[i := WAdmitted a]\<rparr>)"

inductive wallet_reach :: "eth_lib \<Rightarrow> wallet_system \<Rightarrow> wallet_system \<Rightarrow> bool" for lib where
  start: "wallet_reach lib y y"
| step: "wallet_reach lib y y' \<Longrightarrow> wallet_step lib y' y'' \<Longrightarrow> wallet_reach lib y y''"

definition wallet_start :: wallet_system where
  "wallet_start = \<lparr>ws_redis = \<lparr>rd_data = Map.empty, rd_faults = []\<rparr>, ws_threads = [], ws_issued = 0\<rparr>"

definition sample_wallet :: string where
  "sample_wallet = ''0x'' @ replicate 40 (CHR ''a'')"

definition wallet_lib :: eth_lib where
  "wallet_lib = sample_lib\<lparr>sig_to_address := (\<lambda>_ _. Some sample_wallet), hexutil_decode := (\<lambda>_. Some (replicate 65 0))\<rparr>"

lemma sample_wallet_lower: "to_lower sample_wallet = sample_wallet" by code_simp

lemma sample_wallet_ok: "wallet_address_ok sample_wallet" by code_simp

lemma sample_wallet_signs: "legacy_verifySignature wallet_lib sample_wallet m ''s''"
  by (simp add: legacy_verifySignature_def wallet_lib_def)

definition wallet_issued :: "wallet_thread list \<Rightarrow> wallet_system" where
  "wallet_issued ts = \<lparr>ws_redis = \<lparr>rd_data = [sign_msg_key sample_wallet \<mapsto> (hex_encode (replicate 16 1), Some (5 * go_minute))], rd_faults = []\<rparr>,
     ws_threads = ts, ws_issued = 1\<rparr>"

lemma wallet_issue: "wallet_step wallet_lib wallet_start (wallet_issued [])"
proof -
  have "GetSignMsg (Some (replicate 16 1)) (\<lambda>_. 0) sample_wallet (ws_redis wallet_start) =
    (Success \<lparr>gs_Message = welcome_message sample_wallet (hex_encode (replicate 16 1)), gs_Nonce = hex_encode (replicate 16 1),
       gs_Expiry = unix (5 * go_minute)\<rparr>, ws_redis (wallet_issued []))"
    by (simp add: GetSignMsg_def Let_def sample_wallet_lower sample_wallet_ok redis_set_def redis_fault_def wallet_start_def
        wallet_issued_def go_minute_def go_second_def)
  from wallet_step.issue [OF this, of wallet_lib] show ?thesis
    by (simp add: wallet_start_def wallet_issued_def Success_def)
qed

lemma wallet_checks:
  assumes "i < length ts" and "ts ! i = WArrived sample_wallet ''s''"
  shows "wallet_step wallet_lib (wallet_issued ts) (wallet_issued (ts[i := WChecked sample_wallet]))"
proof -
  have "wallet_check wallet_lib 0 sample_wallet ''s'' (ws_redis (wallet_issued ts)) =
      (Inr sample_wallet :: unit response + string, ws_redis (wallet_issued ts))"
    by (simp add: wallet_check_def sample_wallet_lower sample_wallet_ok sample_wallet_signs redis_get_def redis_fault_def
        redis_live_def wallet_issued_def go_minute_def go_second_def)
  from wallet_step.check [of i "wallet_issued ts", OF _ _ this] assms show ?thesis
    by (simp add: wallet_issued_def)
qed


section \<open>Refresh tokens\<close>

text \<open>A signed token verifies under its secret until it expires.\<close>

definition legacy_jwt_honest :: "legacy_jwt \<Rightarrow> bool" where
  "legacy_jwt_honest jwt = (\<forall>k c t now. lj_sign jwt k c = Inr t \<longrightarrow>
     lj_parse jwt k now t = (if now < mc_exp c then Some c else None))"

lemma split_bearer: "split_space (''Bearer '' @ t) = [''Bearer'', t]"
  by (simp add: split_space_def)

lemma bearer_lower: "to_lower ''Bearer'' = ''bearer''" by code_simp

lemma bearer_accepted:
  assumes "legacy_jwt_honest jwt" and "lj_sign jwt k c = Inr t" and "unix now < mc_exp c"
    and "mc_userId c = Some u" and "mc_address c = Some a"
  shows "auth_Handle jwt k now (''Bearer '' @ t) ctx = Inr (ctx(CtxUserIDKey \<mapsto> CtxInt u, CtxAddressKey \<mapsto> CtxStr a))"
  using assms by (simp add: auth_Handle_def split_bearer [simplified] legacy_jwt_honest_def coalesce_empty_def
      bearer_lower del: to_lower_simps)

text \<open>C39: A refresh token opens the API.  Until it expires, a refresh token sent as a bearer
  token passes the authentication of requests, as the user it was issued for: the middleware
  checks the signature and the times but not the type.  The access token, on the contrary, is
  refused as a refresh token.\<close>

theorem refresh_token_opens_api:
  assumes "legacy_jwt_honest jwt" and "generateRefreshToken jwt cfg clock userID address = Inr t"
    and "unix now < expiry_at (clock 2) (la_RefreshExpire cfg)"
  shows "(case auth_Handle jwt (la_AccessSecret cfg) now (''Bearer '' @ t) ctx of
      Inl _ \<Rightarrow> False | Inr ctx' \<Rightarrow> GetUserIDFromCtx ctx' = userID \<and> GetAddressFromCtx ctx' = address)
    \<and> (case generateAccessToken jwt cfg clock' userID' address' of
      Inl _ \<Rightarrow> True | Inr t' \<Rightarrow> rs_Code (RefreshToken jwt cfg clock'' t') = 401)"
proof
  show "case auth_Handle jwt (la_AccessSecret cfg) now (''Bearer '' @ t) ctx of
      Inl _ \<Rightarrow> False | Inr ctx' \<Rightarrow> GetUserIDFromCtx ctx' = userID \<and> GetAddressFromCtx ctx' = address"
    using bearer_accepted [OF assms(1) assms(2) [unfolded generateRefreshToken_def], of now userID address ctx] assms(3)
    by (simp add: GetUserIDFromCtx_def GetAddressFromCtx_def CtxUserIDKey_def CtxAddressKey_def)
  show "case generateAccessToken jwt cfg clock' userID' address' of
      Inl _ \<Rightarrow> True | Inr t' \<Rightarrow> rs_Code (RefreshToken jwt cfg clock'' t') = 401"
    using assms(1)
    by (auto simp: generateAccessToken_def legacy_jwt_honest_def RefreshToken_def ErrorResp_def split: sum.splits)
qed

text \<open>A token as its secret, its claims and its expiry, for the example.\<close>

definition sample_legacy_jwt :: legacy_jwt where
  "sample_legacy_jwt = \<lparr>lj_sign = (\<lambda>k c. if k = ''k'' \<and> mc_userId c = Some 7 \<and> mc_address c = Some ''a''
        \<and> mc_exp c = 604800 \<and> mc_iat c = 0 \<and> mc_type c = Some ''refresh'' then Inr ''t'' else Inl (ErrMsg ''key'')),
     lj_parse = (\<lambda>k now t. if k = ''k'' \<and> t = ''t'' \<and> now < 604800
        then Some \<lparr>mc_userId = Some 7, mc_address = Some ''a'', mc_type = Some ''refresh'', mc_exp = 604800, mc_iat = 0\<rparr> else None)\<rparr>"

theorem refresh_token_opens_api_witness:
  "case auth_Handle sample_legacy_jwt ''k'' 100 (''Bearer '' @ ''t'') Map.empty of
     Inl _ \<Rightarrow> False | Inr ctx \<Rightarrow> GetUserIDFromCtx ctx = 7 \<and> GetAddressFromCtx ctx = ''a''"
proof -
  let ?cfg = "\<lparr>la_AccessSecret = ''k'', la_AccessExpire = 3600, la_RefreshExpire = 604800\<rparr>"
  have h: "legacy_jwt_honest sample_legacy_jwt"
    by (simp add: legacy_jwt_honest_def sample_legacy_jwt_def)
  have e: "expiry_at 0 604800 = 604800" by code_simp
  have g: "generateRefreshToken sample_legacy_jwt ?cfg (\<lambda>_. 0) 7 ''a'' = Inr ''t''"
    by (simp add: generateRefreshToken_def sample_legacy_jwt_def e) (simp add: unix_def)
  show ?thesis
    using refresh_token_opens_api [OF h g, of 100 Map.empty] by (simp add: e) (simp add: unix_def go_second_def)
qed

end
