(* ===== verification/LegacyIndexer.thy ===== *)
theory LegacyIndexer
  imports LegacyEvents ChainIndexer
begin

text \<open>
  The legacy indexer, apps/indexer/internal/indexer: the polling loop with its adaptive batch
  size, the synchronisation of a range, and the parsing of the four events.  The node is a
  record of functions, one per tick of the loop; a run is a list of ticks.  A panic ends the
  process.  The watcher of new block headers only logs and is left out.
\<close>

section \<open>Configuration\<close>

record ldatabase_config =
  dc_Host :: string
  dc_Port :: int
  dc_User :: string
  dc_Password :: string
  dc_Name :: string
  dc_SSLMode :: string
  dc_MaxOpenConns :: int
  dc_MaxIdleConns :: int

record lchain_config =
  cc_Name :: string
  cc_ChainID :: int
  cc_RPC :: string
  cc_WSS :: string
  cc_CoreContract :: string
  cc_StartBlock :: u64
  cc_BlockBatchSize :: int
  cc_PollInterval :: int

definition DSN :: "ldatabase_config \<Rightarrow> string" where
  "DSN c = ''host='' @ dc_Host c @ '' port='' @ show_int (dc_Port c) @ '' user='' @ dc_User c @
     '' password='' @ dc_Password c @ '' dbname='' @ dc_Name c @ '' sslmode='' @ dc_SSLMode c"

text \<open>The defaults \<open>Load\<close> sets after reading the file.\<close>

definition database_defaults :: "ldatabase_config \<Rightarrow> ldatabase_config" where
  "database_defaults c =
     (let c = (if dc_SSLMode c = [] then c\<lparr>dc_SSLMode := ''disable''\<rparr> else c);
          c = (if dc_MaxOpenConns c = 0 then c\<lparr>dc_MaxOpenConns := 25\<rparr> else c)
      in if dc_MaxIdleConns c = 0 then c\<lparr>dc_MaxIdleConns := 5\<rparr> else c)"

definition chain_defaults :: "lchain_config \<Rightarrow> lchain_config" where
  "chain_defaults c =
     (let c = (if cc_BlockBatchSize c = 0 then c\<lparr>cc_BlockBatchSize := 1000\<rparr> else c)
      in if cc_PollInterval c = 0 then c\<lparr>cc_PollInterval := 3\<rparr> else c)"

section \<open>Parsing\<close>

text \<open>
  \<open>UnpackIntoInterface\<close> copies each argument into the field of its name.
\<close>

definition unpack_fields :: "eth_lib \<Rightarrow> string \<Rightarrow> chain_log \<Rightarrow> abi_value list res" where
  "unpack_fields lib name log =
     abi_unpack lib (map snd (non_indexed (abi_event_of name))) (log_Data log)"

definition field_value :: "string \<Rightarrow> abi_value list \<Rightarrow> string \<Rightarrow> abi_value option" where
  "field_value name vs field = map_of (zip (map fst (non_indexed (abi_event_of name))) vs) field"

definition int_field :: "string \<Rightarrow> abi_value list \<Rightarrow> string \<Rightarrow> int res" where
  "int_field name vs field =
     (case field_value name vs field of Some (AUint n) \<Rightarrow> Inr n | _ \<Rightarrow> Inl (ErrMsg ''abi: cannot unmarshal''))"

definition string_field :: "string \<Rightarrow> abi_value list \<Rightarrow> string \<Rightarrow> string res" where
  "string_field name vs field =
     (case field_value name vs field of Some (AString s) \<Rightarrow> Inr s | _ \<Rightarrow> Inl (ErrMsg ''abi: cannot unmarshal''))"

definition bytes_field :: "string \<Rightarrow> abi_value list \<Rightarrow> string \<Rightarrow> bytes res" where
  "bytes_field name vs field =
     (case field_value name vs field of Some (ABytes32 b) \<Rightarrow> Inr b | _ \<Rightarrow> Inl (ErrMsg ''abi: cannot unmarshal''))"

text \<open>\<open>common.BytesToAddress(vLog.Topics[i].Bytes()).Hex()\<close>, which panics without that topic.\<close>

definition topic_address :: "eth_lib \<Rightarrow> chain_log \<Rightarrow> nat \<Rightarrow> string res" where
  "topic_address lib log i =
     (if i < length (log_Topics log) then Inr (address_hex lib (bytes_to_address lib (log_Topics log ! i)))
      else Inl (Panic ''index out of range''))"

definition parseTokenCreatedEvent :: "eth_lib \<Rightarrow> chain_log \<Rightarrow> u64 \<Rightarrow> created_event res" where
  "parseTokenCreatedEvent lib vLog timestamp =
     rbind (unpack_fields lib ''TokenCreated'' vLog) (\<lambda>vs.
     rbind (string_field ''TokenCreated'' vs ''name'') (\<lambda>name.
     rbind (string_field ''TokenCreated'' vs ''symbol'') (\<lambda>symbol.
     rbind (int_field ''TokenCreated'' vs ''totalSupply'') (\<lambda>totalSupply.
     rbind (bytes_field ''TokenCreated'' vs ''requestId'') (\<lambda>requestId.
     rbind (topic_address lib vLog 1) (\<lambda>token.
     rbind (topic_address lib vLog 2) (\<lambda>creator.
     Inr \<lparr>lc_TokenAddress = token, lc_CreatorAddress = creator, lc_Name = name, lc_Symbol = symbol,
          lc_TotalSupply = totalSupply, lc_RequestID = hash_hex lib (bytes_to_hash lib requestId),
          lc_TransactionHash = hash_hex lib (log_TxHash vLog), lc_BlockNumber = log_BlockNumber vLog,
          lc_BlockTimestamp = timestamp, lc_LogIndex = log_Index vLog\<rparr>)))))))"

definition parse_trade :: "eth_lib \<Rightarrow> string \<Rightarrow> chain_log \<Rightarrow> u64 \<Rightarrow> trade_event res" where
  "parse_trade lib name vLog timestamp =
     rbind (unpack_fields lib name vLog) (\<lambda>vs.
     rbind (int_field name vs ''bnbAmount'') (\<lambda>bnbAmount.
     rbind (int_field name vs ''tokenAmount'') (\<lambda>tokenAmount.
     rbind (int_field name vs ''tradingFee'') (\<lambda>fee.
     rbind (int_field name vs ''virtualBNBReserve'') (\<lambda>vBnb.
     rbind (int_field name vs ''virtualTokenReserve'') (\<lambda>vToken.
     rbind (int_field name vs ''availableTokens'') (\<lambda>available.
     rbind (int_field name vs ''collectedBNB'') (\<lambda>collected.
     rbind (topic_address lib vLog 1) (\<lambda>token.
     rbind (topic_address lib vLog 2) (\<lambda>trader.
     Inr \<lparr>lt_TokenAddress = token, lt_UserAddress = trader, lt_BnbAmount = bnbAmount,
          lt_TokenAmount = tokenAmount, lt_TradingFee = fee, lt_VirtualBNBReserve = vBnb,
          lt_VirtualTokenReserve = vToken, lt_AvailableTokens = available, lt_CollectedBNB = collected,
          lt_TransactionHash = hash_hex lib (log_TxHash vLog), lt_BlockNumber = log_BlockNumber vLog,
          lt_BlockTimestamp = timestamp, lt_LogIndex = log_Index vLog\<rparr>))))))))))"

definition parseTokenBoughtEvent :: "eth_lib \<Rightarrow> chain_log \<Rightarrow> u64 \<Rightarrow> trade_event res" where
  "parseTokenBoughtEvent lib = parse_trade lib ''TokenBought''"

definition parseTokenSoldEvent :: "eth_lib \<Rightarrow> chain_log \<Rightarrow> u64 \<Rightarrow> trade_event res" where
  "parseTokenSoldEvent lib = parse_trade lib ''TokenSold''"

definition parseTokenGraduatedEvent :: "eth_lib \<Rightarrow> chain_log \<Rightarrow> u64 \<Rightarrow> graduated_event res" where
  "parseTokenGraduatedEvent lib vLog timestamp =
     rbind (unpack_fields lib ''TokenGraduated'' vLog) (\<lambda>vs.
     rbind (int_field ''TokenGraduated'' vs ''liquidityBNB'') (\<lambda>bnb.
     rbind (int_field ''TokenGraduated'' vs ''liquidityTokens'') (\<lambda>tok.
     rbind (int_field ''TokenGraduated'' vs ''liquidityResult'') (\<lambda>result.
     rbind (topic_address lib vLog 1) (\<lambda>token.
     Inr \<lparr>lg_TokenAddress = token, lg_LiquidityBNB = bnb, lg_LiquidityTokens = tok, lg_LiquidityResult = result,
          lg_TransactionHash = hash_hex lib (log_TxHash vLog), lg_BlockNumber = log_BlockNumber vLog,
          lg_BlockTimestamp = timestamp, lg_LogIndex = log_Index vLog\<rparr>)))))"

section \<open>Synchronising a range\<close>

record lrpc_client =
  lrpc_BlockNumber :: "u64 res"
  lrpc_FilterLogs :: "int \<Rightarrow> int \<Rightarrow> bytes \<Rightarrow> chain_log list res"
  lrpc_BlockByNumber :: "int \<Rightarrow> u64 res"

record event_batch =
  eb_created :: "created_event list"
  eb_bought :: "trade_event list"
  eb_sold :: "trade_event list"
  eb_graduated :: "graduated_event list"

definition empty_batch :: event_batch where
  "empty_batch = \<lparr>eb_created = [], eb_bought = [], eb_sold = [], eb_graduated = []\<rparr>"

text \<open>An error of a parser is logged and the log skipped; a panic is not caught.\<close>

definition add_parsed :: "'e res \<Rightarrow> ('e \<Rightarrow> event_batch) \<Rightarrow> event_batch \<Rightarrow> event_batch res" where
  "add_parsed r add acc =
     (case r of Inr e \<Rightarrow> Inr (add e) | Inl (Panic m) \<Rightarrow> Inl (Panic m) | Inl e \<Rightarrow> Inr acc)"

definition classify :: "eth_lib \<Rightarrow> chain_log \<Rightarrow> u64 \<Rightarrow> event_batch \<Rightarrow> event_batch res" where
  "classify lib vLog timestamp acc =
     (case log_Topics vLog of
        [] \<Rightarrow> Inl (Panic ''index out of range'')
      | topic0 # _ \<Rightarrow>
        if topic0 = event_id lib (abi_event_of ''TokenCreated'') then
          add_parsed (parseTokenCreatedEvent lib vLog timestamp) (\<lambda>e. acc\<lparr>eb_created := eb_created acc @ [e]\<rparr>) acc
        else if topic0 = event_id lib (abi_event_of ''TokenBought'') then
          add_parsed (parseTokenBoughtEvent lib vLog timestamp) (\<lambda>e. acc\<lparr>eb_bought := eb_bought acc @ [e]\<rparr>) acc
        else if topic0 = event_id lib (abi_event_of ''TokenSold'') then
          add_parsed (parseTokenSoldEvent lib vLog timestamp) (\<lambda>e. acc\<lparr>eb_sold := eb_sold acc @ [e]\<rparr>) acc
        else if topic0 = event_id lib (abi_event_of ''TokenGraduated'') then
          add_parsed (parseTokenGraduatedEvent lib vLog timestamp) (\<lambda>e. acc\<lparr>eb_graduated := eb_graduated acc @ [e]\<rparr>) acc
        else Inr acc)"

text \<open>A log whose block cannot be read is skipped too.\<close>

fun collect_events ::
  "eth_lib \<Rightarrow> lrpc_client \<Rightarrow> (u64 \<Rightarrow> u64 option) \<Rightarrow> chain_log list \<Rightarrow> event_batch \<Rightarrow> event_batch res" where
  "collect_events lib rpc blockTimestamps [] acc = Inr acc"
| "collect_events lib rpc blockTimestamps (vLog # logs) acc =
     (case blockTimestamps (log_BlockNumber vLog) of
        Some timestamp \<Rightarrow>
          rbind (classify lib vLog timestamp acc) (collect_events lib rpc blockTimestamps logs)
      | None \<Rightarrow>
        (case lrpc_BlockByNumber rpc (sint (log_BlockNumber vLog)) of
           Inl e \<Rightarrow> collect_events lib rpc blockTimestamps logs acc
         | Inr timestamp \<Rightarrow>
             rbind (classify lib vLog timestamp acc)
               (collect_events lib rpc (blockTimestamps(log_BlockNumber vLog \<mapsto> timestamp)) logs)))"

text \<open>The insertions; every error is logged and dropped.\<close>

definition store_batch :: "int \<Rightarrow> event_batch \<Rightarrow> legacy_db \<times> bool list \<Rightarrow> legacy_db \<times> bool list" where
  "store_batch off b s =
     (let s1 = snd (BatchInsertTokenCreatedEvents (eb_created b) s);
          s2 = snd (BatchInsertTokenBoughtEvents off (eb_bought b) s1);
          s3 = snd (BatchInsertTokenSoldEvents off (eb_sold b) s2)
      in fold (\<lambda>e s. snd (InsertTokenGraduatedEvent e s)) (eb_graduated b) s3)"

definition syncBlockRange ::
  "eth_lib \<Rightarrow> int \<Rightarrow> bytes \<Rightarrow> lrpc_client \<Rightarrow> u64 \<Rightarrow> u64 \<Rightarrow> unit db_op" where
  "syncBlockRange lib off contract rpc fromBlock toBlock s =
     (case wrap_err ''failed to filter logs'' (lrpc_FilterLogs rpc (sint fromBlock) (sint toBlock) contract) of
        Inl e \<Rightarrow> (Inl e, s)
      | Inr logs \<Rightarrow>
          if logs = [] then (Inr (), s)
          else (case collect_events lib rpc Map.empty logs empty_batch of
                  Inl e \<Rightarrow> (Inl e, s)
                | Inr b \<Rightarrow> (Inr (), store_batch off b s)))"

section \<open>The loop\<close>

record lstate =
  lx_currentBlock :: u64
  lx_currentBatchSize :: u64
  lx_consecutiveSuccesses :: nat

definition is_limit_error :: "err \<Rightarrow> bool" where
  "is_limit_error e =
     (contains_sub (err_text e) ''limit exceeded'' \<or> contains_sub (err_text e) ''query returned more than'')"

definition shrink :: "u64 \<Rightarrow> u64" where
  "shrink current = (let half = current div 2 in if half < 10 then 10 else half)"

text \<open>After a success: the counter, and the batch size doubled up to the configured one.\<close>

definition grow :: "lchain_config \<Rightarrow> lstate \<Rightarrow> lstate" where
  "grow cfg st =
     (let successes = lx_consecutiveSuccesses st + 1;
          limit = word_of_int (cc_BlockBatchSize cfg)
      in if 10 \<le> successes \<and> lx_currentBatchSize st < limit
         then let newSize = lx_currentBatchSize st * 2;
                  newSize = (if newSize > limit then limit else newSize)
              in st\<lparr>lx_currentBatchSize := newSize, lx_consecutiveSuccesses := 0\<rparr>
         else st\<lparr>lx_consecutiveSuccesses := successes\<rparr>)"

definition tick ::
  "eth_lib \<Rightarrow> lchain_config \<Rightarrow> int \<Rightarrow> lrpc_client \<Rightarrow> lstate \<times> legacy_db \<times> bool list
     \<Rightarrow> unit res \<times> lstate \<times> legacy_db \<times> bool list" where
  "tick lib cfg off rpc = (\<lambda>(st, s).
     case lrpc_BlockNumber rpc of
       Inl e \<Rightarrow> (Inr (), st, s)
     | Inr latestBlock \<Rightarrow>
       if lx_currentBlock st > latestBlock then (Inr (), st, s)
       else
         (let toBlock = lx_currentBlock st + lx_currentBatchSize st - 1;
              toBlock = (if toBlock > latestBlock then latestBlock else toBlock)
          in case syncBlockRange lib off (hex_to_address lib (cc_CoreContract cfg)) rpc (lx_currentBlock st) toBlock s of
               (Inl (Panic m), s') \<Rightarrow> (Inl (Panic m), st, s')
             | (Inl e, s') \<Rightarrow>
                 if is_limit_error e
                 then (Inr (), st\<lparr>lx_currentBatchSize := shrink (lx_currentBatchSize st), lx_consecutiveSuccesses := 0\<rparr>, s')
                 else (Inr (), st, s')
             | (Inr _, s') \<Rightarrow>
                 (let s'' = snd (UpdateLastSyncedBlock (to_lower (cc_CoreContract cfg)) toBlock s')
                  in (Inr (), (grow cfg st)\<lparr>lx_currentBlock := toBlock + 1\<rparr>, s''))))"

fun run_ticks ::
  "eth_lib \<Rightarrow> lchain_config \<Rightarrow> int \<Rightarrow> lrpc_client list \<Rightarrow> lstate \<times> legacy_db \<times> bool list
     \<Rightarrow> unit res \<times> lstate \<times> legacy_db \<times> bool list" where
  "run_ticks lib cfg off [] y = (Inr (), y)"
| "run_ticks lib cfg off (rpc # rpcs) y =
     (case tick lib cfg off rpc y of
        (Inl e, y') \<Rightarrow> (Inl e, y') | (Inr _, y') \<Rightarrow> run_ticks lib cfg off rpcs y')"

text \<open>\<open>New\<close> sets the batch size, \<open>Start\<close> the first block; position 0 counts as none.\<close>

definition Start :: "lchain_config \<Rightarrow> legacy_db \<times> bool list \<Rightarrow> (lstate \<times> legacy_db \<times> bool list) res" where
  "Start cfg s =
     (case GetLastSyncedBlock (to_lower (cc_CoreContract cfg)) s of
        (Inl e, s') \<Rightarrow> Inl (Wrap ''failed to get last synced block'' e)
      | (Inr lastBlock, s') \<Rightarrow>
          (let startBlock = (if lastBlock > 0 then lastBlock + 1 else cc_StartBlock cfg)
           in Inr (\<lparr>lx_currentBlock = startBlock, lx_currentBatchSize = word_of_int (cc_BlockBatchSize cfg),
                    lx_consecutiveSuccesses = 0\<rparr>, s')))"

section \<open>The batch size\<close>

lemma shrink_bounds:
  assumes "min 10 b \<le> x" and "x \<le> max 10 b"
  shows "min 10 b \<le> shrink x \<and> shrink x \<le> max 10 (b::u64)"
proof -
  have h: "x div 2 \<le> x" by (simp add: word_le_nat_alt unat_div)
  show ?thesis
  proof (cases "x div 2 < 10")
    case True
    then show ?thesis by (simp add: shrink_def)
  next
    case False
    then have "min 10 b \<le> x div 2" by (simp add: min_le_iff_disj not_less)
    with False h assms(2) show ?thesis by (simp add: shrink_def)
  qed
qed

lemma double_word:
  fixes x b :: u64
  assumes "x < b" and "unat b < 2 ^ 63"
  shows "x \<le> x * 2" and "unat (x * 2) = 2 * unat x"
proof -
  have "unat x < 2 ^ 63" using assms by (simp add: word_less_nat_alt)
  then show u: "unat (x * 2) = 2 * unat x" by (simp add: unat_word_ariths)
  show "x \<le> x * 2" by (simp add: word_le_nat_alt u)
qed

definition batch_ok :: "u64 \<Rightarrow> lstate \<Rightarrow> bool" where
  "batch_ok b st = (min 10 b \<le> lx_currentBatchSize st \<and> lx_currentBatchSize st \<le> max 10 b)"

lemma grow_ok:
  assumes "batch_ok (word_of_int (cc_BlockBatchSize cfg)) st" and "unat (word_of_int (cc_BlockBatchSize cfg) :: u64) < 2 ^ 63"
  shows "batch_ok (word_of_int (cc_BlockBatchSize cfg)) (grow cfg st)"
proof (cases "10 \<le> lx_consecutiveSuccesses st + 1 \<and> lx_currentBatchSize st < word_of_int (cc_BlockBatchSize cfg)")
  case True
  then have d: "lx_currentBatchSize st \<le> lx_currentBatchSize st * 2" using double_word(1) assms(2) by blast
  from True assms(1) d show ?thesis
    by (auto simp: grow_def Let_def batch_ok_def min_def max_def split: if_splits)
next
  case False
  with assms(1) show ?thesis by (auto simp: grow_def Let_def batch_ok_def)
qed

text \<open>What a tick can do to the state of the loop.\<close>

lemma tick_cases:
  assumes "tick lib cfg off rpc (st, s) = (r, st', s')"
  shows "st' = st \<or> st' = st\<lparr>lx_currentBatchSize := shrink (lx_currentBatchSize st), lx_consecutiveSuccesses := 0\<rparr>
    \<or> (\<exists>b. st' = (grow cfg st)\<lparr>lx_currentBlock := b\<rparr>)"
proof (cases "lrpc_BlockNumber rpc")
  case (Inl e)
  with assms show ?thesis by (simp add: tick_def)
next
  case (Inr latest)
  show ?thesis
  proof (cases "lx_currentBlock st > latest")
    case True
    with Inr assms show ?thesis by (simp add: tick_def)
  next
    case False
    define b where "b = (if lx_currentBlock st + lx_currentBatchSize st - 1 > latest then latest
      else lx_currentBlock st + lx_currentBatchSize st - 1)"
    obtain q t where sy: "syncBlockRange lib off (hex_to_address lib (cc_CoreContract cfg)) rpc (lx_currentBlock st) b s = (q, t)"
      by (cases "syncBlockRange lib off (hex_to_address lib (cc_CoreContract cfg)) rpc (lx_currentBlock st) b s")
    show ?thesis
    proof (cases q)
      case (Inr u)
      with \<open>lrpc_BlockNumber rpc = Inr latest\<close> False sy assms show ?thesis
        by (auto simp: tick_def Let_def b_def [symmetric])
    next
      case (Inl e)
      with \<open>lrpc_BlockNumber rpc = Inr latest\<close> False sy assms show ?thesis
        by (cases e) (auto simp: tick_def Let_def b_def [symmetric] split: if_splits)
    qed
  qed
qed

lemma tick_batch_ok:
  assumes "batch_ok (word_of_int (cc_BlockBatchSize cfg)) st" and "unat (word_of_int (cc_BlockBatchSize cfg) :: u64) < 2 ^ 63"
    and "tick lib cfg off rpc (st, s) = (r, st', s')"
  shows "batch_ok (word_of_int (cc_BlockBatchSize cfg)) st'"
proof -
  have "lx_currentBatchSize st' \<in> {lx_currentBatchSize st, shrink (lx_currentBatchSize st), lx_currentBatchSize (grow cfg st)}"
    using tick_cases [OF assms(3)] by auto
  with assms(1) grow_ok [OF assms(1,2)] shrink_bounds [of "word_of_int (cc_BlockBatchSize cfg)" "lx_currentBatchSize st"]
  show ?thesis by (auto simp: batch_ok_def)
qed

lemma run_ticks_batch_ok:
  assumes "batch_ok (word_of_int (cc_BlockBatchSize cfg)) st" and "unat (word_of_int (cc_BlockBatchSize cfg) :: u64) < 2 ^ 63"
    and "run_ticks lib cfg off rpcs (st, s) = (r, st', s')"
  shows "batch_ok (word_of_int (cc_BlockBatchSize cfg)) st'"
  using assms(1,3)
proof (induction rpcs arbitrary: st s)
  case Nil
  then show ?case by simp
next
  case (Cons rpc rpcs)
  obtain q st1 s1 where t: "tick lib cfg off rpc (st, s) = (q, st1, s1)" by (cases "tick lib cfg off rpc (st, s)")
  from tick_batch_ok [OF Cons.prems(1) assms(2) t] have ok: "batch_ok (word_of_int (cc_BlockBatchSize cfg)) st1" .
  from Cons.prems(2) t ok Cons.IH [OF ok] show ?case by (auto split: sum.splits)
qed

section \<open>Properties\<close>

text \<open>C35: The batch size adapts within bounds.  For a configured size that fits a signed
  integer, after any ticks, with any answers of the node and any database failures, the size
  lies between the smaller and the larger of ten and the configured size.  In particular it
  never reaches zero, and after an error it can exceed a configured size below ten.\<close>

theorem legacy_batch_bounds:
  assumes "0 < cc_BlockBatchSize cfg" and "cc_BlockBatchSize cfg < 2 ^ 63"
    and "Start cfg s = Inr (st0, s0)" and "run_ticks lib cfg off rpcs (st0, s0) = (r, st, s')"
  shows "min 10 (cc_BlockBatchSize cfg) \<le> uint (lx_currentBatchSize st)
    \<and> uint (lx_currentBatchSize st) \<le> max 10 (cc_BlockBatchSize cfg)"
proof -
  define b :: u64 where "b = word_of_int (cc_BlockBatchSize cfg)"
  have ub: "uint b = cc_BlockBatchSize cfg"
    using assms(1,2) by (simp add: b_def uint_word_of_int)
  have small: "unat b < 2 ^ 63"
    using ub assms(2) by (simp add: unat_eq_nat_uint)
  have "lx_currentBatchSize st0 = b"
    using assms(3) by (auto simp: Start_def b_def Let_def split: prod.splits sum.splits)
  then have "batch_ok b st0" by (simp add: batch_ok_def)
  then have "batch_ok b st"
    using run_ticks_batch_ok [of cfg st0 lib off rpcs s0 r st s'] small assms(4) by (simp add: b_def)
  then show ?thesis
    by (auto simp: batch_ok_def word_le_def ub min_def max_def split: if_splits)
qed

text \<open>An instance of the library whose unsigned arguments are the length of the data.\<close>

definition length_lib :: eth_lib where
  "length_lib = sample_lib\<lparr>abi_unpack := (\<lambda>tys d. Inr (map (\<lambda>ty. case ty of TyUint256 \<Rightarrow> AUint (int (length d)) | _ \<Rightarrow> zero_value ty) tys))\<rparr>"

definition sample_chain :: lchain_config where
  "sample_chain = \<lparr>cc_Name = ''bsc'', cc_ChainID = 56, cc_RPC = ''rpc'', cc_WSS = [], cc_CoreContract = ''c'',
     cc_StartBlock = 5, cc_BlockBatchSize = 4, cc_PollInterval = 3\<rparr>"

definition empty_legacy :: legacy_db where
  "empty_legacy = \<lparr>ld_created_events = [], ld_bought_events = [], ld_sold_events = [], ld_graduated_events = [],
     ld_trades = [], ld_tokens = [], ld_klines = [], ld_requests = [], ld_state = []\<rparr>"

definition limit_rpc :: lrpc_client where
  "limit_rpc = \<lparr>lrpc_BlockNumber = Inr 100, lrpc_FilterLogs = (\<lambda>_ _ _. Inl (RpcFault ''limit exceeded'')),
     lrpc_BlockByNumber = (\<lambda>_. Inr 0)\<rparr>"

lemma limit_tick:
  "run_ticks length_lib sample_chain 0 [limit_rpc]
     (\<lparr>lx_currentBlock = 5, lx_currentBatchSize = 4, lx_consecutiveSuccesses = 0\<rparr>, empty_legacy, []) =
   (Inr (), \<lparr>lx_currentBlock = 5, lx_currentBatchSize = 10, lx_consecutiveSuccesses = 0\<rparr>, empty_legacy, [])"
  by code_simp

theorem legacy_batch_bounds_witness:
  "min 10 (cc_BlockBatchSize sample_chain) \<le> 10 \<and> (10::int) \<le> max 10 (cc_BlockBatchSize sample_chain)"
proof -
  have "Start sample_chain (empty_legacy, []) =
      Inr (\<lparr>lx_currentBlock = 5, lx_currentBatchSize = 4, lx_consecutiveSuccesses = 0\<rparr>, empty_legacy, [])"
    by code_simp
  from legacy_batch_bounds [OF _ _ this limit_tick] show ?thesis by (simp add: sample_chain_def)
qed

lemma store_batch_purchases:
  assumes "eb_created b = []" and "eb_sold b = []" and "eb_graduated b = []"
  shows "store_batch off b s = snd (BatchInsertTokenBoughtEvents off (eb_bought b) s)"
  using assms by (simp add: store_batch_def BatchInsertTokenCreatedEvents_def BatchInsertTokenSoldEvents_def)

lemma tick_reads:
  assumes "lrpc_BlockNumber rpc = Inr latest" and "lx_currentBlock st \<le> latest"
    and "to = min (lx_currentBlock st + lx_currentBatchSize st - 1) latest"
    and "lrpc_FilterLogs rpc (sint (lx_currentBlock st)) (sint to) (hex_to_address lib (cc_CoreContract cfg)) = Inr logs"
    and "logs \<noteq> []" and "collect_events lib rpc Map.empty logs empty_batch = Inr b"
  shows "tick lib cfg off rpc (st, s) =
    (Inr (), (grow cfg st)\<lparr>lx_currentBlock := to + 1\<rparr>,
     snd (UpdateLastSyncedBlock (to_lower (cc_CoreContract cfg)) to (store_batch off b s)))"
proof -
  have "to = (if lx_currentBlock st + lx_currentBatchSize st - 1 > latest then latest
      else lx_currentBlock st + lx_currentBatchSize st - 1)"
    by (simp add: assms(3) min_def flip: linorder_not_le)
  then show ?thesis
    using assms by (simp add: tick_def syncBlockRange_def Let_def wrap_err_def linorder_not_less [THEN iffD2])
qed


text \<open>The log of an event, as a node returns it, and a node that has some logs.\<close>

definition event_log :: "string \<Rightarrow> u64 \<Rightarrow> bytes \<Rightarrow> bytes \<Rightarrow> chain_log" where
  "event_log name block data tx =
     \<lparr>log_Topics = [event_id length_lib (abi_event_of name), str_bytes ''t'', str_bytes ''u''],
      log_Data = data, log_BlockNumber = block, log_TxHash = tx, log_BlockHash = [], log_Index = 0, log_Removed = False\<rparr>"

definition node_with :: "chain_log list \<Rightarrow> lrpc_client" where
  "node_with logs = \<lparr>lrpc_BlockNumber = Inr 100, lrpc_FilterLogs = (\<lambda>_ _ _. Inr logs), lrpc_BlockByNumber = (\<lambda>_. Inr 1700000000)\<rparr>"

definition sample_purchase :: trade_event where
  "sample_purchase = \<lparr>lt_TokenAddress = hex_encode (str_bytes ''t''), lt_UserAddress = hex_encode (str_bytes ''u''),
     lt_BnbAmount = 2, lt_TokenAmount = 2, lt_TradingFee = 2, lt_VirtualBNBReserve = 2, lt_VirtualTokenReserve = 2,
     lt_AvailableTokens = 2, lt_CollectedBNB = 2, lt_TransactionHash = hex_encode (str_bytes ''h''), lt_BlockNumber = 6,
     lt_BlockTimestamp = 1700000000, lt_LogIndex = 0\<rparr>"

lemma sample_purchase_read:
  "collect_events length_lib (node_with [event_log ''TokenBought'' 6 [1, 2] (str_bytes ''h'')]) Map.empty
     [event_log ''TokenBought'' 6 [1, 2] (str_bytes ''h'')] empty_batch =
   Inr \<lparr>eb_created = [], eb_bought = [sample_purchase], eb_sold = [], eb_graduated = []\<rparr>"
  by code_simp


section \<open>The order of sales and purchases\<close>

lemma trade_full_tokens: "ld_tokens (trade_full off ins ty e db) = ld_tokens (trade_base ins ty e db)"
  by (simp add: trade_full_def)

lemma sale_totals:
  "list_all (\<lambda>r. lk_bnb_current r = lt_CollectedBNB e \<and> lk_available_tokens r = lt_AvailableTokens e)
     (filter (\<lambda>r. to_lower (lk_token_contract_address r) = to_lower (lt_TokenAddress e))
       (ld_tokens (trade_full off ins ty e db)))"
  by (auto simp: trade_full_tokens trade_base_def update_ltotals_def update_where_def list_all_iff)

text \<open>A range with one purchase and one sale, in any order of the chain, stores the purchase first.\<close>

lemma store_purchase_sale:
  "\<exists>db' fs'. store_batch off \<lparr>eb_created = [], eb_bought = [p], eb_sold = [s], eb_graduated = []\<rparr> (db, []) =
    (trade_full off insert_lsold 20 s db', fs')"
proof -
  obtain f1 where 1: "run_tx (\<lambda>e. e) (trade_body off insert_lbought 10 p) (db, []) =
      (Inr (), (trade_full off insert_lbought 10 p db, f1))" and "True \<notin> set f1"
    using trade_live [of "[]" off insert_lbought 10 p db] by auto
  then obtain f2 where 2: "run_tx (\<lambda>e. e) (trade_body off insert_lsold 20 s) (trade_full off insert_lbought 10 p db, f1) =
      (Inr (), (trade_full off insert_lsold 20 s (trade_full off insert_lbought 10 p db), f2))"
    using trade_live [of f1 off insert_lsold 20 s "trade_full off insert_lbought 10 p db"] by auto
  show ?thesis
    by (intro exI [of _ "trade_full off insert_lbought 10 p db"])
      (simp add: store_batch_def BatchInsertTokenCreatedEvents_def BatchInsertTokenBoughtEvents_def
        BatchInsertTokenSoldEvents_def run_tx_one bought_body_def sold_body_def 1 2 Let_def del: sforeach.simps)
qed


definition sample_token :: ltoken_row where
  "sample_token = \<lparr>lk_name = ''n'', lk_symbol = ''s'', lk_logo = [], lk_token_contract_address = hex_encode (str_bytes ''t''),
     lk_creator_address = ''u'', lk_launch_mode = 1, lk_launch_time = 0, lk_bnb_current = 0, lk_bnb_target = 24,
     lk_total_supply = 100, lk_available_tokens = 0, lk_status = 1, lk_request_id = [], lk_nonce = 0, lk_created_at = 0,
     lk_updated_at = 0\<rparr>"


end
