(* ===== verification/TokenCreation.thy ===== *)
theory TokenCreation
  imports Tables Eth
begin

text \<open>
  The signed intent of creating a token, app-rebuild/internal/tokencreation: the checks of a
  request, the ABI-encoded argument of MEMECore.createToken, its signature, the CREATE2 salt
  and predicted address, and the row that records them (repository/token_creation.go).  The
  lemmas show that the answer decodes to the request, that it is signed by the configured key,
  and what a signature binds.
\<close>

section \<open>Configuration and requests\<close>

definition TotalSupply :: nat where "TotalSupply = 1000000000 * 10 ^ 18"
definition SaleAmount :: nat where "SaleAmount = 800000000 * 10 ^ 18"
definition VirtualBNBReserve :: nat where "VirtualBNBReserve = 8219178082191780000"
definition VirtualTokenReserve :: nat where "VirtualTokenReserve = 1073972602 * 10 ^ 18"

definition maxInitialBuyPercentage :: u64 where "maxInitialBuyPercentage = 9990"

record creator_config =
  cc_Chain :: int
  cc_Core :: bytes
  cc_Factory :: bytes
  cc_TokenCreationBytecode :: bytes
  cc_Signer :: bytes

record create_request =
  cq_Name :: string
  cq_Symbol :: string
  cq_Creator :: bytes
  cq_LaunchTime :: u64
  cq_InitialBuyPercentage :: u64

record create_response =
  cp_Data :: string
  cp_Signature :: string
  cp_RequestID :: string
  cp_Salt :: string
  cp_PredictedAddress :: string
  cp_Nonce :: u64
  cp_Timestamp :: u64

record vesting =
  vs_Amount :: nat
  vs_LaunchTime :: nat
  vs_Duration :: nat
  vs_Mode :: u8

record create_params =
  pm_Name :: string
  pm_Symbol :: string
  pm_TotalSupply :: nat
  pm_SaleAmount :: nat
  pm_VirtualBNBReserve :: nat
  pm_VirtualTokenReserve :: nat
  pm_LaunchTime :: nat
  pm_Creator :: bytes
  pm_Timestamp :: nat
  pm_RequestID :: bytes
  pm_Nonce :: nat
  pm_InitialBuyPercentage :: nat
  pm_MarginBNB :: nat
  pm_MarginTime :: nat
  pm_VestingAllocations :: "vesting list"

definition zero_address :: bytes where "zero_address = replicate 20 0"

section \<open>The stored intent\<close>

record creation_row =
  cw_request_id :: string
  cw_creator_address :: string
  cw_name :: string
  cw_symbol :: string
  cw_encoded_data :: string
  cw_signature :: string
  cw_create2_salt :: string
  cw_predicted_address :: string
  cw_nonce :: u64
  cw_request_timestamp :: u64

record creation_db =
  cd_rows :: "creation_row list"
  cd_faults :: "bool list"

text \<open>One insertion; the request identifier is the primary key.\<close>

definition Creation_Create :: "creation_row \<Rightarrow> creation_db \<Rightarrow> unit res \<times> creation_db" where
  "Creation_Create v d =
     (case cd_faults d of
        True # fs \<Rightarrow> (Inl DbFault, d\<lparr>cd_faults := fs\<rparr>)
      | _ \<Rightarrow>
        if has_key cw_request_id (cw_request_id v) (cd_rows d) then (Inl DbFault, d\<lparr>cd_faults := tl (cd_faults d)\<rparr>)
        else (Inr (), d\<lparr>cd_rows := cd_rows d @ [v], cd_faults := tl (cd_faults d)\<rparr>))"

section \<open>The service\<close>

text \<open>\<open>None\<close> is a nil signer or store.\<close>

definition New_creator :: "creator_config \<Rightarrow> bytes option \<Rightarrow> bool \<Rightarrow> creator_config res" where
  "New_creator cfg signer has_store =
     (case signer of
        None \<Rightarrow> Inl (ErrMsg ''token creation is not fully configured'')
      | Some key \<Rightarrow>
        if cc_Chain cfg < 1 \<or> cc_Core cfg = zero_address \<or> cc_Factory cfg = zero_address \<or> length (cc_TokenCreationBytecode cfg) = 0
        then Inl (ErrMsg ''token creation is not fully configured'')
        else if \<not> has_store then Inl (ErrMsg ''token creation store is required'')
        else Inr (cfg\<lparr>cc_Signer := key\<rparr>))"

definition validateRequest :: "create_request \<Rightarrow> unit res" where
  "validateRequest request =
     (if trim_space (cq_Name request) = [] \<or> trim_space (cq_Symbol request) = [] \<or> cq_Creator request = zero_address
      then Inl (ErrMsg ''name, symbol, and creator are required'')
      else if length (cq_Name request) > 100 \<or> length (cq_Symbol request) > 50
      then Inl (ErrMsg ''name must be at most 100 characters and symbol at most 50 characters'')
      else if cq_InitialBuyPercentage request > maxInitialBuyPercentage
      then Inl (ErrMsg ''initialBuyPercentage must be from 0 to 9990'')
      else Inr ())"

definition uint256Bytes :: "u64 \<Rightarrow> bytes" where
  "uint256Bytes value = be_bytes 32 (unat value)"

definition vesting_value :: "vesting \<Rightarrow> pack_value" where
  "vesting_value v = PTuple [PUint (vs_Amount v), PUint (vs_LaunchTime v), PUint (vs_Duration v), PUint (unat (vs_Mode v))]"

definition params_ty :: pack_ty where
  "params_ty = TTuple [TText, TText, TUint, TUint, TUint, TUint, TUint, TAddr, TUint, TWord, TUint, TUint, TUint, TUint,
     TList (TTuple [TUint, TUint, TUint, TUint])]"

definition params_value :: "create_params \<Rightarrow> pack_value" where
  "params_value p = PTuple
     [PText (str_bytes (pm_Name p)), PText (str_bytes (pm_Symbol p)), PUint (pm_TotalSupply p), PUint (pm_SaleAmount p),
      PUint (pm_VirtualBNBReserve p), PUint (pm_VirtualTokenReserve p), PUint (pm_LaunchTime p), PAddr (pm_Creator p),
      PUint (pm_Timestamp p), PWord (pm_RequestID p), PUint (pm_Nonce p), PUint (pm_InitialBuyPercentage p),
      PUint (pm_MarginBNB p), PUint (pm_MarginTime p), PList (map vesting_value (pm_VestingAllocations p))]"

definition encode :: "eth_lib \<Rightarrow> create_params \<Rightarrow> bytes res" where
  "encode lib value = abi_pack lib [params_value value]"

definition calculateSalt :: "eth_lib \<Rightarrow> string \<Rightarrow> string \<Rightarrow> bytes \<Rightarrow> u64 \<Rightarrow> u64 \<Rightarrow> bytes" where
  "calculateSalt lib name symbol core timestamp nonce =
     keccak256 lib (str_bytes name @ str_bytes symbol @ be_bytes 32 TotalSupply @ core @ uint256Bytes timestamp @ uint256Bytes nonce)"

definition calculateAddress :: "eth_lib \<Rightarrow> bytes \<Rightarrow> bytes \<Rightarrow> bytes \<Rightarrow> string \<Rightarrow> string \<Rightarrow> bytes \<Rightarrow> bytes res" where
  "calculateAddress lib factory bytecode salt name symbol core =
     rbind (wrap_err ''ABI encode token constructor''
             (abi_pack lib [PText (str_bytes name), PText (str_bytes symbol), PUint TotalSupply, PAddr core])) (\<lambda>constructor.
     let initHash = keccak256 lib (bytecode @ constructor)
     in Inr (bytes_to_address lib (drop 12 (keccak256 lib ([0xff] @ factory @ salt @ initHash)))))"

text \<open>\<open>SetBytes(b).Uint64()\<close> of eight bytes; \<open>None\<close> when the random source fails.\<close>

definition randomUint64 :: "bytes option \<Rightarrow> u64 res" where
  "randomUint64 random = (case random of None \<Rightarrow> Inl (ErrMsg ''rand'') | Some b \<Rightarrow> Inr (word_of_nat (be_nat b)))"

definition ParseBytecode :: "string \<Rightarrow> bytes res" where
  "ParseBytecode value =
     (case hex_decode (trim_prefix value ''0x'') of
        None \<Rightarrow> Inl (ErrMsg ''TOKEN_CREATION_BYTECODE must be non-empty hexadecimal bytecode'')
      | Some bytecode \<Rightarrow>
          if length bytecode = 0 then Inl (ErrMsg ''TOKEN_CREATION_BYTECODE must be non-empty hexadecimal bytecode'')
          else Inr bytecode)"

definition request_id :: "eth_lib \<Rightarrow> bytes \<Rightarrow> u64 \<Rightarrow> u64 \<Rightarrow> bytes" where
  "request_id lib creator timestamp nonce =
     keccak256 lib (str_bytes ''meme-launchpad:'' @ creator @ uint256Bytes timestamp @ uint256Bytes nonce)"

definition request_params :: "eth_lib \<Rightarrow> create_request \<Rightarrow> u64 \<Rightarrow> u64 \<Rightarrow> create_params" where
  "request_params lib request timestamp nonce =
     \<lparr>pm_Name = cq_Name request, pm_Symbol = cq_Symbol request, pm_TotalSupply = TotalSupply, pm_SaleAmount = SaleAmount,
      pm_VirtualBNBReserve = VirtualBNBReserve, pm_VirtualTokenReserve = VirtualTokenReserve,
      pm_LaunchTime = unat (cq_LaunchTime request), pm_Creator = cq_Creator request, pm_Timestamp = unat timestamp,
      pm_RequestID = request_id lib (cq_Creator request) timestamp nonce, pm_Nonce = unat nonce,
      pm_InitialBuyPercentage = unat (cq_InitialBuyPercentage request), pm_MarginBNB = 0, pm_MarginTime = 0,
      pm_VestingAllocations = []\<rparr>"

definition signed_hash :: "eth_lib \<Rightarrow> creator_config \<Rightarrow> bytes \<Rightarrow> bytes" where
  "signed_hash lib cfg data = keccak256 lib (data @ uint256Bytes (word_of_int (cc_Chain cfg)) @ cc_Core cfg)"

text \<open>The answer, before it is stored.\<close>

definition build_response ::
  "eth_lib \<Rightarrow> creator_config \<Rightarrow> bytes option \<Rightarrow> u64 \<Rightarrow> create_request \<Rightarrow> create_response res" where
  "build_response lib cfg random timestamp request =
     rbind (validateRequest request) (\<lambda>_.
     rbind (wrap_err ''generate nonce'' (randomUint64 random)) (\<lambda>nonce.
     let requestID = request_id lib (cq_Creator request) timestamp nonce in
     rbind (wrap_err ''ABI encode create-token parameters'' (encode lib (request_params lib request timestamp nonce))) (\<lambda>data.
     let salt = calculateSalt lib (cq_Name request) (cq_Symbol request) (cc_Core cfg) timestamp nonce in
     rbind (calculateAddress lib (cc_Factory cfg) (cc_TokenCreationBytecode cfg) salt (cq_Name request) (cq_Symbol request) (cc_Core cfg)) (\<lambda>predicted.
     case eth_sign lib (cc_Signer cfg) (signed_hash lib cfg data) of
       None \<Rightarrow> Inl (Wrap ''sign create-token parameters'' (ErrMsg ''sign''))
     | Some signature \<Rightarrow>
         let signature = signature[64 := signature ! 64 + 27] in
         Inr \<lparr>cp_Data = ''0x'' @ hex_encode data, cp_Signature = ''0x'' @ hex_encode signature,
              cp_RequestID = hash_hex lib requestID, cp_Salt = hash_hex lib salt,
              cp_PredictedAddress = address_hex lib predicted, cp_Nonce = nonce, cp_Timestamp = timestamp\<rparr>))))"

definition Creation_row_of :: "eth_lib \<Rightarrow> create_request \<Rightarrow> create_response \<Rightarrow> creation_row" where
  "Creation_row_of lib request response =
     \<lparr>cw_request_id = cp_RequestID response, cw_creator_address = address_hex lib (cq_Creator request),
      cw_name = cq_Name request, cw_symbol = cq_Symbol request, cw_encoded_data = cp_Data response,
      cw_signature = cp_Signature response, cw_create2_salt = cp_Salt response,
      cw_predicted_address = cp_PredictedAddress response, cw_nonce = cp_Nonce response,
      cw_request_timestamp = cp_Timestamp response\<rparr>"

text \<open>\<open>now\<close> is the time in seconds; \<open>uint64\<close> of it wraps.\<close>

definition Create_token ::
  "eth_lib \<Rightarrow> creator_config \<Rightarrow> bytes option \<Rightarrow> int \<Rightarrow> create_request \<Rightarrow> creation_db \<Rightarrow> create_response res \<times> creation_db" where
  "Create_token lib cfg random now request d =
     (case build_response lib cfg random (word_of_int now) request of
        Inl e \<Rightarrow> (Inl e, d)
      | Inr response \<Rightarrow>
        (case Creation_Create (Creation_row_of lib request response) d of
           (Inl e, d') \<Rightarrow> (Inl (Wrap ''persist token creation intent'' e), d')
         | (Inr _, d') \<Rightarrow> (Inr response, d')))"

section \<open>The answer decodes to the request\<close>

definition params_ok :: "create_params \<Rightarrow> bool" where
  "params_ok p = has_ty params_ty (params_value p)"

lemma word64_bound: "unat (x :: u64) < 256 ^ 32"
  using unsigned_less [of x] by (rule less_le_trans) simp

lemma request_params_ok:
  assumes "hash_spec lib" and "length (cq_Creator request) = 20"
  shows "params_ok (request_params lib request timestamp nonce)"
  using assms by (simp add: params_ok_def params_ty_def params_value_def request_params_def hash_spec_def request_id_def
      word64_bound [simplified] TotalSupply_def SaleAmount_def VirtualBNBReserve_def VirtualTokenReserve_def)

lemma pad32_bound: "length (pad32 s) < length s + 32"
proof -
  have "(32 - length s mod 32) mod 32 < (32::nat)" by simp
  then show ?thesis by (simp add: pad32_def)
qed

lemma enc_parts_bound:
  "length (enc_parts (map (\<lambda>v. (dynamic_value v, enc v)) vs)) \<le> sum_list (map (\<lambda>v. 32 + length (enc v)) vs)"
  unfolding enc_parts_length heads_length_def by (induction vs) auto

lemma params_enc_bound:
  assumes "length (cq_Name request) \<le> 100" and "length (cq_Symbol request) \<le> 50" and "length (cq_Creator request) = 20"
    and "hash_spec lib"
  shows "length (enc_args [params_value (request_params lib request timestamp nonce)]) < 256 ^ 32"
proof -
  let ?p = "request_params lib request timestamp nonce"
  have n: "length (pad32 (str_bytes (cq_Name request))) < 132" using pad32_bound [of "str_bytes (cq_Name request)"] assms(1) by simp
  have s: "length (pad32 (str_bytes (cq_Symbol request))) < 82" using pad32_bound [of "str_bytes (cq_Symbol request)"] assms(2) by simp
  have i: "length (request_id lib (cq_Creator request) timestamp nonce) = 32" using assms(4) by (simp add: hash_spec_def request_id_def)
  obtain vs where vs: "params_value ?p = PTuple vs" "length vs = 15" "list_all (\<lambda>v. length (enc v) < 200) vs"
    by (simp add: params_value_def) (use n s i assms(3) in \<open>simp add: request_params_def enc_parts_length heads_length_def\<close>)
  have "sum_list (map (\<lambda>v. 32 + length (enc v)) vs) \<le> 232 * length vs"
    using vs(3) by (induction vs) auto
  then have "length (enc (params_value ?p)) \<le> 232 * 15"
    using enc_parts_bound [of vs] vs(1,2) by simp
  moreover have "length (enc_args [params_value ?p]) \<le> 32 + length (enc (params_value ?p))"
    unfolding enc_args_def by (simp add: enc_parts_length heads_length_def del: enc.simps(1-5))
  ultimately have "length (enc_args [params_value ?p]) < 4000" by linarith
  then show ?thesis by (rule less_le_trans) simp
qed

lemma build_response_ok:
  assumes "build_response lib cfg random timestamp request = Inr r"
  obtains data sig where "validateRequest request = Inr ()" and "cp_Timestamp r = timestamp"
    and "encode lib (request_params lib request timestamp (cp_Nonce r)) = Inr data"
    and "eth_sign lib (cc_Signer cfg) (signed_hash lib cfg data) = Some sig"
    and "cp_Data r = ''0x'' @ hex_encode data" and "cp_Signature r = ''0x'' @ hex_encode (sig[64 := sig ! 64 + 27])"
    and "cp_RequestID r = hash_hex lib (request_id lib (cq_Creator request) timestamp (cp_Nonce r))"
  using assms
  by (auto simp: build_response_def rbind_eq_Inr Let_def split: option.splits)

lemma Creation_Create_ok:
  "Creation_Create v d = (Inr (), d') \<Longrightarrow> cd_rows d' = cd_rows d @ [v] \<and> \<not> has_key cw_request_id (cw_request_id v) (cd_rows d)"
  by (auto simp: Creation_Create_def split: list.splits bool.splits if_splits)

lemma Create_token_ok:
  assumes "Create_token lib cfg random now request d = (Inr r, d')"
  shows "build_response lib cfg random (word_of_int now) request = Inr r
    \<and> Creation_Create (Creation_row_of lib request r) d = (Inr (), d')"
  using assms by (auto simp: Create_token_def split: sum.splits prod.splits)

lemma plus_27_small: "(v :: u8) \<le> 1 \<Longrightarrow> v + 27 \<in> {27, 28}"
proof -
  assume "v \<le> 1"
  then have "unat v \<le> 1" by (simp add: word_le_nat_alt)
  then have "unat v = 0 \<or> unat v = 1" by linarith
  then have "v = 0 \<or> v = 1" by (metis unat_0 unat_1 unsigned_word_eqI)
  then show ?thesis by auto
qed

text \<open>C7: The answer is the request, signed.  When a creation succeeds, its argument is the
  hexadecimal text of data from which the contract decodes exactly the parameters of the
  request (the name, the symbol, the supplies and reserves, the creator, the times, the nonce
  and the request identifier derived from them); its signature is 65 bytes with a recovery
  value of 27 or 28, and recovers to the address of the configured key over the hash of that
  data with the chain and the core contract; and one row with these values was added.\<close>

theorem create_answer_decodes:
  assumes "pack_spec lib" and "sign_spec lib" and "hash_spec lib" and "length (cq_Creator request) = 20"
    and "Create_token lib cfg random now request d = (Inr r, d')"
  shows "\<exists>data sig. cp_Data r = ''0x'' @ hex_encode data \<and> cp_Signature r = ''0x'' @ hex_encode sig
    \<and> dec (TTuple [params_ty]) data = PTuple [params_value (request_params lib request (cp_Timestamp r) (cp_Nonce r))]
    \<and> length sig = 65 \<and> sig ! 64 \<in> {27, 28}
    \<and> sig_to_address lib (signed_hash lib cfg data) (sig[64 := sig ! 64 - 27]) = Some (address_hex lib (key_address lib (cc_Signer cfg)))
    \<and> cd_rows d' = cd_rows d @ [Creation_row_of lib request r]"
proof -
  let ?p = "request_params lib request (cp_Timestamp r) (cp_Nonce r)"
  from Create_token_ok [OF assms(5)] obtain data sig where
    v: "validateRequest request = Inr ()" and e: "encode lib ?p = Inr data"
    and sg: "eth_sign lib (cc_Signer cfg) (signed_hash lib cfg data) = Some sig"
    and rd: "cp_Data r = ''0x'' @ hex_encode data" and rs: "cp_Signature r = ''0x'' @ hex_encode (sig[64 := sig ! 64 + 27])"
    and row: "cd_rows d' = cd_rows d @ [Creation_row_of lib request r]"
    using build_response_ok Creation_Create_ok by metis
  have names: "length (cq_Name request) \<le> 100" "length (cq_Symbol request) \<le> 50"
    using v by (auto simp: validateRequest_def split: if_splits)
  have ty: "has_ty params_ty (params_value ?p)"
    using request_params_ok [OF assms(3,4)] by (simp add: params_ok_def)
  have data: "data = enc_args [params_value ?p]"
    using assms(1) e ty by (auto simp: pack_spec_def encode_def dest!: spec [of _ "[params_ty]"] spec [of _ "[params_value ?p]"])
  have "dec (TTuple [params_ty]) (enc (PTuple [params_value ?p]) @ []) = PTuple [params_value ?p]"
    by (rule dec_enc) (use ty params_enc_bound [OF names assms(4,3)] in \<open>simp_all add: enc_args_def del: enc.simps\<close>)
  then have dec: "dec (TTuple [params_ty]) data = PTuple [params_value ?p]"
    by (simp add: data enc_args_def del: enc.simps dec.simps)
  have s: "length sig = 65" "sig ! 64 \<le> 1"
    "sig_to_address lib (signed_hash lib cfg data) sig = Some (address_hex lib (key_address lib (cc_Signer cfg)))"
    using assms(2) sg by (auto simp: sign_spec_def)
  have undo: "(sig[64 := sig ! 64 + 27])[64 := (sig[64 := sig ! 64 + 27]) ! 64 - 27] = sig" using s(1) by simp
  show ?thesis
    by (rule exI [of _ data], rule exI [of _ "sig[64 := sig ! 64 + 27]"])
      (use rd rs dec row s undo plus_27_small [OF s(2)] in simp)
qed

text \<open>An instance of the library that meets the three hypotheses, and a request.\<close>

definition creation_lib :: eth_lib where
  "creation_lib = sample_lib\<lparr>eth_sign := (\<lambda>k h. Some (replicate 65 0)), key_address := (\<lambda>k. [7]),
     sig_to_address := (\<lambda>h s. Some (hex_encode [7]))\<rparr>"

lemma creation_lib_ok: "pack_spec creation_lib" "sign_spec creation_lib" "hash_spec creation_lib"
  by (auto simp: creation_lib_def pack_spec_def sign_spec_def hash_spec_def sample_lib_def min_def)

definition sample_creator :: creator_config where
  "sample_creator = \<lparr>cc_Chain = 97, cc_Core = replicate 20 1, cc_Factory = replicate 20 2, cc_TokenCreationBytecode = [0x60], cc_Signer = [3]\<rparr>"

definition sample_request :: create_request where
  "sample_request = \<lparr>cq_Name = ''Token'', cq_Symbol = ''TK'', cq_Creator = replicate 20 9, cq_LaunchTime = 0, cq_InitialBuyPercentage = 5\<rparr>"

lemma sample_created:
  obtains r where "Create_token creation_lib sample_creator (Some [1, 2, 3, 4, 5, 6, 7, 8]) 1700000000 sample_request \<lparr>cd_rows = [], cd_faults = []\<rparr> =
    (Inr r, \<lparr>cd_rows = [Creation_row_of creation_lib sample_request r], cd_faults = []\<rparr>)"
proof -
  have "build_response creation_lib sample_creator (Some [1, 2, 3, 4, 5, 6, 7, 8]) (word_of_int 1700000000) sample_request \<noteq> Inl e" for e
    by (simp add: build_response_def validateRequest_def sample_request_def trim_space_def is_space_def zero_address_def
        randomUint64_def encode_def calculateAddress_def creation_lib_def sample_lib_def maxInitialBuyPercentage_def Let_def
        del: enc.simps)
  then obtain r where b: "build_response creation_lib sample_creator (Some [1, 2, 3, 4, 5, 6, 7, 8]) (word_of_int 1700000000) sample_request = Inr r"
    by (cases "build_response creation_lib sample_creator (Some [1, 2, 3, 4, 5, 6, 7, 8]) (word_of_int 1700000000) sample_request") auto
  have "Create_token creation_lib sample_creator (Some [1, 2, 3, 4, 5, 6, 7, 8]) 1700000000 sample_request \<lparr>cd_rows = [], cd_faults = []\<rparr> =
      (Inr r, \<lparr>cd_rows = [Creation_row_of creation_lib sample_request r], cd_faults = []\<rparr>)"
    unfolding Create_token_def b by (simp add: Creation_Create_def has_key_def)
  then show thesis by (rule that)
qed

theorem create_answer_decodes_witness:
  "\<exists>r d' data. Create_token creation_lib sample_creator (Some [1, 2, 3, 4, 5, 6, 7, 8]) 1700000000 sample_request
      \<lparr>cd_rows = [], cd_faults = []\<rparr> = (Inr r, d')
    \<and> cp_Data r = ''0x'' @ hex_encode data
    \<and> dec (TTuple [params_ty]) data = PTuple [params_value (request_params creation_lib sample_request (cp_Timestamp r) (cp_Nonce r))]
    \<and> length (cd_rows d') = 1"
proof -
  obtain r where c: "Create_token creation_lib sample_creator (Some [1, 2, 3, 4, 5, 6, 7, 8]) 1700000000 sample_request \<lparr>cd_rows = [], cd_faults = []\<rparr> =
      (Inr r, \<lparr>cd_rows = [Creation_row_of creation_lib sample_request r], cd_faults = []\<rparr>)"
    by (rule sample_created)
  have l: "length (cq_Creator sample_request) = 20" by (simp add: sample_request_def)
  from create_answer_decodes [OF creation_lib_ok l c] c show ?thesis by auto
qed

section \<open>What a signature binds\<close>

lemma params_value_inject: "params_value p = params_value q \<Longrightarrow> p = q"
proof -
  assume h: "params_value p = params_value q"
  have "inj vesting_value"
    by (rule injI) (auto simp: vesting_value_def word_unat_eq_iff intro!: vesting.equality)
  with h show "p = q" by (intro create_params.equality) (auto simp: params_value_def inj_map_eq_map)
qed

lemma encode_inject:
  assumes "pack_spec lib" and "params_ok p" and "params_ok q" and "encode lib p = Inr dp" and "encode lib q = Inr dp"
    and "length dp < 256 ^ 32"
  shows "p = q"
proof -
  have e: "dp = enc_args [params_value p]" "dp = enc_args [params_value q]"
    using assms(1-5) by (auto simp: pack_spec_def encode_def params_ok_def dest!: spec [of _ "[params_ty]"])
  have "[params_value p] = [params_value q]"
    by (rule enc_args_inject [of "[params_ty]"]) (use assms(2,3,6) e in \<open>simp_all add: params_ok_def\<close>)
  then show ?thesis using params_value_inject by simp
qed

lemma uint256Bytes_inject: "uint256Bytes x = uint256Bytes y \<longleftrightarrow> x = y"
  by (simp add: uint256Bytes_def be_bytes_inject [OF word64_bound word64_bound] word_unat_eq_iff del: be_bytes.simps)

text \<open>C17: A signature binds every parameter, the chain and the core contract.  When the hashes
  signed for two encoded parameter sets agree, be it for different deployments, the
  parameters, the chain identifiers and the core contracts agree, unless the two packed messages
  differ and are themselves a collision of Keccak.\<close>

theorem signed_hash_binds:
  assumes "pack_spec lib" and "params_ok p" and "params_ok q" and "encode lib p = Inr dp" and "encode lib q = Inr dq"
    and "length dp < 256 ^ 32" and "length (cc_Core cfg) = 20" and "length (cc_Core cfg') = 20"
    and "signed_hash lib cfg dp = signed_hash lib cfg' dq"
  shows "(p = q \<and> word_of_int (cc_Chain cfg) = (word_of_int (cc_Chain cfg') :: u64) \<and> cc_Core cfg = cc_Core cfg')
    \<or> (let x = dp @ uint256Bytes (word_of_int (cc_Chain cfg)) @ cc_Core cfg;
           y = dq @ uint256Bytes (word_of_int (cc_Chain cfg')) @ cc_Core cfg'
       in x \<noteq> y \<and> keccak256 lib x = keccak256 lib y)"
proof (cases "dp @ uint256Bytes (word_of_int (cc_Chain cfg)) @ cc_Core cfg = dq @ uint256Bytes (word_of_int (cc_Chain cfg')) @ cc_Core cfg'")
  case True
  then have "dp = dq" and c: "uint256Bytes (word_of_int (cc_Chain cfg)) = uint256Bytes (word_of_int (cc_Chain cfg'))"
    and k: "cc_Core cfg = cc_Core cfg'"
    using assms(7,8) by (simp_all add: append_eq_append_conv uint256Bytes_def flip: append_assoc)
  with encode_inject [OF assms(1-4) _ assms(6)] assms(5) c k show ?thesis by (simp add: uint256Bytes_inject)
next
  case False
  with assms(9) show ?thesis unfolding signed_hash_def Let_def by blast
qed

theorem signed_hash_binds_witness:
  "\<exists>dp. encode creation_lib (request_params creation_lib sample_request 5 6) = Inr dp
     \<and> signed_hash creation_lib sample_creator dp = signed_hash creation_lib sample_creator dp
     \<and> request_params creation_lib sample_request 5 6 = request_params creation_lib sample_request 5 6
     \<and> word_of_int (cc_Chain sample_creator) = (word_of_int (cc_Chain sample_creator) :: u64)"
proof -
  let ?p = "request_params creation_lib sample_request 5 6"
  have e: "encode creation_lib ?p = Inr (enc_args [params_value ?p])"
    by (simp add: encode_def creation_lib_def sample_lib_def)
  have ok: "params_ok ?p" by (rule request_params_ok [OF creation_lib_ok(3)]) (simp add: sample_request_def)
  have l: "length (enc_args [params_value ?p]) < 256 ^ 32"
    by (rule params_enc_bound [OF _ _ _ creation_lib_ok(3)]) (simp_all add: sample_request_def)
  have c: "length (cc_Core sample_creator) = 20" by (simp add: sample_creator_def)
  from signed_hash_binds [OF creation_lib_ok(1) ok ok e e l c c refl] e show ?thesis by (simp add: Let_def)
qed

end
