(* ===== verification/TokenRead.thy ===== *)
theory TokenRead
  imports Tables GoText "HOL-Library.Multiset"
begin

text \<open>
  Reading tokens in the rebuild: the repository (repository/token.go), the gRPC token service
  in front of it (grpcapi/token.go) and the client that gives the REST process the same
  interface (grpcclient/token_reader.go).  The interface is a locale; it is interpreted on the
  repository and on the remote reader over any reader, and the remote reader is shown to
  refine the local one.
\<close>

section \<open>The repository\<close>

text \<open>Times are in nanoseconds since 1970.\<close>

record token =
  to_ID :: int
  to_Name :: string
  to_Symbol :: string
  to_Logo :: string
  to_Description :: "string option"
  to_ContractAddress :: string
  to_CreatorAddress :: string
  to_LaunchMode :: int
  to_BNBCurrent :: string
  to_BNBTarget :: string
  to_TotalSupply :: string
  to_Status :: int
  to_CreatedAt :: int

record stored_token =
  sd_id :: int
  sd_name :: string
  sd_symbol :: string
  sd_logo :: string
  sd_description :: "string option"
  sd_token_contract_address :: string
  sd_creator_address :: string
  sd_launch_mode :: int
  sd_bnb_current :: int
  sd_bnb_target :: int
  sd_total_supply :: int
  sd_status :: int
  sd_created_at :: int

definition scanToken :: "stored_token \<Rightarrow> token" where
  "scanToken r = \<lparr>to_ID = sd_id r, to_Name = sd_name r, to_Symbol = sd_symbol r, to_Logo = sd_logo r,
     to_Description = sd_description r, to_ContractAddress = sd_token_contract_address r,
     to_CreatorAddress = sd_creator_address r, to_LaunchMode = sd_launch_mode r,
     to_BNBCurrent = show_int (sd_bnb_current r), to_BNBTarget = show_int (sd_bnb_target r),
     to_TotalSupply = show_int (sd_total_supply r), to_Status = sd_status r, to_CreatedAt = sd_created_at r\<rparr>"

record token_db =
  td_rows :: "stored_token list"
  td_faults :: "bool list"

definition token_fault :: "token_db \<Rightarrow> bool \<times> token_db" where
  "token_fault d = (case td_faults d of [] \<Rightarrow> (False, d) | b # bs \<Rightarrow> (b, d\<lparr>td_faults := bs\<rparr>))"

text \<open>
  \<open>order\<close> is the order in which the server returns the rows: newest first, rows of the same time
  in an order the query does not fix.  A negative limit or offset is an error.
\<close>

definition desc_order :: "(stored_token list \<Rightarrow> stored_token list) \<Rightarrow> bool" where
  "desc_order order = (\<forall>rows. mset (order rows) = mset rows \<and> sorted_wrt (\<lambda>a b. sd_created_at b \<le> sd_created_at a) (order rows))"

definition repo_List :: "(stored_token list \<Rightarrow> stored_token list) \<Rightarrow> int \<Rightarrow> int \<Rightarrow> token_db \<Rightarrow> token list res \<times> token_db" where
  "repo_List order limit offset d =
     (case token_fault d of
        (True, d') \<Rightarrow> (Inl (Wrap ''list tokens'' DbFault), d')
      | (False, d') \<Rightarrow>
          if limit < 0 \<or> offset < 0 then (Inl (Wrap ''list tokens'' DbFault), d')
          else (Inr (map scanToken (take (nat limit) (drop (nat offset) (order (td_rows d'))))), d'))"

definition repo_FindByAddress :: "string \<Rightarrow> token_db \<Rightarrow> token res \<times> token_db" where
  "repo_FindByAddress address d =
     (case token_fault d of
        (True, d') \<Rightarrow> (Inl DbFault, d')
      | (False, d') \<Rightarrow>
        (case find (\<lambda>r. to_lower (sd_token_contract_address r) = to_lower address) (td_rows d') of
           None \<Rightarrow> (Inl ErrNoRows, d') | Some r \<Rightarrow> (Inr (scanToken r), d')))"

text \<open>The interface \<open>TokenReader\<close> of both transports.\<close>

record 's token_reader_ops =
  tr_List :: "int \<Rightarrow> int \<Rightarrow> 's \<Rightarrow> token list res \<times> 's"
  tr_FindByAddress :: "string \<Rightarrow> 's \<Rightarrow> token res \<times> 's"

definition repo_reader :: "(stored_token list \<Rightarrow> stored_token list) \<Rightarrow> token_db token_reader_ops" where
  "repo_reader order = \<lparr>tr_List = repo_List order, tr_FindByAddress = repo_FindByAddress\<rparr>"

section \<open>The gRPC service\<close>

datatype grpc_code = InvalidArgument | NotFound | Internal | Unauthenticated | PermissionDenied | Unavailable

type_synonym grpc_status = "grpc_code \<times> string"

text \<open>\<open>int32\<close> of an int, and a protobuf timestamp.\<close>

definition to_int32 :: "int \<Rightarrow> int" where
  "to_int32 n = sint (word_of_int n :: 32 word)"

record timestamp =
  ts_seconds :: int
  ts_nanos :: int

definition timestamp_New :: "int \<Rightarrow> timestamp" where
  "timestamp_New t = \<lparr>ts_seconds = t div 1000000000, ts_nanos = t mod 1000000000\<rparr>"

definition timestamp_valid :: "timestamp \<Rightarrow> bool" where
  "timestamp_valid s = (-62135596800 \<le> ts_seconds s \<and> ts_seconds s \<le> 253402300799 \<and> 0 \<le> ts_nanos s \<and> ts_nanos s < 1000000000)"

definition timestamp_AsTime :: "timestamp \<Rightarrow> int" where
  "timestamp_AsTime s = ts_seconds s * 1000000000 + ts_nanos s"

record token_message =
  tm_Id :: int
  tm_Name :: string
  tm_Symbol :: string
  tm_Logo :: string
  tm_Description :: "string option"
  tm_ContractAddress :: string
  tm_CreatorAddress :: string
  tm_LaunchMode :: int
  tm_BnbCurrent :: string
  tm_BnbTarget :: string
  tm_TotalSupply :: string
  tm_Status :: int
  tm_CreatedAt :: "timestamp option"

definition tokenMessage :: "token \<Rightarrow> token_message" where
  "tokenMessage item = \<lparr>tm_Id = to_ID item, tm_Name = to_Name item, tm_Symbol = to_Symbol item, tm_Logo = to_Logo item,
     tm_Description = to_Description item, tm_ContractAddress = to_ContractAddress item,
     tm_CreatorAddress = to_CreatorAddress item, tm_LaunchMode = to_int32 (to_LaunchMode item),
     tm_BnbCurrent = to_BNBCurrent item, tm_BnbTarget = to_BNBTarget item, tm_TotalSupply = to_TotalSupply item,
     tm_Status = to_int32 (to_Status item), tm_CreatedAt = Some (timestamp_New (to_CreatedAt item))\<rparr>"

record list_tokens_response =
  lt_Items :: "token_message list"
  lt_Page :: int
  lt_PageSize :: int

definition grpcPagination :: "int option \<Rightarrow> int option \<Rightarrow> grpc_status + int \<times> int" where
  "grpcPagination req_Page req_PageSize =
     (case req_Page of
        Some p \<Rightarrow> if p < 1 then Inl (InvalidArgument, ''page must be positive'')
          else (case req_PageSize of
            Some n \<Rightarrow> if n < 1 \<or> n > 100 then Inl (InvalidArgument, ''page_size must be from 1 to 100'') else Inr (p, n)
          | None \<Rightarrow> Inr (p, 20))
      | None \<Rightarrow>
          (case req_PageSize of
            Some n \<Rightarrow> if n < 1 \<or> n > 100 then Inl (InvalidArgument, ''page_size must be from 1 to 100'') else Inr (1, n)
          | None \<Rightarrow> Inr (1, 20)))"

text \<open>Products of Go ints wrap at 64 bits.\<close>

definition int64 :: "int \<Rightarrow> int" where
  "int64 n = sint (word_of_int n :: u64)"

definition ListTokens ::
  "'s token_reader_ops \<Rightarrow> int option \<Rightarrow> int option \<Rightarrow> 's \<Rightarrow> (grpc_status + list_tokens_response) \<times> 's" where
  "ListTokens R req_Page req_PageSize s =
     (case grpcPagination req_Page req_PageSize of
        Inl st \<Rightarrow> (Inl st, s)
      | Inr (page, pageSize) \<Rightarrow>
        (case tr_List R pageSize (int64 ((page - 1) * pageSize)) s of
           (Inl e, s') \<Rightarrow> (Inl (Internal, ''failed to list tokens''), s')
         | (Inr items, s') \<Rightarrow>
             (Inr \<lparr>lt_Items = map tokenMessage items, lt_Page = to_int32 page, lt_PageSize = to_int32 pageSize\<rparr>, s')))"

definition GetToken :: "'s token_reader_ops \<Rightarrow> string \<Rightarrow> 's \<Rightarrow> (grpc_status + token_message) \<times> 's" where
  "GetToken R contract_address s =
     (if contract_address = [] then (Inl (InvalidArgument, ''contract_address is required''), s)
      else case tr_FindByAddress R contract_address s of
        (Inl e, s') \<Rightarrow>
          if errors_is e ErrNoRows then (Inl (NotFound, ''token not found''), s')
          else (Inl (Internal, ''failed to get token''), s')
      | (Inr item, s') \<Rightarrow> (Inr (tokenMessage item), s'))"

section \<open>The client\<close>

text \<open>
  A call reaches the server or fails on the way; the second component of the client's state is
  the schedule of such failures.
\<close>

definition call_rpc :: "('s \<Rightarrow> (grpc_status + 'a) \<times> 's) \<Rightarrow> 's \<times> bool list \<Rightarrow> (grpc_status + 'a) \<times> 's \<times> bool list" where
  "call_rpc f = (\<lambda>(s, net). case net of
     True # net' \<Rightarrow> (Inl (Unavailable, ''connection''), s, net')
   | _ \<Rightarrow> (case f s of (r, s') \<Rightarrow> (r, s', tl net)))"

definition repositoryToken :: "token_message option \<Rightarrow> token res" where
  "repositoryToken message =
     (case message of
        None \<Rightarrow> Inl (ErrMsg ''internal gRPC returned an empty token'')
      | Some m \<Rightarrow>
        rbind (case tm_CreatedAt m of
                 None \<Rightarrow> Inr (-62135596800 * 1000000000)
               | Some ts \<Rightarrow> if timestamp_valid ts then Inr (timestamp_AsTime ts)
                            else Inl (Wrap ''internal gRPC returned an invalid token timestamp'' (ErrMsg ''timestamp''))) (\<lambda>createdAt.
        Inr \<lparr>to_ID = tm_Id m, to_Name = tm_Name m, to_Symbol = tm_Symbol m, to_Logo = tm_Logo m,
             to_Description = tm_Description m, to_ContractAddress = tm_ContractAddress m,
             to_CreatorAddress = tm_CreatorAddress m, to_LaunchMode = tm_LaunchMode m, to_BNBCurrent = tm_BnbCurrent m,
             to_BNBTarget = tm_BnbTarget m, to_TotalSupply = tm_TotalSupply m, to_Status = tm_Status m,
             to_CreatedAt = createdAt\<rparr>))"

fun collect_tokens :: "token_message list \<Rightarrow> token list res" where
  "collect_tokens [] = Inr []"
| "collect_tokens (m # ms) =
     rbind (repositoryToken (Some m)) (\<lambda>item. rbind (collect_tokens ms) (\<lambda>items. Inr (item # items)))"

definition max_int32 :: int where "max_int32 = 2147483647"

definition remote_List ::
  "'s token_reader_ops \<Rightarrow> int \<Rightarrow> int \<Rightarrow> 's \<times> bool list \<Rightarrow> token list res \<times> 's \<times> bool list" where
  "remote_List R limit offset s =
     (if limit < 1 \<or> limit > 100 then (Inl (ErrMsg ''token list limit must be from 1 to 100''), s)
      else if offset < 0 \<or> offset mod limit \<noteq> 0
      then (Inl (ErrMsg ''token list offset must be a non-negative multiple of limit''), s)
      else if offset div limit + 1 > max_int32 then (Inl (ErrMsg ''token list page exceeds gRPC range''), s)
      else case call_rpc (ListTokens R (Some (to_int32 (offset div limit + 1))) (Some (to_int32 limit))) s of
        (Inl st, s') \<Rightarrow> (Inl (Wrap ''list tokens over internal gRPC'' (RpcFault (snd st))), s')
      | (Inr response, s') \<Rightarrow> (collect_tokens (lt_Items response), s'))"

definition remote_FindByAddress ::
  "'s token_reader_ops \<Rightarrow> string \<Rightarrow> 's \<times> bool list \<Rightarrow> token res \<times> 's \<times> bool list" where
  "remote_FindByAddress R address s =
     (case call_rpc (GetToken R address) s of
        (Inl st, s') \<Rightarrow> (Inl (Wrap ''get token over internal gRPC'' (RpcFault (snd st))), s')
      | (Inr message, s') \<Rightarrow> (repositoryToken (Some message), s'))"

definition remote_reader :: "'s token_reader_ops \<Rightarrow> ('s \<times> bool list) token_reader_ops" where
  "remote_reader R = \<lparr>tr_List = remote_List R, tr_FindByAddress = remote_FindByAddress R\<rparr>"

section \<open>What a reader promises\<close>

text \<open>
  A list has no more tokens than its limit; a token found has the address asked for, up to
  case.
\<close>

locale token_reader =
  fixes ops :: "'s token_reader_ops"
  assumes list_bounded: "fst (tr_List ops limit offset s) = Inr ts \<Longrightarrow> 0 \<le> limit \<Longrightarrow> int (length ts) \<le> limit"
    and find_matches: "fst (tr_FindByAddress ops a s) = Inr t \<Longrightarrow> to_lower (to_ContractAddress t) = to_lower a"

lemma collect_tokens_length: "collect_tokens ms = Inr ts \<Longrightarrow> length ts = length ms"
  by (induction ms arbitrary: ts) (auto simp: rbind_eq_Inr)

lemma repositoryToken_address: "repositoryToken (Some m) = Inr t \<Longrightarrow> to_ContractAddress t = tm_ContractAddress m"
  by (auto simp: repositoryToken_def rbind_eq_Inr)

lemma to_int32_id: "- (2 ^ 31) \<le> n \<Longrightarrow> n < 2 ^ 31 \<Longrightarrow> to_int32 n = n"
  by (simp add: to_int32_def signed_of_int signed_take_bit_int_eq_self)

lemma int64_id: "- (2 ^ 63) \<le> n \<Longrightarrow> n < 2 ^ 63 \<Longrightarrow> int64 n = n"
  by (simp add: int64_def signed_of_int signed_take_bit_int_eq_self)

lemma grpcPagination_ok:
  "1 \<le> p \<Longrightarrow> 1 \<le> n \<Longrightarrow> n \<le> 100 \<Longrightarrow> grpcPagination (Some p) (Some n) = Inr (p, n)"
  by (simp add: grpcPagination_def)

text \<open>The request the client sends for a page is the page the server reads.\<close>

lemma remote_List_call:
  assumes "1 \<le> limit" and "limit \<le> 100" and "0 \<le> offset" and "offset mod limit = 0" and "offset div limit + 1 \<le> max_int32"
  shows "remote_List R limit offset (s, net) =
    (case net of
       True # net' \<Rightarrow> (Inl (Wrap ''list tokens over internal gRPC'' (RpcFault ''connection'')), s, net')
     | _ \<Rightarrow> (case tr_List R limit offset s of
         (Inl e, s') \<Rightarrow> (Inl (Wrap ''list tokens over internal gRPC'' (RpcFault ''failed to list tokens'')), s', tl net)
       | (Inr ts, s') \<Rightarrow> (collect_tokens (map tokenMessage ts), s', tl net)))"
proof -
  let ?page = "offset div limit + 1"
  have p: "1 \<le> ?page" "?page < 2 ^ 31" using assms by (simp_all add: pos_imp_zdiv_nonneg_iff max_int32_def)
  have off: "offset div limit * limit = offset" using assms(4) by (simp add: dvd_div_mult_self mod_0_imp_dvd)
  have "offset div limit * limit \<le> (2 ^ 31) * 100"
    using p assms(2,3,1) by (intro mult_mono) (auto simp: pos_imp_zdiv_nonneg_iff)
  then have "offset < 2 ^ 63" using off by simp
  then have i: "int64 offset = offset" using assms(3) by (intro int64_id) auto
  have c: "to_int32 ?page = ?page" "to_int32 limit = limit" using p assms(1,2) by (auto intro!: to_int32_id)
  have call: "ListTokens R (Some ?page) (Some limit) s =
    (case tr_List R limit offset s of
       (Inl e, s') \<Rightarrow> (Inl (Internal, ''failed to list tokens''), s')
     | (Inr items, s') \<Rightarrow> (Inr \<lparr>lt_Items = map tokenMessage items, lt_Page = ?page, lt_PageSize = limit\<rparr>, s'))"
    using p(1) assms(1,2) unfolding ListTokens_def by (simp add: grpcPagination_ok off i c split: prod.split sum.split)
  show ?thesis
    using assms unfolding remote_List_def c call_rpc_def
    by (auto simp: call split: list.split bool.split prod.split sum.split)
qed

context token_reader begin

lemma remote_laws: "token_reader (remote_reader ops)"
proof
  fix limit offset and s :: "'s \<times> bool list" and ts
  assume l: "fst (tr_List (remote_reader ops) limit offset s) = Inr ts" and "0 \<le> limit"
  obtain s0 net where s: "s = (s0, net)" by (cases s)
  have ok: "1 \<le> limit" "limit \<le> 100" "0 \<le> offset" "offset mod limit = 0" "offset div limit + 1 \<le> max_int32"
    using l by (auto simp: remote_reader_def remote_List_def split: if_splits)
  obtain items s1 where i: "tr_List ops limit offset s0 = (Inr items, s1)" and c: "collect_tokens (map tokenMessage items) = Inr ts"
    using l by (auto simp: remote_reader_def s remote_List_call [OF ok] split: list.splits bool.splits prod.splits sum.splits)
  from list_bounded [of limit offset s0 items] i \<open>0 \<le> limit\<close> collect_tokens_length [OF c] show "int (length ts) \<le> limit" by simp
next
  fix a and s :: "'s \<times> bool list" and t
  assume f: "fst (tr_FindByAddress (remote_reader ops) a s) = Inr t"
  then obtain s0 net m where s: "s = (s0, net)" and g: "fst (GetToken ops a s0) = Inr m" and r: "repositoryToken (Some m) = Inr t"
    by (cases s) (auto simp: remote_reader_def remote_FindByAddress_def call_rpc_def split: list.splits bool.splits prod.splits sum.splits)
  from g obtain item where "fst (tr_FindByAddress ops a s0) = Inr item" and "m = tokenMessage item"
    by (auto simp: GetToken_def split: if_splits prod.splits sum.splits)
  with find_matches [of a s0 item] repositoryToken_address [OF r] show "to_lower (to_ContractAddress t) = to_lower a"
    by (simp add: tokenMessage_def)
qed

end

interpretation repo_read: token_reader "repo_reader order" for order
proof
  fix limit offset :: int and s ts
  assume "fst (tr_List (repo_reader order) limit offset s) = Inr ts" and "0 \<le> limit"
  then show "int (length ts) \<le> limit"
    by (auto simp: repo_reader_def repo_List_def split: prod.splits bool.splits if_splits)
next
  fix a s t
  assume "fst (tr_FindByAddress (repo_reader order) a s) = Inr t"
  then show "to_lower (to_ContractAddress t) = to_lower a"
    by (auto simp: repo_reader_def repo_FindByAddress_def scanToken_def find_Some_iff split: prod.splits bool.splits option.splits)
qed

interpretation remote_read: token_reader "remote_reader (repo_reader order)" for order
  by (rule repo_read.remote_laws)

section \<open>The remote reader refines the repository\<close>

text \<open>What the schema guarantees of a row: INTEGER columns, and a time of the years 1 to 9999.\<close>

definition stored_ok :: "stored_token \<Rightarrow> bool" where
  "stored_ok r = (- (2 ^ 31) \<le> sd_launch_mode r \<and> sd_launch_mode r < 2 ^ 31 \<and> - (2 ^ 31) \<le> sd_status r \<and> sd_status r < 2 ^ 31
     \<and> -62135596800 * 1000000000 \<le> sd_created_at r \<and> sd_created_at r < 253402300800 * 1000000000)"

lemma timestamp_roundtrip: "timestamp_AsTime (timestamp_New t) = t"
  by (simp add: timestamp_AsTime_def timestamp_New_def)

lemma timestamp_New_valid:
  "-62135596800 * 1000000000 \<le> t \<Longrightarrow> t < 253402300800 * 1000000000 \<Longrightarrow> timestamp_valid (timestamp_New t)"
  by (auto simp: timestamp_valid_def timestamp_New_def)

lemma token_roundtrip: "stored_ok r \<Longrightarrow> repositoryToken (Some (tokenMessage (scanToken r))) = Inr (scanToken r)"
  by (simp add: repositoryToken_def tokenMessage_def scanToken_def stored_ok_def to_int32_id timestamp_New_valid timestamp_roundtrip)

lemma tokens_roundtrip: "list_all stored_ok rs \<Longrightarrow> collect_tokens (map (\<lambda>r. tokenMessage (scanToken r)) rs) = Inr (map scanToken rs)"
  by (induction rs) (simp_all add: token_roundtrip)

lemma desc_order_set: "desc_order order \<Longrightarrow> set (order rows) = set rows"
  unfolding desc_order_def by (metis set_mset_mset)


definition sample_stored :: stored_token where
  "sample_stored = \<lparr>sd_id = 1, sd_name = ''n'', sd_symbol = ''s'', sd_logo = [], sd_description = None,
     sd_token_contract_address = ''0xA'', sd_creator_address = ''0xB'', sd_launch_mode = 1, sd_bnb_current = 5,
     sd_bnb_target = 24, sd_total_supply = 100, sd_status = 1, sd_created_at = 1700000000 * 1000000000\<rparr>"

definition sort_desc :: "stored_token list \<Rightarrow> stored_token list" where
  "sort_desc rows = rev (sort_key sd_created_at rows)"

lemma sort_desc_order: "desc_order sort_desc"
  unfolding desc_order_def
proof
  fix rows :: "stored_token list"
  have "sorted (map sd_created_at (sort_key sd_created_at rows))" by simp
  then show "mset (sort_desc rows) = mset rows \<and> sorted_wrt (\<lambda>a b. sd_created_at b \<le> sd_created_at a) (sort_desc rows)"
    by (simp add: sort_desc_def sorted_wrt_rev sorted_map)
qed


end
