(* ===== verification/Upload.thy ===== *)
theory Upload
  imports Config GoTime "HOL-Library.List_Lexorder" "HOL-Library.Char_ord"
begin

text \<open>
  Presigned uploads to the object storage, app-rebuild/internal/upload: the key of an object,
  the signed URL that puts it and its public URL.  SHA-1 and HMAC are parameters.  The lemmas
  show that a caller chooses nothing of the file name but one of five extensions.
\<close>

section \<open>Query strings\<close>

text \<open>\<open>url.QueryEscape\<close> and \<open>url.Values.Encode\<close>, which sorts by key.\<close>

definition is_unreserved :: "char \<Rightarrow> bool" where
  "is_unreserved c = (let n = (of_char c :: nat) in
     (48 \<le> n \<and> n \<le> 57) \<or> (65 \<le> n \<and> n \<le> 90) \<or> (97 \<le> n \<and> n \<le> 122) \<or> c \<in> set ''-_.~'')"

definition upper_hex :: "nat \<Rightarrow> char" where
  "upper_hex n = ''0123456789ABCDEF'' ! (n mod 16)"

definition escape_char :: "char \<Rightarrow> string" where
  "escape_char c = (let n = (of_char c :: nat) in
     if is_unreserved c then [c] else if c = CHR '' '' then ''+'' else [CHR ''%'', upper_hex (n div 16), upper_hex n])"

definition query_escape :: "string \<Rightarrow> string" where
  "query_escape s = concat (map escape_char s)"

definition query_encode :: "(string \<times> string) list \<Rightarrow> string" where
  "query_encode values =
     join_with ''&'' (map (\<lambda>(k, v). query_escape k @ ''='' @ query_escape v) (sort_key fst values))"

section \<open>The service\<close>

record digest_lib =
  dl_sha1 :: "bytes \<Rightarrow> bytes"
  dl_hmac_sha1 :: "bytes \<Rightarrow> bytes \<Rightarrow> bytes"

record upload_service =
  up_secretID :: string
  up_secretKey :: string
  up_bucket :: string
  up_region :: string
  up_domain :: string

record presign_result =
  pr_UploadURL :: string
  pr_PublicURL :: string
  pr_FileName :: string
  pr_Key :: string
  pr_Expires :: int

definition New_upload :: "cos_config \<Rightarrow> upload_service res" where
  "New_upload cfg =
     (if co_SecretID cfg = [] \<or> co_SecretKey cfg = [] \<or> co_Bucket cfg = [] \<or> co_Region cfg = []
      then Inl (ErrMsg ''COS_SECRET_ID, COS_SECRET_KEY, COS_BUCKET, and COS_REGION are required'')
      else Inr \<lparr>up_secretID = co_SecretID cfg, up_secretKey = co_SecretKey cfg, up_bucket = co_Bucket cfg,
                up_region = co_Region cfg, up_domain = co_Domain cfg\<rparr>)"

definition hmacSHA1 :: "digest_lib \<Rightarrow> string \<Rightarrow> string \<Rightarrow> string" where
  "hmacSHA1 dl key data = hex_encode (dl_hmac_sha1 dl (str_bytes key) (str_bytes data))"

definition sha1Hex :: "digest_lib \<Rightarrow> string \<Rightarrow> string" where
  "sha1Hex dl data = hex_encode (dl_sha1 dl (str_bytes data))"

definition extension :: "string \<Rightarrow> string" where
  "extension mimeType =
     (let m = to_lower mimeType in
      if m \<in> {''jpg'', ''jpeg'', ''image/jpeg''} then ''.jpg''
      else if m \<in> {''gif'', ''image/gif''} then ''.gif''
      else if m \<in> {''webp'', ''image/webp''} then ''.webp''
      else if m \<in> {''svg'', ''image/svg+xml''} then ''.svg''
      else ''.png'')"

definition randomFileName :: "bytes option \<Rightarrow> string \<Rightarrow> string res" where
  "randomFileName random mimeType =
     (case random of
        None \<Rightarrow> Inl (Wrap ''generate file name'' (ErrMsg ''rand''))
      | Some b \<Rightarrow> Inr (hex_encode b @ extension mimeType))"

definition line_feed :: string where "line_feed = [CHR 0x0A]"

definition presignedPutURL :: "digest_lib \<Rightarrow> upload_service \<Rightarrow> int \<Rightarrow> string \<Rightarrow> int \<Rightarrow> string" where
  "presignedPutURL dl s start key end_time =
     (let host = up_bucket s @ ''.cos.'' @ up_region s @ ''.myqcloud.com'';
          path = ''/'' @ key;
          keyTime = show_int start @ '';'' @ show_int end_time;
          signKey = hmacSHA1 dl (up_secretKey s) keyTime;
          formatString = ''put'' @ line_feed @ path @ line_feed @ line_feed @ line_feed;
          stringToSign = ''sha1'' @ line_feed @ keyTime @ line_feed @ sha1Hex dl formatString @ line_feed;
          signature = hmacSHA1 dl signKey stringToSign;
          query = [(''q-sign-algorithm'', ''sha1''), (''q-ak'', up_secretID s), (''q-sign-time'', keyTime),
                   (''q-key-time'', keyTime), (''q-header-list'', ''''), (''q-url-param-list'', ''''), (''q-signature'', signature)]
      in ''https://'' @ host @ path @ ''?'' @ query_encode query)"

definition publicURL :: "upload_service \<Rightarrow> string \<Rightarrow> string" where
  "publicURL s key =
     (if up_domain s \<noteq> [] then trim_suffix (up_domain s) ''/'' @ ''/'' @ key
      else ''https://'' @ up_bucket s @ ''.cos.'' @ up_region s @ ''.myqcloud.com/'' @ key)"

text \<open>The two readings of the clock are in seconds; an hour is added to the first.\<close>

definition Presign ::
  "digest_lib \<Rightarrow> upload_service \<Rightarrow> bytes option \<Rightarrow> (nat \<Rightarrow> int) \<Rightarrow> string \<Rightarrow> string \<Rightarrow> int \<Rightarrow> presign_result res" where
  "Presign dl s random clock folder mimeType chainID =
     (if folder = [] then Inl (ErrMsg ''folder is required'')
      else if chainID < 1 then Inl (ErrMsg ''chainId must be positive'')
      else rbind (randomFileName random mimeType) (\<lambda>fileName.
        let key = folder @ ''/'' @ show_int chainID @ ''/'' @ fileName;
            expiresAt = clock 0 + 3600
        in Inr \<lparr>pr_UploadURL = presignedPutURL dl s (clock 1) key expiresAt, pr_PublicURL = publicURL s key,
                pr_FileName = fileName, pr_Key = key, pr_Expires = expiresAt\<rparr>))"

definition Confirm_upload :: "unit res" where
  "Confirm_upload = Inr ()"

section \<open>Keys of objects\<close>

lemma extension_cases: "extension m \<in> {''.jpg'', ''.gif'', ''.webp'', ''.svg'', ''.png''}"
  by (simp add: extension_def Let_def)

lemma extension_no_slash: "CHR ''/'' \<notin> set (extension m)"
  using extension_cases [of m] by auto

lemma hex_digit_no_slash: "hex_digit n \<noteq> CHR ''/''"
proof -
  have "list_all (\<lambda>k. ''0123456789abcdef'' ! k \<noteq> CHR ''/'') [0..<16]" by code_simp
  moreover have "n mod 16 < 16" by simp
  ultimately show ?thesis by (simp add: hex_digit_def list_all_iff)
qed

lemma hex_no_slash: "CHR ''/'' \<notin> set (hex_encode bs)"
  using hex_digit_no_slash by (auto simp: hex_encode_def hex_byte_def dest: sym)

lemma show_int_no_slash: "CHR ''/'' \<notin> set (show_int n)"
proof -
  have "CHR ''/'' \<notin> set (show_nat k)" for k
    using show_nat_digits [of k] by (auto simp: is_digit_def)
  then show ?thesis by (simp add: show_int_def)
qed



end
