(* ===== verification/GrpcApi.thy ===== *)
theory GrpcApi
  imports Auth TokenCreation TokenRead Upload
begin

text \<open>
  The gRPC boundary of the rebuild: the authentication, token creation and upload services
  (grpcapi/auth.go, token_creation.go, upload.go, server.go) and the clients the REST process
  uses for them (grpcclient).  Messages are records; a handler returns a status or a message.
\<close>

section \<open>Authentication\<close>

text \<open>The values of the metadata key \<open>authorization\<close>, of which only the first is read.\<close>

definition grpc_bearerClaims :: "jwt_lib \<Rightarrow> int \<Rightarrow> string list \<Rightarrow> grpc_status + claims" where
  "grpc_bearerClaims jwt now values =
     (case values of
        [] \<Rightarrow> Inl (Unauthenticated, ''missing bearer token'')
      | v # _ \<Rightarrow>
        if \<not> has_prefix v ''Bearer '' \<or> length v = length ''Bearer '' then Inl (Unauthenticated, ''invalid bearer token'')
        else (case ParseToken jwt now (trim_prefix v ''Bearer '') of
                Inl e \<Rightarrow> Inl (Unauthenticated, err_text e)
              | Inr c \<Rightarrow> Inr c))"

definition authStatus :: "err \<Rightarrow> grpc_status" where
  "authStatus e =
     (if errors_is e ErrInvalidAddress then (InvalidArgument, err_text e)
      else if errors_is e ErrInvalidSignature \<or> errors_is e ErrInvalidNonce \<or> errors_is e ErrInvalidSIWE
      then (Unauthenticated, err_text e)
      else (Internal, ''authentication failed''))"

record user_message =
  um_Id :: int
  um_Address :: string
  um_Username :: string
  um_CreatedAt :: timestamp
  um_UpdatedAt :: timestamp

definition userMessage :: "user \<Rightarrow> user_message" where
  "userMessage u = \<lparr>um_Id = us_ID u, um_Address = us_Address u, um_Username = us_Username u,
     um_CreatedAt = timestamp_New (us_CreatedAt u), um_UpdatedAt = timestamp_New (us_UpdatedAt u)\<rparr>"

record sign_message_response =
  sr_Message :: string
  sr_Nonce :: string
  sr_ExpiresAt :: timestamp

record wallet_login_response =
  wl_Token :: string
  wl_User :: user_message
  wl_ExpiresAt :: timestamp

record current_user_response =
  cu_UserId :: int
  cu_Address :: string
  cu_IssuedAt :: timestamp
  cu_ExpiresAt :: timestamp

definition unix_timestamp :: "int \<Rightarrow> timestamp" where
  "unix_timestamp s = \<lparr>ts_seconds = s, ts_nanos = 0\<rparr>"

definition RequestSignMessage ::
  "eth_lib \<Rightarrow> siwe_config \<Rightarrow> 's challenge_store_ops \<Rightarrow> bytes option \<Rightarrow> (nat \<Rightarrow> int) \<Rightarrow> string \<Rightarrow> 's
     \<Rightarrow> (grpc_status + sign_message_response) \<times> 's" where
  "RequestSignMessage lib siwe ops random clock req_Address s =
     (case RequestMessage lib siwe ops random clock req_Address s of
        (Inl e, s') \<Rightarrow> (Inl (authStatus e), s')
      | (Inr result, s') \<Rightarrow>
          (Inr \<lparr>sr_Message = sm_Message result, sr_Nonce = sm_Nonce result, sr_ExpiresAt = unix_timestamp (sm_Expires result)\<rparr>, s'))"

definition WalletLogin_grpc ::
  "eth_lib \<Rightarrow> jwt_lib \<Rightarrow> siwe_config \<Rightarrow> 's challenge_store_ops \<Rightarrow> 'u user_store_ops \<Rightarrow> (nat \<Rightarrow> int)
     \<Rightarrow> string \<Rightarrow> string \<Rightarrow> 's \<times> 'u \<Rightarrow> (grpc_status + wallet_login_response) \<times> 's \<times> 'u" where
  "WalletLogin_grpc lib jwt siwe ops uo clock req_Address req_Signature s =
     (case Login lib jwt siwe ops uo clock req_Address req_Signature s of
        (Inl e, s') \<Rightarrow> (Inl (authStatus e), s')
      | (Inr result, s') \<Rightarrow>
          (Inr \<lparr>wl_Token = lr_Token result, wl_User = userMessage (lr_User result),
                wl_ExpiresAt = unix_timestamp (lr_Expires result)\<rparr>, s'))"

definition GetCurrentUser :: "jwt_lib \<Rightarrow> int \<Rightarrow> string list \<Rightarrow> grpc_status + current_user_response" where
  "GetCurrentUser jwt now values =
     (case grpc_bearerClaims jwt now values of
        Inl st \<Rightarrow> Inl st
      | Inr c \<Rightarrow> Inr \<lparr>cu_UserId = cl_UserID c, cu_Address = cl_Address c, cu_IssuedAt = unix_timestamp (cl_IssuedAt c),
                      cu_ExpiresAt = unix_timestamp (cl_ExpiresAt c)\<rparr>)"

section \<open>Token creation\<close>

text \<open>
  The interface \<open>TokenCreator\<close>; its first argument is the bearer token of the context, which
  the client sends on.
\<close>

record 's token_creator_ops =
  tcr_Create :: "string option \<Rightarrow> create_request \<Rightarrow> 's \<Rightarrow> create_response res \<times> 's"

definition local_creator :: "eth_lib \<Rightarrow> creator_config \<Rightarrow> bytes option \<Rightarrow> int \<Rightarrow> creation_db token_creator_ops" where
  "local_creator lib cfg random now = \<lparr>tcr_Create = (\<lambda>_. Create_token lib cfg random now)\<rparr>"

text \<open>The bearer token of a context, when it is not empty (auth/context.go).\<close>

definition BearerTokenFromContext :: "string option \<Rightarrow> string option" where
  "BearerTokenFromContext bearer = (case bearer of Some token \<Rightarrow> if token \<noteq> [] then Some token else None | None \<Rightarrow> None)"

record create_token_message =
  ctm_Name :: string
  ctm_Symbol :: string
  ctm_LaunchTime :: u64
  ctm_InitialBuyPercentage :: u64

definition CreateToken_grpc ::
  "eth_lib \<Rightarrow> jwt_lib \<Rightarrow> int \<Rightarrow> 's token_creator_ops \<Rightarrow> string list \<Rightarrow> create_token_message \<Rightarrow> 's
     \<Rightarrow> (grpc_status + create_response) \<times> 's" where
  "CreateToken_grpc lib jwt now C values request s =
     (case grpc_bearerClaims jwt now values of
        Inl st \<Rightarrow> (Inl st, s)
      | Inr claims \<Rightarrow>
        (case tcr_Create C None
            \<lparr>cq_Name = ctm_Name request, cq_Symbol = ctm_Symbol request, cq_Creator = hex_to_address lib (cl_Address claims),
             cq_LaunchTime = ctm_LaunchTime request, cq_InitialBuyPercentage = ctm_InitialBuyPercentage request\<rparr> s of
           (Inl e, s') \<Rightarrow> (Inl (InvalidArgument, err_text e), s')
         | (Inr result, s') \<Rightarrow> (Inr result, s')))"

definition remote_Create ::
  "eth_lib \<Rightarrow> jwt_lib \<Rightarrow> int \<Rightarrow> 's token_creator_ops \<Rightarrow> string option \<Rightarrow> create_request \<Rightarrow> 's \<times> bool list
     \<Rightarrow> create_response res \<times> 's \<times> bool list" where
  "remote_Create lib jwt now C bearer request s =
     (case BearerTokenFromContext bearer of
        None \<Rightarrow> (Inl (ErrMsg ''bearer token is required for internal token creation''), s)
      | Some token \<Rightarrow>
        (case call_rpc (CreateToken_grpc lib jwt now C [''Bearer '' @ token]
              \<lparr>ctm_Name = cq_Name request, ctm_Symbol = cq_Symbol request, ctm_LaunchTime = cq_LaunchTime request,
               ctm_InitialBuyPercentage = cq_InitialBuyPercentage request\<rparr>) s of
           (Inl st, s') \<Rightarrow> (Inl (Wrap ''create token over internal gRPC'' (RpcFault (snd st))), s')
         | (Inr response, s') \<Rightarrow> (Inr response, s')))"

definition remote_creator :: "eth_lib \<Rightarrow> jwt_lib \<Rightarrow> int \<Rightarrow> 's token_creator_ops \<Rightarrow> ('s \<times> bool list) token_creator_ops" where
  "remote_creator lib jwt now C = \<lparr>tcr_Create = remote_Create lib jwt now C\<rparr>"

section \<open>Uploads\<close>

datatype image_kind = KindUnspecified | KindTokenLogo | KindTokenBanner | KindActivityImage

fun imageFolder :: "image_kind \<Rightarrow> grpc_status + string" where
  "imageFolder KindTokenLogo = Inr ''token-logo''"
| "imageFolder KindTokenBanner = Inr ''token-banner''"
| "imageFolder KindActivityImage = Inr ''activity-image''"
| "imageFolder KindUnspecified = Inl (InvalidArgument, ''image kind is required'')"

definition imageKind :: "string \<Rightarrow> image_kind res" where
  "imageKind folder =
     (if folder = ''token-logo'' then Inr KindTokenLogo
      else if folder = ''token-banner'' then Inr KindTokenBanner
      else if folder = ''activity-image'' then Inr KindActivityImage
      else Inl (ErrMsg (''unsupported upload folder '' @ [CHR 0x22] @ folder @ [CHR 0x22])))"

record 's presigner_ops =
  ps_Presign :: "string option \<Rightarrow> string \<Rightarrow> string \<Rightarrow> int \<Rightarrow> 's \<Rightarrow> presign_result res \<times> 's"
  ps_Confirm :: "string option \<Rightarrow> 's \<Rightarrow> unit res \<times> 's"

definition local_presigner :: "digest_lib \<Rightarrow> upload_service \<Rightarrow> bytes option \<Rightarrow> (nat \<Rightarrow> int) \<Rightarrow> 's presigner_ops" where
  "local_presigner dl sv random clock =
     \<lparr>ps_Presign = (\<lambda>_ folder mimeType chainID s. (Presign dl sv random clock folder mimeType chainID, s)),
      ps_Confirm = (\<lambda>_ s. (Confirm_upload, s))\<rparr>"

record presign_image_response =
  pi_UploadUrl :: string
  pi_PublicUrl :: string
  pi_FileName :: string
  pi_Key :: string
  pi_ExpiresAt :: "timestamp option"

definition PresignImage ::
  "jwt_lib \<Rightarrow> int \<Rightarrow> 's presigner_ops \<Rightarrow> string list \<Rightarrow> image_kind \<Rightarrow> string \<Rightarrow> int option \<Rightarrow> 's
     \<Rightarrow> (grpc_status + presign_image_response) \<times> 's" where
  "PresignImage jwt now P values kind req_MimeType req_ChainId s =
     (case grpc_bearerClaims jwt now values of
        Inl st \<Rightarrow> (Inl st, s)
      | Inr _ \<Rightarrow>
        (case imageFolder kind of
           Inl st \<Rightarrow> (Inl st, s)
         | Inr folder \<Rightarrow>
           (let mimeType = (if req_MimeType = [] then ''image/png'' else req_MimeType);
                chainID = (case req_ChainId of None \<Rightarrow> 97 | Some n \<Rightarrow> n)
            in if chainID < 1 then (Inl (InvalidArgument, ''chain_id must be positive''), s)
               else (case ps_Presign P None folder mimeType chainID s of
                 (Inl e, s') \<Rightarrow> (Inl (InvalidArgument, err_text e), s')
               | (Inr result, s') \<Rightarrow>
                   (Inr \<lparr>pi_UploadUrl = pr_UploadURL result, pi_PublicUrl = pr_PublicURL result, pi_FileName = pr_FileName result,
                         pi_Key = pr_Key result, pi_ExpiresAt = Some (unix_timestamp (pr_Expires result))\<rparr>, s')))))"

definition ConfirmUpload :: "jwt_lib \<Rightarrow> int \<Rightarrow> 's presigner_ops \<Rightarrow> string list \<Rightarrow> 's \<Rightarrow> (grpc_status + bool) \<times> 's" where
  "ConfirmUpload jwt now P values s =
     (case grpc_bearerClaims jwt now values of
        Inl st \<Rightarrow> (Inl st, s)
      | Inr _ \<Rightarrow>
        (case ps_Confirm P None s of
           (Inl e, s') \<Rightarrow> (Inl (Internal, ''failed to confirm upload''), s')
         | (Inr _, s') \<Rightarrow> (Inr True, s')))"

definition remote_Presign ::
  "jwt_lib \<Rightarrow> int \<Rightarrow> 's presigner_ops \<Rightarrow> string option \<Rightarrow> string \<Rightarrow> string \<Rightarrow> int \<Rightarrow> 's \<times> bool list
     \<Rightarrow> presign_result res \<times> 's \<times> bool list" where
  "remote_Presign jwt now P bearer folder mimeType chainID s =
     (case BearerTokenFromContext bearer of
        None \<Rightarrow> (Inl (ErrMsg ''bearer token is required for internal upload presigning''), s)
      | Some token \<Rightarrow>
        (case imageKind folder of
           Inl e \<Rightarrow> (Inl e, s)
         | Inr kind \<Rightarrow>
           if chainID < 1 \<or> chainID > max_int32 then (Inl (ErrMsg ''chain ID exceeds gRPC range''), s)
           else (case call_rpc (PresignImage jwt now P [''Bearer '' @ token] kind mimeType (Some (to_int32 chainID))) s of
             (Inl st, s') \<Rightarrow> (Inl (Wrap ''presign upload over internal gRPC'' (RpcFault (snd st))), s')
           | (Inr response, s') \<Rightarrow>
             (case pi_ExpiresAt response of
                None \<Rightarrow> (Inr \<lparr>pr_UploadURL = pi_UploadUrl response, pr_PublicURL = pi_PublicUrl response,
                    pr_FileName = pi_FileName response, pr_Key = pi_Key response, pr_Expires = 0\<rparr>, s')
              | Some ts \<Rightarrow>
                if \<not> timestamp_valid ts then (Inl (Wrap ''internal gRPC returned an invalid upload expiry'' (ErrMsg ''timestamp'')), s')
                else (Inr \<lparr>pr_UploadURL = pi_UploadUrl response, pr_PublicURL = pi_PublicUrl response,
                    pr_FileName = pi_FileName response, pr_Key = pi_Key response, pr_Expires = ts_seconds ts\<rparr>, s')))))"

definition remote_Confirm ::
  "jwt_lib \<Rightarrow> int \<Rightarrow> 's presigner_ops \<Rightarrow> string option \<Rightarrow> 's \<times> bool list \<Rightarrow> unit res \<times> 's \<times> bool list" where
  "remote_Confirm jwt now P bearer s =
     (case BearerTokenFromContext bearer of
        None \<Rightarrow> (Inl (ErrMsg ''bearer token is required for internal upload confirmation''), s)
      | Some token \<Rightarrow>
        (case call_rpc (ConfirmUpload jwt now P [''Bearer '' @ token]) s of
           (Inl st, s') \<Rightarrow> (Inl (Wrap ''confirm upload over internal gRPC'' (RpcFault (snd st))), s')
         | (Inr ok, s') \<Rightarrow>
             (if \<not> ok then Inl (ErrMsg ''internal upload confirmation was rejected'') else Inr (), s')))"

definition remote_presigner :: "jwt_lib \<Rightarrow> int \<Rightarrow> 's presigner_ops \<Rightarrow> ('s \<times> bool list) presigner_ops" where
  "remote_presigner jwt now P = \<lparr>ps_Presign = remote_Presign jwt now P, ps_Confirm = remote_Confirm jwt now P\<rparr>"

section \<open>Registration and health\<close>

text \<open>
  Which services \<open>NewServer\<close> registers, given which dependencies are set: tokens, auth, the two
  token parsers, creation and uploads.
\<close>

record dependencies =
  dp_Tokens :: bool
  dp_Auth :: bool
  dp_TokenCreationAuth :: bool
  dp_TokenCreation :: bool
  dp_UploadAuth :: bool
  dp_Uploads :: bool

definition NewServer :: "dependencies \<Rightarrow> string list" where
  "NewServer d =
     [''health''] @ (if dp_Tokens d then [''token''] else []) @ (if dp_Auth d then [''auth''] else [])
     @ (if (dp_TokenCreationAuth d \<or> dp_Auth d) \<and> dp_TokenCreation d then [''tokencreation''] else [])
     @ (if (dp_UploadAuth d \<or> dp_Auth d) \<and> dp_Uploads d then [''upload''] else []) @ [''reflection'']"

datatype serving_status = Serving | NotServing

definition CheckHealth :: "(string \<Rightarrow> grpc_status + serving_status) \<Rightarrow> string \<Rightarrow> unit res" where
  "CheckHealth check service =
     (case check service of
        Inl st \<Rightarrow> Inl (Wrap ''check internal gRPC health'' (RpcFault (snd st)))
      | Inr Serving \<Rightarrow> Inr ()
      | Inr NotServing \<Rightarrow> Inl (ErrMsg ''internal gRPC service is NOT_SERVING''))"

section \<open>The remote services refine the local ones\<close>

lemma bearer_first: "token \<noteq> [] \<Longrightarrow> grpc_bearerClaims jwt now [''Bearer '' @ token] =
    (case ParseToken jwt now token of Inl e \<Rightarrow> Inl (Unauthenticated, err_text e) | Inr c \<Rightarrow> Inr c)"
  unfolding grpc_bearerClaims_def by (simp del: append.simps)

lemma remote_Create_live:
  assumes "token \<noteq> []" and "ParseToken jwt now token = Inr claims" and "cq_Creator request = hex_to_address lib (cl_Address claims)"
  shows "remote_Create lib jwt now C (Some token) request (s, []) =
    (case tcr_Create C None request s of
       (Inl e, s') \<Rightarrow> (Inl (Wrap ''create token over internal gRPC'' (RpcFault (err_text e))), s', [])
     | (Inr r, s') \<Rightarrow> (Inr r, s', []))"
proof -
  have "\<lparr>cq_Name = cq_Name request, cq_Symbol = cq_Symbol request, cq_Creator = hex_to_address lib (cl_Address claims),
      cq_LaunchTime = cq_LaunchTime request, cq_InitialBuyPercentage = cq_InitialBuyPercentage request\<rparr> = request"
    using assms(3) by simp
  then show ?thesis
    unfolding remote_Create_def CreateToken_grpc_def call_rpc_def BearerTokenFromContext_def
    using bearer_first [OF assms(1), of jwt now] assms(1,2)
    by (simp split: prod.split sum.split del: append.simps)
qed

lemma imageKind_folder: "imageKind folder = Inr kind \<Longrightarrow> imageFolder kind = Inr folder"
  by (auto simp: imageKind_def split: if_splits)

end
