(* ===== verification/Security.thy ===== *)
theory Security
  imports Config GrpcApi
begin

text \<open>
  Transport security between the processes of the rebuild, grpcsecurity/security.go: when
  plaintext is allowed, which credentials a client uses, and how a server authorizes the
  identity of a client certificate.  The functions of the package net that decide what a
  loopback target is are written out first.
\<close>

section \<open>Network addresses\<close>

text \<open>\<open>net.SplitHostPort\<close>: the text before the last colon, possibly in brackets, and after it.\<close>

definition last_colon :: "string \<Rightarrow> (string \<times> string) option" where
  "last_colon s =
     (let after = takeWhile (\<lambda>c. c \<noteq> CHR '':'') (rev s) in
      if CHR '':'' \<in> set s then Some (take (length s - length after - 1) s, rev after) else None)"

definition SplitHostPort :: "string \<Rightarrow> (string \<times> string) option" where
  "SplitHostPort hostport =
     (case last_colon hostport of
        None \<Rightarrow> None
      | Some (before, port) \<Rightarrow>
        if take 1 hostport = ''['' then
          (let host = takeWhile (\<lambda>c. c \<noteq> CHR '']'') (drop 1 hostport) in
           if before \<noteq> ''['' @ host @ '']'' \<or> CHR ''['' \<in> set host \<or> CHR ''['' \<in> set port \<or> CHR '']'' \<in> set port then None
           else Some (host, port))
        else if CHR '':'' \<in> set before \<or> CHR ''['' \<in> set hostport \<or> CHR '']'' \<in> set hostport then None
        else Some (before, port))"

text \<open>\<open>net.ParseIP\<close>: four decimal fields, or groups of hexadecimal digits with one ellipsis.\<close>

definition ipv4_field :: "string \<Rightarrow> u8 option" where
  "ipv4_field s =
     (if all_digits s \<and> (length s = 1 \<or> hd s \<noteq> CHR ''0'') \<and> read_nat s \<le> 255 then Some (word_of_nat (read_nat s)) else None)"

definition parse_ipv4 :: "string \<Rightarrow> bytes option" where
  "parse_ipv4 s =
     (case map ipv4_field (split_on (CHR ''.'') s) of
        [Some a, Some b, Some c, Some d] \<Rightarrow> Some [a, b, c, d]
      | _ \<Rightarrow> None)"

definition hex_group :: "string \<Rightarrow> bytes" where
  "hex_group ds = be_bytes 2 (foldl (\<lambda>v c. 16 * v + (case hex_value c of Some x \<Rightarrow> x | None \<Rightarrow> 0)) 0 ds)"

text \<open>The loop over the groups: the bytes so far, where the ellipsis was, the rest.\<close>

fun ipv6_groups :: "nat \<Rightarrow> bytes \<Rightarrow> nat option \<Rightarrow> string \<Rightarrow> (bytes \<times> nat option \<times> string) option" where
  "ipv6_groups 0 ip ellipsis s = Some (ip, ellipsis, s)"
| "ipv6_groups (Suc n) ip ellipsis s =
     (let ds = takeWhile (\<lambda>c. hex_value c \<noteq> None) s; rest = drop (length ds) s; ip' = ip @ hex_group ds in
      if ds = [] \<or> length ds > 4 then None
      else case rest of
        [] \<Rightarrow> Some (ip', ellipsis, [])
      | c # s1 \<Rightarrow>
        if c = CHR ''.'' then
          (if (ellipsis = None \<and> length ip \<noteq> 12) \<or> length ip + 4 > 16 then None
           else case parse_ipv4 s of None \<Rightarrow> None | Some v4 \<Rightarrow> Some (ip @ v4, ellipsis, []))
        else if c \<noteq> CHR '':'' then None
        else (case s1 of
            [] \<Rightarrow> None
          | d # s2 \<Rightarrow>
            if d = CHR '':'' then
              (if ellipsis \<noteq> None then None
               else if s2 = [] then Some (ip', Some (length ip'), [])
               else ipv6_groups n ip' (Some (length ip')) s2)
            else ipv6_groups n ip' ellipsis s1))"

definition parse_ipv6 :: "string \<Rightarrow> bytes option" where
  "parse_ipv6 s =
     (if s = ''::'' then Some (replicate 16 0)
      else case (if take 2 s = ''::'' then ipv6_groups 8 [] (Some 0) (drop 2 s) else ipv6_groups 8 [] None s) of
        None \<Rightarrow> None
      | Some (ip, ellipsis, rest) \<Rightarrow>
        if rest \<noteq> [] then None
        else if length ip < 16 then
          (case ellipsis of None \<Rightarrow> None | Some e \<Rightarrow> Some (take e ip @ replicate (16 - length ip) 0 @ drop e ip))
        else if ellipsis \<noteq> None then None else Some ip)"

definition ParseIP :: "string \<Rightarrow> bytes option" where
  "ParseIP s =
     (if CHR ''%'' \<in> set s then None
      else case dropWhile (\<lambda>c. c \<notin> {CHR ''.'', CHR '':''}) s of
        [] \<Rightarrow> None
      | c # _ \<Rightarrow> if c = CHR ''.'' then parse_ipv4 s else parse_ipv6 s)"

definition To4 :: "bytes \<Rightarrow> bytes option" where
  "To4 ip = (if length ip = 4 then Some ip
     else if length ip = 16 \<and> take 12 ip = replicate 10 0 @ [0xFF, 0xFF] then Some (drop 12 ip) else None)"

definition IsLoopback :: "bytes \<Rightarrow> bool" where
  "IsLoopback ip = (case To4 ip of Some v4 \<Rightarrow> v4 ! 0 = 127 | None \<Rightarrow> ip = replicate 15 0 @ [1])"

text \<open>
  \<open>strings.EqualFold(host, "localhost")\<close>: besides the upper-case letters only U+017F, the
  long s, folds to a letter of the word; in UTF-8 it is two bytes.
\<close>

fun unlong :: "string \<Rightarrow> string" where
  "unlong (c # d # s) = (if c = CHR 0xC5 \<and> d = CHR 0xBF then CHR ''s'' # unlong s else c # unlong (d # s))"
| "unlong s = s"

definition is_localhost :: "string \<Rightarrow> bool" where
  "is_localhost host = (to_lower (unlong host) = ''localhost'')"

definition local_host :: "string \<Rightarrow> bool" where
  "local_host host = (is_localhost host \<or> (case ParseIP host of Some ip \<Rightarrow> IsLoopback ip | None \<Rightarrow> False))"

definition IsLoopbackTarget :: "string \<Rightarrow> bool" where
  "IsLoopbackTarget target = (case SplitHostPort target of None \<Rightarrow> False | Some (host, port) \<Rightarrow> local_host host)"

section \<open>Certificates and files\<close>

text \<open>
  The file system and the parsers of certificates: \<open>fs_key_pair\<close> is \<open>LoadX509KeyPair\<close> of two
  files, \<open>fs_read\<close> is \<open>os.ReadFile\<close>, \<open>fs_pem_certs\<close> says whether a text holds a certificate.
\<close>

record file_world =
  fs_read :: "string \<Rightarrow> string option"
  fs_pem_certs :: "string \<Rightarrow> bool"
  fs_key_pair :: "string \<Rightarrow> string \<Rightarrow> bool"

definition certificatePool :: "file_world \<Rightarrow> string \<Rightarrow> string res" where
  "certificatePool fs path =
     (case fs_read fs path of
        None \<Rightarrow> Inl (ErrMsg (''open '' @ path))
      | Some pemBytes \<Rightarrow> if \<not> fs_pem_certs fs pemBytes then Inl (ErrMsg (''no certificates found in '' @ path)) else Inr pemBytes)"

text \<open>A server either accepts plaintext or demands a certificate of a pool and an identity of a list.\<close>

datatype server_options = NoOptions | MutualTLS string "string list"

definition ServerOptions :: "file_world \<Rightarrow> grpc_tls_config \<Rightarrow> server_options res" where
  "ServerOptions fs cfg =
     (if \<not> grpc_tls_Enabled cfg then Inr NoOptions
      else if \<not> fs_key_pair fs (gt_CertFile cfg) (gt_KeyFile cfg) then Inl (Wrap ''load gRPC server certificate'' (ErrMsg ''key pair''))
      else rbind (wrap_err ''load gRPC client CA'' (certificatePool fs (gt_ClientCAFile cfg))) (\<lambda>clientCAs.
      Inr (MutualTLS clientCAs (gt_AllowedClientIDs cfg))))"

text \<open>Plaintext, or TLS with the pool of roots, the own certificate and key, and the expected name.\<close>

datatype transport = Plaintext | TLS string string string string

definition ClientCredentials :: "file_world \<Rightarrow> client_tls_config \<Rightarrow> transport res" where
  "ClientCredentials fs cfg =
     (let configured = count_set [ct_CAFile cfg, ct_CertFile cfg, ct_KeyFile cfg, ct_ServerName cfg] in
      if configured = 0 then Inr Plaintext
      else if configured \<noteq> 4
      then Inl (ErrMsg ''INTERNAL_GRPC_CA_FILE, INTERNAL_GRPC_CERT_FILE, INTERNAL_GRPC_KEY_FILE, and INTERNAL_GRPC_SERVER_NAME must be set together'')
      else if \<not> fs_key_pair fs (ct_CertFile cfg) (ct_KeyFile cfg) then Inl (Wrap ''load internal gRPC client certificate'' (ErrMsg ''key pair''))
      else rbind (wrap_err ''load internal gRPC server CA'' (certificatePool fs (ct_CAFile cfg))) (\<lambda>rootCAs.
      Inr (TLS rootCAs (ct_CertFile cfg) (ct_KeyFile cfg) (ct_ServerName cfg))))"

section \<open>Client identities\<close>

record certificate =
  ce_URIs :: "string list"
  ce_CommonName :: string

text \<open>The peer of a call: none, without or with other authentication, or verified by TLS.\<close>

datatype peer = NoPeer | NoAuthInfo | OtherAuth | TLSPeer "certificate list"

definition clientCertificate :: "peer \<Rightarrow> certificate option" where
  "clientCertificate p = (case p of TLSPeer (c # _) \<Rightarrow> Some c | _ \<Rightarrow> None)"

definition certificateIdentities :: "certificate \<Rightarrow> string list" where
  "certificateIdentities c = ce_URIs c @ (if ce_CommonName c \<noteq> [] then [ce_CommonName c] else [])"

definition identitySet :: "string list \<Rightarrow> string \<Rightarrow> bool" where
  "identitySet identities = (\<lambda>i. i \<in> set identities)"

definition authorizeClient :: "peer \<Rightarrow> (string \<Rightarrow> bool) \<Rightarrow> grpc_status + unit" where
  "authorizeClient p allowed =
     (case clientCertificate p of
        None \<Rightarrow> Inl (Unauthenticated, ''verified client certificate is required'')
      | Some c \<Rightarrow> if list_ex allowed (certificateIdentities c) then Inr ()
                  else Inl (PermissionDenied, ''client service identity is not allowed''))"

text \<open>The interceptors, around a handler that may change the state.\<close>

definition RequireClientIdentity ::
  "string list \<Rightarrow> peer \<Rightarrow> ('s \<Rightarrow> (grpc_status + 'a) \<times> 's) \<Rightarrow> 's \<Rightarrow> (grpc_status + 'a) \<times> 's" where
  "RequireClientIdentity allowedIdentities p handler s =
     (case authorizeClient p (identitySet allowedIdentities) of
        Inl st \<Rightarrow> (Inl st, s)
      | Inr _ \<Rightarrow> handler s)"

definition intercept ::
  "server_options \<Rightarrow> peer \<Rightarrow> ('s \<Rightarrow> (grpc_status + 'a) \<times> 's) \<Rightarrow> 's \<Rightarrow> (grpc_status + 'a) \<times> 's" where
  "intercept opts p handler s =
     (case opts of NoOptions \<Rightarrow> handler s | MutualTLS cas ids \<Rightarrow> RequireClientIdentity ids p handler s)"

section \<open>Lemmas\<close>

lemma last_colon_append:
  "CHR '':'' \<notin> set port \<Longrightarrow> last_colon (before @ CHR '':'' # port) = Some (before, port)"
proof -
  assume "CHR '':'' \<notin> set port"
  then have "takeWhile (\<lambda>c. c \<noteq> CHR '':'') (rev port @ CHR '':'' # rev before) = rev port"
    by (induction port rule: rev_induct) auto
  then show ?thesis by (simp add: last_colon_def Let_def)
qed

lemma digits_clean:
  "all_digits s \<Longrightarrow> CHR '':'' \<notin> set s \<and> CHR ''['' \<notin> set s \<and> CHR '']'' \<notin> set s"
  by (auto simp: all_digits_def list_all_iff is_digit_def)

lemma split_join_host_port:
  assumes "CHR ''['' \<notin> set host" and "CHR '']'' \<notin> set host" and "all_digits port"
  shows "SplitHostPort (join_host_port host port) = Some (host, port)"
proof (cases "CHR '':'' \<in> set host \<or> CHR ''%'' \<in> set host")
  case True
  have "last_colon ((''['' @ host @ '']'') @ CHR '':'' # port) = Some (''['' @ host @ '']'', port)"
    by (rule last_colon_append) (use digits_clean assms(3) in blast)
  moreover have "takeWhile (\<lambda>c. c \<noteq> CHR '']'') (host @ '']:'' @ port) = host"
    using assms(2) by (induction host) auto
  ultimately show ?thesis
    using True assms digits_clean [OF assms(3)] by (simp add: join_host_port_def SplitHostPort_def Let_def)
next
  case False
  have "last_colon (host @ CHR '':'' # port) = Some (host, port)"
    by (rule last_colon_append) (use digits_clean assms(3) in blast)
  moreover have "take 1 (host @ '':'' @ port) \<noteq> ''[''" using assms(1) by (cases host) auto
  ultimately show ?thesis
    using False assms digits_clean [OF assms(3)] by (simp add: join_host_port_def SplitHostPort_def)
qed

lemma IsLoopbackTarget_host:
  assumes "CHR ''['' \<notin> set (sv_Host c)" and "CHR '']'' \<notin> set (sv_Host c)" and "port_ok (sv_Port c)"
  shows "IsLoopbackTarget (service_Address c) = local_host (sv_Host c)"
proof -
  have "show_int (sv_Port c) = show_nat (nat (sv_Port c))"
    using assms(3) by (simp add: show_int_def port_ok_def)
  then have "all_digits (show_int (sv_Port c))" by simp
  then show ?thesis
    using split_join_host_port [OF assms(1,2)] by (simp add: IsLoopbackTarget_def service_Address_def)
qed

lemma allowed_identities_nonempty: "[] \<notin> set (allowed_identities v)"
  by (auto simp: allowed_identities_def)

lemma ClientCredentials_TLS:
  "ClientCredentials fs cfg = Inr t \<Longrightarrow> (t = Plaintext) = (\<not> client_tls_Enabled cfg)
    \<and> (\<forall>ca cert key name. t = TLS ca cert key name \<longrightarrow>
        fs_read fs (ct_CAFile cfg) = Some ca \<and> cert = ct_CertFile cfg \<and> key = ct_KeyFile cfg \<and> name = ct_ServerName cfg
        \<and> cert \<noteq> [] \<and> key \<noteq> [] \<and> name \<noteq> [])"
  by (auto simp: ClientCredentials_def count_set_def client_tls_Enabled_def certificatePool_def Let_def rbind_eq_Inr
      split: if_splits option.splits)

end
