(* ===== verification/HttpApi.thy ===== *)
theory HttpApi
  imports GrpcApi
begin

text \<open>
  The HTTP boundary of the rebuild, httpapi/server.go: every handler, over the same services
  and interfaces as the gRPC handlers.  A request is its method, its query parameters (the
  empty text for a missing one), its Authorization header and its body; decoding JSON is a
  parameter.
\<close>

section \<open>Requests and responses\<close>

record http_request =
  rq_Method :: string
  rq_Query :: "string \<Rightarrow> string"
  rq_Authorization :: string
  rq_Body :: string

text \<open>
  A Go error value has no exported field: encoded as JSON it is the empty object, not its
  text.
\<close>

datatype error_json = ErrorText string | ErrorObject

datatype http_body =
    PlainText string
  | ErrorBody error_json
  | TokensBody "token list" int int
  | TokenBody token
  | SignBody sign_message
  | LoginBody login_result
  | ClaimsBody claims
  | CreatedBody create_response
  | PresignedBody presign_result
  | OkBody
  | HealthBody string

record http_response =
  hr_Status :: int
  hr_Body :: http_body

record create_body =
  cb_Name :: string
  cb_Symbol :: string
  cb_LaunchTime :: u64
  cb_InitialBuyPercentage :: u64

record json_lib =
  decode_create :: "string \<Rightarrow> create_body option"
  decode_login :: "string \<Rightarrow> (string \<times> string) option"

definition writeJSON :: "http_body \<Rightarrow> int \<Rightarrow> http_response" where
  "writeJSON value status = \<lparr>hr_Status = status, hr_Body = value\<rparr>"

definition writeError :: "error_json \<Rightarrow> int \<Rightarrow> http_response" where
  "writeError e status = writeJSON (ErrorBody e) status"

definition method_not_allowed :: http_response where
  "method_not_allowed = \<lparr>hr_Status = 405, hr_Body = PlainText ''method not allowed''\<rparr>"

definition bearer_prefix :: string where "bearer_prefix = ''Bearer ''"

definition http_bearerClaims :: "jwt_lib \<Rightarrow> int \<Rightarrow> string \<Rightarrow> http_response + claims" where
  "http_bearerClaims jwt now header =
     (if length header \<le> length bearer_prefix \<or> take (length bearer_prefix) header \<noteq> bearer_prefix
      then Inl (writeError (ErrorText ''missing bearer token'') 401)
      else case ParseToken jwt now (drop (length bearer_prefix) header) of
        Inl e \<Rightarrow> Inl (writeError ErrorObject 401)
      | Inr c \<Rightarrow> Inr c)"

definition raw_token :: "http_request \<Rightarrow> string" where
  "raw_token r = drop (length bearer_prefix) (rq_Authorization r)"

section \<open>Tokens\<close>

definition pagination :: "http_request \<Rightarrow> (error_json + int \<times> int)" where
  "pagination r =
     (let raw_page = rq_Query r ''page''; raw_size = rq_Query r ''pageSize''
      in case (if raw_page = [] then Some 1 else parse_at_least 1 raw_page) of
           None \<Rightarrow> Inl ErrorObject
         | Some page \<Rightarrow>
           (case (if raw_size = [] then Some 20
                  else case parse_at_least 1 raw_size of Some n \<Rightarrow> if n > 100 then None else Some n | None \<Rightarrow> None) of
              None \<Rightarrow> Inl ErrorObject
            | Some n \<Rightarrow> Inr (page, n)))"

definition tokenList :: "'s token_reader_ops \<Rightarrow> http_request \<Rightarrow> 's \<Rightarrow> http_response \<times> 's" where
  "tokenList reader r s =
     (if rq_Method r \<noteq> ''GET'' then (method_not_allowed, s)
      else case pagination r of
        Inl e \<Rightarrow> (writeError e 400, s)
      | Inr (page, n) \<Rightarrow>
        (case tr_List reader n (int64 ((page - 1) * n)) s of
           (Inl e, s') \<Rightarrow> (writeError (ErrorText ''failed to list tokens'') 500, s')
         | (Inr items, s') \<Rightarrow> (writeJSON (TokensBody items page n) 200, s')))"

definition tokenDetail :: "'s token_reader_ops \<Rightarrow> http_request \<Rightarrow> 's \<Rightarrow> http_response \<times> 's" where
  "tokenDetail reader r s =
     (if rq_Method r \<noteq> ''GET'' then (method_not_allowed, s)
      else let address = rq_Query r ''address'' in
        if address = [] then (writeError (ErrorText ''address is required'') 400, s)
        else case tr_FindByAddress reader address s of
          (Inl e, s') \<Rightarrow> (writeError (ErrorText ''token not found'') 404, s')
        | (Inr t, s') \<Rightarrow> (writeJSON (TokenBody t) 200, s'))"

section \<open>Sessions\<close>

definition signMessage ::
  "eth_lib \<Rightarrow> siwe_config \<Rightarrow> 's challenge_store_ops \<Rightarrow> bytes option \<Rightarrow> (nat \<Rightarrow> int) \<Rightarrow> http_request \<Rightarrow> 's
     \<Rightarrow> http_response \<times> 's" where
  "signMessage lib siwe ops random clock r s =
     (if rq_Method r \<noteq> ''GET'' then (method_not_allowed, s)
      else case RequestMessage lib siwe ops random clock (rq_Query r ''address'') s of
        (Inl e, s') \<Rightarrow> (writeError ErrorObject 400, s')
      | (Inr result, s') \<Rightarrow> (writeJSON (SignBody result) 200, s'))"

definition walletLogin ::
  "eth_lib \<Rightarrow> jwt_lib \<Rightarrow> siwe_config \<Rightarrow> json_lib \<Rightarrow> 's challenge_store_ops \<Rightarrow> 'u user_store_ops \<Rightarrow> (nat \<Rightarrow> int)
     \<Rightarrow> http_request \<Rightarrow> 's \<times> 'u \<Rightarrow> http_response \<times> 's \<times> 'u" where
  "walletLogin lib jwt siwe json ops uo clock r s =
     (if rq_Method r \<noteq> ''POST'' then (method_not_allowed, s)
      else case decode_login json (rq_Body r) of
        None \<Rightarrow> (writeError ErrorObject 400, s)
      | Some (address, signature) \<Rightarrow>
        (case Login lib jwt siwe ops uo clock address signature s of
           (Inl e, s') \<Rightarrow> (writeError ErrorObject 401, s')
         | (Inr result, s') \<Rightarrow> (writeJSON (LoginBody result) 200, s')))"

definition currentUser :: "jwt_lib \<Rightarrow> int \<Rightarrow> http_request \<Rightarrow> http_response" where
  "currentUser jwt now r =
     (if rq_Method r \<noteq> ''GET'' then method_not_allowed
      else case http_bearerClaims jwt now (rq_Authorization r) of
        Inl resp \<Rightarrow> resp | Inr claims \<Rightarrow> writeJSON (ClaimsBody claims) 200)"

section \<open>Token creation and uploads\<close>

text \<open>The decoder sees at most the first 16 KiB of the body.\<close>

definition createToken ::
  "eth_lib \<Rightarrow> jwt_lib \<Rightarrow> json_lib \<Rightarrow> int \<Rightarrow> 's token_creator_ops \<Rightarrow> http_request \<Rightarrow> 's \<Rightarrow> http_response \<times> 's" where
  "createToken lib jwt json now creation r s =
     (if rq_Method r \<noteq> ''POST'' then (method_not_allowed, s)
      else case http_bearerClaims jwt now (rq_Authorization r) of
        Inl resp \<Rightarrow> (resp, s)
      | Inr claims \<Rightarrow>
        (case decode_create json (take 16384 (rq_Body r)) of
           None \<Rightarrow> (writeError (ErrorText ''invalid request body'') 400, s)
         | Some b \<Rightarrow>
           (case tcr_Create creation (Some (raw_token r))
               \<lparr>cq_Name = cb_Name b, cq_Symbol = cb_Symbol b, cq_Creator = hex_to_address lib (cl_Address claims),
                cq_LaunchTime = cb_LaunchTime b, cq_InitialBuyPercentage = cb_InitialBuyPercentage b\<rparr> s of
              (Inl e, s') \<Rightarrow> (writeError (ErrorText (err_text e)) 400, s')
            | (Inr result, s') \<Rightarrow> (writeJSON (CreatedBody result) 200, s'))))"

definition presignImage ::
  "jwt_lib \<Rightarrow> int \<Rightarrow> 's presigner_ops \<Rightarrow> string \<Rightarrow> http_request \<Rightarrow> 's \<Rightarrow> http_response \<times> 's" where
  "presignImage jwt now uploads folder r s =
     (if rq_Method r \<noteq> ''GET'' then (method_not_allowed, s)
      else case http_bearerClaims jwt now (rq_Authorization r) of
        Inl resp \<Rightarrow> (resp, s)
      | Inr _ \<Rightarrow>
        (let mimeType = (if rq_Query r ''mimeType'' = [] then ''image/png'' else rq_Query r ''mimeType'');
             raw = rq_Query r ''chainId''
         in case (if raw = [] then Some 97 else parse_at_least 1 raw) of
              None \<Rightarrow> (writeError (ErrorText ''chainId must be positive'') 400, s)
            | Some chainID \<Rightarrow>
              (case ps_Presign uploads (Some (raw_token r)) folder mimeType chainID s of
                 (Inl e, s') \<Rightarrow> (writeError (ErrorText (err_text e)) 400, s')
               | (Inr result, s') \<Rightarrow> (writeJSON (PresignedBody result) 200, s'))))"

definition uploadConfirm :: "jwt_lib \<Rightarrow> int \<Rightarrow> 's presigner_ops \<Rightarrow> http_request \<Rightarrow> 's \<Rightarrow> http_response \<times> 's" where
  "uploadConfirm jwt now uploads r s =
     (if rq_Method r \<noteq> ''POST'' then (method_not_allowed, s)
      else case http_bearerClaims jwt now (rq_Authorization r) of
        Inl resp \<Rightarrow> (resp, s)
      | Inr _ \<Rightarrow>
        (case ps_Confirm uploads (Some (raw_token r)) s of
           (Inl e, s') \<Rightarrow> (writeError (ErrorText ''failed to confirm upload'') 500, s')
         | (Inr _, s') \<Rightarrow> (writeJSON OkBody 200, s')))"

definition health :: "string \<Rightarrow> http_request \<Rightarrow> http_response" where
  "health serviceName r =
     (if rq_Method r \<noteq> ''GET'' then \<lparr>hr_Status = 405, hr_Body = PlainText []\<rparr>
      else writeJSON (HealthBody serviceName) 200)"

text \<open>The routes \<open>NewHandler\<close> registers, given which capabilities are set.\<close>

definition NewHandler :: "bool \<Rightarrow> bool \<Rightarrow> bool \<Rightarrow> bool \<Rightarrow> string list" where
  "NewHandler reader authService creation uploads =
     [''/healthz'']
     @ (if reader then [''/api/v1/token/list'', ''/api/v1/token/detail''] else [])
     @ (if authService then
          [''/api/v1/user/sign-msg'', ''/api/v1/user/wallet-login'', ''/api/v1/user/me'']
          @ (if creation then [''/api/v1/token/create''] else [])
          @ (if uploads then [''/api/v1/file/token-logo-presign'', ''/api/v1/file/token-banner-presign'',
               ''/api/v1/file/activity-image-presign'', ''/api/v1/file/upload-confirm''] else [])
        else [])"

section \<open>Pages\<close>

definition page_request :: "string \<Rightarrow> string \<Rightarrow> http_request" where
  "page_request page n = \<lparr>rq_Method = ''GET'', rq_Query = (\<lambda>k. if k = ''page'' then page else if k = ''pageSize'' then n else []),
     rq_Authorization = [], rq_Body = []\<rparr>"

definition page_items :: "http_response \<Rightarrow> token list" where
  "page_items resp = (case hr_Body resp of TokensBody items _ _ \<Rightarrow> items | _ \<Rightarrow> [])"

definition live_db :: "stored_token list \<Rightarrow> token_db" where
  "live_db rows = \<lparr>td_rows = rows, td_faults = []\<rparr>"

lemma page_request_list:
  assumes "1 \<le> page" and "page < 2 ^ 63" and "1 \<le> n" and "n \<le> 100"
  shows "page_items (fst (tokenList (repo_reader order) (page_request (show_int page) (show_int n)) (live_db rows))) =
    (let off = int64 ((page - 1) * n) in if off < 0 then [] else map scanToken (take (nat n) (drop (nat off) (order rows))))"
proof -
  have ne: "show_int k \<noteq> []" for k by (simp add: show_int_def)
  have p: "parse_at_least 1 (show_int page) = Some page" "parse_at_least 1 (show_int n) = Some n"
    using assms by (simp_all add: parse_at_least_def)
  have "pagination (page_request (show_int page) (show_int n)) = Inr (page, n)"
    using assms(4) by (simp add: pagination_def page_request_def ne p)
  moreover have "rq_Method (page_request (show_int page) (show_int n)) = ''GET''" by (simp add: page_request_def)
  ultimately show ?thesis
    using assms(3) unfolding tokenList_def
    by (simp add: repo_reader_def repo_List_def token_fault_def live_db_def writeJSON_def writeError_def page_items_def Let_def)
qed



text \<open>A page far out of range can come back as the first one.  The handler computes the
  offset in 64 bits without a check: page 4611686018427387905 of 100 tokens answers with the
  first hundred tokens.\<close>

theorem token_list_wraps:
  "page_items (fst (tokenList (repo_reader order) (page_request (show_int 4611686018427387905) (show_int 100)) (live_db rows))) =
   page_items (fst (tokenList (repo_reader order) (page_request (show_int 1) (show_int 100)) (live_db rows)))"
proof -
  have "int64 ((4611686018427387905 - 1) * 100) = 0" by code_simp
  then show ?thesis
    using page_request_list [of 4611686018427387905 100 order rows] page_request_list [of 1 100 order rows]
    by (simp add: Let_def int64_def)
qed

section \<open>Creation for the bearer of the session\<close>

text \<open>The claims of a token are in the token: two verifications agree.\<close>

definition jwt_stable :: "jwt_lib \<Rightarrow> bool" where
  "jwt_stable jwt = (\<forall>alg t1 t2 raw c1 c2. jwt_verify jwt alg t1 raw = Some c1 \<longrightarrow> jwt_verify jwt alg t2 raw = Some c2 \<longrightarrow> c1 = c2)"

lemma http_bearer_ok:
  "http_bearerClaims jwt now h = Inr c \<Longrightarrow> h = ''Bearer '' @ drop 7 h \<and> drop 7 h \<noteq> [] \<and> ParseToken jwt now (drop 7 h) = Inr c"
proof -
  assume a: "http_bearerClaims jwt now h = Inr c"
  have l: "length bearer_prefix = 7" by (simp add: bearer_prefix_def)
  from a have "7 < length h" "take 7 h = bearer_prefix" "ParseToken jwt now (drop 7 h) = Inr c"
    by (auto simp: http_bearerClaims_def l split: if_splits sum.splits)
  then show ?thesis by (metis append_take_drop_id bearer_prefix_def drop_eq_Nil not_le)
qed

text \<open>C6: A token intent is made for the wallet of the session.  When the REST endpoint answers
  with success, through the gRPC client and service that check the session again, the request
  carried a valid bearer token, and exactly one intent was stored, whose creator is the
  address in that token and whose values are those of the answer.\<close>

theorem created_for_bearer:
  assumes "jwt_stable jwt"
    and "createToken lib jwt json now (remote_creator lib jwt later (local_creator lib cfg random time)) r (d, net) = (resp, d', net')"
    and "hr_Status resp = 200"
  shows "\<exists>tok c b answer. rq_Authorization r = ''Bearer '' @ tok \<and> ParseToken jwt now tok = Inr c
    \<and> decode_create json (take 16384 (rq_Body r)) = Some b \<and> hr_Body resp = CreatedBody answer
    \<and> cd_rows d' = cd_rows d @ [Creation_row_of lib
        \<lparr>cq_Name = cb_Name b, cq_Symbol = cb_Symbol b, cq_Creator = hex_to_address lib (cl_Address c),
         cq_LaunchTime = cb_LaunchTime b, cq_InitialBuyPercentage = cb_InitialBuyPercentage b\<rparr> answer]"
proof -
  obtain c b where hb: "http_bearerClaims jwt now (rq_Authorization r) = Inr c"
    and db: "decode_create json (take 16384 (rq_Body r)) = Some b"
    using assms(2,3) by (auto simp: createToken_def method_not_allowed_def http_bearerClaims_def writeError_def writeJSON_def
        split: if_splits sum.splits option.splits)
  let ?tok = "drop 7 (rq_Authorization r)"
  let ?q = "\<lparr>cq_Name = cb_Name b, cq_Symbol = cb_Symbol b, cq_Creator = hex_to_address lib (cl_Address c),
     cq_LaunchTime = cb_LaunchTime b, cq_InitialBuyPercentage = cb_InitialBuyPercentage b\<rparr>"
  note tok = http_bearer_ok [OF hb]
  have "length bearer_prefix = 7" by (simp add: bearer_prefix_def)
  then have raw: "raw_token r = ?tok" by (simp add: raw_token_def)
  obtain answer where ans: "remote_Create lib jwt later (local_creator lib cfg random time) (Some ?tok) ?q (d, net) = (Inr answer, d', net')"
    and body: "hr_Body resp = CreatedBody answer"
    using assms(2,3) hb db unfolding createToken_def raw
    by (auto simp: method_not_allowed_def remote_creator_def writeError_def writeJSON_def split: if_splits sum.splits prod.splits)
  obtain c2 where c2: "ParseToken jwt later ?tok = Inr c2"
    using ans tok bearer_first [of ?tok jwt later]
    by (auto simp: remote_Create_def BearerTokenFromContext_def call_rpc_def CreateToken_grpc_def
        split: list.splits bool.splits prod.splits sum.splits)
  have "c2 = c"
    using assms(1) c2 tok by (auto simp: jwt_stable_def ParseToken_def split: option.splits)
  obtain d1 where "Create_token lib cfg random time ?q d = (Inr answer, d1)" and "d1 = d'"
    using ans tok bearer_first [of ?tok jwt later] c2 \<open>c2 = c\<close>
    by (auto simp: remote_Create_def BearerTokenFromContext_def call_rpc_def CreateToken_grpc_def local_creator_def
        split: list.splits bool.splits prod.splits sum.splits)
  then have "cd_rows d' = cd_rows d @ [Creation_row_of lib ?q answer]"
    using Create_token_ok [of lib cfg random time ?q d answer d'] Creation_Create_ok by blast
  with tok db body show ?thesis by blast
qed

definition bearer_jwt :: jwt_lib where
  "bearer_jwt = \<lparr>jwt_sign = (\<lambda>_. Inl (ErrMsg ''key'')), jwt_verify = (\<lambda>alg now raw.
       if raw = ''t'' then Some \<lparr>cl_UserID = 7, cl_Address = replicate 20 (CHR 0x09), cl_ExpiresAt = 86400, cl_IssuedAt = 0\<rparr> else None),
     url_parse = (\<lambda>_. None)\<rparr>"

definition bearer_json :: json_lib where
  "bearer_json = \<lparr>decode_create = (\<lambda>_. Some \<lparr>cb_Name = ''Token'', cb_Symbol = ''TK'', cb_LaunchTime = 0, cb_InitialBuyPercentage = 5\<rparr>),
     decode_login = (\<lambda>_. None)\<rparr>"

definition create_http_request :: http_request where
  "create_http_request = \<lparr>rq_Method = ''POST'', rq_Query = (\<lambda>_. []), rq_Authorization = ''Bearer t'', rq_Body = ''{}''\<rparr>"

theorem created_for_bearer_witness:
  "\<exists>resp d' net'. createToken creation_lib bearer_jwt bearer_json 0
      (remote_creator creation_lib bearer_jwt 1 (local_creator creation_lib sample_creator (Some [1, 2, 3, 4, 5, 6, 7, 8]) 1700000000))
      create_http_request (\<lparr>cd_rows = [], cd_faults = []\<rparr>, []) = (resp, d', net')
    \<and> hr_Status resp = 200 \<and> length (cd_rows d') = 1"
proof -
  obtain r where c: "Create_token creation_lib sample_creator (Some [1, 2, 3, 4, 5, 6, 7, 8]) 1700000000 sample_request \<lparr>cd_rows = [], cd_faults = []\<rparr> =
      (Inr r, \<lparr>cd_rows = [Creation_row_of creation_lib sample_request r], cd_faults = []\<rparr>)"
    by (rule sample_created)
  have h: "str_bytes (replicate 20 (CHR 0x09)) = replicate 20 9" by code_simp
  have q: "\<lparr>cq_Name = ''Token'', cq_Symbol = ''TK'', cq_Creator = replicate 20 9, cq_LaunchTime = 0, cq_InitialBuyPercentage = 5\<rparr> = sample_request"
    "\<lparr>cq_Name = cq_Name sample_request, cq_Symbol = cq_Symbol sample_request, cq_Creator = replicate 20 9,
      cq_LaunchTime = cq_LaunchTime sample_request, cq_InitialBuyPercentage = cq_InitialBuyPercentage sample_request\<rparr> = sample_request"
    by (simp_all add: sample_request_def)
  have hx: "hex_to_address creation_lib = str_bytes" by (simp add: creation_lib_def sample_lib_def)
  have s: "jwt_stable bearer_jwt" by (simp add: jwt_stable_def bearer_jwt_def)
  have run: "createToken creation_lib bearer_jwt bearer_json 0
      (remote_creator creation_lib bearer_jwt 1 (local_creator creation_lib sample_creator (Some [1, 2, 3, 4, 5, 6, 7, 8]) 1700000000))
      create_http_request (\<lparr>cd_rows = [], cd_faults = []\<rparr>, [])
    = (\<lparr>hr_Status = 200, hr_Body = CreatedBody r\<rparr>, \<lparr>cd_rows = [Creation_row_of creation_lib sample_request r], cd_faults = []\<rparr>, [])"
    unfolding createToken_def remote_creator_def remote_Create_def local_creator_def CreateToken_grpc_def
    by (simp add: create_http_request_def http_bearerClaims_def bearer_prefix_def raw_token_def grpc_bearerClaims_def ParseToken_def
        bearer_jwt_def bearer_json_def hx h q c call_rpc_def BearerTokenFromContext_def has_prefix_def trim_prefix_def writeJSON_def
       )
  show ?thesis using created_for_bearer [OF s run] run by auto
qed

end
