(* ===== verification/App.thy ===== *)
theory App
  imports Security HttpApi
begin

text \<open>
  The composition roots of the rebuild: app/app.go, which builds the API process and its
  connections to the three internal services, database/postgres.go, the loading of the keys of
  auth/jwt_verifier.go and the start of the services in cmd.  Resources are recorded in a
  trace of what was opened and closed.  The lemmas show that nothing is leaked when a start
  fails and that no process speaks or listens in plaintext off the host.
\<close>

section \<open>The world a process starts in\<close>

text \<open>The key parsers answer with the type of key they found.\<close>

datatype parsed_key = Ed25519Key bytes | OtherKey

record world =
  wd_files :: file_world
  wd_pem_block :: "string \<Rightarrow> string option"
  wd_pkcs8 :: "string \<Rightarrow> parsed_key option"
  wd_pkix :: "string \<Rightarrow> parsed_key option"
  wd_pool_config :: "string \<Rightarrow> bool"
  wd_pool_open :: "string \<Rightarrow> bool"
  wd_pool_ping :: "string \<Rightarrow> bool"
  wd_dial :: "string \<Rightarrow> transport \<Rightarrow> bool"
  wd_health :: "string \<Rightarrow> string \<Rightarrow> grpc_status + serving_status"
  wd_listen :: "string \<Rightarrow> bool"

datatype resource = PoolRes | RedisRes string | ConnRes string string transport

datatype event = Opened resource | Closed resource

type_synonym trace = "event list"

fun held_step :: "event \<Rightarrow> resource multiset \<Rightarrow> resource multiset" where
  "held_step (Opened r) h = add_mset r h"
| "held_step (Closed r) h = h - {#r#}"

definition held :: "trace \<Rightarrow> resource multiset" where
  "held tr = fold held_step tr {#}"

lemma held_append [simp]: "held (tr @ events) = fold held_step events (held tr)"
  by (simp add: held_def)

section \<open>PostgreSQL and keys\<close>

definition Open_pool :: "world \<Rightarrow> string \<Rightarrow> trace \<Rightarrow> resource res \<times> trace" where
  "Open_pool w url tr =
     (if \<not> wd_pool_config w url then (Inl (Wrap ''parse database URL'' DbFault), tr)
      else if \<not> wd_pool_open w url then (Inl (Wrap ''open PostgreSQL pool'' DbFault), tr)
      else let tr = tr @ [Opened PoolRes] in
        if \<not> wd_pool_ping w url then (Inl (Wrap ''ping PostgreSQL'' DbFault), tr @ [Closed PoolRes])
        else (Inr PoolRes, tr))"

definition load_key :: "world \<Rightarrow> string \<Rightarrow> (string \<Rightarrow> parsed_key option) \<Rightarrow> string \<Rightarrow> bytes res" where
  "load_key w label parse path =
     (case fs_read (wd_files w) path of
        None \<Rightarrow> Inl (Wrap (''read '' @ label) (ErrMsg path))
      | Some file \<Rightarrow>
        (case wd_pem_block w file of
           None \<Rightarrow> Inl (ErrMsg (label @ '' is not PEM encoded''))
         | Some block \<Rightarrow>
           (case parse block of
              None \<Rightarrow> Inl (Wrap (''parse '' @ label) (ErrMsg path))
            | Some OtherKey \<Rightarrow> Inl (ErrMsg (label @ '' must be Ed25519''))
            | Some (Ed25519Key k) \<Rightarrow> Inr k)))"

definition LoadJWTPrivateKey :: "world \<Rightarrow> string \<Rightarrow> bytes res" where
  "LoadJWTPrivateKey w path = load_key w ''JWT private key'' (wd_pkcs8 w) path"

definition LoadJWTPublicKey :: "world \<Rightarrow> string \<Rightarrow> bytes res" where
  "LoadJWTPublicKey w path = load_key w ''JWT public key'' (wd_pkix w) path"

section \<open>Connections to the services\<close>

text \<open>The common body of the three functions, up to the names in their messages.\<close>

definition connect_service :: "world \<Rightarrow> string \<Rightarrow> string \<Rightarrow> string \<Rightarrow> service_config \<Rightarrow> trace \<Rightarrow> resource res \<times> trace" where
  "connect_service w label label_text serviceName cfg tr =
     (let target = service_Address cfg in
      if \<not> client_tls_Enabled (sv_TLS cfg) \<and> \<not> IsLoopbackTarget target
      then (Inl (ErrMsg (label @ '' mutual TLS is required when '' @ target @ '' is not loopback'')), tr)
      else case ClientCredentials (wd_files w) (sv_TLS cfg) of
        Inl e \<Rightarrow> (Inl (Wrap (''configure '' @ label @ '' gRPC client'') e), tr)
      | Inr credentials \<Rightarrow>
        if \<not> wd_dial w target credentials
        then (Inl (Wrap (''connect to '' @ label_text @ '' at '' @ target) (ErrMsg ''dial'')), tr)
        else
          (let conn = ConnRes label target credentials; tr = tr @ [Opened conn] in
           case CheckHealth (wd_health w target) serviceName of
             Inl e \<Rightarrow> (Inl (Wrap (''verify '' @ label_text @ '' at '' @ target) e), tr @ [Closed conn])
           | Inr _ \<Rightarrow> (Inr conn, tr)))"

definition connectTokenService :: "world \<Rightarrow> service_config \<Rightarrow> trace \<Rightarrow> resource res \<times> trace" where
  "connectTokenService w = connect_service w ''token-service'' ''token service'' ''meme-token-service''"

definition connectTokenCreationService :: "world \<Rightarrow> service_config \<Rightarrow> trace \<Rightarrow> resource res \<times> trace" where
  "connectTokenCreationService w =
     connect_service w ''token-creation-service'' ''token-creation service'' ''meme-token-creation-service''"

definition connectUploadService :: "world \<Rightarrow> service_config \<Rightarrow> trace \<Rightarrow> resource res \<times> trace" where
  "connectUploadService w = connect_service w ''upload-service'' ''upload service'' ''meme-upload-service''"

section \<open>The API process\<close>

datatype challenge_store = MemoryStore | RedisStore string

text \<open>\<open>None\<close> is a nil field.\<close>

record application =
  ap_Config :: config
  ap_DB :: "resource option"
  ap_Redis :: "resource option"
  ap_Users :: bool
  ap_Auth :: "(bytes \<times> siwe_settings \<times> challenge_store) option"
  ap_tokenService :: "resource option"
  ap_tokenCreationService :: "resource option"
  ap_uploadService :: "resource option"

definition NewWithPool :: "config \<Rightarrow> resource option \<Rightarrow> trace \<Rightarrow> application \<times> trace" where
  "NewWithPool cfg pool tr =
     (let has_redis = rc_Addr (cf_Redis cfg) \<noteq> []; redis = RedisRes (rc_Addr (cf_Redis cfg)) in
      (\<lparr>ap_Config = cfg, ap_DB = pool, ap_Redis = (if has_redis then Some redis else None), ap_Users = (pool \<noteq> None),
        ap_Auth = None, ap_tokenService = None, ap_tokenCreationService = None, ap_uploadService = None\<rparr>,
       if has_redis then tr @ [Opened redis] else tr))"

definition close_one :: "resource option \<Rightarrow> trace \<Rightarrow> trace" where
  "close_one r tr = (case r of Some x \<Rightarrow> tr @ [Closed x] | None \<Rightarrow> tr)"

definition Close :: "application \<Rightarrow> trace \<Rightarrow> trace" where
  "Close a tr =
     close_one (ap_DB a) (close_one (ap_Redis a) (close_one (ap_uploadService a)
       (close_one (ap_tokenCreationService a) (close_one (ap_tokenService a) tr))))"

definition New_app :: "world \<Rightarrow> config \<Rightarrow> trace \<Rightarrow> application res \<times> trace" where
  "New_app w cfg tr =
     (case Open_pool w (cf_DatabaseURL cfg) tr of
        (Inl e, tr) \<Rightarrow> (Inl e, tr)
      | (Inr pool, tr) \<Rightarrow>
        (let (a, tr) = NewWithPool cfg (Some pool) tr in
         case LoadJWTPrivateKey w (ac_JWTPrivateKeyFile (cf_Auth cfg)) of
           Inl e \<Rightarrow> (Inl (Wrap ''configure JWT issuer'' e), Close a tr)
         | Inr key \<Rightarrow>
           (let challenges = (if ap_Redis a \<noteq> None then RedisStore (NewRedisChallengeStore_prefix []) else MemoryStore);
                a = a\<lparr>ap_Auth := Some (key, ac_SIWE (cf_Auth cfg), challenges)\<rparr> in
            case connectTokenService w (cf_TokenService cfg) tr of
              (Inl e, tr) \<Rightarrow> (Inl e, Close a tr)
            | (Inr conn, tr) \<Rightarrow>
              (let a = a\<lparr>ap_tokenService := Some conn\<rparr> in
               case connectTokenCreationService w (cf_TokenCreationService cfg) tr of
                 (Inl e, tr) \<Rightarrow> (Inl e, Close a tr)
               | (Inr conn, tr) \<Rightarrow>
                 (let a = a\<lparr>ap_tokenCreationService := Some conn\<rparr> in
                  case connectUploadService w (cf_UploadService cfg) tr of
                    (Inl e, tr) \<Rightarrow> (Inl e, Close a tr)
                  | (Inr conn, tr) \<Rightarrow> (Inr (a\<lparr>ap_uploadService := Some conn\<rparr>), tr))))))"

text \<open>The address and the routes of the HTTP server.\<close>

definition HTTPServer :: "application \<Rightarrow> string \<times> string list" where
  "HTTPServer a = (http_Address (cf_HTTP (ap_Config a)),
     NewHandler (ap_tokenService a \<noteq> None) (ap_Auth a \<noteq> None) (ap_tokenCreationService a \<noteq> None) (ap_uploadService a \<noteq> None))"

section \<open>The internal services\<close>

record service_process =
  sp_Address :: string
  sp_Options :: server_options
  sp_Registered :: "string list"

definition no_dependencies :: dependencies where
  "no_dependencies = \<lparr>dp_Tokens = False, dp_Auth = False, dp_TokenCreationAuth = False, dp_TokenCreation = False,
     dp_UploadAuth = False, dp_Uploads = False\<rparr>"

text \<open>The options of the server, refused in plaintext unless the address is loopback.\<close>

definition secure_options :: "world \<Rightarrow> string \<Rightarrow> config \<Rightarrow> service_config \<Rightarrow> server_options res" where
  "secure_options w variable cfg service =
     rbind (ServerOptions (wd_files w) (cf_GRPC_TLS cfg)) (\<lambda>options.
     if \<not> grpc_tls_Enabled (cf_GRPC_TLS cfg) \<and> \<not> IsLoopbackTarget (service_Address service)
     then Inl (ErrMsg (''mutual TLS is required when '' @ variable @ '' is not loopback''))
     else Inr options)"

definition listen :: "world \<Rightarrow> service_config \<Rightarrow> server_options \<Rightarrow> dependencies \<Rightarrow> service_process res" where
  "listen w service options d =
     (if \<not> wd_listen w (service_Address service) then Inl (ErrMsg ''listen'')
      else Inr \<lparr>sp_Address = service_Address service, sp_Options = options, sp_Registered = NewServer d\<rparr>)"

definition token_service_main :: "eth_lib \<Rightarrow> world \<Rightarrow> env \<Rightarrow> service_process res" where
  "token_service_main lib w lookup =
     rbind (Load lib lookup) (\<lambda>cfg.
     rbind (fst (Open_pool w (cf_DatabaseURL cfg) [])) (\<lambda>_.
     rbind (secure_options w ''TOKEN_SERVICE_GRPC_HOST'' cfg (cf_TokenService cfg)) (\<lambda>options.
     listen w (cf_TokenService cfg) options (no_dependencies\<lparr>dp_Tokens := True\<rparr>))))"

definition newTokenCreator :: "eth_lib \<Rightarrow> config \<Rightarrow> creator_config res" where
  "newTokenCreator lib cfg =
     (let chain = cf_TokenCreation cfg in
      case parse_int64 (tc_ChainID chain) of
        None \<Rightarrow> Inl (ErrMsg ''TOKEN_CREATION_CHAIN_ID is required'')
      | Some chainID \<Rightarrow>
        (case hex_to_ecdsa lib (trim_prefix (tc_SignerPrivateKey chain) ''0x'') of
           None \<Rightarrow> Inl (Wrap ''parse TOKEN_CREATION_SIGNER_KEY'' (ErrMsg ''private key''))
         | Some signer \<Rightarrow>
           rbind (ParseBytecode (tc_TokenBytecode chain)) (\<lambda>bytecode.
           New_creator \<lparr>cc_Chain = chainID, cc_Core = hex_to_address lib (tc_CoreContract chain),
             cc_Factory = hex_to_address lib (tc_FactoryContract chain), cc_TokenCreationBytecode = bytecode,
             cc_Signer = signer\<rparr> (Some signer) True)))"

definition creation_service_main :: "eth_lib \<Rightarrow> world \<Rightarrow> env \<Rightarrow> (creator_config \<times> service_process) res" where
  "creation_service_main lib w lookup =
     rbind (Load lib lookup) (\<lambda>cfg.
     rbind (fst (Open_pool w (cf_DatabaseURL cfg) [])) (\<lambda>_.
     rbind (newTokenCreator lib cfg) (\<lambda>creator.
     rbind (secure_options w ''TOKEN_CREATION_SERVICE_GRPC_HOST'' cfg (cf_TokenCreationService cfg)) (\<lambda>options.
     rbind (LoadJWTPublicKey w (ac_JWTPublicKeyFile (cf_Auth cfg))) (\<lambda>_.
     rbind (listen w (cf_TokenCreationService cfg) options
        (no_dependencies\<lparr>dp_TokenCreationAuth := True, dp_TokenCreation := True\<rparr>)) (\<lambda>p.
     Inr (creator, p)))))))"

definition upload_service_main :: "eth_lib \<Rightarrow> world \<Rightarrow> env \<Rightarrow> (upload_service \<times> service_process) res" where
  "upload_service_main lib w lookup =
     rbind (Load lib lookup) (\<lambda>cfg.
     rbind (New_upload (cf_COS cfg)) (\<lambda>uploads.
     rbind (secure_options w ''UPLOAD_SERVICE_GRPC_HOST'' cfg (cf_UploadService cfg)) (\<lambda>options.
     rbind (LoadJWTPublicKey w (ac_JWTPublicKeyFile (cf_Auth cfg))) (\<lambda>_.
     rbind (listen w (cf_UploadService cfg) options
        (no_dependencies\<lparr>dp_UploadAuth := True, dp_Uploads := True\<rparr>)) (\<lambda>p.
     Inr (uploads, p))))))"

text \<open>The indexer process: the database, the node, and \<open>chainindexer.New\<close>.\<close>

definition indexer_main :: "eth_lib \<Rightarrow> world \<Rightarrow> (string \<Rightarrow> bool) \<Rightarrow> env \<Rightarrow> indexer_config res" where
  "indexer_main lib w dial_node lookup =
     rbind (Load lib lookup) (\<lambda>cfg.
     rbind (wrap_err ''invalid indexer configuration'' (validate_indexer lib (cf_Indexer cfg))) (\<lambda>_.
     rbind (fst (Open_pool w (cf_DatabaseURL cfg) [])) (\<lambda>_.
     if \<not> dial_node (ix_RPCURL (cf_Indexer cfg)) then Inl (ErrMsg ''connect RPC'')
     else Inr (cf_Indexer cfg))))"

section \<open>Nothing is leaked\<close>

definition app_resources :: "application \<Rightarrow> resource multiset" where
  "app_resources a = (let opt = (\<lambda>r. case r of Some x \<Rightarrow> {#x#} | None \<Rightarrow> {#}) in
     opt (ap_DB a) + opt (ap_Redis a) + opt (ap_tokenService a) + opt (ap_tokenCreationService a) + opt (ap_uploadService a))"

lemma held_close_one: "held (close_one r tr) = held tr - (case r of Some x \<Rightarrow> {#x#} | None \<Rightarrow> {#})"
  by (simp add: close_one_def split: option.split)

lemma held_Close: "held (Close a tr) = held tr - app_resources a"
  by (simp add: Close_def held_close_one app_resources_def Let_def diff_diff_add add.assoc add.commute add.left_commute)

lemma held_Open_pool:
  "Open_pool w url tr = (r, tr') \<Longrightarrow>
    held tr' = held tr + (case r of Inr x \<Rightarrow> {#x#} | Inl e \<Rightarrow> {#})"
  by (auto simp: Open_pool_def Let_def split: if_splits)

lemma held_connect:
  "connect_service w l t h c tr = (r, tr') \<Longrightarrow>
    held tr' = held tr + (case r of Inr x \<Rightarrow> {#x#} | Inl e \<Rightarrow> {#})"
  by (auto simp: connect_service_def Let_def split: if_splits sum.splits)

lemma connect_defs:
  "connectTokenService w c tr = connect_service w ''token-service'' ''token service'' ''meme-token-service'' c tr"
  "connectTokenCreationService w c tr =
     connect_service w ''token-creation-service'' ''token-creation service'' ''meme-token-creation-service'' c tr"
  "connectUploadService w c tr = connect_service w ''upload-service'' ''upload service'' ''meme-upload-service'' c tr"
  by (simp_all add: connectTokenService_def connectTokenCreationService_def connectUploadService_def)

text \<open>The stages of a start, in one rule.\<close>

lemma New_app_cases:
  assumes "New_app w cfg tr = (r, tr')"
  obtains (no_pool) e where "Open_pool w (cf_DatabaseURL cfg) tr = (Inl e, tr')" and "r = Inl e"
  | (no_key) pool tr1 a tr2 e where "Open_pool w (cf_DatabaseURL cfg) tr = (Inr pool, tr1)"
      and "NewWithPool cfg (Some pool) tr1 = (a, tr2)" and "tr' = Close a tr2" and "r = Inl e"
  | (no_token) pool tr1 a tr2 u tr3 e where "Open_pool w (cf_DatabaseURL cfg) tr = (Inr pool, tr1)"
      and "NewWithPool cfg (Some pool) tr1 = (a, tr2)" and "connectTokenService w (cf_TokenService cfg) tr2 = (Inl e, tr3)"
      and "tr' = Close (a\<lparr>ap_Auth := u\<rparr>) tr3" and "r = Inl e"
  | (no_creation) pool tr1 a tr2 u c1 tr3 tr4 e where "Open_pool w (cf_DatabaseURL cfg) tr = (Inr pool, tr1)"
      and "NewWithPool cfg (Some pool) tr1 = (a, tr2)" and "connectTokenService w (cf_TokenService cfg) tr2 = (Inr c1, tr3)"
      and "connectTokenCreationService w (cf_TokenCreationService cfg) tr3 = (Inl e, tr4)"
      and "tr' = Close (a\<lparr>ap_Auth := u, ap_tokenService := Some c1\<rparr>) tr4" and "r = Inl e"
  | (connected) pool tr1 a tr2 u c1 tr3 c2 tr4 r3 tr5 where "Open_pool w (cf_DatabaseURL cfg) tr = (Inr pool, tr1)"
      and "NewWithPool cfg (Some pool) tr1 = (a, tr2)" and "connectTokenService w (cf_TokenService cfg) tr2 = (Inr c1, tr3)"
      and "connectTokenCreationService w (cf_TokenCreationService cfg) tr3 = (Inr c2, tr4)"
      and "connectUploadService w (cf_UploadService cfg) tr4 = (r3, tr5)"
      and "case r3 of
          Inl e \<Rightarrow> r = Inl e \<and> tr' = Close (a\<lparr>ap_Auth := u, ap_tokenService := Some c1, ap_tokenCreationService := Some c2\<rparr>) tr5
        | Inr c3 \<Rightarrow> r = Inr (a\<lparr>ap_Auth := u, ap_tokenService := Some c1, ap_tokenCreationService := Some c2, ap_uploadService := Some c3\<rparr>)
            \<and> tr' = tr5"
  using assms unfolding New_app_def by (auto simp: Let_def split: prod.splits sum.splits)

lemma NewWithPool_resources:
  assumes "NewWithPool cfg (Some pool) tr = (a, tr')"
  shows "held tr' + {#pool#} = held tr + app_resources a" and "ap_tokenService a = None"
    and "ap_tokenCreationService a = None" and "ap_uploadService a = None" and "ap_Config a = cfg"
  using assms by (auto simp: NewWithPool_def Let_def app_resources_def split: if_splits)

lemma app_resources_update [simp]:
  "app_resources (a\<lparr>ap_Auth := u\<rparr>) = app_resources a"
  "ap_tokenService a = None \<Longrightarrow> app_resources (a\<lparr>ap_tokenService := Some c\<rparr>) = add_mset c (app_resources a)"
  "ap_tokenCreationService a = None \<Longrightarrow> app_resources (a\<lparr>ap_tokenCreationService := Some c\<rparr>) = add_mset c (app_resources a)"
  "ap_uploadService a = None \<Longrightarrow> app_resources (a\<lparr>ap_uploadService := Some c\<rparr>) = add_mset c (app_resources a)"
  by (simp_all add: app_resources_def Let_def)

text \<open>C18: Starting and closing the API process leaks nothing.  A start that fails, at whatever
  stage, has closed every pool, Redis client and connection it opened; one that succeeds holds
  exactly the resources of the application, and \<open>Close\<close> releases all of them.\<close>

theorem New_releases:
  "case New_app w cfg tr of
     (Inl e, tr') \<Rightarrow> held tr' = held tr
   | (Inr a, tr') \<Rightarrow> held tr' = held tr + app_resources a \<and> held (Close a tr') = held tr"
proof -
  obtain r tr' where n: "New_app w cfg tr = (r, tr')" by fastforce
  then show ?thesis
  proof (cases rule: New_app_cases)
    case no_pool
    then show ?thesis using n held_Open_pool by fastforce
  next
    case (no_key pool tr1 a tr2 e)
    then have "held tr2 = held tr + app_resources a"
      using held_Open_pool [OF no_key(1)] NewWithPool_resources(1) [OF no_key(2)] by simp
    then show ?thesis using n no_key by (simp add: held_Close)
  next
    case (no_token pool tr1 a tr2 u tr3 e)
    then have "held tr3 = held tr + app_resources a"
      using held_Open_pool [OF no_token(1)] NewWithPool_resources(1) [OF no_token(2)] held_connect [OF no_token(3) [unfolded connect_defs]] by simp
    then show ?thesis using n no_token by (simp add: held_Close)
  next
    case (no_creation pool tr1 a tr2 u c1 tr3 tr4 e)
    then have "held tr4 = held tr + app_resources (a\<lparr>ap_Auth := u, ap_tokenService := Some c1\<rparr>)"
      using held_Open_pool [OF no_creation(1)] NewWithPool_resources [OF no_creation(2)]
        held_connect [OF no_creation(3) [unfolded connect_defs]] held_connect [OF no_creation(4) [unfolded connect_defs]] by simp
    then show ?thesis using n no_creation by (simp add: held_Close)
  next
    case (connected pool tr1 a tr2 u c1 tr3 c2 tr4 r3 tr5)
    let ?a = "a\<lparr>ap_Auth := u, ap_tokenService := Some c1, ap_tokenCreationService := Some c2\<rparr>"
    have "held tr5 = held tr + app_resources ?a + (case r3 of Inr x \<Rightarrow> {#x#} | Inl e \<Rightarrow> {#})"
      using connected held_Open_pool [OF connected(1)] NewWithPool_resources [OF connected(2)]
        held_connect [OF connected(3) [unfolded connect_defs]] held_connect [OF connected(4) [unfolded connect_defs]]
        held_connect [OF connected(5) [unfolded connect_defs]] by simp
    then show ?thesis using n connected NewWithPool_resources [OF connected(2)]
      by (cases r3) (simp_all add: held_Close)
  qed
qed

section \<open>No plaintext off the host\<close>

text \<open>A dialled connection to a service is local plaintext, or TLS with the files of its configuration.\<close>

definition dial_ok :: "world \<Rightarrow> service_config \<Rightarrow> string \<Rightarrow> transport \<Rightarrow> bool" where
  "dial_ok w svc target t =
     (target = service_Address svc
      \<and> (case t of
           Plaintext \<Rightarrow> IsLoopbackTarget target
         | TLS ca cert key name \<Rightarrow>
             fs_read (wd_files w) (ct_CAFile (sv_TLS svc)) = Some ca \<and> fs_key_pair (wd_files w) cert key
             \<and> cert = ct_CertFile (sv_TLS svc) \<and> key = ct_KeyFile (sv_TLS svc) \<and> name = ct_ServerName (sv_TLS svc) \<and> name \<noteq> []))"

lemma connect_dials:
  assumes "connect_service w l x h svc tr = (r, tr')" and "Opened (ConnRes label target t) \<in> set tr'"
    and "Opened (ConnRes label target t) \<notin> set tr"
  shows "dial_ok w svc target t"
proof -
  have cr: "ClientCredentials (wd_files w) (sv_TLS svc) = Inr t" and target: "target = service_Address svc"
    and "client_tls_Enabled (sv_TLS svc) \<or> IsLoopbackTarget target"
    using assms by (auto simp: connect_service_def Let_def split: if_splits sum.splits)
  then show ?thesis
    using ClientCredentials_TLS [OF cr]
    by (auto simp: dial_ok_def ClientCredentials_def Let_def rbind_eq_Inr split: transport.split if_splits)
qed

lemma Close_opens: "Opened r \<in> set (Close a tr) \<longleftrightarrow> Opened r \<in> set tr"
  by (auto simp: Close_def close_one_def split: option.splits)

lemma Open_pool_opens: "Open_pool w url tr = (r, tr') \<Longrightarrow> Opened (ConnRes l x t) \<in> set tr' \<Longrightarrow> Opened (ConnRes l x t) \<in> set tr"
  by (auto simp: Open_pool_def Let_def split: if_splits)

lemma NewWithPool_opens: "NewWithPool cfg p tr = (a, tr') \<Longrightarrow> Opened (ConnRes l x t) \<in> set tr' \<Longrightarrow> Opened (ConnRes l x t) \<in> set tr"
  by (auto simp: NewWithPool_def Let_def split: if_splits)

text \<open>C14: The API process never speaks plaintext off the host.  Whatever the configuration, and
  whether or not the start succeeds, each connection it dials goes to the address of one of the
  three services and is either plaintext to a loopback address (localhost, 127.0.0.0/8 or ::1),
  or TLS with the roots, the key pair and the server name configured for that service.\<close>

theorem no_plaintext_off_host:
  assumes "Opened (ConnRes label target t) \<in> set (snd (New_app w cfg []))"
  shows "\<exists>svc \<in> {cf_TokenService cfg, cf_TokenCreationService cfg, cf_UploadService cfg}. dial_ok w svc target t"
proof -
  let ?ev = "Opened (ConnRes label target t)"
  obtain r tr' where n: "New_app w cfg [] = (r, tr')" by fastforce
  with assms have i: "?ev \<in> set tr'" by simp
  have nil: "?ev \<notin> set []" by simp
  note dials = connect_dials [where label = label and target = target and t = t]
  from n show ?thesis
  proof (cases rule: New_app_cases)
    case no_pool
    then show ?thesis using i Open_pool_opens nil by blast
  next
    case (no_key pool tr1 a tr2 e)
    then show ?thesis using i Open_pool_opens NewWithPool_opens nil by (simp only: Close_opens) blast
  next
    case (no_token pool tr1 a tr2 u tr3 e)
    then have "?ev \<in> set tr3" using i by (simp add: Close_opens)
    moreover have "?ev \<notin> set tr2" using no_token Open_pool_opens NewWithPool_opens nil by blast
    ultimately show ?thesis using dials no_token(3) unfolding connect_defs by blast
  next
    case (no_creation pool tr1 a tr2 u c1 tr3 tr4 e)
    then have "?ev \<in> set tr4" using i by (simp add: Close_opens)
    moreover have "?ev \<notin> set tr2" using no_creation Open_pool_opens NewWithPool_opens nil by blast
    ultimately show ?thesis using dials no_creation(3,4) unfolding connect_defs by blast
  next
    case (connected pool tr1 a tr2 u c1 tr3 c2 tr4 r3 tr5)
    then have "?ev \<in> set tr5" using i by (auto simp: Close_opens split: sum.splits)
    moreover have "?ev \<notin> set tr2" using connected Open_pool_opens NewWithPool_opens nil by blast
    ultimately show ?thesis using dials connected(3,4,5) unfolding connect_defs by blast
  qed
qed

definition sample_world :: world where
  "sample_world = \<lparr>wd_files = \<lparr>fs_read = (\<lambda>p. Some ''pem''), fs_pem_certs = (\<lambda>_. True), fs_key_pair = (\<lambda>_ _. True)\<rparr>,
     wd_pem_block = Some, wd_pkcs8 = (\<lambda>_. Some (Ed25519Key [1])), wd_pkix = (\<lambda>_. Some (Ed25519Key [2])),
     wd_pool_config = (\<lambda>_. True), wd_pool_open = (\<lambda>_. True), wd_pool_ping = (\<lambda>_. True), wd_dial = (\<lambda>_ _. True),
     wd_health = (\<lambda>_ _. Inr Serving), wd_listen = (\<lambda>_. True)\<rparr>"

lemma local_host_samples: "local_host ''127.0.0.1''" "local_host ''::1''" "local_host ''LocalHost''" "\<not> local_host ''0.0.0.0''"
  by code_simp+

lemma sample_world_simps:
  "wd_dial sample_world target t" "wd_health sample_world target n = Inr Serving" "wd_pool_config sample_world url"
  "wd_pool_open sample_world url" "wd_pool_ping sample_world url"
  by (simp_all add: sample_world_def)

lemma default_token_service: "cf_TokenService default_config = \<lparr>sv_Host = ''127.0.0.1'', sv_Port = 39100, sv_TLS = empty_tls\<rparr>"
  by (simp add: default_config_def)

lemma default_loopback: "IsLoopbackTarget (service_Address (cf_TokenService default_config))"
  by (subst IsLoopbackTarget_host) (simp_all add: default_token_service port_ok_def local_host_samples)

lemma default_connects:
  "connectTokenService sample_world (cf_TokenService default_config) tr =
     (Inr (ConnRes ''token-service'' (service_Address (cf_TokenService default_config)) Plaintext), tr @ [Opened (ConnRes ''token-service'' (service_Address (cf_TokenService default_config)) Plaintext)])"
proof -
  have "ClientCredentials (wd_files sample_world) (sv_TLS (cf_TokenService default_config)) = Inr Plaintext"
    by (simp add: ClientCredentials_def count_set_def empty_tls_def default_token_service)
  then show ?thesis
    using default_loopback unfolding connect_defs connect_service_def Let_def CheckHealth_def
    by (simp add: sample_world_simps)
qed

lemma default_pool: "Open_pool sample_world url [] = (Inr PoolRes, [Opened PoolRes])"
  by (simp add: Open_pool_def sample_world_simps)

lemma default_key: "LoadJWTPrivateKey sample_world path = Inr [1]"
  by (simp add: LoadJWTPrivateKey_def load_key_def sample_world_def)

lemma connect_keeps: "connect_service w l t h s tr = (y, tr') \<Longrightarrow> x \<in> set tr \<Longrightarrow> x \<in> set tr'"
  by (auto simp: connect_service_def Let_def split: if_splits sum.splits)

theorem no_plaintext_off_host_witness:
  "\<exists>svc \<in> {cf_TokenService default_config, cf_TokenCreationService default_config, cf_UploadService default_config}.
     dial_ok sample_world svc (service_Address (cf_TokenService default_config)) Plaintext"
proof -
  obtain a where nw: "NewWithPool default_config (Some PoolRes) [Opened PoolRes] = (a, [Opened PoolRes])"
    by (simp add: NewWithPool_def default_config_def)
  let ?ev = "Opened (ConnRes ''token-service'' (service_Address (cf_TokenService default_config)) Plaintext)"
  have c: "connectTokenService sample_world (cf_TokenService default_config) [Opened PoolRes] =
      (Inr (ConnRes ''token-service'' (service_Address (cf_TokenService default_config)) Plaintext), [Opened PoolRes, ?ev])"
    by (simp only: default_connects append.simps)
  obtain r2 tr2 where c2: "connectTokenCreationService sample_world (cf_TokenCreationService default_config) [Opened PoolRes, ?ev] = (r2, tr2)"
    by fastforce
  obtain r3 tr3 where c3: "connectUploadService sample_world (cf_UploadService default_config) tr2 = (r3, tr3)" by fastforce
  have e2: "?ev \<in> set tr2" by (rule connect_keeps [OF c2 [unfolded connect_defs]]) simp
  have e3: "?ev \<in> set tr3" by (rule connect_keeps [OF c3 [unfolded connect_defs] e2])
  have "?ev \<in> set (snd (New_app sample_world default_config []))"
    unfolding New_app_def default_pool default_key using e2 e3
    by (cases r2; cases r3) (simp_all add: nw c c2 c3 Close_opens Let_def)
  then show ?thesis by (rule no_plaintext_off_host)
qed

section \<open>The internal services are closed\<close>

text \<open>The processes of the three services, by their address and options.\<close>

definition serves :: "eth_lib \<Rightarrow> world \<Rightarrow> env \<Rightarrow> service_process \<Rightarrow> bool" where
  "serves lib w lookup p =
     (token_service_main lib w lookup = Inr p \<or> (\<exists>x. creation_service_main lib w lookup = Inr (x, p))
      \<or> (\<exists>x. upload_service_main lib w lookup = Inr (x, p)))"

lemma listen_process: "listen w svc opts d = Inr p \<Longrightarrow> sp_Address p = service_Address svc \<and> sp_Options p = opts"
  by (auto simp: listen_def split: if_splits)

lemma serves_secure:
  assumes "serves lib w lookup p"
  obtains cfg svc variable where "Load lib lookup = Inr cfg" and "secure_options w variable cfg svc = Inr (sp_Options p)"
    and "sp_Address p = service_Address svc" and "svc \<in> {cf_TokenService cfg, cf_TokenCreationService cfg, cf_UploadService cfg}"
  using assms unfolding serves_def token_service_main_def creation_service_main_def upload_service_main_def rbind_eq_Inr
  by (auto dest!: listen_process)

lemma Load_identities:
  assumes "Load lib lookup = Inr cfg"
  shows "gt_AllowedClientIDs (cf_GRPC_TLS cfg) =
    (case lookup ''GRPC_ALLOWED_CLIENT_IDS'' of None \<Rightarrow> [] | Some v \<Rightarrow> allowed_identities v)"
proof -
  obtain c1 c2 c3 c4 c5 where s: "load_ports lookup (load_names lookup default_config) = Inr c1"
    "load_stores lookup (load_tls lookup c1) = Inr c2" "load_auth lookup c2 = Inr c3"
    "load_creation lib lookup c3 = Inr c4" "load_cos lookup c4 = Inr c5" "load_indexer lookup c5 = Inr cfg"
    using Load_steps [OF assms] by metis
  have "cf_GRPC_TLS cfg = cf_GRPC_TLS (load_tls lookup c1)"
    using load_stores_ok [OF s(2)] load_auth_ok [OF s(3)] load_creation_ok [OF s(4)] load_cos_ok [OF s(5)] load_indexer_ok [OF s(6)]
    by (simp add: same_servers_def)
  moreover have "cf_GRPC_TLS c1 = cf_GRPC_TLS default_config"
    using s(1) by (auto simp: load_ports_def rbind_eq_Inr load_names_def)
  ultimately show ?thesis by (simp add: load_tls_def Let_def default_config_def)
qed

text \<open>C9: Off the host, an internal service runs a handler only for a named client.  If a
  service started from the environment and listens on an address that is not loopback, then a
  call either leaves the state as it is and is refused, or comes from a peer whose verified
  certificate carries, as a URI or as its common name, an identity that
  GRPC_ALLOWED_CLIENT_IDS lists; an empty identity is never one.\<close>

theorem internal_services_closed:
  assumes "serves lib w lookup p" and "\<not> IsLoopbackTarget (sp_Address p)"
    and "intercept (sp_Options p) who handler s = (r, s')"
  shows "(s' = s \<and> (\<exists>st. r = Inl st)) \<or>
    (\<exists>c ids i. clientCertificate who = Some c \<and> lookup ''GRPC_ALLOWED_CLIENT_IDS'' = Some ids
      \<and> i \<in> set (certificateIdentities c) \<and> i \<in> set (allowed_identities ids) \<and> i \<noteq> [] \<and> (r, s') = handler s)"
proof -
  obtain cfg svc variable where l: "Load lib lookup = Inr cfg" and o: "secure_options w variable cfg svc = Inr (sp_Options p)"
    and a: "sp_Address p = service_Address svc"
    using serves_secure [OF assms(1)] by metis
  obtain cas where opts: "sp_Options p = MutualTLS cas (gt_AllowedClientIDs (cf_GRPC_TLS cfg))"
    using o assms(2) unfolding a by (auto simp: secure_options_def rbind_eq_Inr ServerOptions_def split: if_splits dest: sym)
  show ?thesis
  proof (cases "authorizeClient who (identitySet (gt_AllowedClientIDs (cf_GRPC_TLS cfg)))")
    case (Inl st)
    then have "Inl st = r" and "s = s'" using assms(3) by (simp_all add: intercept_def opts RequireClientIdentity_def)
    then show ?thesis by blast
  next
    case (Inr u)
    then obtain c i where c: "clientCertificate who = Some c" and i: "i \<in> set (certificateIdentities c)"
      and g: "i \<in> set (gt_AllowedClientIDs (cf_GRPC_TLS cfg))"
      by (auto simp: authorizeClient_def identitySet_def list_ex_iff split: option.splits if_splits)
    from g obtain ids where "lookup ''GRPC_ALLOWED_CLIENT_IDS'' = Some ids" and "i \<in> set (allowed_identities ids)"
      unfolding Load_identities [OF l] by (cases "lookup ''GRPC_ALLOWED_CLIENT_IDS''") auto
    moreover from this have "i \<noteq> []" using allowed_identities_nonempty by metis
    moreover have "(r, s') = handler s" using Inr assms(3) by (simp add: intercept_def opts RequireClientIdentity_def)
    ultimately show ?thesis using c i by blast
  qed
qed

definition closed_env :: env where
  "closed_env = [''TOKEN_SERVICE_GRPC_HOST'' \<mapsto> ''0.0.0.0'', ''GRPC_TLS_CERT_FILE'' \<mapsto> ''c'', ''GRPC_TLS_KEY_FILE'' \<mapsto> ''k'',
     ''GRPC_TLS_CLIENT_CA_FILE'' \<mapsto> ''a'', ''GRPC_ALLOWED_CLIENT_IDS'' \<mapsto> ''api'']"

definition closed_config :: config where
  "closed_config = default_config\<lparr>cf_TokenService := \<lparr>sv_Host = ''0.0.0.0'', sv_Port = 39100, sv_TLS = empty_tls\<rparr>,
     cf_GRPC_TLS := \<lparr>gt_CertFile = ''c'', gt_KeyFile = ''k'', gt_ClientCAFile = ''a'', gt_AllowedClientIDs = [''api'']\<rparr>\<rparr>"

lemma closed_load: "Load lib closed_env = Inr closed_config"
proof -
  have ids: "allowed_identities ''api'' = [''api'']" by code_simp
  let ?c = "default_config\<lparr>cf_TokenService := \<lparr>sv_Host = ''0.0.0.0'', sv_Port = 39100, sv_TLS = empty_tls\<rparr>\<rparr>"
  have 1: "load_names closed_env default_config = ?c"
    by (simp add: load_names_def env_or_def closed_env_def default_config_def)
  have 2: "load_ports closed_env ?c = Inr ?c"
    by (simp add: load_ports_def env_port_def env_parse_def closed_env_def default_config_def)
  have 3: "load_tls closed_env ?c = closed_config"
    by (simp add: load_tls_def load_client_tls_def env_or_def closed_env_def default_config_def closed_config_def empty_tls_def ids)
  have 4: "validate_tls closed_config = Inr ()"
    by (simp add: validate_tls_def grpc_tls_Validate_def client_tls_Validate_def count_set_def closed_config_def default_config_def empty_tls_def)
  have 5: "load_stores closed_env closed_config = Inr closed_config" "load_auth closed_env closed_config = Inr closed_config"
    by (simp_all add: load_stores_def load_auth_def env_or_def env_parse_def closed_env_def closed_config_def default_config_def)
  have 6: "load_creation lib closed_env closed_config = Inr closed_config" "load_cos closed_env closed_config = Inr closed_config"
    "load_indexer closed_env closed_config = Inr closed_config"
    by (simp_all add: load_creation_def load_cos_def load_indexer_def validateTokenCreation_def validateCOS_def count_set_def env_or_def env_parse_def closed_env_def closed_config_def default_config_def)
  show ?thesis by (simp add: Load_def 1 2 3 4 5 6)
qed

theorem internal_services_closed_witness:
  "\<exists>p. serves sample_lib sample_world closed_env p \<and> \<not> IsLoopbackTarget (sp_Address p)
     \<and> fst (intercept (sp_Options p) (TLSPeer [\<lparr>ce_URIs = [], ce_CommonName = ''api''\<rparr>]) (\<lambda>s. (Inr (), Suc s)) 0) = Inr ()"
proof -
  let ?svc = "cf_TokenService closed_config"
  let ?who = "TLSPeer [\<lparr>ce_URIs = [], ce_CommonName = ''api''\<rparr>]"
  have tls: "cf_GRPC_TLS closed_config = \<lparr>gt_CertFile = ''c'', gt_KeyFile = ''k'', gt_ClientCAFile = ''a'', gt_AllowedClientIDs = [''api'']\<rparr>"
    and host: "?svc = \<lparr>sv_Host = ''0.0.0.0'', sv_Port = 39100, sv_TLS = empty_tls\<rparr>"
    by (simp_all add: closed_config_def)
  have opts: "secure_options sample_world v closed_config ?svc = Inr (MutualTLS ''pem'' [''api''])" for v
    by (simp add: secure_options_def ServerOptions_def tls grpc_tls_Enabled_def certificatePool_def sample_world_def)
  let ?p = "\<lparr>sp_Address = service_Address ?svc, sp_Options = MutualTLS ''pem'' [''api''], sp_Registered = NewServer (no_dependencies\<lparr>dp_Tokens := True\<rparr>)\<rparr>"
  have "token_service_main sample_lib sample_world closed_env = Inr ?p"
    by (simp add: token_service_main_def closed_load default_pool opts listen_def) (simp add: sample_world_def)
  then have s: "serves sample_lib sample_world closed_env ?p" by (simp add: serves_def)
  have n: "\<not> IsLoopbackTarget (sp_Address ?p)"
    by (simp add: IsLoopbackTarget_host host port_ok_def local_host_samples)
  have i: "intercept (sp_Options ?p) ?who (\<lambda>s. (Inr (), Suc s)) 0 = (Inr (), 1)"
    by (simp add: intercept_def RequireClientIdentity_def authorizeClient_def clientCertificate_def certificateIdentities_def identitySet_def)
  show ?thesis using internal_services_closed [OF s n i] s n i by (intro exI [of _ ?p]) simp
qed

end
