(* ===== verification/LegacyCreation.thy ===== *)
theory LegacyCreation
  imports TokenCreation
begin

text \<open>
  Token creation in the legacy API: service/crypto (the CREATE2 calculator of create2.go and
  the signer of signer.go) and service/token/service.go, with the nonce sequence and the table
  of requests it writes.  The tuple it encodes is that of theory TokenCreation.  Debug output
  is left out, and so is the encoding by an external JavaScript process, which no caller asks
  for.  The lemmas compare the intents of the two programs and say what a nonce and a vanity
  address are worth.
\<close>

section \<open>The CREATE2 calculator\<close>

text \<open>\<open>copy\<close> into an array of fixed length, zero where the source is too short.\<close>

definition copy_into :: "nat \<Rightarrow> bytes \<Rightarrow> bytes" where
  "copy_into n b = take n (b @ replicate n 0)"

lemma length_copy_into [simp]: "length (copy_into n b) = n"
  by (simp add: copy_into_def)

lemma copy_into_id [simp]: "length b = n \<Longrightarrow> copy_into n b = b"
  by (simp add: copy_into_def)

record create2_calculator =
  c2_factoryAddress :: bytes
  c2_tokenBytecode :: bytes

definition NewCreate2Calculator :: "eth_lib \<Rightarrow> string \<Rightarrow> string \<Rightarrow> create2_calculator res" where
  "NewCreate2Calculator lib factoryAddress tokenBytecodeHex =
     (case hex_decode (trim_prefix tokenBytecodeHex ''0x'') of
        None \<Rightarrow> Inl (Wrap ''invalid bytecode'' (ErrMsg ''hex''))
      | Some bytecode \<Rightarrow> Inr \<lparr>c2_factoryAddress = hex_to_address lib factoryAddress, c2_tokenBytecode = bytecode\<rparr>)"

text \<open>\<open>Pack\<close> takes a big integer modulo 2^256.\<close>

definition to_uint256 :: "int \<Rightarrow> nat" where
  "to_uint256 n = nat (n mod 2 ^ 256)"

definition salt_args :: "string \<Rightarrow> string \<Rightarrow> int \<Rightarrow> bytes \<Rightarrow> u64 \<Rightarrow> u64 \<Rightarrow> pack_value list" where
  "salt_args name symbol totalSupply owner timestamp nonce =
     [PText (str_bytes name), PText (str_bytes symbol), PUint (to_uint256 totalSupply), PAddr owner,
      PUint (unat timestamp), PUint (unat nonce)]"

definition CalculateSalt :: "eth_lib \<Rightarrow> string \<Rightarrow> string \<Rightarrow> int \<Rightarrow> bytes \<Rightarrow> u64 \<Rightarrow> u64 \<Rightarrow> bytes" where
  "CalculateSalt lib name symbol totalSupply owner timestamp nonce =
     (case abi_pack lib (salt_args name symbol totalSupply owner timestamp nonce) of
        Inl _ \<Rightarrow> replicate 32 0
      | Inr packed \<Rightarrow> copy_into 32 (keccak256 lib packed))"

definition encodeConstructorArgs :: "eth_lib \<Rightarrow> string \<Rightarrow> string \<Rightarrow> int \<Rightarrow> bytes \<Rightarrow> bytes" where
  "encodeConstructorArgs lib name symbol totalSupply owner =
     (case abi_pack lib [PText (str_bytes name), PText (str_bytes symbol), PUint (to_uint256 totalSupply), PAddr owner] of
        Inl _ \<Rightarrow> [] | Inr packed \<Rightarrow> packed)"

definition CalculateAddress ::
  "eth_lib \<Rightarrow> create2_calculator \<Rightarrow> bytes \<Rightarrow> string \<Rightarrow> string \<Rightarrow> int \<Rightarrow> bytes \<Rightarrow> bytes" where
  "CalculateAddress lib c salt name symbol totalSupply owner =
     (let initcode = c2_tokenBytecode c @ encodeConstructorArgs lib name symbol totalSupply owner;
          initcodeHash = keccak256 lib initcode
      in bytes_to_address lib (drop 12 (keccak256 lib ([0xff] @ c2_factoryAddress c @ salt @ initcodeHash))))"

definition PredictAddress ::
  "eth_lib \<Rightarrow> create2_calculator \<Rightarrow> string \<Rightarrow> string \<Rightarrow> int \<Rightarrow> bytes \<Rightarrow> u64 \<Rightarrow> u64 \<Rightarrow> bytes \<times> bytes" where
  "PredictAddress lib c name symbol totalSupply owner timestamp nonce =
     (let salt = CalculateSalt lib name symbol totalSupply owner timestamp nonce
      in (salt, CalculateAddress lib c salt name symbol totalSupply owner))"

text \<open>The loop over the nonces from \<open>n\<close>, with \<open>k\<close> attempts left.\<close>

fun vanity_loop :: "(nat \<Rightarrow> bool) \<Rightarrow> nat \<Rightarrow> nat \<Rightarrow> nat option" where
  "vanity_loop hit 0 n = None"
| "vanity_loop hit (Suc k) n = (if hit n then Some n else vanity_loop hit k (Suc n))"

definition vanity_hit ::
  "eth_lib \<Rightarrow> create2_calculator \<Rightarrow> string \<Rightarrow> string \<Rightarrow> int \<Rightarrow> bytes \<Rightarrow> u64 \<Rightarrow> string \<Rightarrow> nat \<Rightarrow> bool" where
  "vanity_hit lib c name symbol totalSupply owner timestamp targetSuffix n =
     has_suffix (to_lower (address_hex lib (snd (PredictAddress lib c name symbol totalSupply owner timestamp (word_of_nat n)))))
       (to_lower targetSuffix)"

definition FindVanityAddress ::
  "eth_lib \<Rightarrow> create2_calculator \<Rightarrow> string \<Rightarrow> string \<Rightarrow> int \<Rightarrow> bytes \<Rightarrow> u64 \<Rightarrow> string \<Rightarrow> u64 \<Rightarrow> u64 \<times> bytes \<times> bool" where
  "FindVanityAddress lib c name symbol totalSupply owner timestamp targetSuffix maxAttempts =
     (case vanity_loop (vanity_hit lib c name symbol totalSupply owner timestamp targetSuffix) (unat maxAttempts) 0 of
        None \<Rightarrow> (0, zero_address, False)
      | Some n \<Rightarrow> (word_of_nat n, snd (PredictAddress lib c name symbol totalSupply owner timestamp (word_of_nat n)), True))"

section \<open>The signer\<close>

record legacy_signer =
  sg_privateKey :: bytes
  sg_address :: bytes

definition NewSigner :: "eth_lib \<Rightarrow> string \<Rightarrow> legacy_signer res" where
  "NewSigner lib privateKeyHex =
     (case hex_to_ecdsa lib (trim_prefix privateKeyHex ''0x'') of
        None \<Rightarrow> Inl (Wrap ''invalid private key'' (ErrMsg ''private key''))
      | Some key \<Rightarrow> Inr \<lparr>sg_privateKey = key, sg_address = key_address lib key\<rparr>)"

text \<open>\<open>None\<close> is a nil big integer.\<close>

record vesting_allocation =
  va_Amount :: "int option"
  va_LaunchTime :: "int option"
  va_Duration :: "int option"
  va_Mode :: u8

record legacy_params =
  lm_Name :: string
  lm_Symbol :: string
  lm_TotalSupply :: int
  lm_SaleAmount :: int
  lm_VirtualBNBReserve :: int
  lm_VirtualTokenReserve :: int
  lm_LaunchTime :: u64
  lm_CreationFee :: int
  lm_Creator :: bytes
  lm_Timestamp :: u64
  lm_RequestID :: bytes
  lm_Nonce :: u64
  lm_InitialBuyPercentage :: u64
  lm_MarginBnb :: "int option"
  lm_MarginTime :: u64
  lm_VestingAllocations :: "vesting_allocation list"

definition big_or_zero :: "int option \<Rightarrow> nat" where
  "big_or_zero x = (case x of None \<Rightarrow> 0 | Some n \<Rightarrow> to_uint256 n)"

definition vesting_tuple :: "vesting_allocation \<Rightarrow> vesting" where
  "vesting_tuple v = \<lparr>vs_Amount = big_or_zero (va_Amount v), vs_LaunchTime = big_or_zero (va_LaunchTime v),
     vs_Duration = big_or_zero (va_Duration v), vs_Mode = va_Mode v\<rparr>"

text \<open>A time above 10^10 is taken to be in milliseconds.\<close>

definition as_seconds :: "u64 \<Rightarrow> u64" where
  "as_seconds t = (if t > 10000000000 then t div 1000 else t)"

definition params_tuple :: "legacy_params \<Rightarrow> create_params" where
  "params_tuple p =
     \<lparr>pm_Name = lm_Name p, pm_Symbol = lm_Symbol p, pm_TotalSupply = to_uint256 (lm_TotalSupply p),
      pm_SaleAmount = to_uint256 (lm_SaleAmount p), pm_VirtualBNBReserve = to_uint256 (lm_VirtualBNBReserve p),
      pm_VirtualTokenReserve = to_uint256 (lm_VirtualTokenReserve p), pm_LaunchTime = unat (as_seconds (lm_LaunchTime p)),
      pm_Creator = lm_Creator p, pm_Timestamp = unat (as_seconds (lm_Timestamp p)), pm_RequestID = lm_RequestID p,
      pm_Nonce = unat (lm_Nonce p), pm_InitialBuyPercentage = unat (lm_InitialBuyPercentage p),
      pm_MarginBNB = big_or_zero (lm_MarginBnb p), pm_MarginTime = unat (lm_MarginTime p),
      pm_VestingAllocations = map vesting_tuple (lm_VestingAllocations p)\<rparr>"

text \<open>The checks of the encoding: its length, the outer offset and the first two fields.\<close>

definition check_encoding :: "bytes \<Rightarrow> unit res" where
  "check_encoding data =
     (if length data < 32 then Inl (ErrMsg ''encoded data too short'')
      else if be_nat (take 32 data) mod 2 ^ 64 \<noteq> 32 then Inl (ErrMsg ''invalid outer offset'')
      else if length data < 32 + 64 then Inl (ErrMsg ''encoded data too short for tuple fields'')
      else Inr ())"

definition legacy_hash :: "eth_lib \<Rightarrow> bytes \<Rightarrow> int \<Rightarrow> bytes \<Rightarrow> bytes" where
  "legacy_hash lib data chainID contract = keccak256 lib (data @ be_bytes 32 (nat \<bar>chainID\<bar>) @ contract)"

text \<open>The recovery identifier of a signature, raised to 27 or 28 unless it is there already.\<close>

definition ethereum_signature :: "bytes \<Rightarrow> bytes" where
  "ethereum_signature signature =
     (let s = copy_into 65 signature in if s ! 64 < 27 then s[64 := s ! 64 + 27] else s)"

definition SignCreateTokenParams ::
  "eth_lib \<Rightarrow> legacy_signer \<Rightarrow> legacy_params \<Rightarrow> int \<Rightarrow> bytes \<Rightarrow> (bytes \<times> bytes) res" where
  "SignCreateTokenParams lib s params chainID contractAddress =
     rbind (wrap_err ''failed to encode params'' (encode lib (params_tuple params))) (\<lambda>encodedData.
     rbind (check_encoding encodedData) (\<lambda>_.
     let messageHash = legacy_hash lib encodedData chainID contractAddress in
     case eth_sign lib (sg_privateKey s) messageHash of
       None \<Rightarrow> Inl (Wrap ''failed to sign'' (ErrMsg ''sign''))
     | Some signature \<Rightarrow>
       (case sig_to_address lib messageHash signature of
          None \<Rightarrow> Inl (Wrap ''failed to recover public key from signature'' (ErrMsg ''recover''))
        | Some recovered \<Rightarrow>
            if recovered \<noteq> address_hex lib (sg_address s)
            then Inl (ErrMsg (''signature recovery failed: expected '' @ address_hex lib (sg_address s) @ '', got '' @ recovered))
            else Inr (encodedData, ethereum_signature signature))))"

definition GenerateRequestID :: "eth_lib \<Rightarrow> string \<Rightarrow> bytes \<Rightarrow> u64 \<Rightarrow> u64 \<Rightarrow> bytes" where
  "GenerateRequestID lib prefix creator timestamp nonce =
     copy_into 32 (keccak256 lib (str_bytes prefix @ creator @ uint256Bytes timestamp @ uint256Bytes nonce))"

definition VerifySignature :: "eth_lib \<Rightarrow> bytes \<Rightarrow> bytes \<Rightarrow> bytes \<Rightarrow> bool" where
  "VerifySignature lib data signature expectedSigner =
     (if length signature \<noteq> 65 then False
      else let sigCopy = (if signature ! 64 \<ge> 27 then signature[64 := signature ! 64 - 27] else signature) in
        case sig_to_address lib (keccak256 lib data) sigCopy of
          None \<Rightarrow> False
        | Some recovered \<Rightarrow> to_lower recovered = to_lower (address_hex lib expectedSigner))"

definition HexToBytes32 :: "string \<Rightarrow> bytes option" where
  "HexToBytes32 hexStr = map_option (copy_into 32) (hex_decode (trim_prefix hexStr ''0x''))"

definition Bytes32ToHex :: "bytes \<Rightarrow> string" where
  "Bytes32ToHex b = ''0x'' @ hex_encode b"

section \<open>The database\<close>

text \<open>
  The nonce of each chain and the requests.  \<open>lq_created_at\<close> says whether the table
  nonce_sequence has the column created_at, which the insertion names; in the schema of the
  repository (migrations/001_init.sql) it has not.
\<close>

record request_row =
  rw_request_id :: string
  rw_creator_address :: string
  rw_name :: string
  rw_symbol :: string
  rw_description :: string
  rw_logo :: string
  rw_banner :: string
  rw_total_supply :: string
  rw_sale_amount :: string
  rw_virtual_bnb_reserve :: string
  rw_virtual_token_reserve :: string
  rw_launch_mode :: int
  rw_launch_time :: int
  rw_creation_fee :: string
  rw_nonce :: u64
  rw_salt :: string
  rw_predicted_address :: string
  rw_signature :: string
  rw_encoded_data :: string
  rw_initial_buy_percentage :: int
  rw_margin_bnb :: string
  rw_margin_time :: int
  rw_vesting_allocations :: string
  rw_website :: string
  rw_twitter :: string
  rw_telegram :: string
  rw_discord :: string
  rw_whitepaper :: string
  rw_contact_email :: string
  rw_contact_tg :: string
  rw_tags :: "string list"
  rw_status :: int
  rw_timestamp :: u64

record request_db =
  lq_nonces :: "int \<Rightarrow> int option"
  lq_created_at :: bool
  lq_requests :: "request_row list"
  lq_faults :: "bool list"

definition request_fault :: "request_db \<Rightarrow> bool \<times> request_db" where
  "request_fault d = (case lq_faults d of [] \<Rightarrow> (False, d) | b # bs \<Rightarrow> (b, d\<lparr>lq_faults := bs\<rparr>))"

text \<open>The three statements: \<open>UPDATE ... RETURNING\<close>, the insertion, and the \<open>SELECT\<close>.\<close>

definition update_nonce :: "int \<Rightarrow> request_db \<Rightarrow> int res \<times> request_db" where
  "update_nonce chain d =
     (case request_fault d of
        (True, d) \<Rightarrow> (Inl DbFault, d)
      | (False, d) \<Rightarrow>
        (case lq_nonces d chain of
           None \<Rightarrow> (Inl ErrNoRows, d)
         | Some n \<Rightarrow> (Inr (n + 1), d\<lparr>lq_nonces := (lq_nonces d)(chain \<mapsto> n + 1)\<rparr>)))"

definition insert_nonce :: "int \<Rightarrow> request_db \<Rightarrow> unit res \<times> request_db" where
  "insert_nonce chain d =
     (case request_fault d of
        (True, d) \<Rightarrow> (Inl DbFault, d)
      | (False, d) \<Rightarrow>
        if \<not> lq_created_at d then (Inl DbFault, d)
        else (Inr (), d\<lparr>lq_nonces := (lq_nonces d)(chain \<mapsto> (case lq_nonces d chain of None \<Rightarrow> 1 | Some n \<Rightarrow> n + 1))\<rparr>))"

definition select_nonce :: "int \<Rightarrow> request_db \<Rightarrow> int res \<times> request_db" where
  "select_nonce chain d =
     (case request_fault d of
        (True, d) \<Rightarrow> (Inl DbFault, d)
      | (False, d) \<Rightarrow> (case lq_nonces d chain of None \<Rightarrow> (Inl ErrNoRows, d) | Some n \<Rightarrow> (Inr n, d)))"

section \<open>The token service\<close>

text \<open>\<open>None\<close> is a nil signer, calculator or database.\<close>

record token_service =
  tv_has_db :: bool
  tv_signer :: "legacy_signer option"
  tv_create2Calc :: "create2_calculator option"
  tv_coreContract :: bytes
  tv_factoryContract :: bytes
  tv_rpcURL :: string
  tv_chainID :: int

definition DefaultTotalSupply :: int where "DefaultTotalSupply = 1000000000 * 10 ^ 18"
definition DefaultSaleAmount :: int where "DefaultSaleAmount = 800000000 * 10 ^ 18"
definition DefaultVirtualBNBReserve :: int where "DefaultVirtualBNBReserve = 8219178082191780000"
definition DefaultVirtualTokenReserve :: int where "DefaultVirtualTokenReserve = 1073972602 * 10 ^ 18"
definition DefaultTokenBytecode :: string where "DefaultTokenBytecode = []"

definition ok_option :: "'a res \<Rightarrow> 'a option" where
  "ok_option r = (case r of Inl _ \<Rightarrow> None | Inr x \<Rightarrow> Some x)"

definition NewTokenService ::
  "eth_lib \<Rightarrow> string \<Rightarrow> string \<Rightarrow> string \<Rightarrow> string \<Rightarrow> string \<Rightarrow> int \<Rightarrow> bool \<Rightarrow> token_service" where
  "NewTokenService lib signerPrivateKey coreContract factoryContract tokenBytecode rpcURL chainID has_db =
     (let bytecode = (if tokenBytecode = [] then DefaultTokenBytecode else tokenBytecode) in
      \<lparr>tv_has_db = has_db,
       tv_signer = (if signerPrivateKey \<noteq> [] then ok_option (NewSigner lib signerPrivateKey) else None),
       tv_create2Calc = (if factoryContract \<noteq> [] \<and> bytecode \<noteq> []
         then ok_option (NewCreate2Calculator lib factoryContract bytecode) else None),
       tv_coreContract = hex_to_address lib coreContract, tv_factoryContract = hex_to_address lib factoryContract,
       tv_rpcURL = rpcURL, tv_chainID = chainID\<rparr>)"

record vesting_input =
  vi_Amount :: int
  vi_LaunchTime :: int
  vi_Duration :: int
  vi_Mode :: int

record legacy_request =
  lr_Name :: string
  lr_Symbol :: string
  lr_Description :: string
  lr_Logo :: string
  lr_Banner :: string
  lr_Creator :: string
  lr_LaunchMode :: int
  lr_LaunchTime :: int
  lr_InitialBuyPercentage :: int
  lr_MarginBnb :: "int option"
  lr_MarginTime :: int
  lr_VestingAllocations :: "vesting_input list"
  lr_Website :: string
  lr_Twitter :: string
  lr_Telegram :: string
  lr_Discord :: string
  lr_Whitepaper :: string
  lr_ContactEmail :: string
  lr_ContactTg :: string
  lr_Tags :: "string list"
  lr_Digits :: string

record legacy_response =
  lz_RequestID :: string
  lz_Create2Salt :: string
  lz_CreateArg :: string
  lz_Nonce :: int
  lz_PredictedAddress :: string
  lz_Signature :: string
  lz_Timestamp :: int

definition getNextNonce :: "token_service \<Rightarrow> request_db \<Rightarrow> int res \<times> request_db" where
  "getNextNonce s d =
     (if \<not> tv_has_db s then (Inl (ErrMsg ''token model is not initialized''), d)
      else case update_nonce (tv_chainID s) d of
        (Inr nonce, d) \<Rightarrow> (Inr nonce, d)
      | (Inl _, d) \<Rightarrow> select_nonce (tv_chainID s) (snd (insert_nonce (tv_chainID s) d)))"

text \<open>
  A nil calculator: computing the salt does not look at it, computing an address does and
  panics.
\<close>

definition nil_pointer :: err where
  "nil_pointer = Panic ''invalid memory address or nil pointer dereference''"

definition predict :: "eth_lib \<Rightarrow> token_service \<Rightarrow> string \<Rightarrow> string \<Rightarrow> u64 \<Rightarrow> u64 \<Rightarrow> (bytes \<times> bytes) res" where
  "predict lib s name symbol timestamp nonce =
     (case tv_create2Calc s of
        None \<Rightarrow> Inl nil_pointer
      | Some c \<Rightarrow> Inr (PredictAddress lib c name symbol DefaultTotalSupply (tv_coreContract s) timestamp nonce))"

definition find_vanity :: "eth_lib \<Rightarrow> token_service \<Rightarrow> string \<Rightarrow> string \<Rightarrow> u64 \<Rightarrow> string \<Rightarrow> u64 \<Rightarrow> (u64 \<times> bytes \<times> bool) res" where
  "find_vanity lib s name symbol timestamp digits attempts =
     (case tv_create2Calc s of
        None \<Rightarrow> Inl nil_pointer
      | Some c \<Rightarrow> Inr (FindVanityAddress lib c name symbol DefaultTotalSupply (tv_coreContract s) timestamp digits attempts))"

text \<open>The nonce, the salt and the address of a request, from the next nonce of the sequence.\<close>

definition choose_address ::
  "eth_lib \<Rightarrow> token_service \<Rightarrow> u64 \<Rightarrow> int \<Rightarrow> legacy_request \<Rightarrow> (int \<times> bytes \<times> bytes) res" where
  "choose_address lib s timestamp nonce req =
     rbind (if lr_Digits req = [] then Inr nonce
            else rbind (find_vanity lib s (lr_Name req) (lr_Symbol req) timestamp (lr_Digits req) 1000000) (\<lambda>(foundNonce, addr, found).
              Inr (if found then sint foundNonce else nonce))) (\<lambda>nonce.
     rbind (predict lib s (lr_Name req) (lr_Symbol req) timestamp (word_of_int nonce)) (\<lambda>(salt, predictedAddress).
     Inr (nonce, salt, predictedAddress)))"

definition vesting_of_input :: "vesting_input \<Rightarrow> vesting_allocation" where
  "vesting_of_input v = \<lparr>va_Amount = Some (vi_Amount v), va_LaunchTime = Some (vi_LaunchTime v),
     va_Duration = Some (vi_Duration v), va_Mode = word_of_int (vi_Mode v)\<rparr>"

definition params_of_request :: "eth_lib \<Rightarrow> u64 \<Rightarrow> int \<Rightarrow> legacy_request \<Rightarrow> legacy_params" where
  "params_of_request lib timestamp nonce req =
     (let creator = hex_to_address lib (lr_Creator req) in
      \<lparr>lm_Name = lr_Name req, lm_Symbol = lr_Symbol req, lm_TotalSupply = DefaultTotalSupply, lm_SaleAmount = DefaultSaleAmount,
       lm_VirtualBNBReserve = DefaultVirtualBNBReserve, lm_VirtualTokenReserve = DefaultVirtualTokenReserve,
       lm_LaunchTime = word_of_int (lr_LaunchTime req), lm_CreationFee = 0, lm_Creator = creator, lm_Timestamp = timestamp,
       lm_RequestID = GenerateRequestID lib ''mainnet_'' creator timestamp (word_of_int nonce), lm_Nonce = word_of_int nonce,
       lm_InitialBuyPercentage = word_of_int (lr_InitialBuyPercentage req),
       lm_MarginBnb = Some (case lr_MarginBnb req of None \<Rightarrow> 0 | Some n \<Rightarrow> n), lm_MarginTime = word_of_int (lr_MarginTime req),
       lm_VestingAllocations = map vesting_of_input (lr_VestingAllocations req)\<rparr>)"

definition vesting_json :: "vesting_input list \<Rightarrow> string" where
  "vesting_json vs =
     ''['' @ join_with '','' (map (\<lambda>v. ''{'' @ [CHR 0x22] @ ''amount'' @ [CHR 0x22] @ '':'' @ show_int (vi_Amount v) @
        '','' @ [CHR 0x22] @ ''duration'' @ [CHR 0x22] @ '':'' @ show_int (vi_Duration v) @ ''}'') vs) @ '']''"

definition request_row_of ::
  "eth_lib \<Rightarrow> legacy_request \<Rightarrow> legacy_params \<Rightarrow> bytes \<Rightarrow> bytes \<Rightarrow> bytes \<Rightarrow> bytes \<Rightarrow> request_row" where
  "request_row_of lib req params encodedData signature salt predictedAddress =
     \<lparr>rw_request_id = Bytes32ToHex (lm_RequestID params), rw_creator_address = to_lower (lr_Creator req),
      rw_name = lr_Name req, rw_symbol = lr_Symbol req, rw_description = lr_Description req, rw_logo = lr_Logo req,
      rw_banner = lr_Banner req, rw_total_supply = show_int (lm_TotalSupply params), rw_sale_amount = show_int (lm_SaleAmount params),
      rw_virtual_bnb_reserve = show_int (lm_VirtualBNBReserve params),
      rw_virtual_token_reserve = show_int (lm_VirtualTokenReserve params), rw_launch_mode = lr_LaunchMode req,
      rw_launch_time = lr_LaunchTime req, rw_creation_fee = show_int (lm_CreationFee params), rw_nonce = lm_Nonce params,
      rw_salt = Bytes32ToHex salt, rw_predicted_address = to_lower (address_hex lib predictedAddress),
      rw_signature = ''0x'' @ hex_encode signature, rw_encoded_data = ''0x'' @ hex_encode encodedData,
      rw_initial_buy_percentage = lr_InitialBuyPercentage req,
      rw_margin_bnb = (case lm_MarginBnb params of None \<Rightarrow> ''<nil>'' | Some n \<Rightarrow> show_int n), rw_margin_time = lr_MarginTime req,
      rw_vesting_allocations = vesting_json (lr_VestingAllocations req), rw_website = lr_Website req, rw_twitter = lr_Twitter req,
      rw_telegram = lr_Telegram req, rw_discord = lr_Discord req, rw_whitepaper = lr_Whitepaper req,
      rw_contact_email = lr_ContactEmail req, rw_contact_tg = lr_ContactTg req, rw_tags = lr_Tags req, rw_status = 0,
      rw_timestamp = lm_Timestamp params\<rparr>"

text \<open>The request identifier is unique.\<close>

definition saveCreationRequest :: "token_service \<Rightarrow> request_row \<Rightarrow> request_db \<Rightarrow> unit res \<times> request_db" where
  "saveCreationRequest s v d =
     (if \<not> tv_has_db s then (Inl (ErrMsg ''token model is not initialized''), d)
      else case request_fault d of
        (True, d) \<Rightarrow> (Inl DbFault, d)
      | (False, d) \<Rightarrow>
        if has_key rw_request_id (rw_request_id v) (lq_requests d) then (Inl DbFault, d)
        else (Inr (), d\<lparr>lq_requests := lq_requests d @ [v]\<rparr>))"

text \<open>\<open>now\<close> is the time in seconds.\<close>

definition legacy_CreateToken ::
  "eth_lib \<Rightarrow> token_service \<Rightarrow> int \<Rightarrow> legacy_request \<Rightarrow> request_db \<Rightarrow> legacy_response res \<times> request_db" where
  "legacy_CreateToken lib s now req d =
     (case getNextNonce s d of
        (Inl e, d) \<Rightarrow> (Inl (Wrap ''failed to get nonce'' e), d)
      | (Inr nonce, d) \<Rightarrow>
        (let timestamp = word_of_int now :: u64 in
         case choose_address lib s timestamp nonce req of
           Inl e \<Rightarrow> (Inl e, d)
         | Inr (nonce, salt, predictedAddress) \<Rightarrow>
           (let params = params_of_request lib timestamp nonce req in
            case tv_signer s of
              None \<Rightarrow> (Inl (ErrMsg ''signer not initialized''), d)
            | Some signer \<Rightarrow>
              (case SignCreateTokenParams lib signer params (tv_chainID s) (tv_coreContract s) of
                 Inl e \<Rightarrow> (Inl (Wrap ''failed to sign params'' e), d)
               | Inr (encodedData, signature) \<Rightarrow>
                 (case saveCreationRequest s (request_row_of lib req params encodedData signature salt predictedAddress) d of
                    (Inl e, d) \<Rightarrow> (Inl (Wrap ''failed to save creation request'' e), d)
                  | (Inr _, d) \<Rightarrow>
                      (Inr \<lparr>lz_RequestID = Bytes32ToHex (lm_RequestID params), lz_Create2Salt = Bytes32ToHex salt,
                         lz_CreateArg = ''0x'' @ hex_encode encodedData, lz_Nonce = nonce,
                         lz_PredictedAddress = address_hex lib predictedAddress, lz_Signature = ''0x'' @ hex_encode signature,
                         lz_Timestamp = sint timestamp\<rparr>, d))))))"

record address_response =
  ar_PredictedAddress :: string
  ar_Salt :: string
  ar_Nonce :: int

definition legacy_CalculateAddress ::
  "eth_lib \<Rightarrow> token_service \<Rightarrow> int \<Rightarrow> string \<Rightarrow> string \<Rightarrow> string \<Rightarrow> address_response res" where
  "legacy_CalculateAddress lib s now name symbol digits =
     (let timestamp = word_of_int now :: u64 in
      rbind
        (if digits \<noteq> [] then
           rbind (find_vanity lib s name symbol timestamp digits 100000) (\<lambda>(foundNonce, addr, found).
             if found then
               Inr (foundNonce, CalculateSalt lib name symbol DefaultTotalSupply (tv_coreContract s) timestamp foundNonce, addr)
             else rbind (predict lib s name symbol timestamp 0) (\<lambda>(salt, addr). Inr (0, salt, addr)))
         else rbind (predict lib s name symbol timestamp 0) (\<lambda>(salt, addr). Inr (0, salt, addr)))
        (\<lambda>(nonce, salt, predictedAddress).
           Inr \<lparr>ar_PredictedAddress = address_hex lib predictedAddress, ar_Salt = Bytes32ToHex salt, ar_Nonce = sint (nonce :: u64)\<rparr>))"

section \<open>Nonces\<close>

text \<open>C31: What a nonce is worth.  Asking for the next nonce of a chain gives a new one, one
  above the last, which is stored; or the first one, when the chain has none and the table
  has the column created_at; or, when the update fails and the insertion fails too, the
  current nonce once more, which was handed out before.  When it fails in a schema without
  that column, nothing has changed.\<close>

theorem next_nonce_outcomes:
  "case getNextNonce s d of
     (Inl e, d') \<Rightarrow> lq_created_at d \<or> lq_nonces d' = lq_nonces d
   | (Inr n, d') \<Rightarrow>
       (lq_nonces d (tv_chainID s) = Some (n - 1) \<and> lq_nonces d' = (lq_nonces d)(tv_chainID s \<mapsto> n))
       \<or> (lq_nonces d (tv_chainID s) = None \<and> lq_created_at d \<and> n = 1 \<and> lq_nonces d' = (lq_nonces d)(tv_chainID s \<mapsto> 1))
       \<or> (fst (update_nonce (tv_chainID s) d) = Inl DbFault
          \<and> fst (insert_nonce (tv_chainID s) (snd (update_nonce (tv_chainID s) d))) = Inl DbFault
          \<and> lq_nonces d (tv_chainID s) = Some n \<and> lq_nonces d' = lq_nonces d)"
  by (auto simp: getNextNonce_def update_nonce_def insert_nonce_def select_nonce_def request_fault_def
      split: list.splits bool.splits option.splits if_splits)

section \<open>Vanity addresses\<close>

lemma vanity_loop_Some:
  "vanity_loop hit k n = Some m \<Longrightarrow> n \<le> m \<and> m < n + k \<and> hit m \<and> (\<forall>j. n \<le> j \<and> j < m \<longrightarrow> \<not> hit j)"
proof (induction k arbitrary: n)
  case 0
  then show ?case by simp
next
  case (Suc k)
  show ?case
  proof (cases "hit n")
    case True
    with Suc.prems show ?thesis by auto
  next
    case False
    with Suc.prems have m: "vanity_loop hit k (Suc n) = Some m" by simp
    have "\<not> hit j" if "n \<le> j" and "j < m" for j
      using Suc.IH [OF m] False that by (cases "j = n") auto
    with Suc.IH [OF m] show ?thesis by auto
  qed
qed

lemma vanity_loop_None: "vanity_loop hit k n = None \<Longrightarrow> n \<le> j \<Longrightarrow> j < n + k \<Longrightarrow> \<not> hit j"
proof (induction k arbitrary: n)
  case 0
  then show ?case by simp
next
  case (Suc k)
  from Suc.prems(1) have h: "\<not> hit n" and l: "vanity_loop hit k (Suc n) = None" by (auto split: if_splits)
  show ?case
  proof (cases "j = n")
    case True
    then show ?thesis using h by simp
  next
    case False
    then show ?thesis using Suc.IH [OF l] Suc.prems(2,3) by simp
  qed
qed

lemma vanity_loop_hit: "hit n \<Longrightarrow> 0 < k \<Longrightarrow> vanity_loop hit k n = Some n"
  by (cases k) simp_all

definition vanity_search :: "eth_lib \<Rightarrow> token_service \<Rightarrow> string \<Rightarrow> string \<Rightarrow> u64 \<Rightarrow> string \<Rightarrow> nat \<Rightarrow> bool" where
  "vanity_search lib s name symbol timestamp digits n =
     (case tv_create2Calc s of
        None \<Rightarrow> False
      | Some c \<Rightarrow> vanity_hit lib c name symbol DefaultTotalSupply (tv_coreContract s) timestamp digits n)"

text \<open>The address chosen for a suffix: that of the least nonce that has it.\<close>

lemma choose_vanity:
  assumes "choose_address lib s t nonce req = Inr (m, salt, a)" and "lr_Digits req \<noteq> []"
    and "n < 1000000" and "vanity_search lib s (lr_Name req) (lr_Symbol req) t (lr_Digits req) n"
    and "\<And>j. j < n \<Longrightarrow> \<not> vanity_search lib s (lr_Name req) (lr_Symbol req) t (lr_Digits req) j"
  shows "m = int n" and "predict lib s (lr_Name req) (lr_Symbol req) t (word_of_nat n) = Inr (salt, a)"
    and "has_suffix (to_lower (address_hex lib a)) (to_lower (lr_Digits req))"
proof -
  obtain c where c: "tv_create2Calc s = Some c"
    using assms(4) by (cases "tv_create2Calc s") (simp_all add: vanity_search_def)
  let ?hit = "vanity_hit lib c (lr_Name req) (lr_Symbol req) DefaultTotalSupply (tv_coreContract s) t (lr_Digits req)"
  have "unat (1000000 :: u64) = 1000000" by simp
  moreover have "vanity_loop ?hit 1000000 0 = Some n"
  proof (cases "vanity_loop ?hit 1000000 0")
    case None
    then show ?thesis using vanity_loop_None [OF None, of n] assms(3,4) by (simp add: vanity_search_def c)
  next
    case (Some j)
    note j = vanity_loop_Some [OF Some]
    have "j = n"
      using j assms(4) assms(5) [of j] by (cases j n rule: linorder_cases) (auto simp: vanity_search_def c)
    with Some show ?thesis by simp
  qed
  ultimately have f: "find_vanity lib s (lr_Name req) (lr_Symbol req) t (lr_Digits req) 1000000 =
      Inr (word_of_nat n, snd (PredictAddress lib c (lr_Name req) (lr_Symbol req) DefaultTotalSupply (tv_coreContract s) t (word_of_nat n)), True)"
    by (simp add: find_vanity_def c FindVanityAddress_def del: vanity_loop.simps)
  have w: "sint (word_of_nat n :: u64) = int n"
  proof -
    have "sint (word_of_int (int n) :: u64) = int n"
      using assms(3) by (simp add: signed_of_int signed_take_bit_int_eq_self del: of_int_of_nat_eq)
    then show ?thesis by simp
  qed
  from assms(1,2) show "m = int n" and p: "predict lib s (lr_Name req) (lr_Symbol req) t (word_of_nat n) = Inr (salt, a)"
    by (auto simp: choose_address_def f w rbind_eq_Inr)
  then show "has_suffix (to_lower (address_hex lib a)) (to_lower (lr_Digits req))"
    using assms(4) by (simp add: predict_def c vanity_search_def vanity_hit_def)
qed

section \<open>What a success says\<close>

lemma legacy_CreateToken_ok:
  assumes "legacy_CreateToken lib s now req d = (Inr r, d')"
  obtains n0 nonce salt a signer data sig d1 where "getNextNonce s d = (Inr n0, d1)"
    and "choose_address lib s (word_of_int now) n0 req = Inr (nonce, salt, a)" and "tv_signer s = Some signer"
    and "SignCreateTokenParams lib signer (params_of_request lib (word_of_int now) nonce req) (tv_chainID s) (tv_coreContract s) = Inr (data, sig)"
    and "saveCreationRequest s (request_row_of lib req (params_of_request lib (word_of_int now) nonce req) data sig salt a) d1 = (Inr (), d')"
    and "r = \<lparr>lz_RequestID = Bytes32ToHex (lm_RequestID (params_of_request lib (word_of_int now) nonce req)), lz_Create2Salt = Bytes32ToHex salt,
       lz_CreateArg = ''0x'' @ hex_encode data, lz_Nonce = nonce, lz_PredictedAddress = address_hex lib a,
       lz_Signature = ''0x'' @ hex_encode sig, lz_Timestamp = sint (word_of_int now :: u64)\<rparr>"
proof -
  obtain n0 d1 where n: "getNextNonce s d = (Inr n0, d1)"
    using assms by (cases "getNextNonce s d"; cases "fst (getNextNonce s d)") (auto simp: legacy_CreateToken_def)
  obtain nonce salt a where c: "choose_address lib s (word_of_int now) n0 req = Inr (nonce, salt, a)"
    using assms n by (cases "choose_address lib s (word_of_int now) n0 req") (auto simp: legacy_CreateToken_def)
  obtain signer where g: "tv_signer s = Some signer"
    using assms n c by (cases "tv_signer s") (auto simp: legacy_CreateToken_def)
  let ?p = "params_of_request lib (word_of_int now) nonce req"
  obtain data sig where e: "SignCreateTokenParams lib signer ?p (tv_chainID s) (tv_coreContract s) = Inr (data, sig)"
    using assms n c g by (cases "SignCreateTokenParams lib signer ?p (tv_chainID s) (tv_coreContract s)") (auto simp: legacy_CreateToken_def Let_def)
  show ?thesis
    using assms n c g e that [OF n c g e]
    by (simp add: legacy_CreateToken_def Let_def split: prod.splits sum.splits)
qed

lemma saveCreationRequest_ok:
  "saveCreationRequest s v d = (Inr (), d') \<Longrightarrow> lq_requests d' = lq_requests d @ [v]"
  by (auto simp: saveCreationRequest_def request_fault_def split: if_splits list.splits bool.splits)

lemma getNextNonce_requests: "getNextNonce s d = (r, d') \<Longrightarrow> lq_requests d' = lq_requests d"
  by (auto simp: getNextNonce_def update_nonce_def insert_nonce_def select_nonce_def request_fault_def
      split: list.splits bool.splits option.splits if_splits)

text \<open>C32: A vanity address is handed out more than once.  When a suffix can be found among the
  first million nonces, every creation of that name and symbol asked for in the same second
  with that suffix, whoever the creator, answers with the same salt and the same predicted
  address, which ends in the suffix; the contract can be deployed there once.\<close>

theorem vanity_address_shared:
  assumes "legacy_CreateToken lib s now req d = (Inr r, d1)" and "legacy_CreateToken lib s now req' d' = (Inr r', d1')"
    and "lr_Name req' = lr_Name req" and "lr_Symbol req' = lr_Symbol req" and "lr_Digits req' = lr_Digits req" and "lr_Digits req \<noteq> []"
    and "k < 1000000" and "vanity_search lib s (lr_Name req) (lr_Symbol req) (word_of_int now) (lr_Digits req) k"
  shows "lz_Create2Salt r' = lz_Create2Salt r \<and> lz_PredictedAddress r' = lz_PredictedAddress r \<and> lz_Nonce r' = lz_Nonce r
    \<and> has_suffix (to_lower (lz_PredictedAddress r)) (to_lower (lr_Digits req))"
proof -
  let ?hit = "vanity_search lib s (lr_Name req) (lr_Symbol req) (word_of_int now) (lr_Digits req)"
  define n where "n = (LEAST n. ?hit n)"
  have least: "\<not> ?hit j" if "j < n" for j using not_less_Least [of j ?hit] that by (simp add: n_def)
  have hit: "?hit n" and le: "n \<le> k" unfolding n_def using assms(8) by (auto intro: LeastI Least_le)
  have n: "n < 1000000" using le assms(7) by simp
  obtain n0 nonce salt a where c: "choose_address lib s (word_of_int now) n0 req = Inr (nonce, salt, a)"
    and r: "lz_Nonce r = nonce" "lz_Create2Salt r = Bytes32ToHex salt" "lz_PredictedAddress r = address_hex lib a"
    using legacy_CreateToken_ok [OF assms(1)] by (metis legacy_response.simps(2,4,5))
  obtain n0' nonce' salt' a' where c': "choose_address lib s (word_of_int now) n0' req' = Inr (nonce', salt', a')"
    and r': "lz_Nonce r' = nonce'" "lz_Create2Salt r' = Bytes32ToHex salt'" "lz_PredictedAddress r' = address_hex lib a'"
    using legacy_CreateToken_ok [OF assms(2)] by (metis legacy_response.simps(2,4,5))
  note v = choose_vanity [OF c assms(6) n hit least]
  have v': "nonce' = int n" "predict lib s (lr_Name req) (lr_Symbol req) (word_of_int now) (word_of_nat n) = Inr (salt', a')"
    using choose_vanity [OF c' _ n, unfolded assms(3-5), OF assms(6) hit least] by simp_all
  from v(2) v'(2) have "salt' = salt" "a' = a" by simp_all
  then show ?thesis using v(1,3) v'(1) r r' by simp
qed

section \<open>The two intents\<close>

lemma dynamic_params: "dynamic_value (params_value p)"
  by (simp add: params_value_def)

lemma enc_args_single: "dynamic_value v \<Longrightarrow> enc_args [v] = be_bytes 32 32 @ enc v"
  by (simp add: enc_args_def enc_parts_def heads_length_def del: be_bytes.simps)

text \<open>An encoding that follows the format passes the checks.\<close>

lemma check_encoding_params: "check_encoding (enc_args [params_value p]) = Inr ()"
proof -
  have "length (enc (params_value p)) \<ge> 64"
    by (simp add: params_value_def enc_parts_length heads_length_def)
  moreover have "be_nat (be_bytes 32 32) = 32" by (rule be_nat_bytes) simp
  ultimately show ?thesis
    unfolding enc_args_single [OF dynamic_params] by (simp add: check_encoding_def del: be_bytes.simps)
qed

lemma to_uint256_bound: "to_uint256 n < 256 ^ 32"
proof -
  have "n mod 2 ^ 256 < 2 ^ 256" by simp
  then have "nat (n mod 2 ^ 256) < nat (2 ^ 256)" by (simp add: nat_less_eq_zless)
  then show ?thesis by (simp add: to_uint256_def)
qed

lemma big_or_zero_bound: "big_or_zero x < 256 ^ 32"
  using to_uint256_bound by (cases x) (simp_all add: big_or_zero_def)

lemma params_tuple_ok:
  assumes "length (lm_Creator p) = 20" and "length (lm_RequestID p) = 32" and "length (lm_VestingAllocations p) < 256 ^ 32"
  shows "params_ok (params_tuple p)"
proof -
  have mode: "unat (m :: u8) < 256 ^ 32" for m using unsigned_less [of m] by (rule less_le_trans) simp
  have "list_all (has_ty (TTuple [TUint, TUint, TUint, TUint])) (map (vesting_value \<circ> vesting_tuple) vs)" for vs
    using big_or_zero_bound mode by (simp add: list_all_iff vesting_value_def vesting_tuple_def)
  with assms show ?thesis
    by (simp add: params_ok_def params_ty_def params_value_def params_tuple_def to_uint256_bound [simplified]
        big_or_zero_bound [simplified] word64_bound [simplified])
qed

lemma SignCreateTokenParams_ok:
  assumes "SignCreateTokenParams lib s p chain contract = Inr (data, sig)"
  obtains raw where "encode lib (params_tuple p) = Inr data"
    and "eth_sign lib (sg_privateKey s) (legacy_hash lib data chain contract) = Some raw"
    and "sig_to_address lib (legacy_hash lib data chain contract) raw = Some (address_hex lib (sg_address s))"
    and "sig = ethereum_signature raw"
proof -
  obtain data' where e: "encode lib (params_tuple p) = Inr data'" and c: "check_encoding data' = Inr ()"
    using assms by (auto simp: SignCreateTokenParams_def rbind_eq_Inr Let_def)
  obtain raw where raw: "eth_sign lib (sg_privateKey s) (legacy_hash lib data' chain contract) = Some raw"
    using assms by (cases "eth_sign lib (sg_privateKey s) (legacy_hash lib data' chain contract)")
      (simp_all add: SignCreateTokenParams_def e c Let_def)
  obtain a where a: "sig_to_address lib (legacy_hash lib data' chain contract) raw = Some a"
    using assms by (cases "sig_to_address lib (legacy_hash lib data' chain contract) raw")
      (simp_all add: SignCreateTokenParams_def e c raw Let_def)
  have "a = address_hex lib (sg_address s) \<and> data' = data \<and> ethereum_signature raw = sig"
    using assms by (simp add: SignCreateTokenParams_def e c raw a Let_def split: if_splits)
  then show ?thesis using that [of raw] e raw a by simp
qed

lemma length_params_of_request:
  assumes "length (hex_to_address lib (lr_Creator req)) = 20"
  shows "length (lm_Creator (params_of_request lib t n req)) = 20" and "length (lm_RequestID (params_of_request lib t n req)) = 32"
    and "length (lm_VestingAllocations (params_of_request lib t n req)) = length (lr_VestingAllocations req)"
  using assms by (simp_all add: params_of_request_def Let_def GenerateRequestID_def)

lemma ethereum_signature_small:
  assumes "length raw = 65" and "raw ! 64 \<le> 1"
  shows "ethereum_signature raw = raw[64 := raw ! 64 + 27]"
proof -
  have "raw ! 64 < 27" using assms(2) by (rule le_less_trans) simp
  with assms(1) show ?thesis by (simp add: ethereum_signature_def)
qed

text \<open>C29: The answer of the legacy API is the request, signed, and stored.  When a creation
  succeeds and its data is addressable, the contract decodes from the argument the parameters
  built from the request, the signature has 65 bytes with a recovery value of 27 or 28 and
  recovers, over the hash of the data with chain and contract, to the signer, and one row was
  added with the data, the signature, the salt and the address of the answer.\<close>

theorem legacy_answer_decodes:
  assumes "pack_spec lib" and "sign_spec lib" and "length (hex_to_address lib (lr_Creator req)) = 20"
    and "length (lr_VestingAllocations req) < 256 ^ 32"
    and "legacy_CreateToken lib s now req d = (Inr r, d')"
  shows "\<exists>signer data sig row. tv_signer s = Some signer \<and> lz_CreateArg r = ''0x'' @ hex_encode data \<and> lz_Signature r = ''0x'' @ hex_encode sig
    \<and> (length data < 256 ^ 32 \<longrightarrow> dec (TTuple [params_ty]) data =
         PTuple [params_value (params_tuple (params_of_request lib (word_of_int now) (lz_Nonce r) req))])
    \<and> length sig = 65 \<and> sig ! 64 \<in> {27, 28}
    \<and> sig_to_address lib (legacy_hash lib data (tv_chainID s) (tv_coreContract s)) (sig[64 := sig ! 64 - 27]) = Some (address_hex lib (sg_address signer))
    \<and> lq_requests d' = lq_requests d @ [row] \<and> rw_encoded_data row = lz_CreateArg r \<and> rw_signature row = lz_Signature r
    \<and> rw_salt row = lz_Create2Salt r \<and> rw_predicted_address row = to_lower (lz_PredictedAddress r) \<and> rw_request_id row = lz_RequestID r"
proof -
  obtain n0 nonce salt a signer data sig d1 where g: "getNextNonce s d = (Inr n0, d1)" and signer: "tv_signer s = Some signer"
    and sg: "SignCreateTokenParams lib signer (params_of_request lib (word_of_int now) nonce req) (tv_chainID s) (tv_coreContract s) = Inr (data, sig)"
    and sv: "saveCreationRequest s (request_row_of lib req (params_of_request lib (word_of_int now) nonce req) data sig salt a) d1 = (Inr (), d')"
    and r: "r = \<lparr>lz_RequestID = Bytes32ToHex (lm_RequestID (params_of_request lib (word_of_int now) nonce req)), lz_Create2Salt = Bytes32ToHex salt,
       lz_CreateArg = ''0x'' @ hex_encode data, lz_Nonce = nonce, lz_PredictedAddress = address_hex lib a,
       lz_Signature = ''0x'' @ hex_encode sig, lz_Timestamp = sint (word_of_int now :: u64)\<rparr>"
    using legacy_CreateToken_ok [OF assms(5)] by metis
  let ?p = "params_of_request lib (word_of_int now) nonce req"
  from sg obtain raw where e: "encode lib (params_tuple ?p) = Inr data"
    and raw: "eth_sign lib (sg_privateKey signer) (legacy_hash lib data (tv_chainID s) (tv_coreContract s)) = Some raw"
      "sig_to_address lib (legacy_hash lib data (tv_chainID s) (tv_coreContract s)) raw = Some (address_hex lib (sg_address signer))"
    and sig: "sig = ethereum_signature raw"
    by (rule SignCreateTokenParams_ok)
  have ty: "has_ty params_ty (params_value (params_tuple ?p))"
    using params_tuple_ok [of ?p] length_params_of_request [OF assms(3), of "word_of_int now" nonce] assms(4)
    by (simp add: params_ok_def)
  have data: "data = enc_args [params_value (params_tuple ?p)]"
    using assms(1) e ty by (auto simp: pack_spec_def encode_def dest!: spec [of _ "[params_ty]"] spec [of _ "[params_value (params_tuple ?p)]"])
  have dec: "dec (TTuple [params_ty]) data = PTuple [params_value (params_tuple ?p)]" if "length data < 256 ^ 32"
  proof -
    have "dec (TTuple [params_ty]) (enc (PTuple [params_value (params_tuple ?p)]) @ []) = PTuple [params_value (params_tuple ?p)]"
      by (rule dec_enc) (use ty that data in \<open>simp_all add: enc_args_def del: enc.simps\<close>)
    then show ?thesis by (simp add: data enc_args_def del: enc.simps dec.simps)
  qed
  have s: "length raw = 65" "raw ! 64 \<le> 1" using assms(2) raw(1) by (auto simp: sign_spec_def)
  note sig = sig [unfolded ethereum_signature_small [OF s]]
  have undo: "sig[64 := sig ! 64 - 27] = raw" using s(1) by (simp add: sig)
  have v: "length sig = 65" "sig ! 64 \<in> {27, 28}" using s(1) plus_27_small [OF s(2)] by (simp_all add: sig)
  have rows: "lq_requests d' = lq_requests d @ [request_row_of lib req ?p data sig salt a]"
    using saveCreationRequest_ok [OF sv] getNextNonce_requests [OF g] by simp
  show ?thesis
    by (rule exI [of _ signer], rule exI [of _ data], rule exI [of _ sig], rule exI [of _ "request_row_of lib req ?p data sig salt a"])
      (use signer r dec v rows raw(2) undo in \<open>simp add: request_row_of_def\<close>)
qed

text \<open>A request to either program for the same token, with times in seconds and nothing the rebuild lacks.\<close>

definition same_intent :: "eth_lib \<Rightarrow> create_request \<Rightarrow> legacy_request \<Rightarrow> bool" where
  "same_intent lib request req =
     (lr_Name req = cq_Name request \<and> lr_Symbol req = cq_Symbol request \<and> hex_to_address lib (lr_Creator req) = cq_Creator request
      \<and> word_of_int (lr_LaunchTime req) = cq_LaunchTime request \<and> cq_LaunchTime request \<le> 10000000000
      \<and> word_of_int (lr_InitialBuyPercentage req) = cq_InitialBuyPercentage request
      \<and> lr_MarginBnb req \<in> {None, Some 0} \<and> lr_MarginTime req = 0 \<and> lr_VestingAllocations req = [])"

lemma default_amounts:
  "to_uint256 DefaultTotalSupply = TotalSupply" "to_uint256 DefaultSaleAmount = SaleAmount"
  "to_uint256 DefaultVirtualBNBReserve = VirtualBNBReserve" "to_uint256 DefaultVirtualTokenReserve = VirtualTokenReserve"
  "to_uint256 0 = 0"
  by (simp_all add: to_uint256_def DefaultTotalSupply_def DefaultSaleAmount_def DefaultVirtualBNBReserve_def
      DefaultVirtualTokenReserve_def TotalSupply_def SaleAmount_def VirtualBNBReserve_def VirtualTokenReserve_def)

lemma as_seconds_id: "t \<le> 10000000000 \<Longrightarrow> as_seconds t = t"
  by (simp add: as_seconds_def not_less [symmetric])

lemma salt_args_length:
  "length (str_bytes name) + length (str_bytes symbol) + 116 < length (enc_args (salt_args name symbol supply owner t n))"
  using length_pad32 [of "str_bytes name"] length_pad32 [of "str_bytes symbol"]
  by (simp add: enc_args_def salt_args_def enc_parts_length heads_length_def del: be_bytes.simps)

lemma salt_args_ok:
  "length owner = 20 \<Longrightarrow> list_all2 has_ty [TText, TText, TUint, TAddr, TUint, TUint] (salt_args name symbol supply owner t n)"
  by (simp add: salt_args_def to_uint256_bound [simplified] word64_bound [simplified])

text \<open>C30: The two programs compared.  For the same token, time and nonce, the parameters that
  the legacy API signs are those of the rebuild except for the request identifier, and the
  hash that is signed is computed alike; but the CREATE2 salts, and with them the predicted
  addresses, are the hashes of different strings, the longer one in the legacy API, where the
  padded encoding is hashed, and the packed one in the rebuild.\<close>

theorem intents_compared:
  assumes "pack_spec lib" and "hash_spec lib" and "same_intent lib request req" and "t \<le> 10000000000"
    and "length core = 20" and "0 \<le> cc_Chain cfg" and "cc_Chain cfg < 2 ^ 63" and "cc_Core cfg = core"
  shows "params_tuple (params_of_request lib t n req) = (request_params lib request t (word_of_int n))
      \<lparr>pm_RequestID := GenerateRequestID lib ''mainnet_'' (cq_Creator request) t (word_of_int n)\<rparr>
    \<and> legacy_hash lib data (cc_Chain cfg) core = signed_hash lib cfg data
    \<and> (\<exists>x y. CalculateSalt lib (lr_Name req) (lr_Symbol req) DefaultTotalSupply core t (word_of_int n) = keccak256 lib x
         \<and> calculateSalt lib (cq_Name request) (cq_Symbol request) core t (word_of_int n) = keccak256 lib y
         \<and> x = enc_args (salt_args (cq_Name request) (cq_Symbol request) DefaultTotalSupply core t (word_of_int n))
         \<and> length y < length x)"
proof (intro conjI)
  have margin: "big_or_zero (Some (case lr_MarginBnb req of None \<Rightarrow> 0 | Some n \<Rightarrow> n)) = 0"
    using assms(3) by (auto simp: same_intent_def big_or_zero_def default_amounts)
  show "params_tuple (params_of_request lib t n req) = (request_params lib request t (word_of_int n))
      \<lparr>pm_RequestID := GenerateRequestID lib ''mainnet_'' (cq_Creator request) t (word_of_int n)\<rparr>"
    using assms(3,4) margin
    by (simp add: params_tuple_def params_of_request_def request_params_def same_intent_def default_amounts as_seconds_id Let_def)
  have "unat (word_of_int (cc_Chain cfg) :: u64) = nat \<bar>cc_Chain cfg\<bar>"
    using assms(6,7) by (simp add: unat_eq_nat_uint uint_word_of_int_eq take_bit_int_eq_self)
  then show "legacy_hash lib data (cc_Chain cfg) core = signed_hash lib cfg data"
    by (simp add: legacy_hash_def signed_hash_def uint256Bytes_def assms(8) del: be_bytes.simps)
  let ?x = "enc_args (salt_args (cq_Name request) (cq_Symbol request) DefaultTotalSupply core t (word_of_int n))"
  let ?y = "str_bytes (cq_Name request) @ str_bytes (cq_Symbol request) @ be_bytes 32 TotalSupply @ core @ uint256Bytes t @ uint256Bytes (word_of_int n)"
  have "abi_pack lib (salt_args (cq_Name request) (cq_Symbol request) DefaultTotalSupply core t (word_of_int n)) = Inr ?x"
    using assms(1) salt_args_ok [OF assms(5)] unfolding pack_spec_def by blast
  then have l: "CalculateSalt lib (lr_Name req) (lr_Symbol req) DefaultTotalSupply core t (word_of_int n) = keccak256 lib ?x"
    using assms(2,3) by (simp add: CalculateSalt_def same_intent_def hash_spec_def)
  have "length ?y < length ?x"
    using salt_args_length [of "cq_Name request" "cq_Symbol request" DefaultTotalSupply core t "word_of_int n"] assms(5)
    by (simp add: uint256Bytes_def del: be_bytes.simps)
  then show "\<exists>x y. CalculateSalt lib (lr_Name req) (lr_Symbol req) DefaultTotalSupply core t (word_of_int n) = keccak256 lib x
      \<and> calculateSalt lib (cq_Name request) (cq_Symbol request) core t (word_of_int n) = keccak256 lib y
      \<and> x = enc_args (salt_args (cq_Name request) (cq_Symbol request) DefaultTotalSupply core t (word_of_int n))
      \<and> length y < length x"
    using l unfolding calculateSalt_def by blast
qed

section \<open>Examples\<close>

text \<open>A library whose addresses all read alike, a service with its calculator and signer, and a database.\<close>

definition vanity_lib :: eth_lib where
  "vanity_lib = creation_lib\<lparr>address_hex := (\<lambda>_. ''0xa0''), sig_to_address := (\<lambda>_ _. Some ''0xa0''),
     hex_to_address := (\<lambda>_. replicate 20 9)\<rparr>"

lemma vanity_lib_ok: "pack_spec vanity_lib" "sign_spec vanity_lib" "hash_spec vanity_lib"
  by (auto simp: vanity_lib_def creation_lib_def pack_spec_def sign_spec_def hash_spec_def sample_lib_def min_def)

definition sample_service :: token_service where
  "sample_service = \<lparr>tv_has_db = True, tv_signer = Some \<lparr>sg_privateKey = [3], sg_address = [7]\<rparr>,
     tv_create2Calc = Some \<lparr>c2_factoryAddress = replicate 20 2, c2_tokenBytecode = [0x60]\<rparr>, tv_coreContract = replicate 20 1,
     tv_factoryContract = replicate 20 2, tv_rpcURL = [], tv_chainID = 97\<rparr>"

definition sample_legacy_request :: legacy_request where
  "sample_legacy_request = \<lparr>lr_Name = ''Token'', lr_Symbol = ''TK'', lr_Description = [], lr_Logo = [], lr_Banner = [], lr_Creator = ''0x09'',
     lr_LaunchMode = 1, lr_LaunchTime = 0, lr_InitialBuyPercentage = 5, lr_MarginBnb = None, lr_MarginTime = 0, lr_VestingAllocations = [],
     lr_Website = [], lr_Twitter = [], lr_Telegram = [], lr_Discord = [], lr_Whitepaper = [], lr_ContactEmail = [], lr_ContactTg = [],
     lr_Tags = [], lr_Digits = ''0''\<rparr>"

definition sample_requests :: "int \<Rightarrow> request_db" where
  "sample_requests n = \<lparr>lq_nonces = [97 \<mapsto> n], lq_created_at = False, lq_requests = [], lq_faults = []\<rparr>"

lemma sample_hit: "vanity_search vanity_lib sample_service name symbol t ''0'' 0"
proof -
  have "has_suffix (to_lower ''0xa0'') (to_lower ''0'')" by code_simp
  then show ?thesis by (simp add: vanity_search_def sample_service_def vanity_hit_def vanity_lib_def)
qed

lemma choose_address_total:
  "tv_create2Calc s = Some c \<Longrightarrow> \<exists>m salt a. choose_address lib s t nonce req = Inr (m, salt, a)"
  by (cases "FindVanityAddress lib c (lr_Name req) (lr_Symbol req) DefaultTotalSupply (tv_coreContract s) t (lr_Digits req) 1000000")
    (simp add: choose_address_def find_vanity_def predict_def PredictAddress_def Let_def)

lemma sample_creation:
  "\<exists>r d'. legacy_CreateToken vanity_lib sample_service 1700000000 sample_legacy_request (sample_requests n) = (Inr r, d')"
proof -
  have g: "getNextNonce sample_service (sample_requests n) = (Inr (n + 1), sample_requests (n + 1))"
    by (simp add: getNextNonce_def sample_service_def update_nonce_def request_fault_def sample_requests_def)
  obtain m salt a where c: "choose_address vanity_lib sample_service 1700000000 (n + 1) sample_legacy_request = Inr (m, salt, a)"
    using choose_address_total [of sample_service] by (fastforce simp: sample_service_def)
  let ?p = "params_of_request vanity_lib 1700000000 m sample_legacy_request"
  have e: "encode vanity_lib (params_tuple ?p) = Inr (enc_args [params_value (params_tuple ?p)])"
    by (simp add: encode_def vanity_lib_def creation_lib_def sample_lib_def)
  have "\<exists>x. SignCreateTokenParams vanity_lib \<lparr>sg_privateKey = [3], sg_address = [7]\<rparr> ?p 97 (replicate 20 1) = Inr x"
    unfolding SignCreateTokenParams_def e by (simp add: check_encoding_params) (simp add: vanity_lib_def creation_lib_def)
  then obtain data sig where s: "SignCreateTokenParams vanity_lib \<lparr>sg_privateKey = [3], sg_address = [7]\<rparr> ?p 97 (replicate 20 1) = Inr (data, sig)"
    by auto
  have signer: "tv_signer sample_service = Some \<lparr>sg_privateKey = [3], sg_address = [7]\<rparr>" "tv_chainID sample_service = 97"
    "tv_coreContract sample_service = replicate 20 1"
    by (simp_all add: sample_service_def)
  have v: "saveCreationRequest sample_service row (sample_requests k) = (Inr (), (sample_requests k)\<lparr>lq_requests := [row]\<rparr>)" for row k
    by (simp add: saveCreationRequest_def sample_service_def request_fault_def sample_requests_def has_key_def)
  show ?thesis
    using s unfolding legacy_CreateToken_def g
    by (simp add: c v Let_def signer)
qed

theorem vanity_address_shared_witness:
  "\<exists>r r' d1 d2. legacy_CreateToken vanity_lib sample_service 1700000000 sample_legacy_request (sample_requests 4) = (Inr r, d1)
     \<and> legacy_CreateToken vanity_lib sample_service 1700000000 sample_legacy_request (sample_requests 5) = (Inr r', d2)
     \<and> lz_PredictedAddress r' = lz_PredictedAddress r"
proof -
  obtain r d1 where a: "legacy_CreateToken vanity_lib sample_service 1700000000 sample_legacy_request (sample_requests 4) = (Inr r, d1)"
    using sample_creation by blast
  obtain r' d2 where b: "legacy_CreateToken vanity_lib sample_service 1700000000 sample_legacy_request (sample_requests 5) = (Inr r', d2)"
    using sample_creation by blast
  have "lr_Digits sample_legacy_request = ''0''" by (simp add: sample_legacy_request_def)
  then show ?thesis
    using vanity_address_shared [OF a b refl refl refl, where k = 0] a b sample_hit by simp
qed

theorem legacy_answer_decodes_witness:
  "\<exists>r d' data. legacy_CreateToken vanity_lib sample_service 1700000000 sample_legacy_request (sample_requests 4) = (Inr r, d')
     \<and> lz_CreateArg r = ''0x'' @ hex_encode data \<and> length (lq_requests d') = 1"
proof -
  obtain r d' where a: "legacy_CreateToken vanity_lib sample_service 1700000000 sample_legacy_request (sample_requests 4) = (Inr r, d')"
    using sample_creation by blast
  have "length (hex_to_address vanity_lib (lr_Creator sample_legacy_request)) = 20" by (simp add: vanity_lib_def)
  moreover have "length (lr_VestingAllocations sample_legacy_request) < 256 ^ 32" by (simp add: sample_legacy_request_def)
  ultimately obtain data row where "lz_CreateArg r = ''0x'' @ hex_encode data" and "lq_requests d' = lq_requests (sample_requests 4) @ [row]"
    using legacy_answer_decodes [OF vanity_lib_ok(1,2) _ _ a] by blast
  then show ?thesis using a by (auto simp: sample_requests_def)
qed

theorem intents_compared_witness:
  "pm_Nonce (params_tuple (params_of_request vanity_lib 1700000000 5 sample_legacy_request))
     = pm_Nonce (request_params vanity_lib (sample_request\<lparr>cq_InitialBuyPercentage := 5\<rparr>) 1700000000 5)"
proof -
  have "same_intent vanity_lib (sample_request\<lparr>cq_InitialBuyPercentage := 5\<rparr>) sample_legacy_request"
    by (simp add: same_intent_def sample_request_def sample_legacy_request_def vanity_lib_def)
  from intents_compared [OF vanity_lib_ok(1,3) this, where t = 1700000000 and n = 5 and core = "replicate 20 1" and cfg = sample_creator
    and data = "[]"]
  show ?thesis by (simp add: sample_creator_def)
qed

end
