(* ===== verification/Spec2Isabelle.thy ===== *)
theory Spec2Isabelle
  imports ChainIndexer Auth LegacyAuth LegacyIndexer Config App LegacyCreation
begin

text \<open>
  A verification library for the back end of a token launchpad.  The repository holds three Go
  programs: a rebuild (app-rebuild) and the two programs it replaces, an indexer
  (apps/indexer) and an API (apps/api).  They share a PostgreSQL database and a smart contract,
  MEMECore, whose events create, trade and graduate tokens.

  How the rebuild works.  The indexer reads the logs of the contract in ranges of blocks,
  decodes them and saves each range, with its checkpoint, in one transaction.  The API process
  serves HTTP: it logs wallets in by a signed challenge and issues sessions, and hands token
  reads, token creation and uploads over gRPC to three internal services, each of which
  verifies the session again.  All processes read one configuration from the environment.

  The theories, and the code they model.

    Prelude, GoText, GoTime, Tables: the vocabulary.  Words and strings, errors as sums, the
    parts of strconv, strings, hex and time the code uses, tables with keys, upserts and
    transactions with a schedule of failures.  Abi and Eth: the ABI encoding with its decoder
    and round trip, and go-ethereum as a record of functions.

    Candles: alignTime, priceString and the candle intervals (repository/chain_event.go) and
    alignTimeToInterval (apps/indexer database/events.go).

    ChainStore: repository/chain_event.go, every statement of SaveBlockRange and
    LastSyncedBlock.  ChainIndexer: chainindexer/indexer.go and abi.go, from New to Run, with
    the locale of the event store interpreted on the repository.

    Auth: auth (service.go, memory_store.go, redis_store.go, jwt_verifier.go) and
    repository/user.go, with the locale of the challenge store interpreted on both stores.

    Config: config/config.go.  TokenCreation: tokencreation/service.go and
    repository/token_creation.go.  Upload: upload/service.go.  TokenRead: repository/token.go,
    grpcapi/token.go, grpcclient/token_reader.go, with the locale of the token reader
    interpreted on the repository and on the remote reader.  GrpcApi: the other handlers of
    grpcapi and clients of grpcclient.  HttpApi: httpapi/server.go.  Security:
    grpcsecurity/security.go.  App: app/app.go, database/postgres.go and the start of the
    processes in cmd.

    LegacyEvents, LegacyIndexer: database and indexer of apps/indexer.  LegacyAuth: the
    sessions of apps/api (logic/user, middleware, model/user.go).  LegacyCreation: the signing of
    creations in apps/api (service/crypto and service/token).

  What the lemmas show.  The indexer: no log of the contract is lost or counted twice over any
  restarts and failures, a save is atomic and replayable, candles are the aggregation of the
  trades, a graduated token stays graduated.  Sessions: no address has more logins than
  challenges, whatever the interleaving, over both stores; what a login proves; how long a
  session lives.  Token creation: the answer decodes to the request and is signed for this
  chain and contract, and what is stored for a session is in the name of its wallet, across
  the two processes.  The remote token reader refines the repository; pages partition the
  tokens.  Processes: a configuration is consistent, plaintext stays on the host, internal
  services answer named clients only, a failed start leaks nothing.  The legacy programs: the
  bounds and outcomes that hold, and the losses, double countings, double admissions and
  repeated addresses that the rebuild removes; what an older creation answers, and how its
  signed intent compares with that of the rebuild.

  Bounds.  Block numbers are words of 64 bits and wrap as in Go; the loop over ranges is a
  partial function, and its termination is part of the statement about its ranges.  No fuel is
  used elsewhere, save for the eight groups of an IPv6 address, which are all it can have.

  Parameters.  Databases, Redis and connections fail by a schedule, a list of booleans, over
  which theorems quantify.  Keccak, ECDSA, SHA-1, JWT signatures, TLS handshakes, JSON and
  certificate parsing are functions given as arguments, with what is relied on of them as
  named hypotheses (\<open>pack_spec\<close>, \<open>sign_spec\<close>, \<open>hash_spec\<close>, \<open>jwt_honest\<close>, \<open>jwt_stable\<close>).

  Not modelled.  Generated protocol code, logging, signals and graceful shutdown, the schema
  scripts.  Of the legacy API: the token, trade and candle queries (logic/token, logic/kline,
  model), the event listener (service/chain), object storage and the routes, and in the signer
  the encoding by an external JavaScript process and the debug output.  They are next in the
  plan, in this order: model and logic/token with logic/kline, service/cos, service/chain.
\<close>

end
